(* ===== verification/Prelude.thy ===== *)
theory Prelude
  imports Main "HOL-Library.AList"
begin

text \<open>
  Shared vocabulary of the development: results that may be an exception, Python's
  truthiness of optional values, and keyed rows of a table (lookup by key, update by key,
  stable ordering). The named collections \<open>result_iff\<close> (when a result is \<open>Inr\<close>)
  and \<open>rows\<close> (how the keyed-row functions interact) carry most component proofs.
\<close>

named_theorems result_iff \<open>inversion of successful results\<close>
named_theorems rows \<open>keyed rows of a table\<close>

section \<open>Results\<close>

text \<open>\<open>Inl\<close> is a raised exception, \<open>Inr\<close> the returned value.\<close>

definition bind_result :: "'e + 'a \<Rightarrow> ('a \<Rightarrow> 'e + 'b) \<Rightarrow> 'e + 'b" where
  "bind_result m f = (case m of Inl e \<Rightarrow> Inl e | Inr x \<Rightarrow> f x)"

lemma bind_result_simps [simp]:
  "bind_result (Inl e) f = Inl e"
  "bind_result (Inr x) f = f x"
  by (simp_all add: bind_result_def)

lemma bind_result_Inr_iff [result_iff]:
  "bind_result m f = Inr y \<longleftrightarrow> (\<exists>x. m = Inr x \<and> f x = Inr y)"
  by (cases m) auto

lemma bind_result_Inl_iff:
  "bind_result m f = Inl e \<longleftrightarrow> m = Inl e \<or> (\<exists>x. m = Inr x \<and> f x = Inl e)"
  by (cases m) auto

lemma if_Inr_iff [result_iff]:
  "(if c then Inl e else r) = Inr y \<longleftrightarrow> \<not> c \<and> r = Inr y"
  "(if c then r else Inl e) = Inr y \<longleftrightarrow> c \<and> r = Inr y"
  by auto

lemma option_Inr_iff [result_iff]:
  "(case x of None \<Rightarrow> Inl e | Some a \<Rightarrow> f a) = Inr y \<longleftrightarrow> (\<exists>a. x = Some a \<and> f a = Inr y)"
  by (cases x) auto

text \<open>A list of fallible steps run in order, the state threaded through them; the first
  exception stops the loop.\<close>

fun fold_result :: "('x \<Rightarrow> 's \<Rightarrow> 'e + 's) \<Rightarrow> 'x list \<Rightarrow> 's \<Rightarrow> 'e + 's" where
  "fold_result f [] s = Inr s"
| "fold_result f (x # xs) s = bind_result (f x s) (fold_result f xs)"

lemma fold_result_append:
  "fold_result f (xs @ ys) s = bind_result (fold_result f xs s) (fold_result f ys)"
proof (induction xs arbitrary: s)
  case Nil
  show ?case by simp
next
  case (Cons x xs)
  then show ?case by (cases "f x s") simp_all
qed

lemma fold_result_inv:
  assumes "fold_result f xs s = Inr s'" and "P s"
    and "\<And>x s s'. x \<in> set xs \<Longrightarrow> P s \<Longrightarrow> f x s = Inr s' \<Longrightarrow> P s'"
  shows "P s'"
  using assms
proof (induction xs arbitrary: s)
  case Nil
  then show ?case by simp
next
  case (Cons x xs)
  from Cons.prems(1) obtain t where t: "f x s = Inr t" "fold_result f xs t = Inr s'"
    by (auto simp: result_iff)
  have "P t" using Cons.prems(2,3) t(1) by auto
  then show ?case using Cons.IH [OF t(2)] Cons.prems(3) by auto
qed

section \<open>Truthiness\<close>

text \<open>Python's \<open>a or b\<close> on optional strings: \<open>None\<close> and the empty string are false.\<close>

fun truthy_str :: "string option \<Rightarrow> bool" where
  "truthy_str None = False"
| "truthy_str (Some s) = (s \<noteq> [])"

definition or_str :: "string option \<Rightarrow> string option \<Rightarrow> string option" where
  "or_str a b = (if truthy_str a then a else b)"

lemma truthy_str_iff: "truthy_str a \<longleftrightarrow> (\<exists>s. a = Some s \<and> s \<noteq> [])"
  by (cases a) auto

lemma or_str_simps [simp]:
  "or_str None b = b"
  "or_str (Some []) b = b"
  "or_str (Some (c # cs)) b = Some (c # cs)"
  by (simp_all add: or_str_def)

lemma or_str_Some [simp]: "s \<noteq> [] \<Longrightarrow> or_str (Some s) b = Some s"
  by (simp add: or_str_def)

definition truthy_int :: "int option \<Rightarrow> bool" where
  "truthy_int a = (case a of None \<Rightarrow> False | Some i \<Rightarrow> i \<noteq> 0)"

section \<open>Keyed rows\<close>

text \<open>A table is the list of its rows; \<open>row_get\<close> is the primary-key lookup, \<open>row_upd\<close>
  rewrites the row with that key, \<open>row_del\<close> deletes the rows a predicate selects.\<close>

definition row_get :: "('r \<Rightarrow> string) \<Rightarrow> string \<Rightarrow> 'r list \<Rightarrow> 'r option" where
  "row_get key k rs = find (\<lambda>r. key r = k) rs"

definition row_upd :: "('r \<Rightarrow> string) \<Rightarrow> string \<Rightarrow> ('r \<Rightarrow> 'r) \<Rightarrow> 'r list \<Rightarrow> 'r list" where
  "row_upd key k f rs = map (\<lambda>r. if key r = k then f r else r) rs"

definition row_del :: "('r \<Rightarrow> bool) \<Rightarrow> 'r list \<Rightarrow> 'r list" where
  "row_del P rs = filter (\<lambda>r. \<not> P r) rs"

lemma row_get_Nil [simp]: "row_get key k [] = None"
  by (simp add: row_get_def)

lemma row_get_Cons: "row_get key k (r # rs) = (if key r = k then Some r else row_get key k rs)"
  by (simp add: row_get_def)

lemma row_get_SomeD: "row_get key k rs = Some r \<Longrightarrow> r \<in> set rs \<and> key r = k"
  by (auto simp: row_get_def find_Some_iff)

lemma row_get_None_iff: "row_get key k rs = None \<longleftrightarrow> k \<notin> key ` set rs"
  by (auto simp: row_get_def find_None_iff)

lemma row_get_Some_iff:
  assumes "distinct (map key rs)"
  shows "row_get key k rs = Some r \<longleftrightarrow> r \<in> set rs \<and> key r = k"
  using assms
proof (induction rs)
  case Nil
  then show ?case by simp
next
  case (Cons a rs)
  then show ?case by (auto simp: row_get_Cons)
qed

lemma row_get_append [rows]:
  "row_get key k (rs @ ss) = (case row_get key k rs of None \<Rightarrow> row_get key k ss | Some r \<Rightarrow> Some r)"
  by (induction rs) (auto simp: row_get_Cons)

lemma row_get_upd [rows]:
  assumes "\<And>r. key r = k' \<Longrightarrow> key (f r) = k'"
  shows "row_get key k (row_upd key k' f rs)
         = (if k = k' then map_option f (row_get key k rs) else row_get key k rs)"
  by (induction rs) (auto simp: row_upd_def row_get_Cons assms)

lemma map_key_row_upd [rows]:
  assumes "\<And>r. r \<in> set rs \<Longrightarrow> key r = k \<Longrightarrow> key' (f r) = key' r"
  shows "map key' (row_upd key k f rs) = map key' rs"
  by (simp add: row_upd_def assms)

lemma set_row_upd: "set (row_upd key k f rs) = (\<lambda>r. if key r = k then f r else r) ` set rs"
  by (simp add: row_upd_def)

lemma length_row_upd [simp]: "length (row_upd key k f rs) = length rs"
  by (simp add: row_upd_def)

lemma row_upd_absent [simp]: "k \<notin> key ` set rs \<Longrightarrow> row_upd key k f rs = rs"
  by (auto simp: row_upd_def intro!: map_idI)

lemma row_upd_ball:
  assumes "\<forall>r \<in> set rs. P r" and "\<And>r. r \<in> set rs \<Longrightarrow> key r = k \<Longrightarrow> P r \<Longrightarrow> P (f r)"
  shows "\<forall>r \<in> set (row_upd key k f rs). P r"
  using assms by (auto simp: set_row_upd)

lemma set_row_del: "set (row_del P rs) = {r \<in> set rs. \<not> P r}"
  by (simp add: row_del_def)

lemma row_get_del [rows]:
  "row_get key k (row_del (\<lambda>s. key s = k') rs) = (if k = k' then None else row_get key k rs)"
  by (induction rs) (auto simp: row_del_def row_get_Cons)

lemma distinct_map_row_del: "distinct (map f rs) \<Longrightarrow> distinct (map f (row_del P rs))"
  by (simp add: row_del_def distinct_map_filter)

lemma distinct_map_append:
  assumes "distinct (map f xs)" and "distinct (map f ys)" and "\<forall>y \<in> set ys. f y \<notin> f ` set xs"
  shows "distinct (map f (xs @ ys))"
proof -
  have "A \<inter> f ` B = {}" if "\<forall>y \<in> B. f y \<notin> A" for A and B using that by blast
  then show ?thesis using assms by (simp add: distinct_map inj_on_Un)
qed

lemma distinct_map_neq:
  assumes d: "distinct (map f (xs @ ys))" and x: "x \<in> set xs" and y: "y \<in> set ys"
  shows "f x \<noteq> f y"
proof -
  have disj: "f ` set xs \<inter> f ` set ys = {}" using d by simp
  have "f x \<in> f ` set xs" "f y \<in> f ` set ys" using x y by simp_all
  then show ?thesis using disj by (metis IntI empty_iff)
qed

text \<open>\<open>ORDER BY\<close> and \<open>first()\<close>: a stable sort, then the head.\<close>

definition first_by :: "('r \<Rightarrow> int) \<Rightarrow> 'r list \<Rightarrow> 'r option" where
  "first_by f rs = (case sort_key f rs of [] \<Rightarrow> None | r # _ \<Rightarrow> Some r)"

lemma first_by_None [simp]: "first_by f rs = None \<longleftrightarrow> rs = []"
proof -
  have "length (sort_key f rs) = length rs" by simp
  then show ?thesis by (cases "sort_key f rs"; cases rs) (auto simp: first_by_def)
qed

lemma first_by_Nil [simp]: "first_by f [] = None"
  by simp

lemma first_by_SomeD:
  assumes "first_by f rs = Some r"
  shows "r \<in> set rs" and "\<forall>s \<in> set rs. f r \<le> f s"
proof -
  from assms obtain ss where ss: "sort_key f rs = r # ss"
    by (auto simp: first_by_def split: list.splits)
  have set: "set rs = set (r # ss)" using ss [symmetric] by (metis set_sort)
  have "sorted (map f (r # ss))" using sorted_sort_key [of f rs] ss by simp
  then show "r \<in> set rs" and "\<forall>s \<in> set rs. f r \<le> f s" using set by auto
qed

text \<open>\<open>first_by\<close> without the sort: the earlier of two rows wins a tie.\<close>

definition first_of :: "('r \<Rightarrow> int) \<Rightarrow> 'r option \<Rightarrow> 'r option \<Rightarrow> 'r option" where
  "first_of f a b =
     (case a of None \<Rightarrow> b
      | Some x \<Rightarrow> (case b of None \<Rightarrow> a | Some y \<Rightarrow> if f x \<le> f y then a else b))"

lemma first_by_Cons: "first_by f (x # xs) = first_of f (Some x) (first_by f xs)"
  by (cases "sort_key f xs") (simp_all add: first_by_def first_of_def)

lemma first_of_assoc: "first_of f (first_of f a b) c = first_of f a (first_of f b c)"
  by (auto simp: first_of_def split: option.splits)

lemma first_by_append: "first_by f (xs @ ys) = first_of f (first_by f xs) (first_by f ys)"
proof (induction xs)
  case Nil
  then show ?case by (simp add: first_of_def)
next
  case (Cons x xs)
  then show ?case by (simp add: first_by_Cons first_of_assoc)
qed

lemma first_by_append_old:
  assumes "first_by f (xs @ ys) = Some r" and "r \<notin> set ys"
  shows "first_by f xs = Some r"
  using assms first_by_SomeD(1) [of f ys]
  by (auto simp: first_by_append first_of_def split: option.splits if_splits)

lemma length_filter_mono:
  assumes "\<And>x. P x \<Longrightarrow> Q x"
  shows "length (filter P xs) \<le> length (filter Q xs)"
  using assms by (induction xs) auto

end
