(* ===== verification/PyValues.thy ===== *)
theory PyValues
  imports Prelude Complex_Main
begin

text \<open>
  The Python values the backend computes with: the exceptions it raises, JSON values and
  dicts, the string methods it calls (ASCII strings), \<open>int()\<close> parsing and \<open>str()\<close>
  printing of integers, and datetimes with \<open>timedelta\<close> arithmetic (a datetime is the
  number of microseconds since 1970-01-01T00:00:00 that its fields read, with or without a
  \<open>tzinfo\<close>, which is always UTC in this program).
\<close>

section \<open>Exceptions\<close>

text \<open>
  \<open>EntityNotFoundError\<close> and \<open>BusinessRuleViolationError\<close> are the program's own
  (\<open>app/domain/exceptions.py\<close>); \<open>HTTPException\<close> carries its status code;
  \<open>IntegrityError\<close> is what a flush raises when a declared constraint is violated,
  \<open>DataError\<close> when a value does not fit its column, and \<open>PendingRollbackError\<close> what
  the session raises when it is used after either; \<open>StaleDataError\<close> means that the row a
  flush wanted to update is gone, \<open>ObjectDeletedError\<close> that the row of an expired object is.
\<close>

datatype error =
    ValueError string
  | TypeError
  | AttributeError string
  | KeyError string
  | OverflowError
  | IntegrityError
  | DataError
  | PendingRollbackError
  | StaleDataError
  | ObjectDeletedError
  | EntityNotFoundError string
  | BusinessRuleViolationError string
  | HTTPException nat string
  | HttpxError string
  | OSError string

type_synonym 'a result = "error + 'a"

section \<open>JSON values and dicts\<close>

text \<open>A dict keeps the insertion order of its keys: an association list, written with
  \<open>AList.update\<close> (which replaces in place or appends) and read with \<open>map_of\<close>.\<close>

datatype json =
    JNull
  | JBool bool
  | JInt int
  | JFloat rat
  | JStr string
  | JList "json list"
  | JObj "(string \<times> json) list"

type_synonym pydict = "(string \<times> json) list"

abbreviation dict_get :: "pydict \<Rightarrow> string \<Rightarrow> json option" where
  "dict_get d k \<equiv> map_of d k"

abbreviation dict_set :: "string \<Rightarrow> json \<Rightarrow> pydict \<Rightarrow> pydict" where
  "dict_set \<equiv> AList.update"

definition dict_has :: "pydict \<Rightarrow> string \<Rightarrow> bool" where
  "dict_has d k \<longleftrightarrow> map_of d k \<noteq> None"

fun truthy :: "json \<Rightarrow> bool" where
  "truthy JNull = False"
| "truthy (JBool b) = b"
| "truthy (JInt i) = (i \<noteq> 0)"
| "truthy (JFloat q) = (q \<noteq> 0)"
| "truthy (JStr s) = (s \<noteq> [])"
| "truthy (JList xs) = (xs \<noteq> [])"
| "truthy (JObj d) = (d \<noteq> [])"

text \<open>The name of a value's type, and the exception of calling a method it does not have.\<close>

fun type_name :: "json \<Rightarrow> string" where
  "type_name JNull = ''NoneType''"
| "type_name (JBool b) = ''bool''"
| "type_name (JInt i) = ''int''"
| "type_name (JFloat q) = ''float''"
| "type_name (JStr s) = ''str''"
| "type_name (JList xs) = ''list''"
| "type_name (JObj d) = ''dict''"

definition no_attribute :: "string \<Rightarrow> string \<Rightarrow> error" where
  "no_attribute ty attr = AttributeError
     (CHR 0x27 # ty @ CHR 0x27 # '' object has no attribute '' @ CHR 0x27 # attr @ [CHR 0x27])"

text \<open>\<open>d.get(k)\<close>, with \<open>None\<close> for a missing key.\<close>

definition get_or_null :: "pydict \<Rightarrow> string \<Rightarrow> json" where
  "get_or_null d k = (case map_of d k of None \<Rightarrow> JNull | Some v \<Rightarrow> v)"

definition json_or :: "json \<Rightarrow> json \<Rightarrow> json" where
  "json_or a b = (if truthy a then a else b)"

lemma dict_get_set [simp]:
  "dict_get (dict_set k v d) k' = (if k' = k then Some v else dict_get d k')"
  by (simp add: update_conv')

lemma dict_has_set [simp]: "dict_has (dict_set k v d) k' \<longleftrightarrow> k' = k \<or> dict_has d k'"
  by (simp add: dict_has_def)

lemma get_or_null_set [simp]:
  "get_or_null (dict_set k v d) k' = (if k' = k then v else get_or_null d k')"
  by (simp add: get_or_null_def)

section \<open>Strings\<close>

definition is_space :: "char \<Rightarrow> bool" where
  "is_space c \<longleftrightarrow> c \<in> set [CHR 0x09, CHR 0x0A, CHR 0x0B, CHR 0x0C, CHR 0x0D,
                            CHR 0x1C, CHR 0x1D, CHR 0x1E, CHR 0x1F, CHR 0x20]"

definition strip :: "string \<Rightarrow> string" where
  "strip s = rev (dropWhile is_space (rev (dropWhile is_space s)))"

definition startswith :: "string \<Rightarrow> string \<Rightarrow> bool" where
  "startswith s p \<longleftrightarrow> take (length p) s = p"

definition endswith :: "string \<Rightarrow> string \<Rightarrow> bool" where
  "endswith s p \<longleftrightarrow> startswith (rev s) (rev p)"

text \<open>\<open>s.split(":", 1)[1]\<close> for a string with a colon in it: what follows the first colon.\<close>

definition after_colon :: "string \<Rightarrow> string" where
  "after_colon s = tl (dropWhile (\<lambda>c. c \<noteq> CHR '':'') s)"

definition lower_char :: "char \<Rightarrow> char" where
  "lower_char c = (if 65 \<le> (of_char c :: nat) \<and> (of_char c :: nat) \<le> 90
                   then char_of ((of_char c :: nat) + 32) else c)"

definition lower :: "string \<Rightarrow> string" where
  "lower s = map lower_char s"

definition upper_char :: "char \<Rightarrow> char" where
  "upper_char c = (if 97 \<le> (of_char c :: nat) \<and> (of_char c :: nat) \<le> 122
                   then char_of ((of_char c :: nat) - 32) else c)"

definition upper :: "string \<Rightarrow> string" where
  "upper s = map upper_char s"

lemma startswith_append [simp]: "startswith (p @ s) p"
  by (simp add: startswith_def)

lemma startswith_Nil [simp]: "startswith s []"
  by (simp add: startswith_def)

lemma startswith_Cons [simp]:
  "startswith (c # s) (d # p) \<longleftrightarrow> c = d \<and> startswith s p"
  "\<not> startswith [] (d # p)"
  by (auto simp: startswith_def)

lemma startswith_split: "startswith s p \<Longrightarrow> s = p @ drop (length p) s"
  unfolding startswith_def by (metis append_take_drop_id)

lemma endswith_snoc [simp]: "endswith (s @ [c]) [d] \<longleftrightarrow> c = d"
  by (simp add: endswith_def)

lemma endswith_Nil [simp]: "\<not> endswith [] [d]"
  by (simp add: endswith_def)

lemma strip_id:
  assumes "s \<noteq> []" and "\<not> is_space (hd s)" and "\<not> is_space (last s)"
  shows "strip s = s"
proof -
  have 1: "dropWhile is_space s = s" using assms(1,2) by (cases s) auto
  have "dropWhile is_space (rev s) = rev s" using assms(1,3) by (cases s rule: rev_cases) auto
  then show ?thesis by (simp add: strip_def 1)
qed

section \<open>Integers as text\<close>

definition is_digit :: "char \<Rightarrow> bool" where
  "is_digit c \<longleftrightarrow> 48 \<le> (of_char c :: nat) \<and> (of_char c :: nat) \<le> 57"

definition digit_val :: "char \<Rightarrow> int" where
  "digit_val c = int (of_char c) - 48"

definition digit_char :: "nat \<Rightarrow> char" where
  "digit_char n = char_of (48 + n)"

text \<open>\<open>int(s)\<close> reads an optional sign and decimal digits, single underscores between
  them allowed, after stripping whitespace; more than 4300 digits raise. \<open>None\<close> is
  \<open>ValueError\<close>.\<close>

fun read_digits :: "int \<Rightarrow> string \<Rightarrow> int option" where
  "read_digits acc [] = Some acc"
| "read_digits acc (c # cs) =
     (if is_digit c then read_digits (10 * acc + digit_val c) cs
      else if c = CHR ''_'' then
        (case cs of [] \<Rightarrow> None
         | d # ds \<Rightarrow> if is_digit d then read_digits (10 * acc + digit_val d) ds else None)
      else None)"

definition read_nat :: "string \<Rightarrow> int option" where
  "read_nat s = (case s of [] \<Rightarrow> None
                 | c # _ \<Rightarrow> if is_digit c then read_digits 0 s else None)"

definition int_max_str_digits :: nat where
  "int_max_str_digits = 4300"

definition py_int :: "string \<Rightarrow> int option" where
  "py_int s =
     (let t = strip s in
      if int_max_str_digits < length (filter is_digit t) then None
      else case t of
        [] \<Rightarrow> None
      | c # cs \<Rightarrow> if c = CHR ''-'' then map_option uminus (read_nat cs)
                  else if c = CHR ''+'' then read_nat cs
                  else read_nat t)"

fun nat_str :: "nat \<Rightarrow> string" where
  "nat_str n = (if n < 10 then [digit_char n] else nat_str (n div 10) @ [digit_char (n mod 10)])"

declare nat_str.simps [simp del]

definition int_str :: "int \<Rightarrow> string" where
  "int_str i = (if i < 0 then CHR ''-'' # nat_str (nat (- i)) else nat_str (nat i))"

text \<open>The text of an optional int in an f-string: \<open>None\<close> prints as \<open>None\<close>.\<close>

definition opt_int_str :: "int option \<Rightarrow> string" where
  "opt_int_str i = (case i of None \<Rightarrow> ''None'' | Some n \<Rightarrow> int_str n)"

definition opt_str :: "string option \<Rightarrow> string" where
  "opt_str s = (case s of None \<Rightarrow> ''None'' | Some t \<Rightarrow> t)"

lemma small_int:
  assumes "\<bar>n\<bar> < (10 :: int) ^ 2"
  shows "\<bar>n\<bar> < 10 ^ int_max_str_digits"
  using assms power_increasing [of 2 int_max_str_digits "10 :: int"]
  by (rule less_le_trans) (simp_all add: int_max_str_digits_def)

lemma of_char_digit_char: "n < 10 \<Longrightarrow> (of_char (digit_char n) :: nat) = 48 + n"
  by (simp add: digit_char_def of_char_of take_bit_nat_eq_self)

lemma digit_not_space: "is_digit c \<Longrightarrow> \<not> is_space c"
  by (auto simp: is_digit_def is_space_def)

lemma digit_not_sign: "is_digit c \<Longrightarrow> c \<noteq> CHR ''-'' \<and> c \<noteq> CHR ''+''"
  by (auto simp: is_digit_def)

lemma digit_char [simp]:
  assumes "n < 10"
  shows "is_digit (digit_char n)" and "digit_val (digit_char n) = int n"
  using assms by (simp_all add: is_digit_def digit_val_def of_char_digit_char)

lemma read_digits_append:
  assumes "\<forall>c \<in> set s. is_digit c"
  shows "read_digits acc (s @ t) = read_digits (foldl (\<lambda>a c. 10 * a + digit_val c) acc s) t"
  using assms by (induction s arbitrary: acc) auto

lemma nat_str_digits: "\<forall>c \<in> set (nat_str n). is_digit c"
proof (induction n rule: nat_str.induct)
  case (1 n)
  then show ?case by (subst nat_str.simps) auto
qed

lemma nat_str_nonempty [simp]: "nat_str n \<noteq> []"
  by (subst nat_str.simps) simp

lemma nat_str_value: "foldl (\<lambda>a c. 10 * a + digit_val c) 0 (nat_str n) = int n"
proof (induction n rule: nat_str.induct)
  case (1 n)
  show ?case
  proof (cases "n < 10")
    case True
    then show ?thesis by (simp add: nat_str.simps [of n])
  next
    case False
    with 1 show ?thesis
      by (simp add: nat_str.simps [of n] zdiv_int zmod_int)
  qed
qed

lemma length_nat_str: "n < 10 ^ k \<Longrightarrow> 0 < k \<Longrightarrow> length (nat_str n) \<le> k"
proof (induction n arbitrary: k rule: nat_str.induct)
  case (1 n)
  show ?case
  proof (cases "n < 10")
    case True
    then show ?thesis using 1 by (simp add: nat_str.simps [of n])
  next
    case False
    then have k: "1 < k" using 1 by (cases "k = 1") auto
    have "n < 10 ^ (k - 1) * 10" using 1 k by (simp add: power_eq_if mult.commute)
    then have "n div 10 < 10 ^ (k - 1)" by (simp add: less_mult_imp_div_less)
    then have "length (nat_str (n div 10)) \<le> k - 1" using 1 False k by simp
    then show ?thesis using False k by (simp add: nat_str.simps [of n])
  qed
qed

lemma read_nat_nat_str: "read_nat (nat_str n) = Some (int n)"
proof -
  obtain c cs where cs: "nat_str n = c # cs" by (cases "nat_str n") auto
  have "is_digit c" using nat_str_digits [of n] cs by simp
  moreover have "read_digits 0 (nat_str n) = Some (int n)"
    using read_digits_append [OF nat_str_digits, of 0 n "[]"] by (simp add: nat_str_value)
  ultimately show ?thesis by (simp add: read_nat_def cs)
qed

lemma hd_last_nat_str: "is_digit (hd (nat_str n))" "is_digit (last (nat_str n))"
  using nat_str_digits [of n] by simp_all

text \<open>Printing an integer and reading it back: the parser inverts the printer below the
  digit limit.\<close>

lemma strip_int_str: "strip (int_str i) = int_str i"
  using hd_last_nat_str digit_not_space
  by (intro strip_id) (auto simp: int_str_def is_space_def)

lemma py_int_int_str:
  assumes "\<bar>i\<bar> < 10 ^ int_max_str_digits"
  shows "py_int (int_str i) = Some i"
proof -
  let ?n = "nat \<bar>i\<bar>"
  have pos: "0 < int_max_str_digits" by (simp add: int_max_str_digits_def)
  have "int ?n < int (10 ^ int_max_str_digits)" using assms by simp
  then have "?n < 10 ^ int_max_str_digits" by (simp only: of_nat_less_iff)
  then have len: "length (nat_str ?n) \<le> int_max_str_digits" using length_nat_str pos by blast
  have dig: "\<not> is_digit CHR ''-''" by (simp add: is_digit_def)
  have filt: "filter is_digit (int_str i) = nat_str ?n"
    using nat_str_digits [of ?n] dig by (cases "i < 0") (simp_all add: int_str_def)
  obtain c cs where cs: "nat_str ?n = c # cs" by (cases "nat_str ?n") auto
  have c: "is_digit c" using nat_str_digits [of ?n] cs by simp
  show ?thesis
  proof (cases "i < 0")
    case True
    then have "int_str i = CHR ''-'' # nat_str ?n" by (simp add: int_str_def)
    then show ?thesis using len filt True strip_int_str [of i] dig
      by (simp add: py_int_def read_nat_nat_str Let_def)
  next
    case False
    then have "int_str i = c # cs" using cs by (simp add: int_str_def)
    then show ?thesis using len filt False digit_not_sign [OF c] read_nat_nat_str [of ?n] cs
      strip_int_str [of i] by (simp add: py_int_def Let_def)
  qed
qed

lemma py_int_None: "py_int ''None'' = None"
  by (simp add: py_int_def strip_def is_space_def read_nat_def is_digit_def Let_def)

section \<open>Datetimes\<close>

datatype datetime = Aware int | Naive int

fun instant :: "datetime \<Rightarrow> int" where
  "instant (Aware t) = t"
| "instant (Naive t) = t"

text \<open>The naive datetimes of the program are UTC, which \<open>replace(tzinfo=timezone.utc)\<close>
  makes explicit.\<close>

fun as_aware :: "datetime \<Rightarrow> datetime" where
  "as_aware (Aware t) = Aware t"
| "as_aware (Naive t) = Aware t"

definition second_us :: int where "second_us = 1000000"
definition minute_us :: int where "minute_us = 60 * second_us"
definition hour_us :: int where "hour_us = 60 * minute_us"
definition day_us :: int where "day_us = 24 * hour_us"

lemmas us_defs = second_us_def minute_us_def hour_us_def day_us_def

text \<open>Years 1 to 9999, and timedeltas of at most 999999999 days either way.\<close>

definition min_datetime_us :: int where "min_datetime_us = - 62135596800 * 1000000"
definition max_datetime_us :: int where "max_datetime_us = 253402300800 * 1000000 - 1"
definition max_timedelta_days :: int where "max_timedelta_days = 999999999"

definition timedelta_ok :: "int \<Rightarrow> bool" where
  "timedelta_ok d \<longleftrightarrow> \<bar>d div day_us\<bar> \<le> max_timedelta_days"

definition datetime_ok :: "int \<Rightarrow> bool" where
  "datetime_ok t \<longleftrightarrow> min_datetime_us \<le> t \<and> t \<le> max_datetime_us"

fun shift :: "int \<Rightarrow> datetime \<Rightarrow> datetime" where
  "shift d (Aware t) = Aware (t + d)"
| "shift d (Naive t) = Naive (t + d)"

text \<open>\<open>dt + timedelta(...)\<close>, the timedelta given in microseconds.\<close>

definition add_timedelta :: "datetime \<Rightarrow> int \<Rightarrow> datetime result" where
  "add_timedelta dt d =
     (if timedelta_ok d \<and> datetime_ok (instant dt + d) then Inr (shift d dt) else Inl OverflowError)"

text \<open>\<open>a - b\<close> in microseconds; mixing naive and aware raises.\<close>

fun sub_datetime :: "datetime \<Rightarrow> datetime \<Rightarrow> int result" where
  "sub_datetime (Aware a) (Aware b) = Inr (a - b)"
| "sub_datetime (Naive a) (Naive b) = Inr (a - b)"
| "sub_datetime _ _ = Inl TypeError"

lemma instant_shift [simp]: "instant (shift d dt) = instant dt + d"
  by (cases dt) auto

lemma as_aware_eq [simp]: "as_aware dt = Aware (instant dt)"
  by (cases dt) auto

lemma add_timedelta_Inr_iff [result_iff]:
  "add_timedelta dt d = Inr dt' \<longleftrightarrow>
     timedelta_ok d \<and> datetime_ok (instant dt + d) \<and> dt' = shift d dt"
  by (auto simp: add_timedelta_def)

end
