(* ===== verification/PyFloat.thy ===== *)
theory PyFloat
  imports PyValues "HOL-Library.Log_Nat"
begin

text \<open>
  Python floats as far as the program computes with them: a positive IEEE-754 double is the
  rational it stands for, and every operation rounds its exact result to 53 significant bits,
  ties to even (\<open>fl\<close>). Overflow and subnormals are outside the range the program
  reaches (durations between a millisecond and some centuries) and are not modelled.
  \<open>round_half_even\<close> is the built-in \<open>round\<close> to an integer, \<open>py_round3\<close> is
  \<open>round(x, 3)\<close>.
\<close>

definition round_half_even :: "rat \<Rightarrow> int" where
  "round_half_even x =
     (let n = \<lfloor>x\<rfloor>; d = x - of_int n in
      if d < 1 / 2 then n else if d > 1 / 2 then n + 1 else if even n then n else n + 1)"

definition pow2 :: "int \<Rightarrow> rat" where
  "pow2 e = (if 0 \<le> e then 2 ^ nat e else 1 / 2 ^ nat (- e))"

text \<open>The exponent of the unit in the last place of a positive rational.\<close>

definition ulp_exp :: "rat \<Rightarrow> int" where
  "ulp_exp x = (case quotient_of x of (p, q) \<Rightarrow>
     let k = bitlen p - bitlen q in if pow2 k \<le> x then k - 52 else k - 53)"

definition fl_pos :: "rat \<Rightarrow> rat" where
  "fl_pos x = of_int (round_half_even (x / pow2 (ulp_exp x))) * pow2 (ulp_exp x)"

definition fl :: "rat \<Rightarrow> rat" where
  "fl x = (if x = 0 then 0 else if x < 0 then - fl_pos (- x) else fl_pos x)"

definition py_round3 :: "rat \<Rightarrow> rat" where
  "py_round3 x = fl (of_int (round_half_even (x * 1000)) / 1000)"

section \<open>Rounding to an integer\<close>

lemma round_half_even_error: "\<bar>of_int (round_half_even x) - x\<bar> \<le> 1 / 2"
proof -
  define n where "n = \<lfloor>x\<rfloor>"
  have n: "of_int n \<le> x" "x < of_int n + 1"
    using floor_correct [of x] by (simp_all add: n_def)
  show ?thesis
    unfolding round_half_even_def Let_def n_def [symmetric]
    using n by (auto simp: abs_if)
qed

lemma round_half_even_of_int [simp]: "round_half_even (of_int n) = n"
  by (simp add: round_half_even_def)

lemma round_half_even_le: "x \<le> of_int m \<Longrightarrow> round_half_even x \<le> m"
proof -
  assume le: "x \<le> of_int m"
  define n where "n = \<lfloor>x\<rfloor>"
  have n: "of_int n \<le> x" "n \<le> m"
    using floor_correct [of x] floor_mono [OF le] by (simp_all add: n_def)
  show ?thesis
  proof (cases "n = m")
    case True
    then have "x = of_int n" using n(1) le by simp
    then show ?thesis using True by simp
  next
    case False
    then have "n + 1 \<le> m" using n(2) by simp
    then show ?thesis unfolding round_half_even_def Let_def n_def [symmetric] by auto
  qed
qed

lemma round_half_even_ge: "of_int m \<le> x \<Longrightarrow> m \<le> round_half_even x"
proof -
  assume "of_int m \<le> x"
  then have "m \<le> \<lfloor>x\<rfloor>" by (simp add: le_floor_iff)
  then show ?thesis unfolding round_half_even_def Let_def by auto
qed

text \<open>Closer than a half to an integer: rounds to it.\<close>

lemma round_half_even_near:
  assumes "\<bar>x - of_int n\<bar> < 1 / 2"
  shows "round_half_even x = n"
proof -
  let ?r = "round_half_even x"
  have "\<bar>of_int ?r - x\<bar> \<le> (1 / 2 :: rat)" by (rule round_half_even_error)
  then have "\<bar>of_int ?r - of_int n\<bar> < (1 :: rat)" using assms by linarith
  then have "\<bar>of_int (?r - n)\<bar> < (1 :: rat)" by simp
  then have "\<bar>?r - n\<bar> < 1" by (metis of_int_abs of_int_less_1_iff)
  then show ?thesis by simp
qed

section \<open>Powers of two\<close>

lemma pow2_pos [simp]: "0 < pow2 e"
  by (simp add: pow2_def)

lemma pow2_nonzero [simp]: "pow2 e \<noteq> 0"
  using pow2_pos [of e] by linarith

lemma abs_pow2 [simp]: "\<bar>pow2 e\<bar> = pow2 e"
  using pow2_pos [of e] by linarith

lemma pow2_powi: "pow2 e = 2 powi e"
  unfolding pow2_def power_int_def inverse_eq_divide power_one_over by (rule refl)

lemma pow2_add: "pow2 (a + b) = pow2 a * pow2 b"
  unfolding pow2_powi by (rule power_int_add) simp

lemma pow2_nat [simp]: "pow2 (int n) = 2 ^ n"
  by (simp add: pow2_def)

lemma pow2_strict_mono: "a < b \<Longrightarrow> pow2 a < pow2 b"
  unfolding pow2_powi by (rule power_int_strict_increasing) simp_all

lemma pow2_le_iff [simp]: "pow2 a \<le> pow2 b \<longleftrightarrow> a \<le> b"
  using pow2_strict_mono [of a b] pow2_strict_mono [of b a] by (cases a b rule: linorder_cases) auto

section \<open>The exponent brackets its argument\<close>

lemma bitlen_bracket:
  assumes "0 < n"
  shows "pow2 (bitlen n - 1) \<le> of_int n" and "of_int n < pow2 (bitlen n)"
proof -
  have b: "2 ^ nat (bitlen n - 1) \<le> n \<and> n < 2 ^ nat (bitlen n)"
    using assms by (rule bitlen_bounds)
  have pos: "0 < bitlen n"
    using assms bitlen_nonneg [of n] bitlen_eq_zero_iff [of n] by linarith
  have "(of_int (2 ^ nat (bitlen n - 1)) :: rat) \<le> of_int n" using b by (simp only: of_int_le_iff)
  then show "pow2 (bitlen n - 1) \<le> of_int n" using pos by (simp add: pow2_def)
  have "(of_int n :: rat) < of_int (2 ^ nat (bitlen n))" using b by (simp only: of_int_less_iff)
  then show "of_int n < pow2 (bitlen n)" using pos by (simp add: pow2_def)
qed

lemma ulp_exp_bracket:
  assumes "0 < x"
  shows "pow2 52 * pow2 (ulp_exp x) \<le> x" and "x < pow2 53 * pow2 (ulp_exp x)"
proof -
  obtain p q where pq: "quotient_of x = (p, q)" by fastforce
  have q: "0 < q" using pq by (rule quotient_of_denom_pos)
  have x: "x = of_int p / of_int q" using pq by (rule quotient_of_div)
  have p: "0 < p" using assms q by (simp add: x zero_less_divide_iff)
  define k where "k = bitlen p - bitlen q"
  have low: "pow2 (k - 1) \<le> x"
  proof -
    have "pow2 (k - 1) * of_int q \<le> pow2 (k - 1) * pow2 (bitlen q)"
      using bitlen_bracket(2) [OF q] by (intro mult_left_mono) (auto intro: less_imp_le)
    also have "\<dots> = pow2 (bitlen p - 1)" by (simp add: pow2_add [symmetric] k_def)
    also have "\<dots> \<le> of_int p" by (rule bitlen_bracket(1) [OF p])
    finally show ?thesis using q by (simp add: x pos_le_divide_eq)
  qed
  have high: "x < pow2 (k + 1)"
  proof -
    have "of_int p < pow2 (bitlen p)" by (rule bitlen_bracket(2) [OF p])
    also have "\<dots> = pow2 (k + 1) * pow2 (bitlen q - 1)" by (simp add: pow2_add [symmetric] k_def)
    also have "\<dots> \<le> pow2 (k + 1) * of_int q"
      using bitlen_bracket(1) [OF q] by (intro mult_left_mono) (auto intro: less_imp_le)
    finally show ?thesis using q by (simp add: x pos_divide_less_eq)
  qed
  have e: "ulp_exp x = (if pow2 k \<le> x then k - 52 else k - 53)"
    by (simp add: ulp_exp_def pq k_def Let_def)
  show "pow2 52 * pow2 (ulp_exp x) \<le> x"
    using low by (auto simp: e pow2_add [symmetric] add.commute)
  show "x < pow2 53 * pow2 (ulp_exp x)"
    using high by (auto simp: e pow2_add [symmetric] add.commute)
qed

lemma ulp_exp_less:
  assumes "0 < x" and "x \<le> pow2 k"
  shows "ulp_exp x \<le> k - 52"
proof -
  have "pow2 (52 + ulp_exp x) \<le> pow2 k"
    using ulp_exp_bracket(1) [OF assms(1)] assms(2) by (simp add: pow2_add)
  then show ?thesis by simp
qed

section \<open>The rounding error of one operation\<close>

lemma fl_scaled:
  assumes "0 < x"
  shows "fl x - x = (of_int (round_half_even (x / pow2 (ulp_exp x))) - x / pow2 (ulp_exp x)) * pow2 (ulp_exp x)"
  using assms pow2_pos [of "ulp_exp x"] by (simp add: fl_def fl_pos_def algebra_simps)

lemma fl_error_ulp:
  assumes "0 < x"
  shows "\<bar>fl x - x\<bar> \<le> pow2 (ulp_exp x) / 2"
proof -
  have "\<bar>fl x - x\<bar> \<le> 1 / 2 * pow2 (ulp_exp x)"
    unfolding fl_scaled [OF assms] abs_mult abs_pow2
    by (rule mult_right_mono [OF round_half_even_error]) (simp add: less_imp_le)
  then show ?thesis by simp
qed

lemma fl_rel_error:
  assumes "0 < x"
  shows "\<bar>fl x - x\<bar> \<le> x / 9007199254740992"
proof -
  have "pow2 (ulp_exp x) / 2 \<le> x / 9007199254740992"
    using ulp_exp_bracket(1) [OF assms] by (simp add: pow2_def)
  then show ?thesis using fl_error_ulp [OF assms] by linarith
qed

lemma fl_abs_error:
  assumes "0 < x" and "x \<le> pow2 k"
  shows "\<bar>fl x - x\<bar> \<le> pow2 (k - 52) / 2"
proof -
  have "pow2 (ulp_exp x) \<le> pow2 (k - 52)" using ulp_exp_less [OF assms] by simp
  then show ?thesis using fl_error_ulp [OF assms(1)] by linarith
qed

lemma fl_positive: "0 < x \<Longrightarrow> 0 < fl x"
  using fl_rel_error [of x] by linarith

text \<open>Integers up to \<open>2 ^ 52\<close> are representable, so rounding never crosses one.\<close>

lemma int_over_pow2:
  assumes "e \<le> 0"
  shows "(of_int n :: rat) / pow2 e = of_int (n * 2 ^ nat (- e))"
  using assms by (cases "e = 0") (simp_all add: pow2_def)

lemma fl_between_ints:
  assumes "0 < x" and "x \<le> 2 ^ 52"
  shows "x \<le> of_int n \<Longrightarrow> fl x \<le> of_int n" and "of_int m \<le> x \<Longrightarrow> of_int m \<le> fl x"
proof -
  let ?e = "ulp_exp x"
  have e: "?e \<le> 0" using ulp_exp_less [of x 52] assms by (simp add: pow2_def)
  have fl: "fl x = of_int (round_half_even (x / pow2 ?e)) * pow2 ?e"
    using assms(1) by (simp add: fl_def fl_pos_def)
  show "fl x \<le> of_int n" if "x \<le> of_int n"
  proof -
    have "x / pow2 ?e \<le> of_int n / pow2 ?e" using that by (simp add: divide_right_mono less_imp_le)
    then have "round_half_even (x / pow2 ?e) \<le> n * 2 ^ nat (- ?e)"
      by (intro round_half_even_le) (simp only: int_over_pow2 [OF e])
    then have "of_int (round_half_even (x / pow2 ?e)) \<le> (of_int n / pow2 ?e :: rat)"
      by (simp only: int_over_pow2 [OF e] of_int_le_iff)
    then show ?thesis by (simp add: fl pos_le_divide_eq)
  qed
  show "of_int m \<le> fl x" if "of_int m \<le> x"
  proof -
    have "of_int m / pow2 ?e \<le> x / pow2 ?e" using that by (simp add: divide_right_mono less_imp_le)
    then have "m * 2 ^ nat (- ?e) \<le> round_half_even (x / pow2 ?e)"
      by (intro round_half_even_ge) (simp only: int_over_pow2 [OF e])
    then have "(of_int m / pow2 ?e :: rat) \<le> of_int (round_half_even (x / pow2 ?e))"
      by (simp only: int_over_pow2 [OF e] of_int_le_iff)
    then show ?thesis by (simp add: fl pos_divide_le_eq)
  qed
qed

text \<open>A whole number of microseconds as float seconds has the ceiling of the exact value,
  for anything under 34 years.\<close>

lemma ceiling_fl_seconds:
  assumes "0 < t" and "t \<le> 2 ^ 30 * 1000000"
  shows "\<lceil>fl (of_int t / 1000000)\<rceil> = \<lceil>(of_int t / 1000000 :: rat)\<rceil>"
proof -
  define x :: rat where "x = of_int t / 1000000"
  define n where "n = \<lceil>x\<rceil>"
  have x0: "0 < x" using assms(1) by (simp add: x_def)
  have "(of_int t :: rat) \<le> of_int (2 ^ 30 * 1000000)" using assms(2) by (simp only: of_int_le_iff)
  then have x30: "x \<le> 2 ^ 30" by (simp add: x_def)
  have n: "x \<le> of_int n" "of_int n - 1 < x" using ceiling_correct [of x] by (simp_all add: n_def)
  have "fl x \<le> of_int n" using fl_between_ints(1) [of x n] x0 x30 n(1) by simp
  moreover have "of_int (n - 1) < fl x"
  proof -
    have "of_int ((n - 1) * 1000000) < (of_int t :: rat)"
      using n(2) by (simp add: x_def field_simps)
    then have "(n - 1) * 1000000 + 1 \<le> t" by (simp only: of_int_less_iff)
    then have "(of_int ((n - 1) * 1000000 + 1) :: rat) \<le> of_int t" by (simp only: of_int_le_iff)
    then have "of_int (n - 1) + 1 / 1000000 \<le> x" by (simp add: x_def field_simps)
    moreover have "\<bar>fl x - x\<bar> \<le> pow2 (30 - 52) / 2"
      using fl_abs_error [of x 30] x0 x30 by (simp add: pow2_def)
    then have "\<bar>fl x - x\<bar> \<le> 1 / 8388608" by (simp add: pow2_def)
    ultimately show ?thesis by linarith
  qed
  ultimately have "\<lceil>fl x\<rceil> = n" by (simp add: ceiling_eq_iff)
  then show ?thesis by (simp add: n_def x_def)
qed

text \<open>The milliseconds the float computation rounds to are a nearest integer.\<close>

lemma round_fl_milliseconds:
  assumes "0 < t" and "t \<le> 2 ^ 30 * 1000000"
  shows "\<bar>1000 * round_half_even (fl (fl (of_int t / 1000000) * 1000)) - t\<bar> \<le> 500"
proof -
  define x :: rat where "x = of_int t / 1000000"
  define y where "y = fl x * 1000"
  have x0: "0 < x" using assms(1) by (simp add: x_def)
  have "(of_int t :: rat) \<le> of_int (2 ^ 30 * 1000000)" using assms(2) by (simp only: of_int_le_iff)
  then have x30: "x \<le> 1073741824" by (simp add: x_def)
  have e1: "\<bar>fl x - x\<bar> \<le> x / 9007199254740992" by (rule fl_rel_error [OF x0])
  have y0: "0 < y" using fl_positive [OF x0] by (simp add: y_def)
  have e2: "\<bar>fl y - y\<bar> \<le> y / 9007199254740992" by (rule fl_rel_error [OF y0])
  have yb: "y \<le> 1000 * x + x / 8" "\<bar>y - 1000 * x\<bar> \<le> x / 8000000000000"
    unfolding y_def using e1 x0 by linarith+
  have "\<bar>fl y - 1000 * x\<bar> \<le> 1 / 3000"
    using e2 yb x30 x0 by linarith
  moreover have "\<bar>of_int (round_half_even (fl y)) - fl y\<bar> \<le> 1 / 2" by (rule round_half_even_error)
  ultimately have "\<bar>of_int (round_half_even (fl y)) - 1000 * x\<bar> \<le> 1 / 2 + 1 / 3000" by linarith
  then have "\<bar>1000 * of_int (round_half_even (fl y)) - of_int t\<bar> < (501 :: rat)"
    unfolding x_def by linarith
  then have "\<bar>of_int (1000 * round_half_even (fl y) - t)\<bar> < (501 :: rat)" by simp
  then have "\<bar>1000 * round_half_even (fl y) - t\<bar> < 501"
    by (metis of_int_abs of_int_less_iff of_int_numeral)
  then show ?thesis by (simp add: y_def x_def)
qed

text \<open>\<open>round(ms / 1000, 3)\<close> is the double nearest to the decimal with three digits.\<close>

lemma py_round3_ms:
  assumes "0 < ms" and "ms \<le> 2 ^ 50"
  shows "py_round3 (fl (of_int ms / 1000)) = fl (of_int ms / 1000)"
proof -
  define x :: rat where "x = of_int ms / 1000"
  have x0: "0 < x" using assms(1) by (simp add: x_def)
  have "(of_int ms :: rat) \<le> of_int (2 ^ 50)" using assms(2) by (simp only: of_int_le_iff)
  then have x50: "x * 1000 \<le> 1125899906842624" by (simp add: x_def)
  have "\<bar>fl x - x\<bar> \<le> x / 9007199254740992" by (rule fl_rel_error [OF x0])
  then have "\<bar>fl x * 1000 - x * 1000\<bar> < 1 / 2" using x50 x0 by linarith
  then have "round_half_even (fl x * 1000) = ms"
    by (intro round_half_even_near) (simp add: x_def)
  then show ?thesis by (simp add: py_round3_def x_def)
qed

end
