(* ===== verification/Entities.thy ===== *)
theory Entities
  imports PyFloat
begin

text \<open>
  The domain entities (\<open>app/domain/entities\<close>, \<open>app/domain/constants.py\<close>) as records,
  one field per mapped column, and the database they live in: one list of rows per table.
  A nullable column is an option; so are the columns of \<open>Job\<close> and \<open>JobRun\<close> that an
  update may set to \<open>None\<close> before the database refuses it. \<open>updated_at\<close> is left out:
  only the response DTOs read it. The declared column widths, \<open>NOT NULL\<close>, \<open>CHECK\<close>,
  \<open>UNIQUE\<close> and foreign-key constraints are the predicates \<open>db_fits\<close> and \<open>db_ok\<close>,
  which every commit checks.
\<close>

section \<open>Constants\<close>

definition JOB_ACTION_TYPES :: "string list" where
  "JOB_ACTION_TYPES = [''api_call'', ''shell'', ''python'', ''report'', ''email'', ''backup'',
     ''fail-test'', ''long-task'', ''api_poll'']"

definition JOB_RUN_STATUSES :: "string list" where
  "JOB_RUN_STATUSES = [''pending'', ''running'', ''success'', ''failed'', ''timeout'',
     ''canceled'', ''awaiting_result'']"

definition JOB_STATUSES :: "string list" where
  "JOB_STATUSES = [''enabled'', ''active'', ''paused'', ''disabled'', ''deleted'']"

definition TRIGGER_TYPES :: "string list" where
  "TRIGGER_TYPES = [''schedule'', ''manual'', ''api'', ''retry'', ''dependency'']"

definition LOG_LEVELS :: "string list" where
  "LOG_LEVELS = [''debug'', ''info'', ''warning'', ''error'']"

definition LOG_STREAMS :: "string list" where
  "LOG_STREAMS = [''stdout'', ''stderr'', ''system'']"

lemmas constants_defs = JOB_ACTION_TYPES_def JOB_RUN_STATUSES_def JOB_STATUSES_def
  TRIGGER_TYPES_def LOG_LEVELS_def LOG_STREAMS_def

section \<open>Entities\<close>

record user =
  u_id :: string
  u_username :: string
  u_email :: "string option"
  u_password_hash :: string
  u_role :: string
  u_created_at :: datetime

record job =
  j_id :: string
  j_user_id :: "string option"
  j_name :: "string option"
  j_task_name :: "string option"
  j_task_type :: "string option"
  j_script :: "string option"
  j_working_dir :: "string option"
  j_action_type :: "string option"
  j_action_payload :: "pydict option"
  j_schedule_rule :: string
  j_status :: "string option"
  j_enabled :: bool
  j_timeout_seconds :: "int option"
  j_max_retry :: "int option"
  j_description :: "string option"
  j_next_run_at :: "datetime option"
  j_last_run_at :: "datetime option"
  j_created_at :: datetime

record job_run =
  r_id :: string
  r_job_id :: string
  r_status :: string
  r_user_id :: "string option"
  r_trigger_type :: string
  r_triggered_by :: "string option"
  r_worker_id :: "string option"
  r_locked_by :: "string option"
  r_locked_until :: "datetime option"
  r_start_time :: "datetime option"
  r_end_time :: "datetime option"
  r_heartbeat_at :: "datetime option"
  r_duration_seconds :: "int option"
  r_duration_seconds_decimal :: "rat option"
  r_duration_ms :: "int option"
  r_retry_count :: int
  r_task_type :: "string option"
  r_script :: "string option"
  r_working_dir :: "string option"
  r_action_type :: "string option"
  r_action_payload :: "pydict option"
  r_timeout_seconds :: "int option"
  r_stdout :: "string option"
  r_stderr :: "string option"
  r_error_message :: "string option"
  r_metadata_json :: "pydict option"
  r_created_at :: datetime

record job_log =
  l_id :: string
  l_job_run_id :: string
  l_log_level :: string
  l_stream :: string
  l_message :: string
  l_created_at :: datetime

record job_dependency =
  d_id :: string
  d_job_id :: string
  d_depends_on_job_id :: string
  d_required_status :: string
  d_created_at :: datetime

record db =
  db_users :: "user list"
  db_jobs :: "job list"
  db_runs :: "job_run list"
  db_logs :: "job_log list"
  db_deps :: "job_dependency list"

definition empty_db :: db where
  "empty_db = \<lparr>db_users = [], db_jobs = [], db_runs = [], db_logs = [], db_deps = []\<rparr>"

text \<open>What an insert draws from its environment: the \<open>uuid4\<close> primary key and the reading of
  the clock that the column defaults evaluate at flush time. An operation that inserts several
  rows takes a family of stamps and uses one entry per row.\<close>

type_synonym stamp = "string \<times> datetime"
type_synonym stamps = "nat \<Rightarrow> stamp"

section \<open>Column widths\<close>

definition varchar :: "nat \<Rightarrow> string \<Rightarrow> bool" where
  "varchar n s \<longleftrightarrow> length s \<le> n"

definition opt_ok :: "('a \<Rightarrow> bool) \<Rightarrow> 'a option \<Rightarrow> bool" where
  "opt_ok P x = (case x of None \<Rightarrow> True | Some a \<Rightarrow> P a)"

lemma opt_ok_simps [simp]: "opt_ok P None" "opt_ok P (Some a) = P a"
  by (simp_all add: opt_ok_def)

definition integer_column :: "int \<Rightarrow> bool" where
  "integer_column i \<longleftrightarrow> - (2 ^ 31) \<le> i \<and> i < 2 ^ 31"

definition user_fits :: "user \<Rightarrow> bool" where
  "user_fits u \<longleftrightarrow> varchar 36 (u_id u) \<and> varchar 80 (u_username u) \<and> opt_ok (varchar 255) (u_email u)
     \<and> varchar 255 (u_password_hash u) \<and> varchar 32 (u_role u)"

definition job_fits :: "job \<Rightarrow> bool" where
  "job_fits j \<longleftrightarrow> varchar 36 (j_id j) \<and> opt_ok (varchar 120) (j_name j)
     \<and> opt_ok (varchar 120) (j_task_name j) \<and> varchar 120 (j_schedule_rule j)
     \<and> opt_ok integer_column (j_timeout_seconds j) \<and> opt_ok integer_column (j_max_retry j)"

definition run_fits :: "job_run \<Rightarrow> bool" where
  "run_fits r \<longleftrightarrow> varchar 36 (r_id r) \<and> opt_ok (varchar 80) (r_triggered_by r)
     \<and> opt_ok (varchar 80) (r_worker_id r) \<and> opt_ok (varchar 80) (r_locked_by r)
     \<and> opt_ok integer_column (r_duration_seconds r) \<and> opt_ok integer_column (r_duration_ms r)
     \<and> integer_column (r_retry_count r) \<and> opt_ok integer_column (r_timeout_seconds r)"

definition log_fits :: "job_log \<Rightarrow> bool" where
  "log_fits l \<longleftrightarrow> varchar 36 (l_id l)"

definition dep_fits :: "job_dependency \<Rightarrow> bool" where
  "dep_fits d \<longleftrightarrow> varchar 36 (d_id d)"

definition db_fits :: "db \<Rightarrow> bool" where
  "db_fits d \<longleftrightarrow> list_all user_fits (db_users d) \<and> list_all job_fits (db_jobs d)
     \<and> list_all run_fits (db_runs d) \<and> list_all log_fits (db_logs d) \<and> list_all dep_fits (db_deps d)"

lemmas fits_defs = user_fits_def job_fits_def run_fits_def log_fits_def dep_fits_def

section \<open>Constraints\<close>

text \<open>\<open>NOT NULL\<close> together with a \<open>CHECK\<close> on the value; a \<open>CHECK\<close> alone lets
  \<open>NULL\<close> pass.\<close>

definition required :: "('a \<Rightarrow> bool) \<Rightarrow> 'a option \<Rightarrow> bool" where
  "required P x = (case x of None \<Rightarrow> False | Some a \<Rightarrow> P a)"

lemma required_simps [simp]: "\<not> required P None" "required P (Some a) = P a"
  by (simp_all add: required_def)

lemma required_iff: "required P x \<longleftrightarrow> (\<exists>a. x = Some a \<and> P a)"
  by (cases x) auto

definition one_of :: "string list \<Rightarrow> string \<Rightarrow> bool" where
  "one_of xs s \<longleftrightarrow> s \<in> set xs"

definition user_ok :: "user \<Rightarrow> bool" where
  "user_ok u \<longleftrightarrow> one_of [''admin'', ''developer'', ''operator'', ''viewer''] (u_role u)"

definition job_ok :: "job \<Rightarrow> bool" where
  "job_ok j \<longleftrightarrow> j_task_name j \<noteq> None
     \<and> required (one_of JOB_ACTION_TYPES) (j_action_type j)
     \<and> opt_ok (one_of JOB_ACTION_TYPES) (j_task_type j)
     \<and> required (one_of JOB_STATUSES) (j_status j)
     \<and> required (\<lambda>t. 0 < t) (j_timeout_seconds j)
     \<and> required (\<lambda>m. 0 \<le> m) (j_max_retry j)"

definition run_ok :: "job_run \<Rightarrow> bool" where
  "run_ok r \<longleftrightarrow> one_of JOB_RUN_STATUSES (r_status r)
     \<and> one_of TRIGGER_TYPES (r_trigger_type r)
     \<and> 0 \<le> r_retry_count r
     \<and> required (one_of JOB_ACTION_TYPES) (r_action_type r)
     \<and> opt_ok (one_of JOB_ACTION_TYPES) (r_task_type r)
     \<and> required (\<lambda>t. 0 < t) (r_timeout_seconds r)"

definition log_ok :: "job_log \<Rightarrow> bool" where
  "log_ok l \<longleftrightarrow> one_of LOG_LEVELS (l_log_level l) \<and> one_of LOG_STREAMS (l_stream l)"

definition dep_ok :: "job_dependency \<Rightarrow> bool" where
  "dep_ok d \<longleftrightarrow> d_job_id d \<noteq> d_depends_on_job_id d
     \<and> one_of [''success'', ''failed'', ''timeout'', ''canceled''] (d_required_status d)"

lemmas row_ok_defs = user_ok_def job_ok_def run_ok_def log_ok_def dep_ok_def

definition rows_ok :: "db \<Rightarrow> bool" where
  "rows_ok d \<longleftrightarrow> list_all user_ok (db_users d) \<and> list_all job_ok (db_jobs d)
     \<and> list_all run_ok (db_runs d) \<and> list_all log_ok (db_logs d) \<and> list_all dep_ok (db_deps d)"

definition keys_ok :: "db \<Rightarrow> bool" where
  "keys_ok d \<longleftrightarrow> distinct (map u_id (db_users d)) \<and> distinct (map j_id (db_jobs d))
     \<and> distinct (map r_id (db_runs d)) \<and> distinct (map l_id (db_logs d))
     \<and> distinct (map d_id (db_deps d))"

definition unique_ok :: "db \<Rightarrow> bool" where
  "unique_ok d \<longleftrightarrow> distinct (map u_username (db_users d))
     \<and> distinct (filter (\<lambda>e. e \<noteq> None) (map u_email (db_users d)))
     \<and> distinct (map j_task_name (db_jobs d))
     \<and> distinct (map (\<lambda>x. (d_job_id x, d_depends_on_job_id x)) (db_deps d))"

definition in_table :: "('r \<Rightarrow> string) \<Rightarrow> 'r list \<Rightarrow> string \<Rightarrow> bool" where
  "in_table key rs k \<longleftrightarrow> k \<in> set (map key rs)"

definition fks_ok :: "db \<Rightarrow> bool" where
  "fks_ok d \<longleftrightarrow>
     list_all (\<lambda>j. opt_ok (in_table u_id (db_users d)) (j_user_id j)) (db_jobs d)
     \<and> list_all (\<lambda>r. in_table j_id (db_jobs d) (r_job_id r)
                   \<and> opt_ok (in_table u_id (db_users d)) (r_user_id r)) (db_runs d)
     \<and> list_all (\<lambda>l. in_table r_id (db_runs d) (l_job_run_id l)) (db_logs d)
     \<and> list_all (\<lambda>x. in_table j_id (db_jobs d) (d_job_id x)
                   \<and> in_table j_id (db_jobs d) (d_depends_on_job_id x)) (db_deps d)"

definition db_ok :: "db \<Rightarrow> bool" where
  "db_ok d \<longleftrightarrow> rows_ok d \<and> keys_ok d \<and> unique_ok d \<and> fks_ok d"

text \<open>A committed database.\<close>

definition valid :: "db \<Rightarrow> bool" where
  "valid d \<longleftrightarrow> db_fits d \<and> db_ok d"

text \<open>A flush sends the pending writes to the database, which checks them; a commit is a
  flush whose result becomes durable.\<close>

definition flush :: "db \<Rightarrow> db result" where
  "flush d = (if \<not> db_fits d then Inl DataError else if \<not> db_ok d then Inl IntegrityError
              else Inr d)"

definition commit :: "db \<Rightarrow> db result" where
  "commit d = flush d"

lemma flush_Inr_iff [result_iff]: "flush d = Inr d' \<longleftrightarrow> valid d \<and> d' = d"
  by (auto simp: flush_def valid_def)

lemma commit_Inr_iff [result_iff]: "commit d = Inr d' \<longleftrightarrow> valid d \<and> d' = d"
  by (simp add: commit_def flush_Inr_iff)

lemma commit_valid [simp]: "valid d \<Longrightarrow> commit d = Inr d" "valid d \<Longrightarrow> flush d = Inr d"
  by (simp_all add: result_iff)

lemma commit_Inl: "commit d = Inl e \<Longrightarrow> e = DataError \<or> e = IntegrityError"
  by (auto simp: commit_def flush_def split: if_splits)

lemma valid_empty [simp]: "valid empty_db"
  by (simp add: valid_def empty_db_def db_fits_def db_ok_def rows_ok_def keys_ok_def unique_ok_def
      fks_ok_def)

end
