(* ===== verification/Store.thy ===== *)
theory Store
  imports Entities
begin

text \<open>
  The repositories (\<open>app/infrastructure/repositories\<close>). The operations of the generic
  \<open>BaseRepository\<close> are functions on the rows of a table; the locale \<open>table\<close> is the
  interface the services rely on (what a lookup returns after an insert, an update or a
  delete), interpreted for each of the five tables. A query without \<open>ORDER BY\<close> reads the
  rows in table order; \<open>ORDER BY\<close> is a stable sort.
\<close>

section \<open>BaseRepository\<close>

definition repo_get :: "('r \<Rightarrow> string) \<Rightarrow> string \<Rightarrow> 'r list \<Rightarrow> 'r option" where
  "repo_get key k rs = row_get key k rs"

text \<open>The filters of \<open>find_one\<close>, \<open>list\<close> and \<open>count\<close> are one predicate on rows.\<close>

definition repo_find_one :: "('r \<Rightarrow> bool) \<Rightarrow> 'r list \<Rightarrow> 'r option" where
  "repo_find_one P rs = find P rs"

definition repo_list :: "('r \<Rightarrow> bool) \<Rightarrow> ('r \<Rightarrow> datetime) \<Rightarrow> nat \<Rightarrow> nat \<Rightarrow> 'r list \<Rightarrow> 'r list" where
  "repo_list P created_at skip limit rs =
     take limit (drop skip (sort_key (\<lambda>r. - instant (created_at r)) (filter P rs)))"

definition repo_count :: "('r \<Rightarrow> bool) \<Rightarrow> 'r list \<Rightarrow> nat" where
  "repo_count P rs = length (filter P rs)"

definition repo_add :: "'r \<Rightarrow> 'r list \<Rightarrow> 'r list" where
  "repo_add r rs = rs @ [r]"

definition repo_remove :: "('r \<Rightarrow> string) \<Rightarrow> 'r \<Rightarrow> 'r list \<Rightarrow> 'r list" where
  "repo_remove key r rs = row_del (\<lambda>s. key s = key r) rs"

section \<open>The interface of a table\<close>

locale table =
  fixes key :: "'r \<Rightarrow> string"
    and rows :: "db \<Rightarrow> 'r list"
    and put :: "'r list \<Rightarrow> db \<Rightarrow> db"
  assumes rows_put: "rows (put rs d) = rs"
    and keys_distinct: "keys_ok d \<Longrightarrow> distinct (map key (rows d))"
begin

lemma get_iff:
  "keys_ok d \<Longrightarrow> repo_get key k (rows d) = Some r \<longleftrightarrow> r \<in> set (rows d) \<and> key r = k"
  unfolding repo_get_def by (rule row_get_Some_iff [OF keys_distinct])

lemma get_None_iff: "repo_get key k (rows d) = None \<longleftrightarrow> \<not> in_table key (rows d) k"
  by (auto simp: repo_get_def row_get_None_iff in_table_def)

lemma get_SomeD: "repo_get key k (rows d) = Some r \<Longrightarrow> r \<in> set (rows d) \<and> key r = k"
  unfolding repo_get_def by (rule row_get_SomeD)

lemma get_add:
  assumes "\<not> in_table key (rows d) (key r)"
  shows "repo_get key k (rows (put (repo_add r (rows d)) d))
         = (if k = key r then Some r else repo_get key k (rows d))"
  using assms get_None_iff [of "key r" d]
  by (auto simp: repo_get_def repo_add_def rows_put row_get_append row_get_Cons split: option.splits)

lemma get_upd:
  assumes "\<And>r. key r = k' \<Longrightarrow> key (f r) = k'"
  shows "repo_get key k (rows (put (row_upd key k' f (rows d)) d))
         = (if k = k' then map_option f (repo_get key k (rows d)) else repo_get key k (rows d))"
  unfolding repo_get_def rows_put by (rule row_get_upd) (rule assms)

lemma get_remove:
  "repo_get key k (rows (put (repo_remove key r (rows d)) d))
   = (if k = key r then None else repo_get key k (rows d))"
  by (simp add: repo_get_def rows_put repo_remove_def row_get_del)

end

definition put_users :: "user list \<Rightarrow> db \<Rightarrow> db" where "put_users rs d = d\<lparr>db_users := rs\<rparr>"
definition put_jobs :: "job list \<Rightarrow> db \<Rightarrow> db" where "put_jobs rs d = d\<lparr>db_jobs := rs\<rparr>"
definition put_runs :: "job_run list \<Rightarrow> db \<Rightarrow> db" where "put_runs rs d = d\<lparr>db_runs := rs\<rparr>"
definition put_logs :: "job_log list \<Rightarrow> db \<Rightarrow> db" where "put_logs rs d = d\<lparr>db_logs := rs\<rparr>"
definition put_deps :: "job_dependency list \<Rightarrow> db \<Rightarrow> db" where "put_deps rs d = d\<lparr>db_deps := rs\<rparr>"

lemmas put_defs = put_users_def put_jobs_def put_runs_def put_logs_def put_deps_def

interpretation users: table u_id db_users put_users
  by unfold_locales (auto simp: put_defs keys_ok_def)

interpretation jobs: table j_id db_jobs put_jobs
  by unfold_locales (auto simp: put_defs keys_ok_def)

interpretation runs: table r_id db_runs put_runs
  by unfold_locales (auto simp: put_defs keys_ok_def)

interpretation logs: table l_id db_logs put_logs
  by unfold_locales (auto simp: put_defs keys_ok_def)

interpretation deps: table d_id db_deps put_deps
  by unfold_locales (auto simp: put_defs keys_ok_def)

section \<open>The lookups the services use\<close>

definition get_user :: "string \<Rightarrow> db \<Rightarrow> user option" where
  "get_user k d = repo_get u_id k (db_users d)"

definition find_by_username :: "string \<Rightarrow> db \<Rightarrow> user option" where
  "find_by_username name d = repo_find_one (\<lambda>u. u_username u = name) (db_users d)"

definition find_by_email :: "string \<Rightarrow> db \<Rightarrow> user option" where
  "find_by_email e d = repo_find_one (\<lambda>u. u_email u = Some e) (db_users d)"

definition get_job_row :: "string \<Rightarrow> db \<Rightarrow> job option" where
  "get_job_row k d = repo_get j_id k (db_jobs d)"

definition find_by_task_name :: "string \<Rightarrow> db \<Rightarrow> job option" where
  "find_by_task_name name d = repo_find_one (\<lambda>j. j_task_name j = Some name) (db_jobs d)"

definition count_enabled :: "db \<Rightarrow> nat" where
  "count_enabled d = repo_count j_enabled (db_jobs d)"

definition get_run_row :: "string \<Rightarrow> db \<Rightarrow> job_run option" where
  "get_run_row k d = repo_get r_id k (db_runs d)"

text \<open>The \<open>run.job\<close> relationship.\<close>

definition run_job :: "db \<Rightarrow> job_run \<Rightarrow> job option" where
  "run_job d r = get_job_row (r_job_id r) d"

section \<open>JobRunRepository\<close>

text \<open>Two \<open>status\<close> values make a job schedulable and dequeuable.\<close>

definition active_status :: "string option \<Rightarrow> bool" where
  "active_status s \<longleftrightarrow> s = Some ''enabled'' \<or> s = Some ''active''"

text \<open>The rows the queue query may return: pending runs of enabled jobs, not excluded, and
  (\<open>FOR UPDATE SKIP LOCKED\<close> locks the run and the joined job) with neither row locked by
  another transaction. \<open>locked\<close> is the set of row ids other transactions hold.\<close>

definition run_available :: "string list \<Rightarrow> string list \<Rightarrow> db \<Rightarrow> job_run \<Rightarrow> bool" where
  "run_available locked excluded d r \<longleftrightarrow>
     r_status r = ''pending'' \<and> r_id r \<notin> set excluded \<and> r_id r \<notin> set locked
     \<and> (case run_job d r of None \<Rightarrow> False
        | Some j \<Rightarrow> j_enabled j \<and> active_status (j_status j) \<and> j_id j \<notin> set locked)"

definition find_next_run_to_lock :: "string list \<Rightarrow> string list \<Rightarrow> db \<Rightarrow> job_run option" where
  "find_next_run_to_lock locked excluded_run_ids d =
     first_by (\<lambda>r. instant (r_created_at r))
       (filter (run_available locked excluded_run_ids d) (db_runs d))"

definition get_active_runs :: "string option \<Rightarrow> db \<Rightarrow> job_run list" where
  "get_active_runs worker_id d =
     repo_list (\<lambda>r. r_status r = ''running'' \<and> (truthy_str worker_id \<longrightarrow> r_worker_id r = worker_id))
       r_created_at 0 100 (db_runs d)"

definition run_expired :: "datetime \<Rightarrow> job_run \<Rightarrow> bool" where
  "run_expired now r \<longleftrightarrow> r_status r = ''running''
     \<and> (case r_locked_until r of None \<Rightarrow> False | Some t \<Rightarrow> instant t < instant now)"

definition find_expired_runs :: "datetime \<Rightarrow> db \<Rightarrow> job_run list" where
  "find_expired_runs now d = filter (run_expired now) (db_runs d)"

definition count_by_status_since :: "string list \<Rightarrow> datetime \<Rightarrow> db \<Rightarrow> nat" where
  "count_by_status_since statuses since d =
     length (filter (\<lambda>r. instant since \<le> instant (r_created_at r) \<and> r_status r \<in> set statuses)
       (db_runs d))"

definition count_since :: "datetime \<Rightarrow> db \<Rightarrow> nat" where
  "count_since since d = length (filter (\<lambda>r. instant since \<le> instant (r_created_at r)) (db_runs d))"

text \<open>The run chosen is available, and no available run is older.\<close>

lemma find_next_SomeD:
  assumes "find_next_run_to_lock locked excluded d = Some r"
  shows "r \<in> set (db_runs d)" and "run_available locked excluded d r"
    and "\<forall>s \<in> set (db_runs d). run_available locked excluded d s
           \<longrightarrow> instant (r_created_at r) \<le> instant (r_created_at s)"
  using first_by_SomeD [OF assms [unfolded find_next_run_to_lock_def]] by auto

lemma find_next_None_iff:
  "find_next_run_to_lock locked excluded d = None \<longleftrightarrow>
     (\<forall>r \<in> set (db_runs d). \<not> run_available locked excluded d r)"
  by (auto simp: find_next_run_to_lock_def filter_empty_conv)

section \<open>Rows written by the services\<close>

definition JobLog :: "stamp \<Rightarrow> string \<Rightarrow> string \<Rightarrow> string \<Rightarrow> string \<Rightarrow> job_log" where
  "JobLog st job_run_id log_level stream message =
     \<lparr>l_id = fst st, l_job_run_id = job_run_id, l_log_level = log_level, l_stream = stream,
      l_message = message, l_created_at = snd st\<rparr>"

definition add_logs :: "job_log list \<Rightarrow> db \<Rightarrow> db" where
  "add_logs ls d = d\<lparr>db_logs := db_logs d @ ls\<rparr>"

definition upd_run :: "string \<Rightarrow> (job_run \<Rightarrow> job_run) \<Rightarrow> db \<Rightarrow> db" where
  "upd_run k f d = d\<lparr>db_runs := row_upd r_id k f (db_runs d)\<rparr>"

text \<open>Flushing a dirty object: its row takes the object's state.\<close>

definition put_run :: "job_run \<Rightarrow> db \<Rightarrow> db" where
  "put_run r d = upd_run (r_id r) (\<lambda>_. r) d"

definition add_runs :: "job_run list \<Rightarrow> db \<Rightarrow> db" where
  "add_runs rs d = d\<lparr>db_runs := db_runs d @ rs\<rparr>"

definition upd_job :: "string \<Rightarrow> (job \<Rightarrow> job) \<Rightarrow> db \<Rightarrow> db" where
  "upd_job k f d = d\<lparr>db_jobs := row_upd j_id k f (db_jobs d)\<rparr>"

definition put_job :: "job \<Rightarrow> db \<Rightarrow> db" where
  "put_job j d = upd_job (j_id j) (\<lambda>_. j) d"

definition add_job :: "job \<Rightarrow> db \<Rightarrow> db" where
  "add_job j d = d\<lparr>db_jobs := db_jobs d @ [j]\<rparr>"

definition add_dep :: "job_dependency \<Rightarrow> db \<Rightarrow> db" where
  "add_dep x d = d\<lparr>db_deps := db_deps d @ [x]\<rparr>"

lemmas write_defs = add_logs_def upd_run_def add_runs_def upd_job_def add_dep_def

lemma add_logs_frame [simp]:
  "db_users (add_logs ls d) = db_users d" "db_jobs (add_logs ls d) = db_jobs d"
  "db_runs (add_logs ls d) = db_runs d" "db_deps (add_logs ls d) = db_deps d"
  "db_logs (add_logs ls d) = db_logs d @ ls"
  by (simp_all add: add_logs_def)

lemma upd_run_frame [simp]:
  "db_users (upd_run k f d) = db_users d" "db_jobs (upd_run k f d) = db_jobs d"
  "db_logs (upd_run k f d) = db_logs d" "db_deps (upd_run k f d) = db_deps d"
  "db_runs (upd_run k f d) = row_upd r_id k f (db_runs d)"
  by (simp_all add: upd_run_def)

lemma add_runs_frame [simp]:
  "db_users (add_runs rs d) = db_users d" "db_jobs (add_runs rs d) = db_jobs d"
  "db_logs (add_runs rs d) = db_logs d" "db_deps (add_runs rs d) = db_deps d"
  "db_runs (add_runs rs d) = db_runs d @ rs"
  by (simp_all add: add_runs_def)

lemma upd_job_frame [simp]:
  "db_users (upd_job k f d) = db_users d" "db_runs (upd_job k f d) = db_runs d"
  "db_logs (upd_job k f d) = db_logs d" "db_deps (upd_job k f d) = db_deps d"
  "db_jobs (upd_job k f d) = row_upd j_id k f (db_jobs d)"
  by (simp_all add: upd_job_def)

lemma put_job_frame [simp]:
  "db_users (put_job j d) = db_users d" "db_runs (put_job j d) = db_runs d"
  "db_logs (put_job j d) = db_logs d" "db_deps (put_job j d) = db_deps d"
  "db_jobs (put_job j d) = row_upd j_id (j_id j) (\<lambda>_. j) (db_jobs d)"
  by (simp_all add: put_job_def)

lemma add_job_frame [simp]:
  "db_users (add_job j d) = db_users d" "db_runs (add_job j d) = db_runs d"
  "db_logs (add_job j d) = db_logs d" "db_deps (add_job j d) = db_deps d"
  "db_jobs (add_job j d) = db_jobs d @ [j]"
  by (simp_all add: add_job_def)

lemma add_dep_frame [simp]:
  "db_users (add_dep x d) = db_users d" "db_runs (add_dep x d) = db_runs d"
  "db_logs (add_dep x d) = db_logs d" "db_jobs (add_dep x d) = db_jobs d"
  "db_deps (add_dep x d) = db_deps d @ [x]"
  by (simp_all add: add_dep_def)

lemma JobLog_simps [simp]:
  "l_id (JobLog st k lv sm m) = fst st" "l_job_run_id (JobLog st k lv sm m) = k"
  "l_log_level (JobLog st k lv sm m) = lv" "l_stream (JobLog st k lv sm m) = sm"
  "l_message (JobLog st k lv sm m) = m" "l_created_at (JobLog st k lv sm m) = snd st"
  by (simp_all add: JobLog_def)

text \<open>The lookups after a write.\<close>

lemma get_run_row_add_logs [rows]: "get_run_row k (add_logs ls d) = get_run_row k d"
  by (simp add: get_run_row_def)

lemma get_job_row_frames [rows]:
  "get_job_row k (add_logs ls d) = get_job_row k d"
  "get_job_row k (upd_run k' f d) = get_job_row k d"
  "get_job_row k (add_runs rs d) = get_job_row k d"
  by (simp_all add: get_job_row_def)

lemma run_job_frames [rows]:
  "run_job (add_logs ls d) r = run_job d r"
  "run_job (upd_run k' f d) r = run_job d r"
  "run_job (add_runs rs d) r = run_job d r"
  by (simp_all add: run_job_def get_job_row_frames)

lemma get_run_row_upd_run [rows]:
  assumes "\<And>r. r_id r = k' \<Longrightarrow> r_id (f r) = k'"
  shows "get_run_row k (upd_run k' f d)
         = (if k = k' then map_option f (get_run_row k d) else get_run_row k d)"
  unfolding get_run_row_def repo_get_def upd_run_frame by (rule row_get_upd) (rule assms)

lemma put_run_frame [simp]:
  "db_users (put_run r d) = db_users d" "db_jobs (put_run r d) = db_jobs d"
  "db_logs (put_run r d) = db_logs d" "db_deps (put_run r d) = db_deps d"
  "db_runs (put_run r d) = row_upd r_id (r_id r) (\<lambda>_. r) (db_runs d)"
  by (simp_all add: put_run_def)

lemma get_run_row_put_run [rows]:
  "get_run_row k (put_run r d)
   = (if k = r_id r then map_option (\<lambda>_. r) (get_run_row k d) else get_run_row k d)"
  unfolding put_run_def by (rule get_run_row_upd_run) simp

lemma get_job_row_put_run [rows]:
  "get_job_row k (put_run r d) = get_job_row k d" "run_job (put_run r d) s = run_job d s"
  by (simp_all add: put_run_def rows)

lemma get_run_row_add_runs [rows]:
  "get_run_row k (add_runs rs d)
   = (case get_run_row k d of None \<Rightarrow> row_get r_id k rs | Some r \<Rightarrow> Some r)"
  by (simp add: get_run_row_def repo_get_def row_get_append)

lemma get_job_row_put_job [rows]:
  "get_job_row k (put_job j d)
   = (if k = j_id j then map_option (\<lambda>_. j) (get_job_row k d) else get_job_row k d)"
  unfolding get_job_row_def repo_get_def put_job_frame by (rule row_get_upd) simp

lemma get_run_row_SomeD: "get_run_row k d = Some r \<Longrightarrow> r \<in> set (db_runs d) \<and> r_id r = k"
  unfolding get_run_row_def by (rule runs.get_SomeD)

lemma get_job_row_SomeD: "get_job_row k d = Some j \<Longrightarrow> j \<in> set (db_jobs d) \<and> j_id j = k"
  unfolding get_job_row_def by (rule jobs.get_SomeD)

lemma get_run_row_iff:
  "valid d \<Longrightarrow> get_run_row k d = Some r \<longleftrightarrow> r \<in> set (db_runs d) \<and> r_id r = k"
  unfolding get_run_row_def by (rule runs.get_iff) (simp add: valid_def db_ok_def)

lemma get_job_row_iff:
  "valid d \<Longrightarrow> get_job_row k d = Some j \<longleftrightarrow> j \<in> set (db_jobs d) \<and> j_id j = k"
  unfolding get_job_row_def by (rule jobs.get_iff) (simp add: valid_def db_ok_def)

end
