(* ===== verification/RunLifecycle.thy ===== *)
theory RunLifecycle
  imports Store
begin

text \<open>
  The \<open>JobRun\<close> domain model (\<open>app/domain/entities/job_run.py\<close>): starting and completing
  a run, with the duration computed in floating point, and its derived properties. Clock
  readings are arguments; a datetime argument may be naive.
\<close>

section \<open>Construction\<close>

text \<open>The column defaults of a new row (status pending, trigger schedule, no retries, 300
  seconds), the primary key and creation time drawn from the stamp.\<close>

definition JobRun :: "stamp \<Rightarrow> string \<Rightarrow> job_run" where
  "JobRun st job_id =
     \<lparr>r_id = fst st, r_job_id = job_id, r_status = ''pending'', r_user_id = None,
      r_trigger_type = ''schedule'', r_triggered_by = None, r_worker_id = None,
      r_locked_by = None, r_locked_until = None, r_start_time = None, r_end_time = None,
      r_heartbeat_at = None, r_duration_seconds = None, r_duration_seconds_decimal = None,
      r_duration_ms = None, r_retry_count = 0, r_task_type = None, r_script = None,
      r_working_dir = None, r_action_type = None, r_action_payload = None,
      r_timeout_seconds = Some 300, r_stdout = None, r_stderr = None, r_error_message = None,
      r_metadata_json = None, r_created_at = snd st\<rparr>"

lemma JobRun_simps [simp]:
  "r_id (JobRun st k) = fst st" "r_job_id (JobRun st k) = k" "r_status (JobRun st k) = ''pending''"
  "r_trigger_type (JobRun st k) = ''schedule''" "r_triggered_by (JobRun st k) = None"
  "r_worker_id (JobRun st k) = None" "r_locked_by (JobRun st k) = None"
  "r_locked_until (JobRun st k) = None" "r_start_time (JobRun st k) = None"
  "r_end_time (JobRun st k) = None" "r_heartbeat_at (JobRun st k) = None"
  "r_retry_count (JobRun st k) = 0" "r_user_id (JobRun st k) = None"
  "r_duration_seconds (JobRun st k) = None" "r_duration_seconds_decimal (JobRun st k) = None"
  "r_duration_ms (JobRun st k) = None" "r_task_type (JobRun st k) = None"
  "r_script (JobRun st k) = None" "r_working_dir (JobRun st k) = None"
  "r_action_type (JobRun st k) = None" "r_action_payload (JobRun st k) = None"
  "r_timeout_seconds (JobRun st k) = Some 300" "r_stdout (JobRun st k) = None"
  "r_stderr (JobRun st k) = None" "r_error_message (JobRun st k) = None"
  "r_metadata_json (JobRun st k) = None" "r_created_at (JobRun st k) = snd st"
  by (simp_all add: JobRun_def)

section \<open>Starting\<close>

definition start :: "datetime option \<Rightarrow> datetime \<Rightarrow> job_run \<Rightarrow> job_run" where
  "start start_time utcnow r =
     (let now = as_aware (case start_time of None \<Rightarrow> utcnow | Some t \<Rightarrow> t) in
      r\<lparr>r_start_time := (case r_start_time r of None \<Rightarrow> Some now | Some s \<Rightarrow> Some s),
        r_heartbeat_at := Some now,
        r_status := ''running''\<rparr>)"

section \<open>Completing\<close>

text \<open>The three duration columns from the microseconds between start and end, in Python's
  float arithmetic: \<open>total_seconds()\<close> is a correctly rounded division.\<close>

definition elapsed_seconds :: "int \<Rightarrow> rat" where
  "elapsed_seconds us = max (fl (1 / 1000)) (fl (of_int us / 1000000))"

definition elapsed_ms :: "int \<Rightarrow> int" where
  "elapsed_ms us = max 1 (round_half_even (fl (elapsed_seconds us * 1000)))"

definition elapsed_decimal :: "int \<Rightarrow> rat" where
  "elapsed_decimal us = py_round3 (fl (of_int (elapsed_ms us) / 1000))"

definition elapsed_whole :: "int \<Rightarrow> int" where
  "elapsed_whole us = max 1 \<lceil>elapsed_seconds us\<rceil>"

definition set_duration :: "int \<Rightarrow> job_run \<Rightarrow> job_run" where
  "set_duration us r =
     r\<lparr>r_duration_ms := Some (elapsed_ms us),
       r_duration_seconds_decimal := Some (elapsed_decimal us),
       r_duration_seconds := Some (elapsed_whole us)\<rparr>"

definition complete :: "datetime option \<Rightarrow> datetime \<Rightarrow> job_run \<Rightarrow> job_run result" where
  "complete end_time utcnow r =
     (let e = as_aware (case end_time of None \<Rightarrow> utcnow | Some t \<Rightarrow> t);
          r1 = r\<lparr>r_end_time := Some e, r_heartbeat_at := Some e,
                 r_locked_by := None, r_locked_until := None\<rparr> in
      case r_start_time r of
        None \<Rightarrow> Inr r1
      | Some s \<Rightarrow>
          (let st = as_aware s in
           bind_result (sub_datetime e st) (\<lambda>us. Inr (set_duration us r1))))"

section \<open>Derived properties\<close>

datatype py_number = PyInt int | PyFloat rat

definition duration :: "job_run \<Rightarrow> py_number option" where
  "duration r =
     (case r_duration_seconds_decimal r of
        Some q \<Rightarrow> Some (PyFloat q)
      | None \<Rightarrow>
          (case r_duration_ms r of
             Some ms \<Rightarrow> Some (PyFloat (py_round3 (fl (of_int ms / 1000))))
           | None \<Rightarrow> map_option PyInt (r_duration_seconds r)))"

definition run_task_name :: "db \<Rightarrow> job_run \<Rightarrow> string option" where
  "run_task_name d r = (case run_job d r of None \<Rightarrow> Some ''Unknown'' | Some j \<Rightarrow> j_task_name j)"

text \<open>\<open>job.user\<close>, the creator's name, and \<open>run.user\<close>.\<close>

definition job_user :: "db \<Rightarrow> job \<Rightarrow> string" where
  "job_user d j =
     (case j_user_id j of None \<Rightarrow> ''system''
      | Some uid \<Rightarrow> (case get_user uid d of None \<Rightarrow> ''system'' | Some u \<Rightarrow> u_username u))"

definition run_user :: "db \<Rightarrow> job_run \<Rightarrow> string" where
  "run_user d r =
     (case (r_triggered_by r = Some ''scheduler'', run_job d r) of
        (True, Some j) \<Rightarrow> job_user d j
      | _ \<Rightarrow> (if truthy_str (r_triggered_by r) then the (r_triggered_by r) else ''system''))"

section \<open>Completion never fails\<close>

text \<open>Both operands of the subtraction are made aware first, so the \<open>TypeError\<close> of a mixed
  subtraction cannot happen: \<open>complete\<close> is total, and this is what it computes.\<close>

definition completed :: "datetime \<Rightarrow> job_run \<Rightarrow> job_run" where
  "completed e r =
     (let r1 = r\<lparr>r_end_time := Some (Aware (instant e)), r_heartbeat_at := Some (Aware (instant e)),
                 r_locked_by := None, r_locked_until := None\<rparr> in
      case r_start_time r of None \<Rightarrow> r1 | Some s \<Rightarrow> set_duration (instant e - instant s) r1)"

lemma complete_eq [simp]: "complete (Some e) utcnow r = Inr (completed e r)"
  by (simp add: complete_def completed_def Let_def split: option.split)

lemma complete_None [simp]: "complete None utcnow r = Inr (completed utcnow r)"
  by (simp add: complete_def completed_def Let_def split: option.split)

lemma start_simps [simp]:
  "r_id (start t n r) = r_id r" "r_job_id (start t n r) = r_job_id r"
  "r_status (start t n r) = ''running''" "r_user_id (start t n r) = r_user_id r"
  "r_trigger_type (start t n r) = r_trigger_type r" "r_triggered_by (start t n r) = r_triggered_by r"
  "r_worker_id (start t n r) = r_worker_id r" "r_locked_by (start t n r) = r_locked_by r"
  "r_locked_until (start t n r) = r_locked_until r" "r_end_time (start t n r) = r_end_time r"
  "r_retry_count (start t n r) = r_retry_count r" "r_task_type (start t n r) = r_task_type r"
  "r_script (start t n r) = r_script r" "r_working_dir (start t n r) = r_working_dir r"
  "r_action_type (start t n r) = r_action_type r" "r_action_payload (start t n r) = r_action_payload r"
  "r_timeout_seconds (start t n r) = r_timeout_seconds r" "r_stdout (start t n r) = r_stdout r"
  "r_stderr (start t n r) = r_stderr r" "r_error_message (start t n r) = r_error_message r"
  "r_metadata_json (start t n r) = r_metadata_json r" "r_created_at (start t n r) = r_created_at r"
  "r_duration_ms (start t n r) = r_duration_ms r"
  "r_duration_seconds (start t n r) = r_duration_seconds r"
  "r_duration_seconds_decimal (start t n r) = r_duration_seconds_decimal r"
  by (simp_all add: start_def Let_def)

lemma start_time_start [simp]:
  "r_start_time (start t n r)
   = Some (case r_start_time r of Some s \<Rightarrow> s
           | None \<Rightarrow> Aware (instant (case t of None \<Rightarrow> n | Some t \<Rightarrow> t)))"
  by (simp add: start_def Let_def split: option.split)

lemma set_duration_simps [simp]:
  "r_id (set_duration us r) = r_id r" "r_job_id (set_duration us r) = r_job_id r"
  "r_status (set_duration us r) = r_status r" "r_user_id (set_duration us r) = r_user_id r"
  "r_trigger_type (set_duration us r) = r_trigger_type r"
  "r_triggered_by (set_duration us r) = r_triggered_by r"
  "r_worker_id (set_duration us r) = r_worker_id r" "r_locked_by (set_duration us r) = r_locked_by r"
  "r_locked_until (set_duration us r) = r_locked_until r"
  "r_start_time (set_duration us r) = r_start_time r" "r_end_time (set_duration us r) = r_end_time r"
  "r_heartbeat_at (set_duration us r) = r_heartbeat_at r"
  "r_retry_count (set_duration us r) = r_retry_count r"
  "r_task_type (set_duration us r) = r_task_type r" "r_script (set_duration us r) = r_script r"
  "r_working_dir (set_duration us r) = r_working_dir r"
  "r_action_type (set_duration us r) = r_action_type r"
  "r_action_payload (set_duration us r) = r_action_payload r"
  "r_timeout_seconds (set_duration us r) = r_timeout_seconds r"
  "r_stdout (set_duration us r) = r_stdout r" "r_stderr (set_duration us r) = r_stderr r"
  "r_error_message (set_duration us r) = r_error_message r"
  "r_metadata_json (set_duration us r) = r_metadata_json r"
  "r_created_at (set_duration us r) = r_created_at r"
  "r_duration_ms (set_duration us r) = Some (elapsed_ms us)"
  "r_duration_seconds (set_duration us r) = Some (elapsed_whole us)"
  "r_duration_seconds_decimal (set_duration us r) = Some (elapsed_decimal us)"
  by (simp_all add: set_duration_def)

lemma completed_simps [simp]:
  "r_id (completed e r) = r_id r" "r_job_id (completed e r) = r_job_id r"
  "r_status (completed e r) = r_status r" "r_user_id (completed e r) = r_user_id r"
  "r_trigger_type (completed e r) = r_trigger_type r"
  "r_triggered_by (completed e r) = r_triggered_by r"
  "r_worker_id (completed e r) = r_worker_id r" "r_locked_by (completed e r) = None"
  "r_locked_until (completed e r) = None" "r_start_time (completed e r) = r_start_time r"
  "r_end_time (completed e r) = Some (Aware (instant e))"
  "r_heartbeat_at (completed e r) = Some (Aware (instant e))"
  "r_retry_count (completed e r) = r_retry_count r" "r_task_type (completed e r) = r_task_type r"
  "r_script (completed e r) = r_script r" "r_working_dir (completed e r) = r_working_dir r"
  "r_action_type (completed e r) = r_action_type r"
  "r_action_payload (completed e r) = r_action_payload r"
  "r_timeout_seconds (completed e r) = r_timeout_seconds r"
  "r_stdout (completed e r) = r_stdout r" "r_stderr (completed e r) = r_stderr r"
  "r_error_message (completed e r) = r_error_message r"
  "r_metadata_json (completed e r) = r_metadata_json r"
  "r_created_at (completed e r) = r_created_at r"
  by (simp_all add: completed_def Let_def split: option.split)

section \<open>The duration columns\<close>

lemma elapsed_ms_ge_1: "1 \<le> elapsed_ms us"
  by (simp add: elapsed_ms_def)

lemma elapsed_whole_ge_1: "1 \<le> elapsed_whole us"
  by (simp add: elapsed_whole_def)

lemma fl_milli: "fl (1 / 1000) \<le> 1001 / 1000000" "0 < fl (1 / 1000)"
proof -
  have "\<bar>fl (1 / 1000) - 1 / 1000\<bar> \<le> (1 / 1000) / 9007199254740992" by (rule fl_rel_error) simp
  then show "fl (1 / 1000) \<le> 1001 / 1000000" "0 < fl (1 / 1000)" by linarith+
qed

text \<open>From two milliseconds up the lower bound of \<open>max(0.001, ...)\<close> plays no part.\<close>

lemma elapsed_seconds_eq:
  assumes "2000 \<le> us"
  shows "elapsed_seconds us = fl (of_int us / 1000000)"
proof -
  have "(of_int 2000 :: rat) \<le> of_int us" using assms by (simp only: of_int_le_iff)
  then have x: "2000 / 1000000 \<le> (of_int us / 1000000 :: rat)" by simp
  have "\<bar>fl (of_int us / 1000000) - of_int us / 1000000\<bar> \<le> (of_int us / 1000000) / 9007199254740992"
    by (rule fl_rel_error) (use assms in simp)
  then have "1001 / 1000000 \<le> fl (of_int us / 1000000)" using x by linarith
  then show ?thesis using fl_milli(1) by (simp add: elapsed_seconds_def)
qed

lemma elapsed_ms_nearest:
  assumes "2000 \<le> us" and "us \<le> 2 ^ 30 * 1000000"
  shows "\<bar>1000 * elapsed_ms us - us\<bar> \<le> 500"
proof -
  have "\<bar>1000 * round_half_even (fl (fl (of_int us / 1000000) * 1000)) - us\<bar> \<le> 500"
    using assms by (intro round_fl_milliseconds) simp_all
  then show ?thesis using assms(1) by (simp add: elapsed_ms_def elapsed_seconds_eq [OF assms(1)])
qed

lemma elapsed_whole_ceiling:
  assumes "2000 \<le> us" and "us \<le> 2 ^ 30 * 1000000"
  shows "elapsed_whole us = \<lceil>(of_int us / 1000000 :: rat)\<rceil>"
proof -
  have "0 < (of_int us / 1000000 :: rat)" using assms(1) by simp
  then have "1 \<le> \<lceil>(of_int us / 1000000 :: rat)\<rceil>" by (simp add: one_le_ceiling)
  then show ?thesis using ceiling_fl_seconds [of us] assms
    by (simp add: elapsed_whole_def elapsed_seconds_eq [OF assms(1)])
qed

lemma elapsed_decimal_eq:
  assumes "elapsed_ms us \<le> 2 ^ 50"
  shows "elapsed_decimal us = fl (of_int (elapsed_ms us) / 1000)"
  using py_round3_ms [of "elapsed_ms us"] elapsed_ms_ge_1 [of us] assms
  by (simp add: elapsed_decimal_def)

end
