(* ===== verification/Schedule.thy ===== *)
theory Schedule
  imports PyValues
begin

text \<open>
  Schedule rules (\<open>app/services/schedule_utils.py\<close> and the schedule properties of
  \<open>Job\<close> in \<open>app/domain/entities/job.py\<close>): choosing the canonical rule string from a
  request, computing the next run, and reading the rule back. The croniter package is the
  parameter \<open>cron_lib\<close>: validity of an expression, and the next time after a base
  (\<open>None\<close> when \<open>get_next\<close> raises \<open>CroniterBadDateError\<close>, a \<open>ValueError\<close>).
  Every reading of the clock is an argument.
\<close>

record cron_lib =
  cron_is_valid :: "string \<Rightarrow> bool"
  cron_get_next :: "string \<Rightarrow> datetime \<Rightarrow> datetime option"

section \<open>Choosing the rule\<close>

definition resolve_schedule_rule ::
  "string option \<Rightarrow> string option \<Rightarrow> int option \<Rightarrow> string option \<Rightarrow> string" where
  "resolve_schedule_rule schedule_type cron_expression interval_seconds current_rule =
     (if \<not> truthy_str schedule_type then the (or_str current_rule (Some ''manual''))
      else if schedule_type = Some ''manual'' then ''manual''
      else if schedule_type = Some ''cron'' then the (or_str cron_expression (Some ''''))
      else if schedule_type = Some ''interval''
        then ''every:'' @ opt_int_str interval_seconds @ ''s''
      else the (or_str current_rule (Some ''manual'')))"

section \<open>The next run\<close>

definition int_or_raise :: "string \<Rightarrow> int result" where
  "int_or_raise s = (case py_int s of None \<Rightarrow> Inl (ValueError ''invalid literal for int()'')
                     | Some n \<Rightarrow> Inr n)"

definition compute_next_run ::
  "cron_lib \<Rightarrow> string \<Rightarrow> datetime option \<Rightarrow> datetime \<Rightarrow> datetime result" where
  "compute_next_run cron schedule_rule base_time utcnow =
     (let base = (case base_time of None \<Rightarrow> utcnow | Some b \<Rightarrow> b);
          rule = strip schedule_rule in
      if startswith rule ''every:'' then
        (let value = strip (after_colon rule) in
         if endswith value ''m'' then
           bind_result (int_or_raise (butlast value)) (\<lambda>n. add_timedelta base (n * minute_us))
         else if endswith value ''h'' then
           bind_result (int_or_raise (butlast value)) (\<lambda>n. add_timedelta base (n * hour_us))
         else if endswith value ''s'' then
           bind_result (int_or_raise (butlast value)) (\<lambda>n. add_timedelta base (n * second_us))
         else Inl (ValueError ''Unsupported every format. Use every:5m, every:1h, or every:30s''))
      else if cron_is_valid cron rule then
        (case cron_get_next cron rule base of
           None \<Rightarrow> Inl (ValueError ''CroniterBadDateError'')
         | Some d \<Rightarrow> Inr d)
      else Inl (ValueError ''Unsupported schedule_rule. Use every:5m or cron expression like 0 2 * * *''))"

section \<open>Reading a rule back\<close>

definition schedule_type :: "string \<Rightarrow> string" where
  "schedule_type schedule_rule =
     (if schedule_rule = ''manual'' then ''manual''
      else if startswith schedule_rule ''every:'' then ''interval''
      else ''cron'')"

definition cron_expression :: "string \<Rightarrow> string option" where
  "cron_expression schedule_rule =
     (if schedule_type schedule_rule = ''cron'' then Some schedule_rule else None)"

definition interval_seconds :: "string \<Rightarrow> int option result" where
  "interval_seconds schedule_rule =
     (if schedule_type schedule_rule \<noteq> ''interval'' then Inr None
      else
        (let value = strip (after_colon schedule_rule) in
         if endswith value ''s'' then bind_result (int_or_raise (butlast value)) (\<lambda>n. Inr (Some n))
         else if endswith value ''m'' then
           bind_result (int_or_raise (butlast value)) (\<lambda>n. Inr (Some (n * 60)))
         else if endswith value ''h'' then
           bind_result (int_or_raise (butlast value)) (\<lambda>n. Inr (Some (n * 3600)))
         else Inr None))"

section \<open>Shape of rules\<close>

lemma after_colon_every [simp]: "after_colon (''every:'' @ v) = v"
  by (simp add: after_colon_def)

lemma startswith_every: "startswith r ''every:'' \<Longrightarrow> \<exists>v. r = ''every:'' @ v"
  by (blast dest: startswith_split)

definition rstrip :: "string \<Rightarrow> string" where
  "rstrip s = rev (dropWhile is_space (rev s))"

lemma dropWhile_append_stop: "\<not> P c \<Longrightarrow> dropWhile P (xs @ c # ys) = dropWhile P xs @ c # ys"
  by (induction xs) auto

lemma strip_every: "strip (''every:'' @ v) = ''every:'' @ rstrip v"
proof -
  have "dropWhile is_space (rev v @ CHR '':'' # ''yreve'') = dropWhile is_space (rev v) @ CHR '':'' # ''yreve''"
    by (rule dropWhile_append_stop) (simp add: is_space_def)
  then show ?thesis by (simp add: strip_def rstrip_def is_space_def)
qed

lemma strip_rstrip: "strip (rstrip v) = strip v"
proof -
  let ?P = is_space
  have "\<exists>a b. v = a @ b \<and> rstrip v = a \<and> (\<forall>c \<in> set b. ?P c) \<and> (a = [] \<or> \<not> ?P (last a))"
  proof (intro exI conjI)
    show "v = rstrip v @ rev (takeWhile ?P (rev v))"
      unfolding rstrip_def by (metis rev_append rev_rev_ident takeWhile_dropWhile_id)
    show "rstrip v = rstrip v" by simp
    show "\<forall>c \<in> set (rev (takeWhile ?P (rev v))). ?P c" by (auto dest: set_takeWhileD)
    show "rstrip v = [] \<or> \<not> ?P (last (rstrip v))"
      unfolding rstrip_def by (metis hd_dropWhile last_rev rev_is_Nil_conv)
  qed
  then obtain a b where v: "v = a @ b" and r: "rstrip v = a" and b: "\<forall>c \<in> set b. ?P c"
    and a: "a = [] \<or> \<not> ?P (last a)" by blast
  show ?thesis
  proof (cases "a = []")
    case True
    then show ?thesis using b r by (auto simp: strip_def v dest: set_dropWhileD)
  next
    case False
    then obtain p where p: "p \<in> set a" "\<not> ?P p" using a last_in_set by blast
    have 1: "dropWhile ?P (a @ b) = dropWhile ?P a @ b" using p by (simp add: dropWhile_append1)
    have 2: "dropWhile ?P (rev b @ rev (dropWhile ?P a)) = dropWhile ?P (rev (dropWhile ?P a))"
      using b by (intro dropWhile_append2) auto
    show ?thesis unfolding r by (simp add: strip_def v 1 2)
  qed
qed

text \<open>The value part of an interval rule, as both readers see it.\<close>

lemma every_value:
  assumes "startswith rule ''every:''"
  shows "startswith (strip rule) ''every:''" and "strip (after_colon (strip rule)) = strip (after_colon rule)"
proof -
  obtain v where v: "rule = ''every:'' @ v" using startswith_every [OF assms] by blast
  show "startswith (strip rule) ''every:''" unfolding v strip_every by simp
  show "strip (after_colon (strip rule)) = strip (after_colon rule)"
    unfolding v strip_every after_colon_every by (rule strip_rstrip)
qed

lemma every_int_s_strip: "strip (int_str n @ ''s'') = int_str n @ ''s''"
proof (rule strip_id)
  show "\<not> is_space (hd (int_str n @ ''s''))"
    using digit_not_space [OF hd_last_nat_str(1)] by (simp add: int_str_def is_space_def)
qed (simp_all add: is_space_def)

lemma every_int_s_rstrip: "rstrip (int_str n @ ''s'') = int_str n @ ''s''"
  by (simp add: rstrip_def is_space_def)

section \<open>Round trips and agreement of the two readers\<close>

lemma interval_rule_type: "schedule_type (''every:'' @ v) = ''interval''"
  by (simp add: schedule_type_def)

lemma interval_seconds_every_int:
  assumes "\<bar>n\<bar> < 10 ^ int_max_str_digits"
  shows "interval_seconds (''every:'' @ int_str n @ ''s'') = Inr (Some n)"
  using every_int_s_strip [of n]
  by (simp only: interval_seconds_def interval_rule_type after_colon_every Let_def)
     (simp add: int_or_raise_def py_int_int_str [OF assms])

lemma interval_seconds_agrees:
  assumes "schedule_type rule = ''interval''"
  shows "compute_next_run cron rule (Some base) utcnow =
     (case interval_seconds rule of
        Inl e \<Rightarrow> Inl e
      | Inr None \<Rightarrow> Inl (ValueError ''Unsupported every format. Use every:5m, every:1h, or every:30s'')
      | Inr (Some k) \<Rightarrow> add_timedelta base (k * second_us))"
proof -
  have e: "startswith rule ''every:''"
    using assms by (auto simp: schedule_type_def split: if_splits)
  define v where "v = strip (after_colon rule)"
  have v': "strip (after_colon (strip rule)) = v" unfolding v_def by (rule every_value(2) [OF e])
  note st = every_value(1) [OF e]
  show ?thesis
  proof (cases v rule: rev_cases)
    case Nil
    then show ?thesis
      by (simp add: compute_next_run_def interval_seconds_def assms st v' v_def [symmetric] Let_def)
  next
    case (snoc w c)
    show ?thesis
      by (auto simp: compute_next_run_def interval_seconds_def assms st v' v_def [symmetric] snoc
            us_defs int_or_raise_def mult.assoc Let_def split: option.splits)
  qed
qed

lemma compute_next_run_interval:
  assumes "\<bar>n\<bar> < 10 ^ int_max_str_digits"
  shows "compute_next_run cron (''every:'' @ int_str n @ ''s'') (Some base) utcnow
         = add_timedelta base (n * second_us)"
  using interval_seconds_agrees [OF interval_rule_type, of cron "int_str n @ ''s''" base utcnow]
  by (simp only: interval_seconds_every_int [OF assms]) simp

lemma compute_next_run_None:
  "compute_next_run cron rule None utcnow = compute_next_run cron rule (Some utcnow) utcnow"
  by (simp add: compute_next_run_def)

lemma resolve_interval:
  "resolve_schedule_rule (Some ''interval'') c (Some n) cur = ''every:'' @ int_str n @ ''s''"
  by (simp add: resolve_schedule_rule_def opt_int_str_def)

end
