(* ===== verification/JobDomain.thy ===== *)
theory JobDomain
  imports RunLifecycle Schedule
begin

text \<open>
  The \<open>Job\<close> domain model (\<open>app/domain/entities/job.py\<close>): the dependency check and
  \<open>sync_domain_logic\<close>, which keeps \<open>enabled\<close>, \<open>next_run_at\<close> and the payload in step
  with status and schedule rule, and the derived properties of a job.
\<close>

section \<open>Dependencies\<close>

text \<open>The latest run of a job: \<open>order_by(created_at.desc()).first()\<close>.\<close>

definition latest_run :: "db \<Rightarrow> string \<Rightarrow> job_run option" where
  "latest_run d job_id =
     first_by (\<lambda>r. - instant (r_created_at r)) (filter (\<lambda>r. r_job_id r = job_id) (db_runs d))"

definition deps_of :: "db \<Rightarrow> string \<Rightarrow> job_dependency list" where
  "deps_of d job_id = filter (\<lambda>x. d_job_id x = job_id) (db_deps d)"

fun check_deps :: "db \<Rightarrow> job_dependency list \<Rightarrow> bool" where
  "check_deps d [] = True"
| "check_deps d (dep # deps) =
     (case latest_run d (d_depends_on_job_id dep) of
        None \<Rightarrow> False
      | Some r \<Rightarrow> if r_status r \<noteq> d_required_status dep then False else check_deps d deps)"

definition are_dependencies_satisfied :: "db \<Rightarrow> job \<Rightarrow> bool" where
  "are_dependencies_satisfied d j =
     (let deps = deps_of d (j_id j) in if deps = [] then True else check_deps d deps)"

definition depends_on_names :: "db \<Rightarrow> job \<Rightarrow> string option list" where
  "depends_on_names d j =
     map j_task_name (filter (\<lambda>i. \<exists>x \<in> set (deps_of d (j_id j)). d_depends_on_job_id x = j_id i)
       (db_jobs d))"

lemma check_deps_iff:
  "check_deps d deps \<longleftrightarrow>
     (\<forall>x \<in> set deps. \<exists>r. latest_run d (d_depends_on_job_id x) = Some r
                        \<and> r_status r = d_required_status x)"
  by (induction deps) (auto split: option.splits)

lemma satisfied_iff:
  "are_dependencies_satisfied d j \<longleftrightarrow>
     (\<forall>x \<in> set (db_deps d). d_job_id x = j_id j \<longrightarrow>
        (\<exists>r. latest_run d (d_depends_on_job_id x) = Some r \<and> r_status r = d_required_status x))"
  by (auto simp: are_dependencies_satisfied_def check_deps_iff deps_of_def Let_def filter_empty_conv)

lemma latest_run_SomeD:
  assumes "latest_run d k = Some r"
  shows "r \<in> set (db_runs d)" and "r_job_id r = k"
    and "\<forall>s \<in> set (db_runs d). r_job_id s = k \<longrightarrow> instant (r_created_at s) \<le> instant (r_created_at r)"
  using first_by_SomeD [OF assms [unfolded latest_run_def]] by auto

section \<open>Keeping a job consistent\<close>

text \<open>A \<open>ValueError\<close> of the schedule is swallowed (no next run); any other exception, such
  as the \<open>OverflowError\<close> of a huge interval, propagates.\<close>

definition next_run_or_none :: "cron_lib \<Rightarrow> datetime \<Rightarrow> bool \<Rightarrow> string \<Rightarrow> datetime option result" where
  "next_run_or_none cron utcnow enabled schedule_rule =
     (if enabled \<and> schedule_rule \<noteq> [] \<and> schedule_rule \<noteq> ''manual'' then
        (case compute_next_run cron schedule_rule None utcnow of
           Inr t \<Rightarrow> Inr (Some t)
         | Inl (ValueError m) \<Rightarrow> Inr None
         | Inl e \<Rightarrow> Inl e)
      else Inr None)"

definition normal_status :: "string option \<Rightarrow> string option" where
  "normal_status s = (if truthy_str s then s else Some ''enabled'')"

definition sync_domain_logic :: "cron_lib \<Rightarrow> datetime \<Rightarrow> job \<Rightarrow> job result" where
  "sync_domain_logic cron utcnow j =
     (let status = normal_status (j_status j);
          enabled = active_status status in
      bind_result (next_run_or_none cron utcnow enabled (j_schedule_rule j)) (\<lambda>next_run_at.
      Inr (j\<lparr>j_status := status,
             j_enabled := enabled,
             j_next_run_at := next_run_at,
             j_action_payload := (case j_action_payload j of None \<Rightarrow> Some [] | Some p \<Rightarrow> Some p)\<rparr>)))"

section \<open>Derived properties\<close>

definition effective_name :: "job \<Rightarrow> string option" where
  "effective_name j = or_str (j_name j) (j_task_name j)"

definition retry_limit :: "job \<Rightarrow> int option" where
  "retry_limit j = j_max_retry j"

definition job_schedule_type :: "job \<Rightarrow> string" where
  "job_schedule_type j = schedule_type (j_schedule_rule j)"

definition job_cron_expression :: "job \<Rightarrow> string option" where
  "job_cron_expression j = cron_expression (j_schedule_rule j)"

definition job_interval_seconds :: "job \<Rightarrow> int option result" where
  "job_interval_seconds j = interval_seconds (j_schedule_rule j)"

section \<open>What synchronisation establishes\<close>

text \<open>\<open>enabled\<close> mirrors the status, a disabled or manual job has no next run, and a next
  run was computed from the job's own rule.\<close>

definition job_consistent :: "job \<Rightarrow> bool" where
  "job_consistent j \<longleftrightarrow>
     j_enabled j = active_status (j_status j)
     \<and> (j_next_run_at j \<noteq> None \<longrightarrow>
          j_enabled j \<and> j_schedule_rule j \<noteq> [] \<and> j_schedule_rule j \<noteq> ''manual'')
     \<and> j_action_payload j \<noteq> None"

lemma normal_status_idem [simp]: "normal_status (normal_status s) = normal_status s"
  by (simp add: normal_status_def)

lemma normal_status_Some: "s \<noteq> [] \<Longrightarrow> normal_status (Some s) = Some s"
  by (simp add: normal_status_def)

lemma sync_Inr_iff [result_iff]:
  "sync_domain_logic cron now j = Inr j' \<longleftrightarrow>
     (\<exists>n. next_run_or_none cron now (active_status (normal_status (j_status j))) (j_schedule_rule j) = Inr n
        \<and> j' = j\<lparr>j_status := normal_status (j_status j),
                  j_enabled := active_status (normal_status (j_status j)),
                  j_next_run_at := n,
                  j_action_payload := (case j_action_payload j of None \<Rightarrow> Some [] | Some p \<Rightarrow> Some p)\<rparr>)"
  by (auto simp: sync_domain_logic_def Let_def bind_result_Inr_iff)

lemma next_run_SomeD:
  assumes "next_run_or_none cron now enabled rule = Inr (Some t)"
  shows "enabled" "rule \<noteq> []" "rule \<noteq> ''manual''" "compute_next_run cron rule None now = Inr t"
  using assms by (auto simp: next_run_or_none_def split: if_splits sum.splits error.splits)

lemma sync_frame:
  assumes "sync_domain_logic cron now j = Inr j'"
  shows "j_id j' = j_id j" "j_user_id j' = j_user_id j" "j_task_name j' = j_task_name j"
    "j_name j' = j_name j" "j_task_type j' = j_task_type j" "j_action_type j' = j_action_type j"
    "j_schedule_rule j' = j_schedule_rule j" "j_timeout_seconds j' = j_timeout_seconds j"
    "j_max_retry j' = j_max_retry j" "j_script j' = j_script j"
    "j_working_dir j' = j_working_dir j" "j_created_at j' = j_created_at j"
    "j_last_run_at j' = j_last_run_at j" "j_description j' = j_description j"
    "j_status j' = normal_status (j_status j)"
  using assms by (auto simp: sync_Inr_iff)

lemma sync_consistent: "sync_domain_logic cron now j = Inr j' \<Longrightarrow> job_consistent j'"
  by (auto simp: sync_Inr_iff job_consistent_def dest: next_run_SomeD split: option.split)

lemma sync_next_run:
  assumes "sync_domain_logic cron now j = Inr j'" and "j_next_run_at j' = Some t"
  shows "compute_next_run cron (j_schedule_rule j) None now = Inr t"
  using assms by (auto simp: sync_Inr_iff dest: next_run_SomeD)

text \<open>Synchronising twice at the same instant changes nothing.\<close>

lemma sync_idempotent:
  "sync_domain_logic cron now j = Inr j' \<Longrightarrow> sync_domain_logic cron now j' = Inr j'"
  by (cases "j_action_payload j") (auto simp: sync_Inr_iff)

end
