(* ===== verification/Integrity.thy ===== *)
theory Integrity
  imports RunLifecycle
begin

text \<open>
  When a commit succeeds: the writes the services make (new log rows, a flushed run, new runs)
  keep a valid database valid, given stamps whose ids are new. These lemmas carry every
  "this operation cannot fail" property.
\<close>

section \<open>Fresh stamps\<close>

definition used_ids :: "db \<Rightarrow> string list" where
  "used_ids d = map u_id (db_users d) @ map j_id (db_jobs d) @ map r_id (db_runs d)
     @ map l_id (db_logs d) @ map d_id (db_deps d)"

text \<open>The first \<open>n\<close> ids the environment supplies are distinct, new, and fit their column,
  as \<open>uuid4\<close> texts do.\<close>

definition fresh_stamps :: "nat \<Rightarrow> stamps \<Rightarrow> db \<Rightarrow> bool" where
  "fresh_stamps n st d \<longleftrightarrow>
     distinct (map (\<lambda>i. fst (st i)) [0..<n])
     \<and> list_all (\<lambda>i. fst (st i) \<notin> set (used_ids d) \<and> varchar 36 (fst (st i))) [0..<n]"

lemma fresh_stampsD:
  assumes "fresh_stamps n st d" and "i < n"
  shows "fst (st i) \<notin> u_id ` set (db_users d)" "fst (st i) \<notin> j_id ` set (db_jobs d)"
    "fst (st i) \<notin> r_id ` set (db_runs d)" "fst (st i) \<notin> l_id ` set (db_logs d)"
    "fst (st i) \<notin> d_id ` set (db_deps d)" "varchar 36 (fst (st i))"
  using assms by (auto simp: fresh_stamps_def used_ids_def list_all_iff)

lemma fresh_stamps_inj:
  assumes "fresh_stamps n st d" and "i < n" and "k < n" and "i \<noteq> k"
  shows "fst (st i) \<noteq> fst (st k)"
proof -
  have "inj_on (\<lambda>i. fst (st i)) {0..<n}"
    using assms(1) by (simp add: fresh_stamps_def distinct_map)
  then show ?thesis using assms(2-4) by (auto dest: inj_onD)
qed

lemma fresh_stamps_mono:
  assumes "fresh_stamps n st d" and "m \<le> n"
  shows "fresh_stamps m st d"
proof -
  have "[0..<n] = [0..<m] @ [m..<n]" using assms(2) by (metis le_add_diff_inverse upt_add_eq_append zero_le)
  then show ?thesis using assms(1) by (simp add: fresh_stamps_def)
qed

section \<open>Writes that keep the database valid\<close>

definition fk_run :: "db \<Rightarrow> job_run \<Rightarrow> bool" where
  "fk_run d r \<longleftrightarrow> in_table j_id (db_jobs d) (r_job_id r)
     \<and> opt_ok (in_table u_id (db_users d)) (r_user_id r)"

definition run_valid :: "db \<Rightarrow> job_run \<Rightarrow> bool" where
  "run_valid d r \<longleftrightarrow> run_ok r \<and> run_fits r \<and> fk_run d r"

definition log_valid :: "db \<Rightarrow> job_log \<Rightarrow> bool" where
  "log_valid d l \<longleftrightarrow> log_ok l \<and> log_fits l \<and> in_table r_id (db_runs d) (l_job_run_id l)"

lemmas valid_unfold = valid_def db_ok_def db_fits_def rows_ok_def keys_ok_def unique_ok_def
  fks_ok_def list_all_iff

lemma valid_run: "valid d \<Longrightarrow> r \<in> set (db_runs d) \<Longrightarrow> run_valid d r"
  by (simp add: valid_unfold run_valid_def fk_run_def)

lemma valid_job: "valid d \<Longrightarrow> j \<in> set (db_jobs d) \<Longrightarrow> job_ok j \<and> job_fits j"
  by (simp add: valid_unfold)

text \<open>The part about users, jobs and dependencies, which run and log writes do not touch.\<close>

definition base_valid :: "user list \<Rightarrow> job list \<Rightarrow> job_dependency list \<Rightarrow> bool" where
  "base_valid us js ds \<longleftrightarrow>
     valid \<lparr>db_users = us, db_jobs = js, db_runs = [], db_logs = [], db_deps = ds\<rparr>"

lemma valid_iff:
  "valid d \<longleftrightarrow> base_valid (db_users d) (db_jobs d) (db_deps d)
     \<and> (\<forall>r \<in> set (db_runs d). run_valid d r) \<and> distinct (map r_id (db_runs d))
     \<and> (\<forall>l \<in> set (db_logs d). log_valid d l) \<and> distinct (map l_id (db_logs d))"
  unfolding base_valid_def valid_unfold run_valid_def fk_run_def log_valid_def by auto

lemma map_r_id_row_upd:
  assumes "\<And>r. r \<in> set rs \<Longrightarrow> r_id r = k \<Longrightarrow> r_id (f r) = k"
  shows "map r_id (row_upd r_id k f rs) = map r_id rs"
  using assms by (intro map_key_row_upd) auto

lemma in_table_upd:
  assumes "\<And>r. r_id r = k \<Longrightarrow> r_id (f r) = k"
  shows "in_table r_id (row_upd r_id k f rs) x \<longleftrightarrow> in_table r_id rs x"
  unfolding in_table_def by (subst map_r_id_row_upd) (auto simp: assms)

text \<open>Replacing the run table by rows with the same ids.\<close>

lemma valid_replace_runs:
  assumes v: "valid d" and ids: "map r_id rs = map r_id (db_runs d)"
    and rows: "\<forall>r \<in> set rs. run_valid d r"
  shows "valid (d\<lparr>db_runs := rs\<rparr>)"
proof -
  have 1: "run_valid (d\<lparr>db_runs := rs\<rparr>) r = run_valid d r" for r
    by (simp add: run_valid_def fk_run_def)
  have 2: "log_valid (d\<lparr>db_runs := rs\<rparr>) l = log_valid d l" for l
    using ids by (simp add: log_valid_def in_table_def del: set_map)
  have "distinct (map r_id rs)" using v ids by (simp add: valid_iff)
  then show ?thesis using v rows by (simp add: valid_iff 1 2)
qed

lemma valid_add_logs:
  assumes v: "valid d" and ls: "\<forall>l \<in> set ls. log_valid d l"
    and "distinct (map l_id ls)" and "\<forall>l \<in> set ls. l_id l \<notin> l_id ` set (db_logs d)"
  shows "valid (add_logs ls d)"
proof -
  have 1: "run_valid (add_logs ls d) r = run_valid d r" "log_valid (add_logs ls d) l = log_valid d l"
    for r l by (simp_all add: run_valid_def fk_run_def log_valid_def)
  have "distinct (map l_id (db_logs d))" using v by (simp only: valid_iff)
  then have "distinct (map l_id (db_logs d @ ls))" using assms(3,4) by (rule distinct_map_append)
  then show ?thesis
    using v ls unfolding valid_iff add_logs_frame 1 set_append ball_Un by blast
qed

lemma valid_upd_run:
  assumes v: "valid d"
    and f: "\<And>r. r \<in> set (db_runs d) \<Longrightarrow> r_id r = k \<Longrightarrow> run_valid d (f r) \<and> r_id (f r) = k"
  shows "valid (upd_run k f d)"
  unfolding upd_run_def
proof (rule valid_replace_runs [OF v])
  show "map r_id (row_upd r_id k f (db_runs d)) = map r_id (db_runs d)"
    using f by (intro map_r_id_row_upd) auto
  show "\<forall>r \<in> set (row_upd r_id k f (db_runs d)). run_valid d r"
    using f v by (intro row_upd_ball) (auto dest: valid_run)
qed

lemma valid_put_run:
  assumes "valid d" and "run_valid d r"
  shows "valid (put_run r d)"
  unfolding put_run_def using assms by (intro valid_upd_run) auto

lemma valid_map_runs:
  assumes v: "valid d"
    and f: "\<And>r. r \<in> set (db_runs d) \<Longrightarrow> run_valid d (f r) \<and> r_id (f r) = r_id r"
  shows "valid (d\<lparr>db_runs := map f (db_runs d)\<rparr>)"
  using f by (intro valid_replace_runs [OF v]) auto

lemma valid_add_runs:
  assumes v: "valid d" and rs: "\<forall>r \<in> set rs. run_valid d r"
    and "distinct (map r_id rs)" and "\<forall>r \<in> set rs. r_id r \<notin> r_id ` set (db_runs d)"
  shows "valid (add_runs rs d)"
proof -
  have 1: "run_valid (add_runs rs d) r = run_valid d r" for r
    by (simp add: run_valid_def fk_run_def)
  have 2: "log_valid d l \<Longrightarrow> log_valid (add_runs rs d) l" for l
    by (auto simp: log_valid_def in_table_def)
  have "distinct (map r_id (db_runs d))" using v by (simp only: valid_iff)
  then have "distinct (map r_id (db_runs d @ rs))" using assms(3,4) by (rule distinct_map_append)
  then show ?thesis
    using v rs 2 unfolding valid_iff add_runs_frame 1 set_append ball_Un by blast
qed

text \<open>Validity of a row looks at the job and user tables only; that of a log at the run ids.\<close>

lemma run_valid_frames [simp]:
  "run_valid (add_logs ls d) r = run_valid d r" "run_valid (put_run x d) r = run_valid d r"
  "run_valid (add_runs rs d) r = run_valid d r" "run_valid (upd_run k f d) r = run_valid d r"
  by (simp_all add: run_valid_def fk_run_def)

lemma in_table_append [simp]: "in_table key (rs @ ss) k \<longleftrightarrow> in_table key rs k \<or> in_table key ss k"
  by (auto simp: in_table_def)

lemma in_table_put_run [simp]: "in_table r_id (db_runs (put_run r d)) k = in_table r_id (db_runs d) k"
  by (simp add: in_table_upd)

lemma get_run_row_in_table: "get_run_row k d = Some r \<Longrightarrow> in_table r_id (db_runs d) k"
  by (auto simp: in_table_def dest: get_run_row_SomeD)

lemma log_valid_JobLog:
  assumes "varchar 36 (fst st)" and "one_of LOG_LEVELS lv" and "one_of LOG_STREAMS sm"
    and "in_table r_id (db_runs d) k"
  shows "log_valid d (JobLog st k lv sm m)"
  using assms by (simp add: log_valid_def log_ok_def log_fits_def)

lemma log_constants [simp]:
  "one_of LOG_LEVELS ''info''" "one_of LOG_LEVELS ''warning''" "one_of LOG_LEVELS ''error''"
  "one_of LOG_LEVELS ''debug''"
  "one_of LOG_STREAMS ''system''" "one_of LOG_STREAMS ''stdout''" "one_of LOG_STREAMS ''stderr''"
  by (simp_all add: one_of_def constants_defs)

lemma run_constants [simp]:
  "one_of JOB_RUN_STATUSES ''pending''" "one_of JOB_RUN_STATUSES ''running''"
  "one_of JOB_RUN_STATUSES ''success''" "one_of JOB_RUN_STATUSES ''failed''"
  "one_of JOB_RUN_STATUSES ''timeout''" "one_of JOB_RUN_STATUSES ''canceled''"
  "one_of JOB_RUN_STATUSES ''awaiting_result''"
  "one_of TRIGGER_TYPES ''schedule''" "one_of TRIGGER_TYPES ''manual''"
  "one_of TRIGGER_TYPES ''retry''"
  by (simp_all add: one_of_def constants_defs)

text \<open>One new log on an existing run.\<close>

lemma valid_add_log:
  assumes "valid d" and "fst st \<notin> l_id ` set (db_logs d)" and "varchar 36 (fst st)"
    and "one_of LOG_LEVELS lv" and "one_of LOG_STREAMS sm" and "in_table r_id (db_runs d) k"
  shows "valid (add_logs [JobLog st k lv sm m] d)"
  using assms by (intro valid_add_logs) (auto intro: log_valid_JobLog)

end
