(* ===== verification/JobService.thy ===== *)
theory JobService
  imports JobDomain Integrity
begin

text \<open>
  \<open>JobService\<close> (\<open>app/application/services/job_service.py\<close>): creating a job with its
  dependencies, reconciling dependencies, and the scheduler's scan for due jobs. The session
  does not autoflush, so a lookup sees the database as of the last flush: the scan checks
  dependencies against the runs that were there before it started.
\<close>

section \<open>Requests\<close>

text \<open>A validated \<open>JobCreate\<close> (\<open>app/presentation/dtos/job_schema.py\<close>).\<close>

record job_create =
  c_task_name :: string
  c_name :: "string option"
  c_description :: "string option"
  c_status :: string
  c_schedule_type :: string
  c_cron_expression :: "string option"
  c_interval_seconds :: "int option"
  c_action :: string
  c_task_type :: "string option"
  c_api_method :: string
  c_api_url :: "string option"
  c_working_dir :: "string option"
  c_shell_script :: "string option"
  c_script_content :: "string option"
  c_script :: "string option"
  c_action_payload :: pydict
  c_timeout_seconds :: int
  c_retry_limit :: int
  c_depends_on :: "string list option"

definition JobCreate :: "string \<Rightarrow> job_create" where
  "JobCreate task_name =
     \<lparr>c_task_name = task_name, c_name = None, c_description = None, c_status = ''enabled'',
      c_schedule_type = ''manual'', c_cron_expression = None, c_interval_seconds = None,
      c_action = ''api_call'', c_task_type = None, c_api_method = ''GET'', c_api_url = None,
      c_working_dir = None, c_shell_script = None, c_script_content = None, c_script = None,
      c_action_payload = [], c_timeout_seconds = 300, c_retry_limit = 3, c_depends_on = None\<rparr>"

definition quoted :: "string \<Rightarrow> string" where
  "quoted s = CHR 0x27 # s @ [CHR 0x27]"

section \<open>Creating a job\<close>

text \<open>Flat request fields complete the action payload.\<close>

definition set_missing :: "string \<Rightarrow> string option \<Rightarrow> pydict \<Rightarrow> pydict" where
  "set_missing k v d = (if \<not> dict_has d k \<and> truthy_str v then dict_set k (JStr (the v)) d else d)"

definition script_value :: "string option \<Rightarrow> string option \<Rightarrow> string option \<Rightarrow> string option" where
  "script_value script shell_script script_content = or_str (or_str script shell_script) script_content"

definition put_script :: "string option \<Rightarrow> pydict \<Rightarrow> pydict" where
  "put_script v d =
     (if truthy_str v then dict_set ''content'' (JStr (the v)) (dict_set ''script'' (JStr (the v)) d)
      else d)"

definition build_action_payload :: "string option \<Rightarrow> job_create \<Rightarrow> pydict" where
  "build_action_payload action_type p =
     (let action_payload = c_action_payload p in
      if action_type = Some ''api_call'' then
        set_missing ''url'' (c_api_url p) (set_missing ''method'' (Some (c_api_method p)) action_payload)
      else if action_type \<in> {Some ''shell'', Some ''python''} then
        set_missing ''working_dir'' (c_working_dir p)
          (put_script (script_value (c_script p) (c_shell_script p) (c_script_content p)) action_payload)
      else action_payload)"

definition job_from_create :: "stamp \<Rightarrow> job_create \<Rightarrow> string \<Rightarrow> job" where
  "job_from_create st p user_id =
     (let action_type = or_str (Some (c_action p)) (c_task_type p) in
      \<lparr>j_id = fst st, j_user_id = Some user_id,
       j_name = or_str (c_name p) (Some (c_task_name p)),
       j_task_name = Some (c_task_name p),
       j_task_type = or_str (c_task_type p) action_type,
       j_script = c_script p, j_working_dir = c_working_dir p,
       j_action_type = action_type,
       j_action_payload = Some (build_action_payload action_type p),
       j_schedule_rule = resolve_schedule_rule (Some (c_schedule_type p)) (c_cron_expression p)
                           (c_interval_seconds p) None,
       j_status = or_str (Some (c_status p)) (Some ''enabled''),
       j_enabled = True, j_timeout_seconds = Some (c_timeout_seconds p),
       j_max_retry = Some (c_retry_limit p), j_description = c_description p,
       j_next_run_at = None, j_last_run_at = None, j_created_at = snd st\<rparr>)"

text \<open>A dependency is named by task name, or failing that by id.\<close>

definition find_dependency :: "string \<Rightarrow> db \<Rightarrow> job option" where
  "find_dependency dep_name d =
     (case find_by_task_name dep_name d of None \<Rightarrow> get_job_row dep_name d | Some j \<Rightarrow> Some j)"

definition JobDependency :: "stamp \<Rightarrow> string \<Rightarrow> string \<Rightarrow> job_dependency" where
  "JobDependency st job_id depends_on_job_id =
     \<lparr>d_id = fst st, d_job_id = job_id, d_depends_on_job_id = depends_on_job_id,
      d_required_status = ''success'', d_created_at = snd st\<rparr>"

fun add_dependencies :: "stamps \<Rightarrow> nat \<Rightarrow> string \<Rightarrow> string list \<Rightarrow> db \<Rightarrow> db result" where
  "add_dependencies st i job_id [] d = Inr d"
| "add_dependencies st i job_id (dep_name # names) d =
     (case find_dependency dep_name d of
        None \<Rightarrow> Inl (ValueError (''Dependency job '' @ quoted dep_name @ '' not found''))
      | Some dep_job \<Rightarrow>
          add_dependencies st (Suc i) job_id names
            (add_dep (JobDependency (st i) job_id (j_id dep_job)) d))"

definition create_job_service ::
  "cron_lib \<Rightarrow> datetime \<Rightarrow> stamps \<Rightarrow> job_create \<Rightarrow> string \<Rightarrow> db \<Rightarrow> (job \<times> db) result" where
  "create_job_service cron utcnow st payload user_id d =
     (if find_by_task_name (c_task_name payload) d \<noteq> None
      then Inl (ValueError (''Job with task_name '' @ quoted (c_task_name payload) @ '' already exists''))
      else bind_result (sync_domain_logic cron utcnow (job_from_create (st 0) payload user_id)) (\<lambda>j.
           bind_result (flush (add_job j d)) (\<lambda>d1.
           bind_result (add_dependencies st 1 (j_id j)
                          (case c_depends_on payload of None \<Rightarrow> [] | Some ns \<Rightarrow> ns) d1) (\<lambda>d2.
           bind_result (commit d2) (\<lambda>d3. Inr (j, d3))))))"

section \<open>Reconciling dependencies\<close>

text \<open>\<open>dirty\<close> is what else the session has to write when the new dependencies are flushed:
  the caller's unflushed changes to the job. Without new names nothing is flushed here.\<close>

definition update_dependencies ::
  "(db \<Rightarrow> db) \<Rightarrow> stamps \<Rightarrow> string \<Rightarrow> string list option \<Rightarrow> db \<Rightarrow> db result" where
  "update_dependencies dirty st job_id names_opt d =
     (let d1 = d\<lparr>db_deps := row_del (\<lambda>x. d_job_id x = job_id) (db_deps d)\<rparr> in
      case names_opt of
        None \<Rightarrow> Inr d1
      | Some [] \<Rightarrow> Inr d1
      | Some names \<Rightarrow>
          bind_result (add_dependencies st 0 job_id names d1) (\<lambda>d2. flush (dirty d2)))"

section \<open>The scheduler's scan\<close>

definition job_due :: "string list \<Rightarrow> datetime \<Rightarrow> job \<Rightarrow> bool" where
  "job_due locked now j \<longleftrightarrow> j_enabled j \<and> active_status (j_status j) \<and> j_id j \<notin> set locked
     \<and> (case j_next_run_at j of None \<Rightarrow> False | Some t \<Rightarrow> instant t \<le> instant now)"

definition scheduled_run :: "stamp \<Rightarrow> job \<Rightarrow> job_run" where
  "scheduled_run st j =
     (JobRun st (j_id j))
       \<lparr>r_user_id := j_user_id j, r_status := ''pending'', r_trigger_type := ''schedule'',
        r_triggered_by := Some ''schedule'',
        r_task_type := or_str (j_task_type j) (j_action_type j),
        r_script := j_script j, r_working_dir := j_working_dir j,
        r_action_type := j_action_type j, r_action_payload := j_action_payload j,
        r_timeout_seconds := j_timeout_seconds j\<rparr>"

text \<open>One turn of the loop: \<open>d\<close> is the database the scan started from; the runs created so
  far and the jobs already rescheduled are the loop's state.\<close>

definition scan_step ::
  "cron_lib \<Rightarrow> datetime \<Rightarrow> stamps \<Rightarrow> db \<Rightarrow> job \<Rightarrow> job_run list \<times> db \<Rightarrow> (job_run list \<times> db) result" where
  "scan_step cron now st d j acc =
     (case acc of (created_runs, d1) \<Rightarrow>
        if \<not> are_dependencies_satisfied d j then Inr (created_runs, d1)
        else bind_result (compute_next_run cron (j_schedule_rule j) (Some now) now) (\<lambda>t.
          Inr (created_runs @ [scheduled_run (st (length created_runs)) j],
               put_job (j\<lparr>j_last_run_at := Some now, j_next_run_at := Some t\<rparr>) d1)))"

definition scan_due_jobs ::
  "cron_lib \<Rightarrow> string list \<Rightarrow> datetime \<Rightarrow> stamps \<Rightarrow> db \<Rightarrow> (job_run list \<times> db) result" where
  "scan_due_jobs cron locked now st d =
     bind_result (fold_result (scan_step cron now st d) (filter (job_due locked now) (db_jobs d)) ([], d))
       (\<lambda>(created_runs, d1).
     bind_result (commit (add_runs created_runs d1)) (\<lambda>d2. Inr (created_runs, d2)))"

section \<open>What a scan does\<close>

lemma put_job_other: "j_id j' \<noteq> j_id j \<Longrightarrow> j' \<in> set (db_jobs d) \<Longrightarrow> j' \<in> set (db_jobs (put_job j d))"
  by (auto simp: set_row_upd)

definition rescheduled :: "cron_lib \<Rightarrow> datetime \<Rightarrow> job \<Rightarrow> job \<Rightarrow> bool" where
  "rescheduled cron now j j' \<longleftrightarrow>
     (\<exists>t. compute_next_run cron (j_schedule_rule j) (Some now) now = Inr t
        \<and> j' = j\<lparr>j_last_run_at := Some now, j_next_run_at := Some t\<rparr>)"

text \<open>The jobs a scan fires, in order, and the runs it creates for them.\<close>

definition scan_fires :: "string list \<Rightarrow> datetime \<Rightarrow> db \<Rightarrow> job list" where
  "scan_fires locked now d =
     filter (are_dependencies_satisfied d) (filter (job_due locked now) (db_jobs d))"

definition scan_runs :: "stamps \<Rightarrow> job list \<Rightarrow> job_run list" where
  "scan_runs st js = map (\<lambda>(i, j). scheduled_run (st i) j) (zip [0..<length js] js)"

lemma scan_runs_snoc: "scan_runs st (js @ [j]) = scan_runs st js @ [scheduled_run (st (length js)) j]"
  by (simp add: scan_runs_def)

lemma length_scan_runs [simp]: "length (scan_runs st js) = length js"
  by (simp add: scan_runs_def)

definition next_or_same :: "cron_lib \<Rightarrow> datetime \<Rightarrow> job list \<Rightarrow> job \<Rightarrow> job" where
  "next_or_same cron now fired j =
     (if j \<in> set fired then
        (case compute_next_run cron (j_schedule_rule j) (Some now) now of
           Inl e \<Rightarrow> j
         | Inr t \<Rightarrow> j\<lparr>j_last_run_at := Some now, j_next_run_at := Some t\<rparr>)
      else j)"

lemma j_id_next_or_same [simp]: "j_id (next_or_same cron now fired j) = j_id j"
  by (simp add: next_or_same_def split: sum.split)

lemma next_or_same_nil: "next_or_same cron now [] = (\<lambda>j. j)"
  by (rule ext) (simp add: next_or_same_def)

lemma next_or_same_snoc:
  assumes t: "compute_next_run cron (j_schedule_rule j) (Some now) now = Inr t"
  shows "next_or_same cron now (fired @ [j]) i =
    (if i = j then j\<lparr>j_last_run_at := Some now, j_next_run_at := Some t\<rparr>
     else next_or_same cron now fired i)"
  using t by (simp add: next_or_same_def)

lemma advance_rows:
  assumes dist: "distinct (map j_id js)" and j: "j \<in> set js"
    and t: "compute_next_run cron (j_schedule_rule j) (Some now) now = Inr t"
  shows "row_upd j_id (j_id j) (\<lambda>_. j\<lparr>j_last_run_at := Some now, j_next_run_at := Some t\<rparr>)
      (map (next_or_same cron now fired) js) = map (next_or_same cron now (fired @ [j])) js"
  unfolding row_upd_def map_map
proof (rule map_cong [OF refl])
  fix i assume i: "i \<in> set js"
  have "j_id i = j_id j \<longleftrightarrow> i = j" using dist i j by (auto simp: distinct_map dest: inj_onD)
  then show "((\<lambda>r. if j_id r = j_id j then j\<lparr>j_last_run_at := Some now, j_next_run_at := Some t\<rparr> else r)
        \<circ> next_or_same cron now fired) i = next_or_same cron now (fired @ [j]) i"
    using next_or_same_snoc [OF t, of fired i] by (cases "i = j") simp_all
qed

lemma scan_loop:
  assumes dist: "distinct (map j_id (db_jobs d))"
    and sub: "distinct (map j_id (prev @ todo))" "set (prev @ todo) \<subseteq> set (db_jobs d)"
    and d1: "d1 = d\<lparr>db_jobs := map (next_or_same cron now (filter (are_dependencies_satisfied d) prev)) (db_jobs d)\<rparr>"
    and runs: "rs = scan_runs st (filter (are_dependencies_satisfied d) prev)"
    and ok: "fold_result (scan_step cron now st d) todo (rs, d1) = Inr (rs', d')"
  shows "rs' = scan_runs st (filter (are_dependencies_satisfied d) (prev @ todo))
    \<and> d' = d\<lparr>db_jobs := map (next_or_same cron now (filter (are_dependencies_satisfied d) (prev @ todo))) (db_jobs d)\<rparr>
    \<and> (\<forall>j \<in> set todo. are_dependencies_satisfied d j \<longrightarrow>
         (\<exists>t. compute_next_run cron (j_schedule_rule j) (Some now) now = Inr t))"
  using sub d1 runs ok
proof (induction todo arbitrary: prev d1 rs)
  case Nil
  then show ?case by simp
next
  case (Cons j todo)
  let ?sat = "are_dependencies_satisfied d"
  obtain rs1 d2 where step: "scan_step cron now st d j (rs, d1) = Inr (rs1, d2)"
    and rest: "fold_result (scan_step cron now st d) todo (rs1, d2) = Inr (rs', d')"
    using Cons.prems(5) by (auto simp: result_iff)
  have sub': "distinct (map j_id ((prev @ [j]) @ todo))" "set ((prev @ [j]) @ todo) \<subseteq> set (db_jobs d)"
    using Cons.prems(1,2) by simp_all
  show ?case
  proof (cases "?sat j")
    case False
    then have "rs1 = rs" "d2 = d1" using step by (simp_all add: scan_step_def)
    then show ?thesis
      using Cons.IH [OF sub' _ _ rest] Cons.prems(3,4) False by simp
  next
    case True
    obtain t where t: "compute_next_run cron (j_schedule_rule j) (Some now) now = Inr t"
      and rs1: "rs1 = rs @ [scheduled_run (st (length rs)) j]"
      and d2: "d2 = put_job (j\<lparr>j_last_run_at := Some now, j_next_run_at := Some t\<rparr>) d1"
      using step True by (auto simp: scan_step_def result_iff)
    have jm: "j \<in> set (db_jobs d)" using Cons.prems(2) by simp
    note rows = advance_rows [OF dist jm t, of "filter ?sat prev"]
    have d2': "d2 = d\<lparr>db_jobs := map (next_or_same cron now (filter ?sat (prev @ [j]))) (db_jobs d)\<rparr>"
      using True rows by (simp add: d2 Cons.prems(3) put_job_def upd_job_def)
    have rs1': "rs1 = scan_runs st (filter ?sat (prev @ [j]))"
      using True by (simp add: rs1 Cons.prems(4) scan_runs_snoc)
    show ?thesis using Cons.IH [OF sub' d2' rs1' rest] t by simp
  qed
qed

lemma scan_due_jobs_InrD:
  assumes v: "valid d" and ok: "scan_due_jobs cron locked now st d = Inr (rs, d')"
  shows "rs = scan_runs st (scan_fires locked now d)"
    and "db_jobs d' = map (next_or_same cron now (scan_fires locked now d)) (db_jobs d)"
    and "db_runs d' = db_runs d @ rs" and "db_logs d' = db_logs d" and "db_users d' = db_users d"
    and "db_deps d' = db_deps d" and "valid d'"
    and "\<forall>j \<in> set (scan_fires locked now d).
           \<exists>t. compute_next_run cron (j_schedule_rule j) (Some now) now = Inr t"
proof -
  let ?due = "filter (job_due locked now) (db_jobs d)"
  obtain d1 where loop: "fold_result (scan_step cron now st d) ?due ([], d) = Inr (rs, d1)"
    and v': "valid (add_runs rs d1)" and d': "d' = add_runs rs d1"
    using ok by (auto simp: scan_due_jobs_def result_iff)
  have dist: "distinct (map j_id (db_jobs d))" using v by (simp add: valid_def db_ok_def keys_ok_def)
  have "d = d\<lparr>db_jobs := map (next_or_same cron now (filter (are_dependencies_satisfied d) [])) (db_jobs d)\<rparr>"
    by (simp add: next_or_same_nil)
  from scan_loop [OF dist _ _ this _ loop]
  have L: "rs = scan_runs st (scan_fires locked now d)
      \<and> d1 = d\<lparr>db_jobs := map (next_or_same cron now (scan_fires locked now d)) (db_jobs d)\<rparr>
      \<and> (\<forall>j \<in> set (scan_fires locked now d).
            \<exists>t. compute_next_run cron (j_schedule_rule j) (Some now) now = Inr t)"
    using dist by (simp add: scan_fires_def scan_runs_def distinct_map_filter)
  show "rs = scan_runs st (scan_fires locked now d)"
    and "db_jobs d' = map (next_or_same cron now (scan_fires locked now d)) (db_jobs d)"
    and "db_runs d' = db_runs d @ rs" and "db_logs d' = db_logs d" and "db_users d' = db_users d"
    and "db_deps d' = db_deps d" and "valid d'"
    and "\<forall>j \<in> set (scan_fires locked now d).
           \<exists>t. compute_next_run cron (j_schedule_rule j) (Some now) now = Inr t"
    using L v' d' by simp_all
qed

section \<open>When a scan succeeds\<close>

text \<open>A job differs from another at most in its two schedule times.\<close>

definition same_but_times :: "job \<Rightarrow> job \<Rightarrow> bool" where
  "same_but_times j j' \<longleftrightarrow>
     j' = j\<lparr>j_last_run_at := j_last_run_at j', j_next_run_at := j_next_run_at j'\<rparr>"

lemma same_but_times_D:
  assumes "same_but_times j j'"
  shows "j_id j' = j_id j" "j_user_id j' = j_user_id j" "j_task_name j' = j_task_name j"
    "job_ok j' = job_ok j" "job_fits j' = job_fits j"
proof -
  from assms have e: "j' = j\<lparr>j_last_run_at := j_last_run_at j', j_next_run_at := j_next_run_at j'\<rparr>"
    by (simp add: same_but_times_def)
  show "j_id j' = j_id j" "j_user_id j' = j_user_id j" "j_task_name j' = j_task_name j"
    "job_ok j' = job_ok j" "job_fits j' = job_fits j"
    by (subst e, simp add: job_ok_def job_fits_def)+
qed

lemma next_or_same_times: "same_but_times j (next_or_same cron now fired j)"
  by (simp add: next_or_same_def same_but_times_def split: sum.split)

lemma valid_map_jobs:
  assumes v: "valid d" and f: "\<And>j. same_but_times j (f j)"
  shows "valid (d\<lparr>db_jobs := map f (db_jobs d)\<rparr>)"
proof -
  note D = same_but_times_D [OF f]
  have m: "map j_id (map f (db_jobs d)) = map j_id (db_jobs d)"
    "map j_task_name (map f (db_jobs d)) = map j_task_name (db_jobs d)" by (simp_all add: D)
  have t: "in_table j_id (map f (db_jobs d)) k = in_table j_id (db_jobs d) k" for k
    by (simp only: in_table_def m)
  show ?thesis using v
    by (simp add: valid_def db_fits_def db_ok_def rows_ok_def keys_ok_def unique_ok_def fks_ok_def
        list_all_iff D t m del: map_map)
qed

lemma run_valid_jobs:
  assumes "map j_id js = map j_id (db_jobs d)"
  shows "run_valid (d\<lparr>db_jobs := js\<rparr>) r = run_valid d r"
  using assms by (simp add: run_valid_def fk_run_def in_table_def)

lemma scheduled_run_valid:
  assumes v: "valid d" and j: "j \<in> set (db_jobs d)" and st: "varchar 36 (fst st)"
  shows "run_valid d (scheduled_run st j)"
proof -
  have ok: "job_ok j" "job_fits j" using valid_job [OF v j] by simp_all
  have u: "opt_ok (in_table u_id (db_users d)) (j_user_id j)"
    using v j by (simp add: valid_unfold)
  have t: "opt_ok (one_of JOB_ACTION_TYPES) (or_str (j_task_type j) (j_action_type j))"
    using ok(1) by (auto simp: job_ok_def required_iff or_str_def)
  show ?thesis using ok u t st j
    by (auto simp: run_valid_def run_ok_def run_fits_def fk_run_def scheduled_run_def job_ok_def
        job_fits_def in_table_def varchar_def integer_column_def)
qed

lemma scan_runs_mem:
  assumes "r \<in> set (scan_runs st js)"
  obtains i j where "i < length js" "j \<in> set js" "r = scheduled_run (st i) j"
proof -
  from assms obtain i j where ij: "(i, j) \<in> set (zip [0..<length js] js)"
    and r: "r = scheduled_run (st i) j" by (auto simp: scan_runs_def)
  show ?thesis using that [OF _ _ r] set_zip_leftD [OF ij] set_zip_rightD [OF ij] by simp
qed

lemma r_id_scheduled_run [simp]:
  "r_id (scheduled_run st j) = fst st" "r_status (scheduled_run st j) = ''pending''"
  "r_job_id (scheduled_run st j) = j_id j" "r_created_at (scheduled_run st j) = snd st"
  by (simp_all add: scheduled_run_def)

lemma ids_scan_runs: "map r_id (scan_runs st js) = map (\<lambda>i. fst (st i)) [0..<length js]"
  by (rule nth_equalityI) (simp_all add: scan_runs_def)

lemma scan_loop_total:
  assumes "\<forall>j \<in> set js. are_dependencies_satisfied d j \<longrightarrow>
             (\<exists>t. compute_next_run cron (j_schedule_rule j) (Some now) now = Inr t)"
  shows "\<exists>acc'. fold_result (scan_step cron now st d) js acc = Inr acc'"
  using assms
proof (induction js arbitrary: acc)
  case Nil
  then show ?case by simp
next
  case (Cons j js)
  obtain rs d1 where acc: "acc = (rs, d1)" by (cases acc)
  have "\<exists>acc1. scan_step cron now st d j acc = Inr acc1"
  proof (cases "are_dependencies_satisfied d j")
    case True
    then obtain t where "compute_next_run cron (j_schedule_rule j) (Some now) now = Inr t"
      using Cons.prems by auto
    then show ?thesis using True by (simp add: scan_step_def acc)
  qed (simp add: scan_step_def acc)
  then obtain acc1 where "scan_step cron now st d j acc = Inr acc1" by blast
  then show ?case using Cons.IH [of acc1] Cons.prems by simp
qed

lemma scan_due_jobs_succeeds:
  assumes v: "valid d" and st: "fresh_stamps (length (scan_fires locked now d)) st d"
    and rules: "\<forall>j \<in> set (scan_fires locked now d).
           \<exists>t. compute_next_run cron (j_schedule_rule j) (Some now) now = Inr t"
  shows "\<exists>d'. scan_due_jobs cron locked now st d = Inr (scan_runs st (scan_fires locked now d), d')"
proof -
  let ?due = "filter (job_due locked now) (db_jobs d)"
  let ?fires = "scan_fires locked now d"
  let ?f = "next_or_same cron now ?fires"
  have "\<forall>j \<in> set ?due. are_dependencies_satisfied d j \<longrightarrow>
             (\<exists>t. compute_next_run cron (j_schedule_rule j) (Some now) now = Inr t)"
    using rules by (simp add: scan_fires_def)
  then obtain rs d1 where loop: "fold_result (scan_step cron now st d) ?due ([], d) = Inr (rs, d1)"
    using scan_loop_total [of ?due d cron now st "([], d)"] by auto
  have dist: "distinct (map j_id (db_jobs d))" using v by (simp add: valid_def db_ok_def keys_ok_def)
  have "d = d\<lparr>db_jobs := map (next_or_same cron now (filter (are_dependencies_satisfied d) [])) (db_jobs d)\<rparr>"
    by (simp add: next_or_same_nil)
  from scan_loop [OF dist _ _ this _ loop]
  have rs: "rs = scan_runs st ?fires" and d1: "d1 = d\<lparr>db_jobs := map ?f (db_jobs d)\<rparr>"
    using dist by (simp_all add: scan_fires_def scan_runs_def distinct_map_filter)
  have v1: "valid d1" unfolding d1 using v next_or_same_times by (rule valid_map_jobs)
  have rv: "run_valid d1 r = run_valid d r" for r unfolding d1 by (rule run_valid_jobs) simp
  have "valid (add_runs rs d1)"
  proof (rule valid_add_runs [OF v1])
    show "\<forall>r \<in> set rs. run_valid d1 r"
      using fresh_stampsD(6) [OF st] v unfolding rs rv
      by (auto elim!: scan_runs_mem intro!: scheduled_run_valid simp: scan_fires_def)
    show "distinct (map r_id rs)" using st unfolding rs ids_scan_runs by (simp add: fresh_stamps_def)
    show "\<forall>r \<in> set rs. r_id r \<notin> r_id ` set (db_runs d1)"
    proof
      fix r assume "r \<in> set rs"
      then obtain i j where "i < length ?fires" "r = scheduled_run (st i) j"
        unfolding rs by (rule scan_runs_mem)
      then show "r_id r \<notin> r_id ` set (db_runs d1)" using fresh_stampsD(3) [OF st] by (simp add: d1)
    qed
  qed
  then show ?thesis using loop by (simp add: scan_due_jobs_def rs)
qed

section \<open>A second scan\<close>

text \<open>New pending runs cannot satisfy a dependency: no dependency requires \<open>pending\<close>.\<close>

lemma satisfied_back:
  assumes v: "valid d" and deps: "db_deps d' = db_deps d" and runs: "db_runs d' = db_runs d @ rs"
    and pend: "\<forall>r \<in> set rs. r_status r = ''pending''" and id: "j_id j' = j_id j"
    and sat: "are_dependencies_satisfied d' j'"
  shows "are_dependencies_satisfied d j"
  unfolding satisfied_iff
proof (intro ballI impI)
  fix x assume x: "x \<in> set (db_deps d)" "d_job_id x = j_id j"
  then obtain r where r: "latest_run d' (d_depends_on_job_id x) = Some r" "r_status r = d_required_status x"
    using sat by (auto simp: satisfied_iff deps id)
  have "dep_ok x" using v x(1) by (simp add: valid_unfold)
  then have "r_status r \<noteq> ''pending''" unfolding r(2) by (auto simp: dep_ok_def one_of_def)
  then have "r \<notin> set (filter (\<lambda>r. r_job_id r = d_depends_on_job_id x) rs)" using pend by auto
  with r(1) have "latest_run d (d_depends_on_job_id x) = Some r"
    unfolding latest_run_def runs filter_append by (rule first_by_append_old)
  then show "\<exists>r. latest_run d (d_depends_on_job_id x) = Some r \<and> r_status r = d_required_status x"
    using r(2) by blast
qed

lemma scan_twice:
  assumes v: "valid d" and ok: "scan_due_jobs cron locked now st d = Inr (rs, d')"
    and pos: "\<forall>j \<in> set (scan_fires locked now d). \<forall>t.
        compute_next_run cron (j_schedule_rule j) (Some now) now = Inr t \<longrightarrow> instant now < instant t"
  shows "scan_fires locked now d' = []"
proof -
  note S = scan_due_jobs_InrD [OF v ok]
  let ?fires = "scan_fires locked now d"
  have pend: "\<forall>r \<in> set rs. r_status r = ''pending''" unfolding S(1) by (auto elim!: scan_runs_mem)
  have "\<not> (job_due locked now j' \<and> are_dependencies_satisfied d' j')" if j': "j' \<in> set (db_jobs d')" for j'
  proof
    assume due: "job_due locked now j' \<and> are_dependencies_satisfied d' j'"
    obtain j where j: "j \<in> set (db_jobs d)" and e: "j' = next_or_same cron now ?fires j"
      using j' unfolding S(2) by auto
    have sat: "are_dependencies_satisfied d j"
      using v S(6) S(3) pend _ conjunct2 [OF due] by (rule satisfied_back) (simp add: e)
    show False
    proof (cases "j \<in> set ?fires")
      case True
      then obtain t where t: "compute_next_run cron (j_schedule_rule j) (Some now) now = Inr t"
        using S(8) by blast
      then have "instant now < instant t" using pos True by blast
      then show False using due True t by (simp add: e next_or_same_def job_due_def)
    next
      case False
      then have "j' = j" by (simp add: e next_or_same_def)
      then show False using False j sat due by (simp add: scan_fires_def)
    qed
  qed
  then show ?thesis by (auto simp: scan_fires_def filter_empty_conv)
qed

text \<open>With no job to fire a scan changes nothing.\<close>

lemma scan_nothing_due:
  assumes v: "valid d" and fires: "scan_fires locked now d = []"
  shows "scan_due_jobs cron locked now st d = Inr ([], d)"
proof -
  have f0: "fresh_stamps (length (scan_fires locked now d)) st d" by (simp add: fires fresh_stamps_def)
  obtain d' where ok: "scan_due_jobs cron locked now st d = Inr (scan_runs st [], d')"
    using scan_due_jobs_succeeds [OF v f0, of cron] by (auto simp: fires)
  note S = scan_due_jobs_InrD [OF v ok]
  have "db_jobs d' = db_jobs d" "db_runs d' = db_runs d"
    using S(2,3) by (simp_all add: fires next_or_same_nil scan_runs_def)
  then have "d' = d" using S(4-6) by simp
  then show ?thesis using ok by (simp add: scan_runs_def)
qed

end
