(* ===== verification/RunService.thy ===== *)
theory RunService
  imports JobDomain
begin

text \<open>
  \<open>JobRunService\<close> (\<open>app/application/services/job_run_service.py\<close>) and \<open>QueueService\<close>
  (\<open>app/domain/services/queue_service.py\<close>): dequeuing and locking a run, recording its
  outcome with the automatic retry, heartbeats, and the release of expired locks. An
  operation takes the committed database and returns its value with the new committed
  database, or the exception, in which case the session is rolled back; its arguments are the
  clock reading and the stamps of the rows it inserts. \<open>locked\<close> is the set of rows held by
  other transactions (\<open>SKIP LOCKED\<close>).
\<close>

section \<open>Lookup\<close>

definition get_run :: "string \<Rightarrow> db \<Rightarrow> job_run result" where
  "get_run run_id d =
     (case get_run_row run_id d of
        None \<Rightarrow> Inl (EntityNotFoundError (''Job run '' @ run_id @ '' not found''))
      | Some r \<Rightarrow> Inr r)"

lemma get_run_Inr_iff [result_iff]: "get_run k d = Inr r \<longleftrightarrow> get_run_row k d = Some r"
  by (simp add: get_run_def split: option.split)

section \<open>Dequeue\<close>

text \<open>The \<open>while True\<close> loop: take the oldest available run that has not been skipped; if its
  dependencies are not satisfied, skip it and look again.\<close>

lemma skip_decreases:
  assumes "find_next_run_to_lock locked skipped d = Some r"
  shows "length (filter (\<lambda>s. s \<notin> set (r_id r # skipped)) (map r_id (db_runs d)))
         < length (filter (\<lambda>s. s \<notin> set skipped) (map r_id (db_runs d)))"
proof -
  have r: "r \<in> set (db_runs d)" "r_id r \<notin> set skipped"
    using find_next_SomeD(1,2) [OF assms] by (auto simp: run_available_def)
  let ?ids = "filter (\<lambda>s. s \<notin> set skipped) (map r_id (db_runs d))"
  have "filter (\<lambda>s. s \<notin> set (r_id r # skipped)) (map r_id (db_runs d)) = filter (\<lambda>s. s \<noteq> r_id r) ?ids"
    by (auto intro: filter_cong)
  moreover have "r_id r \<in> set ?ids" using r by simp
  ultimately show ?thesis by (metis (mono_tags, lifting) length_filter_less)
qed

function dequeue_loop :: "string list \<Rightarrow> db \<Rightarrow> string list \<Rightarrow> job_run option" where
  "dequeue_loop locked d skipped_run_ids =
     (case find_next_run_to_lock locked skipped_run_ids d of
        None \<Rightarrow> None
      | Some run \<Rightarrow>
          (case run_job d run of
             None \<Rightarrow> Some run
           | Some j \<Rightarrow>
               if are_dependencies_satisfied d j then Some run
               else dequeue_loop locked d (r_id run # skipped_run_ids)))"
  by pat_completeness auto
termination
  by (relation "measure (\<lambda>(locked, d, skipped).
        length (filter (\<lambda>s. s \<notin> set skipped) (map r_id (db_runs d))))")
     (simp, simp only: in_measure split_conv, rule skip_decreases)

declare dequeue_loop.simps [simp del]

text \<open>What locking writes to the run.\<close>

definition lock_run :: "string \<Rightarrow> datetime \<Rightarrow> datetime \<Rightarrow> job_run \<Rightarrow> job_run" where
  "lock_run worker_name until now r =
     start (Some now) now
       (r\<lparr>r_status := ''running'', r_worker_id := Some worker_name, r_locked_by := Some worker_name,
          r_locked_until := Some until\<rparr>)"

definition dequeue_next_run ::
  "string list \<Rightarrow> int \<Rightarrow> string \<Rightarrow> datetime \<Rightarrow> stamps \<Rightarrow> db \<Rightarrow> (job_run option \<times> db) result" where
  "dequeue_next_run locked lock_seconds worker_name now st d =
     (case dequeue_loop locked d [] of
        None \<Rightarrow> Inr (None, d)
      | Some run \<Rightarrow>
          bind_result (add_timedelta now (lock_seconds * second_us)) (\<lambda>until.
          bind_result
            (commit (add_logs [JobLog (st 0) (r_id run) ''info'' ''system'' (''Locked by '' @ worker_name)]
              (put_run (lock_run worker_name until now run) d)))
            (\<lambda>d'. Inr (get_run_row (r_id run) d', d'))))"

section \<open>Retry\<close>

text \<open>\<open>run.job and run.retry_count >= run.job.max_retry\<close>\<close>

definition retry_limit_reached :: "job_run \<Rightarrow> job option \<Rightarrow> bool result" where
  "retry_limit_reached r j =
     (case j of
        None \<Rightarrow> Inr False
      | Some j \<Rightarrow> (case j_max_retry j of None \<Rightarrow> Inl TypeError | Some m \<Rightarrow> Inr (m \<le> r_retry_count r)))"

text \<open>The log message is built before the flush assigns \<open>new_run.id\<close>, so it always reads
  \<open>None\<close>.\<close>

definition retry_row :: "stamp \<Rightarrow> string option \<Rightarrow> job_run \<Rightarrow> job_run" where
  "retry_row st user_id run =
     (JobRun st (r_job_id run))
       \<lparr>r_user_id := or_str user_id (r_user_id run), r_status := ''pending'',
        r_trigger_type := ''retry'', r_triggered_by := Some ''retry'',
        r_retry_count := r_retry_count run + 1, r_action_type := r_action_type run,
        r_action_payload := r_action_payload run, r_timeout_seconds := r_timeout_seconds run\<rparr>"

definition retry_run :: "stamps \<Rightarrow> string \<Rightarrow> string option \<Rightarrow> db \<Rightarrow> (job_run \<times> db) result" where
  "retry_run st run_id user_id d =
     bind_result (get_run run_id d) (\<lambda>run.
     if r_status run \<notin> {''failed'', ''timeout'', ''canceled''}
       then Inl (BusinessRuleViolationError ''Only terminal failed runs can be retried'')
     else bind_result (retry_limit_reached run (run_job d run)) (\<lambda>reached.
     if reached then Inl (BusinessRuleViolationError ''Retry limit reached'')
     else bind_result
       (commit (add_logs [JobLog (st 2) run_id ''info'' ''system'' (''Retry created: '' @ opt_str None)]
         (add_runs [retry_row (st 1) user_id run] d)))
       (\<lambda>d'. bind_result (get_run (fst (st 1)) d') (\<lambda>new_run. Inr (new_run, d')))))"

section \<open>Recording an outcome\<close>

text \<open>The text of an exception, as \<open>f"{e}"\<close> prints it.\<close>

fun error_text :: "error \<Rightarrow> string" where
  "error_text (ValueError m) = m"
| "error_text (EntityNotFoundError m) = m"
| "error_text (BusinessRuleViolationError m) = m"
| "error_text (KeyError m) = m"
| "error_text (HttpxError m) = m"
| "error_text (OSError m) = m"
| "error_text (AttributeError m) = m"
| "error_text (HTTPException n m) = m"
| "error_text _ = []"

text \<open>The automatic retry after a failure: the run's own state is flushed first; a failing
  flush inside the retry leaves the session unusable, so the final commit raises.\<close>

definition auto_retry :: "stamps \<Rightarrow> string \<Rightarrow> db \<Rightarrow> db result" where
  "auto_retry st run_id d =
     bind_result (flush d) (\<lambda>d1.
     case retry_run st run_id None d1 of
       Inr (new_run, d2) \<Rightarrow>
         Inr (add_logs [JobLog (st 3) run_id ''info'' ''system''
                (''Automatic retry triggered: '' @ r_id new_run)] d2)
     | Inl e \<Rightarrow>
         if e = IntegrityError \<or> e = DataError then Inl PendingRollbackError
         else Inr (add_logs [JobLog (st 3) run_id ''error'' ''system''
                (''Failed to trigger automatic retry: '' @ error_text e)] d1))"

text \<open>The \<open>running\<close> branch, the terminal branch, and no effect for any other status.\<close>

definition apply_status :: "stamps \<Rightarrow> datetime \<Rightarrow> string \<Rightarrow> job_run \<Rightarrow> db \<Rightarrow> db result" where
  "apply_status st now status run d =
     (if status = ''running'' then Inr (put_run (start (Some now) now run) d)
      else if status \<in> {''success'', ''failed'', ''timeout'', ''canceled''} then
        bind_result (complete (Some now) now (run\<lparr>r_status := status\<rparr>)) (\<lambda>run1.
        let d1 = add_logs [JobLog (st 0) (r_id run) ''info'' ''system'' (''Run finished: '' @ status)]
                   (put_run run1 d) in
        if status \<in> {''failed'', ''timeout''} \<and> run_job d run \<noteq> None then
          bind_result (retry_limit_reached run (run_job d run)) (\<lambda>reached.
          if reached then Inr d1 else auto_retry st (r_id run) d1)
        else Inr d1)
      else Inr d)"

definition output_logs ::
  "stamps \<Rightarrow> string \<Rightarrow> string option \<Rightarrow> string option \<Rightarrow> string option \<Rightarrow> job_log list" where
  "output_logs st run_id stdout stderr error_message =
     (if truthy_str stdout then [JobLog (st 4) run_id ''info'' ''stdout'' (the stdout)] else [])
     @ (if truthy_str stderr then [JobLog (st 5) run_id ''error'' ''stderr'' (the stderr)] else [])
     @ (if truthy_str error_message
        then [JobLog (st 6) run_id ''error'' ''system'' (the error_message)] else [])"

definition keep_or :: "string option \<Rightarrow> string option \<Rightarrow> string option" where
  "keep_or new old = (case new of None \<Rightarrow> old | Some s \<Rightarrow> Some s)"

definition set_output :: "string option \<Rightarrow> string option \<Rightarrow> string option \<Rightarrow> job_run \<Rightarrow> job_run" where
  "set_output stdout stderr error_message r =
     r\<lparr>r_stdout := keep_or stdout (r_stdout r), r_stderr := keep_or stderr (r_stderr r),
       r_error_message := keep_or error_message (r_error_message r)\<rparr>"

definition update_status ::
  "stamps \<Rightarrow> datetime \<Rightarrow> string \<Rightarrow> string \<Rightarrow> string option \<Rightarrow> string option \<Rightarrow> string option
     \<Rightarrow> db \<Rightarrow> (job_run \<times> db) result" where
  "update_status st now run_id status stdout stderr error_message d =
     bind_result (get_run run_id d) (\<lambda>run.
     bind_result (apply_status st now status run d) (\<lambda>d1.
     bind_result
       (commit (add_logs (output_logs st run_id stdout stderr error_message)
         (upd_run run_id (set_output stdout stderr error_message) d1)))
       (\<lambda>d2. bind_result (get_run run_id d2) (\<lambda>r. Inr (r, d2)))))"

section \<open>The two transactions of a report\<close>

text \<open>When a reported failure is retried, \<open>retry_run\<close> commits in the middle of
  \<open>update_status\<close>: the outcome and the retry are visible to others before the output is
  written, and stay if the process dies in between. The first transaction, with the new run;
  it is \<open>None\<close>, and nothing is committed yet, when the report triggers no retry.\<close>

definition triggers_retry :: "string \<Rightarrow> job_run \<Rightarrow> db \<Rightarrow> bool" where
  "triggers_retry status run d \<longleftrightarrow>
     status \<in> {''failed'', ''timeout''} \<and> run_job d run \<noteq> None
     \<and> retry_limit_reached run (run_job d run) = Inr False"

definition report_retry ::
  "stamps \<Rightarrow> datetime \<Rightarrow> string \<Rightarrow> string \<Rightarrow> db \<Rightarrow> (job_run option \<times> db) result" where
  "report_retry st now run_id status d =
     bind_result (get_run run_id d) (\<lambda>run.
     if \<not> triggers_retry status run d then Inr (None, d)
     else
       bind_result (complete (Some now) now (run\<lparr>r_status := status\<rparr>)) (\<lambda>run1.
       bind_result (flush (add_logs [JobLog (st 0) (r_id run) ''info'' ''system'' (''Run finished: '' @ status)]
                     (put_run run1 d))) (\<lambda>d1.
       bind_result (retry_run st (r_id run) None d1) (\<lambda>(new_run, d2). Inr (Some new_run, d2)))))"

text \<open>The second one. The commit has expired \<open>run\<close>, so reading \<open>run.id\<close> loads its row again,
  and the update writes the output columns only.\<close>

definition report_output ::
  "stamps \<Rightarrow> string \<Rightarrow> string \<Rightarrow> string option \<Rightarrow> string option \<Rightarrow> string option
     \<Rightarrow> db \<Rightarrow> (job_run \<times> db) result" where
  "report_output st run_id new_run_id stdout stderr error_message d =
     (case get_run_row run_id d of
        None \<Rightarrow> Inl ObjectDeletedError
      | Some run \<Rightarrow>
          bind_result
            (commit (add_logs (output_logs st run_id stdout stderr error_message)
              (upd_run run_id (set_output stdout stderr error_message)
                (add_logs [JobLog (st 3) run_id ''info'' ''system''
                   (''Automatic retry triggered: '' @ new_run_id)] d))))
            (\<lambda>d1. bind_result (get_run run_id d1) (\<lambda>r. Inr (r, d1))))"

section \<open>Expired locks and heartbeats\<close>

definition release :: "datetime \<Rightarrow> job_run \<Rightarrow> job_run" where
  "release now r = r\<lparr>r_status := ''pending'', r_worker_id := None, r_locked_by := None,
                     r_locked_until := None, r_heartbeat_at := Some now\<rparr>"

text \<open>One warning per released run, in the order of the query.\<close>

definition release_logs :: "stamps \<Rightarrow> job_run list \<Rightarrow> job_log list" where
  "release_logs st rs =
     map (\<lambda>(i, r). JobLog (st i) (r_id r) ''warning'' ''system'' ''Expired lock released'')
       (zip [0..<length rs] rs)"

definition release_expired_locks :: "datetime \<Rightarrow> stamps \<Rightarrow> db \<Rightarrow> (nat \<times> db) result" where
  "release_expired_locks now st d =
     (let expired_runs = find_expired_runs now d in
      bind_result
        (commit (add_logs (release_logs st expired_runs)
          (d\<lparr>db_runs := map (\<lambda>r. if run_expired now r then release now r else r) (db_runs d)\<rparr>)))
        (\<lambda>d'. Inr (length expired_runs, d')))"

definition heartbeat :: "datetime \<Rightarrow> string \<Rightarrow> db \<Rightarrow> (job_run \<times> db) result" where
  "heartbeat now run_id d =
     bind_result (get_run run_id d) (\<lambda>run.
     bind_result (commit (put_run (run\<lparr>r_heartbeat_at := Some now\<rparr>) d)) (\<lambda>d'.
     bind_result (get_run run_id d') (\<lambda>r. Inr (r, d'))))"

section \<open>QueueService\<close>

text \<open>The older queue service: no dependency check, and its release keeps the heartbeat.\<close>

definition dequeue_and_lock ::
  "string list \<Rightarrow> int \<Rightarrow> string \<Rightarrow> datetime \<Rightarrow> stamps \<Rightarrow> db \<Rightarrow> (job_run option \<times> db) result" where
  "dequeue_and_lock locked lock_seconds worker_id now st d =
     (case find_next_run_to_lock locked [] d of
        None \<Rightarrow> Inr (None, d)
      | Some run \<Rightarrow>
          bind_result (add_timedelta now (lock_seconds * second_us)) (\<lambda>until.
          let run1 = run\<lparr>r_status := ''running'', r_worker_id := Some worker_id,
                r_locked_by := Some worker_id, r_locked_until := Some until,
                r_start_time := (case r_start_time run of None \<Rightarrow> Some now | Some s \<Rightarrow> Some s),
                r_heartbeat_at := Some now\<rparr> in
          bind_result
            (commit (add_logs [JobLog (st 0) (r_id run) ''info'' ''system'' (''Locked by '' @ worker_id)]
              (put_run run1 d)))
            (\<lambda>d'. Inr (get_run_row (r_id run) d', d'))))"

definition cleanup_release :: "job_run \<Rightarrow> job_run" where
  "cleanup_release r = r\<lparr>r_status := ''pending'', r_worker_id := None, r_locked_by := None,
                         r_locked_until := None\<rparr>"

definition cleanup_expired_runs :: "datetime \<Rightarrow> stamps \<Rightarrow> db \<Rightarrow> (nat \<times> db) result" where
  "cleanup_expired_runs now st d =
     (let expired_runs = find_expired_runs now d in
      bind_result
        (commit (add_logs (release_logs st expired_runs)
          (d\<lparr>db_runs := map (\<lambda>r. if run_expired now r then cleanup_release r else r) (db_runs d)\<rparr>)))
        (\<lambda>d'. Inr (length expired_runs, d')))"

end
