(* ===== verification/QueueCorrect.thy ===== *)
theory QueueCorrect
  imports RunService Integrity
begin

text \<open>
  Correctness of the queue: the dequeue loop against a reference definition (the first
  runnable run of the queue in creation order), and what a successful dequeue writes. The contract of a
  queue is in QueueContract.
\<close>

section \<open>The dequeue loop\<close>

text \<open>The reference: the available runs in creation order, and the first of them whose
  dependencies are satisfied.\<close>

definition queue_order :: "string list \<Rightarrow> db \<Rightarrow> job_run list" where
  "queue_order locked d =
     sort_key (\<lambda>r. instant (r_created_at r)) (filter (run_available locked [] d) (db_runs d))"

definition runnable :: "db \<Rightarrow> job_run \<Rightarrow> bool" where
  "runnable d r = (case run_job d r of None \<Rightarrow> True | Some j \<Rightarrow> are_dependencies_satisfied d j)"

definition reference_dequeue :: "string list \<Rightarrow> db \<Rightarrow> job_run option" where
  "reference_dequeue locked d = find (runnable d) (queue_order locked d)"

lemma available_skipped:
  "run_available locked skipped d r \<longleftrightarrow> run_available locked [] d r \<and> r_id r \<notin> set skipped"
  by (auto simp: run_available_def split: option.splits)

lemma find_next_queue_order:
  "find_next_run_to_lock locked skipped d
   = (case filter (\<lambda>r. r_id r \<notin> set skipped) (queue_order locked d) of [] \<Rightarrow> None | r # _ \<Rightarrow> Some r)"
proof -
  have "filter (run_available locked skipped d) (db_runs d)
      = filter (\<lambda>r. r_id r \<notin> set skipped) (filter (run_available locked [] d) (db_runs d))"
    unfolding filter_filter by (rule filter_cong) (auto simp: available_skipped [of locked skipped])
  then show ?thesis
    by (simp add: find_next_run_to_lock_def first_by_def queue_order_def filter_sort)
qed

lemma distinct_queue_order:
  assumes "keys_ok d"
  shows "distinct (map r_id (queue_order locked d))"
proof -
  have "distinct (map r_id (filter (run_available locked [] d) (db_runs d)))"
    using assms by (simp add: keys_ok_def distinct_map_filter)
  then show ?thesis
    by (simp add: queue_order_def distinct_map)
qed

lemma dequeue_loop_find:
  assumes "keys_ok d"
  shows "dequeue_loop locked d skipped
         = find (runnable d) (filter (\<lambda>r. r_id r \<notin> set skipped) (queue_order locked d))"
  using assms
proof (induction locked d skipped rule: dequeue_loop.induct)
  case (1 locked d skipped)
  let ?q = "filter (\<lambda>r. r_id r \<notin> set skipped) (queue_order locked d)"
  show ?case
  proof (cases ?q)
    case Nil
    then show ?thesis by (simp add: dequeue_loop.simps [of locked d skipped] find_next_queue_order)
  next
    case (Cons r rs)
    then have nxt: "find_next_run_to_lock locked skipped d = Some r" by (simp add: find_next_queue_order)
    have "distinct (map r_id ?q)" using distinct_queue_order [OF "1.prems"] by (rule distinct_map_filter)
    then have "r_id r \<notin> r_id ` set rs" using Cons by simp
    then have rest: "filter (\<lambda>s. r_id s \<noteq> r_id r) rs = rs" by (intro filter_True ballI) (metis imageI)
    have "filter (\<lambda>s. r_id s \<notin> set (r_id r # skipped)) (queue_order locked d)
        = filter (\<lambda>s. r_id s \<noteq> r_id r) ?q" by (auto intro: filter_cong)
    then have skip: "filter (\<lambda>s. r_id s \<notin> set (r_id r # skipped)) (queue_order locked d) = rs"
      using Cons rest by simp
    show ?thesis
    proof (cases "runnable d r")
      case True
      then show ?thesis using Cons nxt
        by (auto simp: dequeue_loop.simps [of locked d skipped] runnable_def split: option.splits)
    next
      case False
      then obtain j where j: "run_job d r = Some j" "\<not> are_dependencies_satisfied d j"
        by (auto simp: runnable_def split: option.splits)
      have "dequeue_loop locked d (r_id r # skipped) = find (runnable d) rs"
        using "1.IH" [OF nxt j(1)] j(2) "1.prems" skip by simp
      then show ?thesis using Cons nxt j False
        by (simp add: dequeue_loop.simps [of locked d skipped])
    qed
  qed
qed

lemma dequeue_loop_SomeD:
  assumes "dequeue_loop locked d skipped = Some r"
  shows "r \<in> set (db_runs d) \<and> run_available locked [] d r \<and> runnable d r"
  using assms
proof (induction locked d skipped rule: dequeue_loop.induct)
  case (1 locked d skipped)
  then obtain s where nxt: "find_next_run_to_lock locked skipped d = Some s"
    by (auto simp: dequeue_loop.simps [of locked d skipped] split: option.splits)
  have s: "s \<in> set (db_runs d)" "run_available locked [] d s"
    using find_next_SomeD(1,2) [OF nxt] available_skipped [of locked skipped d s] by simp_all
  show ?case
  proof (cases "run_job d s")
    case None
    then have "r = s" using "1.prems" nxt by (simp add: dequeue_loop.simps [of locked d skipped])
    then show ?thesis using s None by (simp add: runnable_def)
  next
    case (Some j)
    show ?thesis
    proof (cases "are_dependencies_satisfied d j")
      case True
      then have "r = s" using "1.prems" nxt Some by (simp add: dequeue_loop.simps [of locked d skipped])
      then show ?thesis using s Some True by (simp add: runnable_def)
    next
      case False
      then show ?thesis using 1 nxt Some by (simp add: dequeue_loop.simps [of locked d skipped])
    qed
  qed
qed

section \<open>What a dequeue writes\<close>

lemma lock_run_simps [simp]:
  "r_id (lock_run w u n r) = r_id r" "r_job_id (lock_run w u n r) = r_job_id r"
  "r_status (lock_run w u n r) = ''running''" "r_user_id (lock_run w u n r) = r_user_id r"
  "r_worker_id (lock_run w u n r) = Some w" "r_locked_by (lock_run w u n r) = Some w"
  "r_locked_until (lock_run w u n r) = Some u" "r_retry_count (lock_run w u n r) = r_retry_count r"
  "r_created_at (lock_run w u n r) = r_created_at r"
  "r_metadata_json (lock_run w u n r) = r_metadata_json r"
  "r_task_type (lock_run w u n r) = r_task_type r" "r_script (lock_run w u n r) = r_script r"
  "r_working_dir (lock_run w u n r) = r_working_dir r"
  "r_action_type (lock_run w u n r) = r_action_type r"
  "r_action_payload (lock_run w u n r) = r_action_payload r"
  "r_timeout_seconds (lock_run w u n r) = r_timeout_seconds r"
  "r_trigger_type (lock_run w u n r) = r_trigger_type r"
  by (simp_all add: lock_run_def)

lemma lock_run_valid:
  assumes "run_valid d r" and "varchar 80 w"
  shows "run_valid d (lock_run w until now r)"
  using assms by (simp add: run_valid_def run_ok_def run_fits_def fk_run_def lock_run_def)

lemma dequeue_next_run_SomeD:
  assumes "dequeue_next_run locked lock_seconds w now st d = Inr (Some r, d')"
  obtains run where "dequeue_loop locked d [] = Some run"
    and "timedelta_ok (lock_seconds * second_us)"
    and "r = lock_run w (shift (lock_seconds * second_us) now) now run"
    and "valid d'"
    and "d' = add_logs [JobLog (st 0) (r_id run) ''info'' ''system'' (''Locked by '' @ w)] (put_run r d)"
proof -
  obtain run where run: "dequeue_loop locked d [] = Some run"
    using assms by (auto simp: dequeue_next_run_def split: option.splits)
  let ?u = "shift (lock_seconds * second_us) now"
  let ?r = "lock_run w ?u now run"
  let ?d = "add_logs [JobLog (st 0) (r_id run) ''info'' ''system'' (''Locked by '' @ w)] (put_run ?r d)"
  have step: "timedelta_ok (lock_seconds * second_us)" "valid ?d" "d' = ?d" "get_run_row (r_id run) d' = Some r"
    using assms run by (auto simp: dequeue_next_run_def result_iff)
  have "get_run_row (r_id run) d' = map_option (\<lambda>_. ?r) (get_run_row (r_id run) d)"
    unfolding step(3) by (simp add: rows)
  then have "r = ?r" unfolding step(4) by (cases "get_run_row (r_id run) d") simp_all
  then show ?thesis using that run step by simp
qed

lemma dequeue_next_run_None:
  assumes "dequeue_next_run locked lock_seconds w now st d = Inr (None, d')" and "valid d"
  shows "d' = d" and "dequeue_loop locked d [] = None"
proof -
  have "dequeue_loop locked d [] = None"
  proof (rule ccontr)
    assume "dequeue_loop locked d [] \<noteq> None"
    then obtain run where run: "dequeue_loop locked d [] = Some run" by blast
    have "run \<in> set (db_runs d)" using dequeue_loop_SomeD [OF run] by simp
    then have "get_run_row (r_id run) d = Some run" using assms(2) by (simp add: get_run_row_iff)
    then show False using assms(1) run by (auto simp: dequeue_next_run_def result_iff rows)
  qed
  then show "dequeue_loop locked d [] = None" and "d' = d"
    using assms(1) by (simp_all add: dequeue_next_run_def)
qed

text \<open>With a fresh stamp, a worker name that fits its column and a lock that ends before year
  10000, the dequeue of a runnable run succeeds.\<close>

lemma dequeue_next_run_succeeds:
  assumes v: "valid d" and run: "dequeue_loop locked d [] = Some run"
    and w: "varchar 80 w" and st: "fresh_stamps 1 st d"
    and t: "add_timedelta now (lock_seconds * second_us) = Inr until"
  shows "\<exists>d'. dequeue_next_run locked lock_seconds w now st d
              = Inr (Some (lock_run w until now run), d')"
proof -
  have mem: "run \<in> set (db_runs d)" using dequeue_loop_SomeD [OF run] by simp
  then have get: "get_run_row (r_id run) d = Some run" using v by (simp add: get_run_row_iff)
  let ?r = "lock_run w until now run"
  have "valid (put_run ?r d)"
    using v mem w by (intro valid_put_run lock_run_valid) (auto intro: valid_run)
  then have "valid (add_logs [JobLog (st 0) (r_id run) ''info'' ''system'' (''Locked by '' @ w)] (put_run ?r d))"
    using fresh_stampsD(4,6) [OF st] get_run_row_in_table [OF get]
    by (intro valid_add_log) (simp_all add: in_table_upd)
  then show ?thesis using run t get by (simp add: dequeue_next_run_def rows)
qed

end
