(* ===== verification/QueueContract.thy ===== *)
theory QueueContract
  imports QueueCorrect
begin

text \<open>
  The contract a worker relies on when it pulls from the queue, as the locale
  \<open>job_queue\<close>: a pull that returns nothing changes nothing; a pull that returns a run took
  a pending run, left it running under the caller's lock, and changed no other run. The
  client lemmas (a sequence of pulls never hands out the same run twice, and every run it
  hands out was pending at the start) hold for both implementations, \<open>JobRunService\<close> and
  the older \<open>QueueService\<close>. The release of expired locks is here too.
\<close>

type_synonym dequeue_op =
  "string \<Rightarrow> datetime \<Rightarrow> stamps \<Rightarrow> db \<Rightarrow> (job_run option \<times> db) result"

text \<open>A sequence of pulls, each by a worker at some time: the ids handed out.\<close>

fun dequeue_seq ::
  "dequeue_op \<Rightarrow> (string \<times> datetime \<times> stamps) list \<Rightarrow> db \<Rightarrow> (string list \<times> db) result" where
  "dequeue_seq deq [] d = Inr ([], d)"
| "dequeue_seq deq ((w, now, st) # reqs) d =
     bind_result (deq w now st d) (\<lambda>(got, d1).
     bind_result (dequeue_seq deq reqs d1) (\<lambda>(ids, d2).
     Inr ((case got of None \<Rightarrow> ids | Some r \<Rightarrow> r_id r # ids), d2)))"

definition pending_in :: "db \<Rightarrow> string \<Rightarrow> bool" where
  "pending_in d k \<longleftrightarrow> (\<exists>r. get_run_row k d = Some r \<and> r_status r = ''pending'')"

locale job_queue =
  fixes deq :: dequeue_op
  assumes deq_none: "valid d \<Longrightarrow> deq w now st d = Inr (None, d') \<Longrightarrow> d' = d"
    and deq_took: "valid d \<Longrightarrow> deq w now st d = Inr (Some r, d') \<Longrightarrow> pending_in d (r_id r)"
    and deq_holds: "valid d \<Longrightarrow> deq w now st d = Inr (Some r, d') \<Longrightarrow>
          get_run_row (r_id r) d' = Some r \<and> r_status r = ''running'' \<and> r_worker_id r = Some w
          \<and> r_locked_by r = Some w \<and> r_locked_until r \<noteq> None \<and> r_start_time r \<noteq> None"
    and deq_others: "valid d \<Longrightarrow> deq w now st d = Inr (Some r, d') \<Longrightarrow> k \<noteq> r_id r \<Longrightarrow>
          get_run_row k d' = get_run_row k d"
    and deq_valid: "valid d \<Longrightarrow> deq w now st d = Inr (got, d') \<Longrightarrow> valid d'"
begin

lemma not_pending_after:
  "valid d \<Longrightarrow> deq w now st d = Inr (Some r, d') \<Longrightarrow> \<not> pending_in d' (r_id r)"
  using deq_holds [of d w now st r d'] by (simp add: pending_in_def)

lemma pending_back:
  assumes "valid d" and "deq w now st d = Inr (got, d')" and "pending_in d' k"
  shows "pending_in d k"
proof (cases got)
  case None
  then show ?thesis using assms deq_none by blast
next
  case (Some r)
  then show ?thesis using assms deq_others [of d w now st r d' k] not_pending_after
    by (cases "k = r_id r") (auto simp: pending_in_def)
qed

lemma seq_distinct_pending:
  assumes "dequeue_seq deq reqs d = Inr (ids, d')" and "valid d"
  shows "distinct ids \<and> (\<forall>k \<in> set ids. pending_in d k) \<and> valid d'"
  using assms
proof (induction reqs arbitrary: d ids)
  case Nil
  then show ?case by simp
next
  case (Cons req reqs)
  obtain w now st where req: "req = (w, now, st)" by (cases req) auto
  obtain got d1 ids1 where deq: "deq w now st d = Inr (got, d1)"
    and rest: "dequeue_seq deq reqs d1 = Inr (ids1, d')"
    and ids: "ids = (case got of None \<Rightarrow> ids1 | Some r \<Rightarrow> r_id r # ids1)"
    using Cons.prems(1) by (auto simp: req result_iff)
  have v1: "valid d1" using deq Cons.prems(2) by (rule deq_valid [rotated])
  note IH = Cons.IH [OF rest v1]
  have bk: "\<forall>k \<in> set ids1. pending_in d k"
    using IH pending_back [OF Cons.prems(2) deq] by blast
  show ?case
  proof (cases got)
    case None
    then show ?thesis using IH bk ids by simp
  next
    case (Some r)
    have took: "pending_in d (r_id r)" "\<not> pending_in d1 (r_id r)"
      using deq_took not_pending_after Cons.prems(2) deq Some by blast+
    then show ?thesis using IH bk ids Some by auto
  qed
qed

end

section \<open>JobRunService keeps the contract\<close>

lemma dequeue_next_run_contract:
  assumes v: "valid d" and deq: "dequeue_next_run locked lock_seconds w now st d = Inr (Some r, d')"
  shows "pending_in d (r_id r)" and "get_run_row (r_id r) d' = Some r"
    and "r_status r = ''running''" "r_worker_id r = Some w" "r_locked_by r = Some w"
    and "r_locked_until r = Some (shift (lock_seconds * second_us) now)"
    and "r_start_time r \<noteq> None"
    and "k \<noteq> r_id r \<Longrightarrow> get_run_row k d' = get_run_row k d" and "valid d'"
proof -
  from deq obtain run where run: "dequeue_loop locked d [] = Some run"
    and r: "r = lock_run w (shift (lock_seconds * second_us) now) now run" and v': "valid d'"
    and d': "d' = add_logs [JobLog (st 0) (r_id run) ''info'' ''system'' (''Locked by '' @ w)] (put_run r d)"
    by (rule dequeue_next_run_SomeD)
  have mem: "run \<in> set (db_runs d)" "r_status run = ''pending''"
    using dequeue_loop_SomeD [OF run] by (auto simp: run_available_def)
  then have get: "get_run_row (r_id run) d = Some run" using v by (simp add: get_run_row_iff)
  show "pending_in d (r_id r)" using get mem by (simp add: pending_in_def r)
  show "get_run_row (r_id r) d' = Some r" using get by (simp add: d' rows) (simp add: r)
  show "r_status r = ''running''" "r_worker_id r = Some w" "r_locked_by r = Some w"
    "r_locked_until r = Some (shift (lock_seconds * second_us) now)" "r_start_time r \<noteq> None"
    by (simp_all add: r lock_run_def)
  show "k \<noteq> r_id r \<Longrightarrow> get_run_row k d' = get_run_row k d" by (simp add: d' rows)
  show "valid d'" by (rule v')
qed

interpretation service_queue: job_queue "dequeue_next_run locked lock_seconds" for locked lock_seconds
proof unfold_locales
  fix d d' w now st
  assume "valid d" and "dequeue_next_run locked lock_seconds w now st d = Inr (None, d')"
  then show "d' = d" using dequeue_next_run_None(1) by blast
next
  fix d d' w now st and got :: "job_run option"
  assume "valid d" and "dequeue_next_run locked lock_seconds w now st d = Inr (got, d')"
  then show "valid d'"
    using dequeue_next_run_None(1) dequeue_next_run_contract(9) by (cases got) blast+
qed (use dequeue_next_run_contract in simp_all)

section \<open>QueueService keeps the contract\<close>

lemma dequeue_and_lock_SomeD:
  assumes "dequeue_and_lock locked lock_seconds w now st d = Inr (Some r, d')" and v: "valid d"
  obtains run where "find_next_run_to_lock locked [] d = Some run" and "valid d'"
    and "get_run_row (r_id run) d = Some run" and "r_status run = ''pending''" and "r_id r = r_id run"
    and "r_status r = ''running''" and "r_worker_id r = Some w" and "r_locked_by r = Some w"
    and "r_locked_until r \<noteq> None" and "r_start_time r \<noteq> None"
    and "d' = add_logs [JobLog (st 0) (r_id run) ''info'' ''system'' (''Locked by '' @ w)] (put_run r d)"
proof -
  obtain run where run: "find_next_run_to_lock locked [] d = Some run"
    using assms by (auto simp: dequeue_and_lock_def split: option.splits)
  have mem: "run \<in> set (db_runs d)" "r_status run = ''pending''"
    using find_next_SomeD(1,2) [OF run] by (auto simp: run_available_def)
  then have get: "get_run_row (r_id run) d = Some run" using v by (simp add: get_run_row_iff)
  define r1 where "r1 = run\<lparr>r_status := ''running'', r_worker_id := Some w, r_locked_by := Some w,
    r_locked_until := Some (shift (lock_seconds * second_us) now),
    r_start_time := (case r_start_time run of None \<Rightarrow> Some now | Some s \<Rightarrow> Some s),
    r_heartbeat_at := Some now\<rparr>"
  have id: "r_id r1 = r_id run" by (simp add: r1_def)
  have "get_run_row (r_id run) d' = Some r" and "valid d'"
    and d': "d' = add_logs [JobLog (st 0) (r_id run) ''info'' ''system'' (''Locked by '' @ w)] (put_run r1 d)"
    using assms(1) run by (auto simp: dequeue_and_lock_def Let_def result_iff r1_def)
  moreover have "r = r1" using calculation(1) get by (simp add: d' rows id)
  moreover have "r_start_time r1 \<noteq> None" by (simp add: r1_def split: option.split)
  ultimately show ?thesis using that [OF run _ get mem(2)] by (simp add: r1_def)
qed

lemma dequeue_and_lock_None:
  assumes "dequeue_and_lock locked lock_seconds w now st d = Inr (None, d')" and v: "valid d"
  shows "d' = d"
proof (cases "find_next_run_to_lock locked [] d")
  case None
  then show ?thesis using assms(1) by (simp add: dequeue_and_lock_def)
next
  case (Some run)
  have "run \<in> set (db_runs d)" using find_next_SomeD(1) [OF Some] .
  then have "get_run_row (r_id run) d = Some run" using v by (simp add: get_run_row_iff)
  then show ?thesis using assms(1) Some by (auto simp: dequeue_and_lock_def Let_def result_iff rows)
qed

interpretation legacy_queue: job_queue "dequeue_and_lock locked lock_seconds" for locked lock_seconds
proof unfold_locales
  fix d d' w now st
  assume "valid d" and "dequeue_and_lock locked lock_seconds w now st d = Inr (None, d')"
  then show "d' = d" using dequeue_and_lock_None by blast
next
  fix d d' w now st r
  assume v: "valid d" and deq: "dequeue_and_lock locked lock_seconds w now st d = Inr (Some r, d')"
  from deq v obtain run where f: "get_run_row (r_id run) d = Some run" "r_status run = ''pending''"
    "r_id r = r_id run" "r_status r = ''running''" "r_worker_id r = Some w" "r_locked_by r = Some w"
    "r_locked_until r \<noteq> None" "r_start_time r \<noteq> None"
    and d': "d' = add_logs [JobLog (st 0) (r_id run) ''info'' ''system'' (''Locked by '' @ w)] (put_run r d)"
    by (rule dequeue_and_lock_SomeD)
  show "pending_in d (r_id r)" using f by (simp add: pending_in_def)
  show "get_run_row (r_id r) d' = Some r \<and> r_status r = ''running'' \<and> r_worker_id r = Some w
        \<and> r_locked_by r = Some w \<and> r_locked_until r \<noteq> None \<and> r_start_time r \<noteq> None"
    using f by (simp add: d' rows)
  show "get_run_row k d' = get_run_row k d" if "k \<noteq> r_id r" for k using that by (simp add: d' rows)
next
  fix d d' w now st and got :: "job_run option"
  assume "valid d" and "dequeue_and_lock locked lock_seconds w now st d = Inr (got, d')"
  then show "valid d'"
    using dequeue_and_lock_None by (cases got) (blast elim: dequeue_and_lock_SomeD)+
qed

section \<open>Releasing expired locks\<close>

lemma run_expired_released [simp]:
  "\<not> run_expired t (release now r)" "\<not> run_expired t (cleanup_release r)"
  by (simp_all add: run_expired_def release_def cleanup_release_def)

lemma release_simps [simp]:
  "r_id (release now r) = r_id r" "r_job_id (release now r) = r_job_id r"
  "r_user_id (release now r) = r_user_id r" "r_status (release now r) = ''pending''"
  "r_locked_by (release now r) = None" "r_locked_until (release now r) = None"
  "r_worker_id (release now r) = None" "r_retry_count (release now r) = r_retry_count r"
  "r_metadata_json (release now r) = r_metadata_json r"
  by (simp_all add: release_def)

lemma release_valid: "run_valid d r \<Longrightarrow> run_valid d (release now r)"
  by (simp add: run_valid_def run_ok_def run_fits_def fk_run_def release_def)

lemma release_logs_props:
  assumes "fresh_stamps (length rs) st d" and "\<forall>r \<in> set rs. in_table r_id (db_runs d) (r_id r)"
  shows "\<forall>l \<in> set (release_logs st rs). log_valid d l"
    and "distinct (map l_id (release_logs st rs))"
    and "\<forall>l \<in> set (release_logs st rs). l_id l \<notin> l_id ` set (db_logs d)"
proof -
  have mem: "\<exists>i < length rs. \<exists>r \<in> set rs. l = JobLog (st i) (r_id r) ''warning'' ''system'' ''Expired lock released''"
    if "l \<in> set (release_logs st rs)" for l
  proof -
    from that obtain i r where ir: "(i, r) \<in> set (zip [0..<length rs] rs)"
      and l: "l = JobLog (st i) (r_id r) ''warning'' ''system'' ''Expired lock released''"
      by (auto simp: release_logs_def)
    show ?thesis using set_zip_leftD [OF ir] set_zip_rightD [OF ir] l by auto
  qed
  show "\<forall>l \<in> set (release_logs st rs). log_valid d l"
    using mem assms fresh_stampsD(6) [OF assms(1)] by (auto intro!: log_valid_JobLog dest!: mem)
  show "\<forall>l \<in> set (release_logs st rs). l_id l \<notin> l_id ` set (db_logs d)"
  proof
    fix l assume "l \<in> set (release_logs st rs)"
    then obtain i where "i < length rs" "l_id l = fst (st i)" using mem by fastforce
    then show "l_id l \<notin> l_id ` set (db_logs d)" using fresh_stampsD(4) [OF assms(1)] by simp
  qed
  have "map l_id (release_logs st rs) = map (\<lambda>i. fst (st i)) [0..<length rs]"
    by (rule nth_equalityI) (simp_all add: release_logs_def)
  then show "distinct (map l_id (release_logs st rs))" using assms(1) by (simp add: fresh_stamps_def)
qed

lemma release_expired_locks_eq:
  assumes v: "valid d" and st: "fresh_stamps (length (find_expired_runs now d)) st d"
  shows "release_expired_locks now st d
         = Inr (length (find_expired_runs now d),
                add_logs (release_logs st (find_expired_runs now d))
                  (d\<lparr>db_runs := map (\<lambda>r. if run_expired now r then release now r else r) (db_runs d)\<rparr>))"
proof -
  let ?f = "\<lambda>r. if run_expired now r then release now r else r"
  let ?d = "d\<lparr>db_runs := map ?f (db_runs d)\<rparr>"
  have v1: "valid ?d" using v by (intro valid_map_runs) (auto intro: release_valid dest: valid_run)
  have ids: "map r_id (map ?f (db_runs d)) = map r_id (db_runs d)" by (simp add: if_distrib)
  have simps: "db_runs ?d = map ?f (db_runs d)" by simp
  have tab: "in_table r_id (db_runs ?d) k = in_table r_id (db_runs d) k" for k
    by (simp only: in_table_def simps ids)
  have st1: "fresh_stamps (length (find_expired_runs now d)) st ?d"
    using st ids by (simp add: fresh_stamps_def used_ids_def del: map_map)
  have "\<forall>r \<in> set (find_expired_runs now d). in_table r_id (db_runs ?d) (r_id r)"
    unfolding tab by (auto simp: find_expired_runs_def in_table_def)
  note props = release_logs_props [OF st1 this]
  have "valid (add_logs (release_logs st (find_expired_runs now d)) ?d)"
    using v1 props by (rule valid_add_logs)
  then show ?thesis by (simp add: release_expired_locks_def Let_def)
qed

end
