(* ===== verification/OutcomeCorrect.thy ===== *)
theory OutcomeCorrect
  imports RunService Integrity
begin

text \<open>
  Correctness of \<open>update_status\<close> and \<open>retry_run\<close>: when they succeed, exactly which run rows
  they leave, and the automatic retry after a failure.
\<close>

section \<open>Retry\<close>

definition may_retry :: "db \<Rightarrow> job_run \<Rightarrow> bool" where
  "may_retry d r \<longleftrightarrow>
     (case run_job d r of None \<Rightarrow> False
      | Some j \<Rightarrow> (case j_max_retry j of None \<Rightarrow> False | Some m \<Rightarrow> r_retry_count r < m))"

lemma valid_run_job:
  assumes "valid d" and "get_run_row k d = Some r"
  obtains j m where "run_job d r = Some j" "j_max_retry j = Some m" "0 \<le> m" "m < 2 ^ 31"
    "j \<in> set (db_jobs d)"
proof -
  have "in_table j_id (db_jobs d) (r_job_id r)"
    using assms valid_run get_run_row_SomeD by (fastforce simp: run_valid_def fk_run_def)
  then obtain j where j: "run_job d r = Some j"
    using jobs.get_None_iff [of "r_job_id r" d] by (auto simp: run_job_def get_job_row_def)
  have mem: "j \<in> set (db_jobs d)" using j by (auto simp: run_job_def dest: get_job_row_SomeD)
  have "job_ok j \<and> job_fits j" using assms(1) mem by (rule valid_job)
  then obtain m where "j_max_retry j = Some m" "0 \<le> m" "m < 2 ^ 31"
    by (auto simp: job_ok_def job_fits_def required_iff integer_column_def)
  then show ?thesis using that j mem by blast
qed

lemma retry_limit_reached_iff:
  assumes "valid d" and "get_run_row k d = Some r"
  shows "retry_limit_reached r (run_job d r) = Inr (\<not> may_retry d r)"
  using assms by (rule valid_run_job) (auto simp: retry_limit_reached_def may_retry_def)

lemma retry_row_simps [simp]:
  "r_id (retry_row st u r) = fst st" "r_job_id (retry_row st u r) = r_job_id r"
  "r_status (retry_row st u r) = ''pending''" "r_user_id (retry_row st u r) = or_str u (r_user_id r)"
  "r_trigger_type (retry_row st u r) = ''retry''"
  "r_retry_count (retry_row st u r) = r_retry_count r + 1"
  "r_action_type (retry_row st u r) = r_action_type r"
  "r_action_payload (retry_row st u r) = r_action_payload r"
  "r_timeout_seconds (retry_row st u r) = r_timeout_seconds r"
  "r_task_type (retry_row st u r) = None" "r_script (retry_row st u r) = None"
  "r_working_dir (retry_row st u r) = None" "r_locked_by (retry_row st u r) = None"
  "r_locked_until (retry_row st u r) = None" "r_start_time (retry_row st u r) = None"
  "r_end_time (retry_row st u r) = None" "r_metadata_json (retry_row st u r) = None"
  "r_worker_id (retry_row st u r) = None" "r_created_at (retry_row st u r) = snd st"
  by (simp_all add: retry_row_def)

lemma retry_row_valid:
  assumes v: "valid d" and get: "get_run_row k d = Some r" and may: "may_retry d r"
    and u: "opt_ok (in_table u_id (db_users d)) u" and id: "varchar 36 (fst st)"
  shows "run_valid d (retry_row st u r)"
proof -
  obtain j m where jm: "run_job d r = Some j" "j_max_retry j = Some m" "0 \<le> m" "m < 2 ^ 31"
    using valid_run_job [OF v get] .
  then have cnt: "r_retry_count r < m" using may by (simp add: may_retry_def)
  have r: "run_valid d r" using v get by (blast dest: get_run_row_SomeD intro: valid_run)
  then have "0 \<le> r_retry_count r" by (simp add: run_valid_def run_ok_def)
  then have col: "integer_column (r_retry_count r + 1)" using cnt jm(4) by (simp add: integer_column_def)
  have uid: "opt_ok (in_table u_id (db_users d)) (or_str u (r_user_id r))"
    using u r by (simp add: or_str_def run_valid_def fk_run_def)
  have trg: "r_triggered_by (retry_row st u r) = Some ''retry''"
    "r_duration_seconds (retry_row st u r) = None" "r_duration_ms (retry_row st u r) = None"
    by (simp_all add: retry_row_def)
  show ?thesis
    using r col uid id
    by (simp add: run_valid_def run_ok_def run_fits_def fk_run_def trg varchar_def)
qed

definition retried_db :: "stamps \<Rightarrow> string option \<Rightarrow> job_run \<Rightarrow> db \<Rightarrow> db" where
  "retried_db st u r d =
     add_logs [JobLog (st 2) (r_id r) ''info'' ''system'' ''Retry created: None'']
       (add_runs [retry_row (st 1) u r] d)"

lemma retry_run_succeeds:
  assumes v: "valid d" and get: "get_run_row k d = Some r"
    and status: "r_status r \<in> {''failed'', ''timeout'', ''canceled''}" and may: "may_retry d r"
    and u: "opt_ok (in_table u_id (db_users d)) u"
    and id1: "fst (st 1) \<notin> r_id ` set (db_runs d)" "varchar 36 (fst (st 1))"
    and id2: "fst (st 2) \<notin> l_id ` set (db_logs d)" "varchar 36 (fst (st 2))"
  shows "retry_run st k u d = Inr (retry_row (st 1) u r, retried_db st u r d)" "valid (retried_db st u r d)"
proof -
  have k: "r_id r = k" using get by (auto dest: get_run_row_SomeD)
  have v1: "valid (add_runs [retry_row (st 1) u r] d)"
    using v retry_row_valid [OF v get may u id1(2)] id1(1) by (intro valid_add_runs) auto
  show v2: "valid (retried_db st u r d)"
    unfolding retried_db_def k
    using v1 id2 get by (intro valid_add_log) (auto dest: get_run_row_in_table)
  have new: "get_run_row (fst (st 1)) (retried_db st u r d) = Some (retry_row (st 1) u r)"
  proof -
    have "get_run_row (fst (st 1)) d = None"
      using id1(1) by (simp add: get_run_row_def repo_get_def row_get_None_iff)
    then show ?thesis by (simp add: retried_db_def rows row_get_Cons)
  qed
  show "retry_run st k u d = Inr (retry_row (st 1) u r, retried_db st u r d)"
    using status may v2 new
    by (simp add: retry_run_def get_run_def get retry_limit_reached_iff [OF v get] opt_str_def
        retried_db_def k)
qed

lemma retry_run_InrD:
  assumes v: "valid d" and ok: "retry_run st k u d = Inr (n, d')"
  obtains r where "get_run_row k d = Some r" "r_status r \<in> {''failed'', ''timeout'', ''canceled''}"
    "may_retry d r" "n = retry_row (st 1) u r" "d' = retried_db st u r d" "valid d'"
proof -
  obtain r where get: "get_run_row k d = Some r" using ok by (auto simp: retry_run_def result_iff)
  have k: "r_id r = k" using get by (auto dest: get_run_row_SomeD)
  note unf = ok [unfolded retry_run_def get_run_def get option.case bind_result_simps
    retry_limit_reached_iff [OF v get]]
  have st: "r_status r \<in> {''failed'', ''timeout'', ''canceled''}" using unf by (meson Inl_Inr_False)
  have may: "may_retry d r"
  proof (rule ccontr)
    assume "\<not> may_retry d r"
    then show False using unf st by (auto split: if_splits)
  qed
  have "bind_result (commit (retried_db st u r d)) (\<lambda>d'. bind_result (get_run (fst (st 1)) d')
          (\<lambda>new_run. Inr (new_run, d'))) = Inr (n, d')"
    using unf st may
    by (auto simp: get_run_def retried_db_def k opt_str_def simp del: One_nat_def split: if_splits)
  then have steps: "valid d'" "d' = retried_db st u r d" "get_run_row (fst (st 1)) d' = Some n"
    by (auto simp: result_iff)
  have "retry_row (st 1) u r \<in> set (db_runs d')" by (simp add: steps(2) retried_db_def)
  then have "n = retry_row (st 1) u r"
    using steps(3) get_run_row_iff [OF steps(1), of "fst (st 1)" "retry_row (st 1) u r"] by simp
  then show ?thesis using that get st may steps by blast
qed

section \<open>Completing a run\<close>

definition finish_row :: "datetime \<Rightarrow> string \<Rightarrow> job_run \<Rightarrow> job_run" where
  "finish_row now status r = completed now (r\<lparr>r_status := status\<rparr>)"

definition final_status :: "string \<Rightarrow> bool" where
  "final_status s \<longleftrightarrow> s \<in> {''success'', ''failed'', ''timeout'', ''canceled''}"

text \<open>The duration columns are 32-bit: a run must finish within about 24.8 days.\<close>

definition duration_fits :: "datetime \<Rightarrow> job_run \<Rightarrow> bool" where
  "duration_fits now r \<longleftrightarrow>
     (case r_start_time r of None \<Rightarrow> True | Some s \<Rightarrow> instant now - instant s \<le> 2147483000000)"

lemma elapsed_columns:
  assumes "us \<le> 2147483000000"
  shows "integer_column (elapsed_ms us)" and "integer_column (elapsed_whole us)"
proof -
  have "elapsed_ms us \<le> 2147483001 \<and> elapsed_whole us \<le> 2147484"
  proof (cases "2000 \<le> us")
    case True
    then have "\<bar>1000 * elapsed_ms us - us\<bar> \<le> 500" using assms by (intro elapsed_ms_nearest) simp_all
    moreover have "elapsed_whole us \<le> 2147484"
    proof -
      have "(of_int us :: rat) \<le> of_int 2147483000000" using assms by (simp only: of_int_le_iff)
      then have "(of_int us / 1000000 :: rat) \<le> of_int 2147484" by simp
      then show ?thesis using True assms elapsed_whole_ceiling [of us] by (simp add: ceiling_le_iff)
    qed
    ultimately show ?thesis using assms by linarith
  next
    case False
    have x1: "elapsed_seconds us \<le> 1"
    proof -
      have "fl (of_int us / 1000000) \<le> 1"
      proof (cases "0 < us")
        case True
        then show ?thesis using False fl_between_ints(1) [of "of_int us / 1000000" 1] by simp
      next
        case neg: False
        have "0 < fl (- (of_int us / 1000000))" if "us < 0" using that by (intro fl_positive) simp
        then have "fl (of_int us / 1000000) \<le> 0"
          using neg by (cases "us = 0") (simp_all add: fl_def split: if_splits)
        then show ?thesis by linarith
      qed
      then show ?thesis using fl_milli(1) by (simp add: elapsed_seconds_def)
    qed
    have x0: "0 < elapsed_seconds us" using fl_milli(2) by (simp add: elapsed_seconds_def less_max_iff_disj)
    have "fl (elapsed_seconds us * 1000) \<le> of_int 1000"
      using x0 x1 by (intro fl_between_ints(1)) simp_all
    then have "round_half_even (fl (elapsed_seconds us * 1000)) \<le> 1000" by (rule round_half_even_le)
    moreover have "\<lceil>elapsed_seconds us\<rceil> \<le> 1" using x1 by (simp add: ceiling_le_iff)
    ultimately show ?thesis by (simp add: elapsed_ms_def elapsed_whole_def)
  qed
  then show "integer_column (elapsed_ms us)" and "integer_column (elapsed_whole us)"
    using elapsed_ms_ge_1 [of us] elapsed_whole_ge_1 [of us] by (simp_all add: integer_column_def)
qed

lemma finish_row_simps [simp]:
  "r_id (finish_row now s r) = r_id r" "r_job_id (finish_row now s r) = r_job_id r"
  "r_status (finish_row now s r) = s" "r_user_id (finish_row now s r) = r_user_id r"
  "r_locked_by (finish_row now s r) = None" "r_locked_until (finish_row now s r) = None"
  "r_retry_count (finish_row now s r) = r_retry_count r"
  "r_end_time (finish_row now s r) = Some (Aware (instant now))"
  "r_start_time (finish_row now s r) = r_start_time r"
  "r_metadata_json (finish_row now s r) = r_metadata_json r"
  by (simp_all add: finish_row_def)

lemma finish_row_valid:
  assumes r: "run_valid d r" and s: "final_status s" and fits: "duration_fits now r"
  shows "run_valid d (finish_row now s r)"
proof -
  have dur: "opt_ok integer_column (r_duration_seconds (finish_row now s r))
        \<and> opt_ok integer_column (r_duration_ms (finish_row now s r))"
    using r fits elapsed_columns
    by (auto simp: finish_row_def completed_def Let_def duration_fits_def run_valid_def run_fits_def
        split: option.splits)
  have keep: "r_trigger_type (finish_row now s r) = r_trigger_type r"
    "r_action_type (finish_row now s r) = r_action_type r"
    "r_task_type (finish_row now s r) = r_task_type r"
    "r_timeout_seconds (finish_row now s r) = r_timeout_seconds r"
    "r_triggered_by (finish_row now s r) = r_triggered_by r"
    "r_worker_id (finish_row now s r) = r_worker_id r"
    by (simp_all add: finish_row_def)
  have st: "one_of JOB_RUN_STATUSES s" using s by (auto simp: final_status_def)
  show ?thesis using r dur st
    by (simp add: run_valid_def run_ok_def run_fits_def fk_run_def keep)
qed

lemma retry_row_finish_row [simp]: "retry_row st u (finish_row now s r) = retry_row st u r"
  by (simp add: retry_row_def finish_row_def)

section \<open>Output\<close>

lemma set_output_simps [simp]:
  "r_id (set_output a b c r) = r_id r" "r_job_id (set_output a b c r) = r_job_id r"
  "r_status (set_output a b c r) = r_status r" "r_locked_by (set_output a b c r) = r_locked_by r"
  "r_locked_until (set_output a b c r) = r_locked_until r"
  "r_retry_count (set_output a b c r) = r_retry_count r"
  "r_start_time (set_output a b c r) = r_start_time r"
  "r_end_time (set_output a b c r) = r_end_time r"
  "r_metadata_json (set_output a b c r) = r_metadata_json r"
  by (simp_all add: set_output_def)

lemma set_output_valid: "run_valid d r \<Longrightarrow> run_valid d (set_output a b c r)"
  by (simp add: run_valid_def run_ok_def run_fits_def fk_run_def set_output_def)

lemma output_logs_ids:
  assumes "l \<in> set (output_logs st k a b c)"
  obtains i where "i \<in> {4, 5, 6}" "l_id l = fst (st i)" "l_job_run_id l = k"
    "one_of LOG_LEVELS (l_log_level l)" "one_of LOG_STREAMS (l_stream l)"
proof -
  have "\<exists>i \<in> {4, 5, 6}. l_id l = fst (st i) \<and> l_job_run_id l = k
      \<and> one_of LOG_LEVELS (l_log_level l) \<and> one_of LOG_STREAMS (l_stream l)"
    using assms by (auto simp: output_logs_def split: if_splits)
  then show ?thesis using that by blast
qed

lemma distinct_output_logs:
  assumes "fst (st 4) \<noteq> fst (st 5)" "fst (st 4) \<noteq> fst (st 6)" "fst (st 5) \<noteq> fst (st 6)"
  shows "distinct (map l_id (output_logs st k a b c))"
  using assms by (simp add: output_logs_def)

definition output_db ::
  "stamps \<Rightarrow> string \<Rightarrow> string option \<Rightarrow> string option \<Rightarrow> string option \<Rightarrow> db \<Rightarrow> db" where
  "output_db st k a b c d = add_logs (output_logs st k a b c) (upd_run k (set_output a b c) d)"

lemma output_db_valid:
  assumes v: "valid d" and get: "get_run_row k d = Some r"
    and ids: "\<forall>i \<in> {4, 5, 6}. fst (st i) \<notin> l_id ` set (db_logs d) \<and> varchar 36 (fst (st i))"
    and dist: "fst (st 4) \<noteq> fst (st 5)" "fst (st 4) \<noteq> fst (st 6)" "fst (st 5) \<noteq> fst (st 6)"
  shows "valid (output_db st k a b c d)"
  unfolding output_db_def
proof (rule valid_add_logs)
  show v1: "valid (upd_run k (set_output a b c) d)"
    using v by (intro valid_upd_run) (auto intro: set_output_valid dest: valid_run)
  show "distinct (map l_id (output_logs st k a b c))" using dist by (rule distinct_output_logs)
  have k: "in_table r_id (db_runs (upd_run k (set_output a b c) d)) k"
    using get_run_row_in_table [OF get] by (simp add: in_table_upd)
  show "\<forall>l \<in> set (output_logs st k a b c). log_valid (upd_run k (set_output a b c) d) l"
  proof
    fix l assume "l \<in> set (output_logs st k a b c)"
    then obtain i where i: "i \<in> {4, 5, 6}" and l: "l_id l = fst (st i)" "l_job_run_id l = k"
      "one_of LOG_LEVELS (l_log_level l)" "one_of LOG_STREAMS (l_stream l)"
      by (rule output_logs_ids)
    show "log_valid (upd_run k (set_output a b c) d) l"
      using conjunct2 [OF bspec [OF ids i]] k l by (simp add: log_valid_def log_ok_def log_fits_def)
  qed
  show "\<forall>l \<in> set (output_logs st k a b c). l_id l \<notin> l_id ` set (db_logs (upd_run k (set_output a b c) d))"
  proof
    fix l assume "l \<in> set (output_logs st k a b c)"
    then obtain i where i: "i \<in> {4, 5, 6}" "l_id l = fst (st i)" by (rule output_logs_ids)
    have "fst (st i) \<notin> l_id ` set (db_logs d)" by (rule conjunct1 [OF bspec [OF ids i(1)]])
    then show "l_id l \<notin> l_id ` set (db_logs (upd_run k (set_output a b c) d))" by (simp add: i(2))
  qed
qed

lemma get_output_db:
  "get_run_row k (output_db st k a b c d) = map_option (set_output a b c) (get_run_row k d)"
  by (simp add: output_db_def get_run_row_add_logs get_run_row_upd_run)

lemma update_status_eq:
  assumes get: "get_run_row k d = Some r" and app: "apply_status st now status r d = Inr d1"
    and v: "valid (output_db st k a b c d1)" and get1: "get_run_row k d1 = Some r1"
  shows "update_status st now k status a b c d = Inr (set_output a b c r1, output_db st k a b c d1)"
  using assms get_output_db [of k st a b c d1]
  by (simp add: update_status_def get_run_def output_db_def)

section \<open>The terminal branch\<close>

definition finished_db :: "stamps \<Rightarrow> datetime \<Rightarrow> string \<Rightarrow> job_run \<Rightarrow> db \<Rightarrow> db" where
  "finished_db st now s r d =
     add_logs [JobLog (st 0) (r_id r) ''info'' ''system'' (''Run finished: '' @ s)]
       (put_run (finish_row now s r) d)"

lemma finished_db_frame [simp]:
  "db_users (finished_db st now s r d) = db_users d" "db_jobs (finished_db st now s r d) = db_jobs d"
  "db_deps (finished_db st now s r d) = db_deps d"
  "db_logs (finished_db st now s r d)
   = db_logs d @ [JobLog (st 0) (r_id r) ''info'' ''system'' (''Run finished: '' @ s)]"
  "db_runs (finished_db st now s r d) = row_upd r_id (r_id r) (\<lambda>_. finish_row now s r) (db_runs d)"
  by (simp_all add: finished_db_def)

lemma get_finished_db:
  assumes "get_run_row k d = Some r"
  shows "get_run_row k (finished_db st now s r d) = Some (finish_row now s r)"
proof -
  have "r_id r = k" using assms by (auto dest: get_run_row_SomeD)
  then show ?thesis using assms by (simp add: finished_db_def rows)
qed

lemma run_job_finished [simp]:
  "run_job (finished_db st now s r d) (finish_row now s r) = run_job d r"
  by (simp add: run_job_def get_job_row_def)

lemma may_retry_finished [simp]:
  "may_retry (finished_db st now s r d) (finish_row now s r) = may_retry d r"
  by (simp add: may_retry_def split: option.split)

lemma finished_db_valid:
  assumes v: "valid d" and get: "get_run_row k d = Some r" and s: "final_status s"
    and fits: "duration_fits now r" and st: "fresh_stamps 7 st d"
  shows "valid (finished_db st now s r d)"
proof -
  have r: "run_valid d r" using v get by (blast dest: get_run_row_SomeD intro: valid_run)
  have k: "r_id r = k" using get by (auto dest: get_run_row_SomeD)
  have v1: "valid (put_run (finish_row now s r) d)"
    using v finish_row_valid [OF r s fits] by (rule valid_put_run)
  show ?thesis unfolding finished_db_def
    using v1 fresh_stampsD(4,6) [OF st, of 0] get_run_row_in_table [OF get] k
    by (intro valid_add_log) (simp_all add: in_table_upd)
qed

lemma apply_status_terminal:
  assumes v: "valid d" and get: "get_run_row k d = Some r" and s: "final_status s"
  shows "apply_status st now s r d
         = (if s \<in> {''failed'', ''timeout''} \<and> may_retry d r
            then auto_retry st (r_id r) (finished_db st now s r d)
            else Inr (finished_db st now s r d))"
proof -
  obtain j where j: "run_job d r = Some j" using valid_run_job [OF v get] .
  have lim: "retry_limit_reached r (Some j) = Inr (\<not> may_retry d r)"
    using retry_limit_reached_iff [OF v get] j by simp
  have "s \<noteq> ''running''" and fin: "s \<in> {''success'', ''failed'', ''timeout'', ''canceled''}"
    using s by (auto simp: final_status_def)
  then show ?thesis
    by (simp only: apply_status_def complete_eq bind_result_simps finish_row_def [symmetric]
        finished_db_def [symmetric] Let_def j lim if_False if_True option.distinct not_False_eq_True
        simp_thms)
       simp
qed

lemma ids_row_upd_const:
  "r_id r = k \<Longrightarrow> r_id ` set (row_upd r_id k (\<lambda>_. r) rs) = r_id ` set rs"
  unfolding set_map [symmetric] by (subst map_r_id_row_upd) auto

lemma auto_retry_finished:
  assumes v: "valid d" and get: "get_run_row k d = Some r" and s: "s \<in> {''failed'', ''timeout''}"
    and fits: "duration_fits now r" and st: "fresh_stamps 7 st d" and may: "may_retry d r"
  defines "d1 \<equiv> finished_db st now s r d"
  defines "d2 \<equiv> add_logs [JobLog (st 3) k ''info'' ''system''
                   (''Automatic retry triggered: '' @ fst (st 1))] (retried_db st None (finish_row now s r) d1)"
  shows "apply_status st now s r d = Inr d2" and "valid d2"
proof -
  have k: "r_id r = k" using get by (auto dest: get_run_row_SomeD)
  have fin: "final_status s" using s by (auto simp: final_status_def)
  have v1: "valid d1" unfolding d1_def using v get fin fits st by (rule finished_db_valid)
  have get1: "get_run_row k d1 = Some (finish_row now s r)" unfolding d1_def by (rule get_finished_db [OF get])
  have id1: "fst (st 1) \<notin> r_id ` set (db_runs d1)"
    using fresh_stampsD(3) [OF st, of 1] by (simp add: d1_def ids_row_upd_const)
  have id2: "fst (st 2) \<notin> l_id ` set (db_logs d1)"
    using fresh_stampsD(4) [OF st, of 2] fresh_stamps_inj [OF st, of 0 2] by (simp add: d1_def)
  have may1: "may_retry d1 (finish_row now s r)" using may by (simp add: d1_def)
  have st1: "r_status (finish_row now s r) \<in> {''failed'', ''timeout'', ''canceled''}" using s by auto
  have u1: "opt_ok (in_table u_id (db_users d1)) None" by simp
  have c: "varchar 36 (fst (st 1))" "varchar 36 (fst (st 2))"
    using fresh_stampsD(6) [OF st, of 1] fresh_stampsD(6) [OF st, of 2] by simp_all
  note R = retry_run_succeeds [OF v1 get1 st1 may1 u1 id1 c(1) id2 c(2)]
  have retry: "retry_run st k None d1
      = Inr (retry_row (st 1) None (finish_row now s r), retried_db st None (finish_row now s r) d1)"
    by (rule R(1))
  have v2: "valid (retried_db st None (finish_row now s r) d1)" by (rule R(2))
  show "valid d2" unfolding d2_def
  proof (rule valid_add_log [OF v2])
    show "fst (st 3) \<notin> l_id ` set (db_logs (retried_db st None (finish_row now s r) d1))"
      using fresh_stampsD(4) [OF st, of 3] fresh_stamps_inj [OF st, of 0 3] fresh_stamps_inj [OF st, of 2 3]
      by (simp add: retried_db_def d1_def)
    show "in_table r_id (db_runs (retried_db st None (finish_row now s r) d1)) k"
      using get_run_row_in_table [OF get1] by (simp add: retried_db_def)
  qed (use fresh_stampsD(6) [OF st, of 3] in simp_all)
  have "auto_retry st k d1 = Inr d2"
    using v1 by (simp add: auto_retry_def retry d2_def)
  then show "apply_status st now s r d = Inr d2"
    using apply_status_terminal [OF v get fin] s may by (simp add: k d1_def)
qed

text \<open>The whole of \<open>update_status\<close> for a terminal status: it succeeds, the run is completed and
  carries the output, exactly one retry is queued when there is budget, and nothing else of the
  tables of runs, jobs, users and dependencies changes.\<close>

text \<open>The output is written to the finished run of a database that has only gained other log rows.\<close>

lemma output_written:
  assumes get: "get_run_row k d = Some r" and st: "fresh_stamps 7 st d"
    and app: "apply_status st now s r d = Inr d1" and v1: "valid d1" and get1: "get_run_row k d1 = Some r1"
    and logs: "l_id ` set (db_logs d1) \<subseteq> l_id ` set (db_logs d) \<union> (\<lambda>i. fst (st i)) ` {0, 2, 3}"
  shows "update_status st now k s a b c d = Inr (set_output a b c r1, output_db st k a b c d1)
     \<and> valid (output_db st k a b c d1)"
proof -
  have dist: "fst (st 4) \<noteq> fst (st 5)" "fst (st 4) \<noteq> fst (st 6)" "fst (st 5) \<noteq> fst (st 6)"
    using fresh_stamps_inj [OF st] by simp_all
  have "\<forall>i \<in> {4, 5, 6}. fst (st i) \<notin> (\<lambda>i. fst (st i)) ` {0, 2, 3}"
    using fresh_stamps_inj [OF st, of _ 0] fresh_stamps_inj [OF st, of _ 2] fresh_stamps_inj [OF st, of _ 3] by auto
  moreover have "\<forall>i \<in> {4, 5, 6}. fst (st i) \<notin> l_id ` set (db_logs d) \<and> varchar 36 (fst (st i))"
    using fresh_stampsD(4,6) [OF st] by auto
  ultimately have "\<forall>i \<in> {4, 5, 6}. fst (st i) \<notin> l_id ` set (db_logs d1) \<and> varchar 36 (fst (st i))"
    using logs by blast
  then have v2: "valid (output_db st k a b c d1)" using output_db_valid [OF v1 get1 _ dist] by blast
  then show ?thesis using update_status_eq [OF get app v2 get1] by blast
qed

lemma update_status_no_retry:
  assumes v: "valid d" and get: "get_run_row k d = Some r" and s: "final_status s"
    and fits: "duration_fits now r" and st: "fresh_stamps 7 st d"
    and no: "\<not> (s \<in> {''failed'', ''timeout''} \<and> may_retry d r)"
  shows "update_status st now k s a b c d
       = Inr (set_output a b c (finish_row now s r), output_db st k a b c (finished_db st now s r d))
     \<and> valid (output_db st k a b c (finished_db st now s r d))"
proof -
  have app: "apply_status st now s r d = Inr (finished_db st now s r d)"
    using apply_status_terminal [OF v get s] no by auto
  have v1: "valid (finished_db st now s r d)" using v get s fits st by (rule finished_db_valid)
  show ?thesis by (rule output_written [OF get st app v1 get_finished_db [OF get]]) auto
qed

definition retry_finished_db :: "stamps \<Rightarrow> datetime \<Rightarrow> string \<Rightarrow> job_run \<Rightarrow> db \<Rightarrow> db" where
  "retry_finished_db st now s r d =
     add_logs [JobLog (st 3) (r_id r) ''info'' ''system'' (''Automatic retry triggered: '' @ fst (st 1))]
       (retried_db st None (finish_row now s r) (finished_db st now s r d))"

lemma update_status_retries:
  assumes v: "valid d" and get: "get_run_row k d = Some r" and s: "final_status s"
    and fits: "duration_fits now r" and st: "fresh_stamps 7 st d"
    and retry: "s \<in> {''failed'', ''timeout''} \<and> may_retry d r"
  shows "update_status st now k s a b c d
       = Inr (set_output a b c (finish_row now s r), output_db st k a b c (retry_finished_db st now s r d))
     \<and> valid (output_db st k a b c (retry_finished_db st now s r d))"
proof -
  have k: "r_id r = k" using get by (auto dest: get_run_row_SomeD)
  have app: "apply_status st now s r d = Inr (retry_finished_db st now s r d)" "valid (retry_finished_db st now s r d)"
    using auto_retry_finished [OF v get _ fits st] retry unfolding retry_finished_db_def k by blast+
  have get1: "get_run_row k (retry_finished_db st now s r d) = Some (finish_row now s r)"
    using get_finished_db [OF get, of st now s] by (simp add: retry_finished_db_def retried_db_def rows)
  show ?thesis by (rule output_written [OF get st app get1]) (auto simp: retry_finished_db_def retried_db_def)
qed

lemma update_status_finishes:
  assumes v: "valid d" and get: "get_run_row k d = Some r" and s: "final_status s"
    and fits: "duration_fits now r" and st: "fresh_stamps 7 st d"
  obtains d' where "update_status st now k s a b c d = Inr (set_output a b c (finish_row now s r), d')"
    and "valid d'" and "db_jobs d' = db_jobs d" and "db_users d' = db_users d" and "db_deps d' = db_deps d"
    and "db_runs d' = row_upd r_id k (\<lambda>_. set_output a b c (finish_row now s r)) (db_runs d)
           @ (if s \<in> {''failed'', ''timeout''} \<and> may_retry d r then [retry_row (st 1) None r] else [])"
proof -
  have k: "r_id r = k" "fst (st 1) \<noteq> k"
    using get_run_row_SomeD [OF get] fresh_stampsD(3) [OF st, of 1] by auto
  have upd2: "row_upd r_id k (set_output a b c) (row_upd r_id k (\<lambda>_. finish_row now s r) (db_runs d))
      = row_upd r_id k (\<lambda>_. set_output a b c (finish_row now s r)) (db_runs d)"
    by (simp add: row_upd_def k(1))
  show ?thesis
  proof (cases "s \<in> {''failed'', ''timeout''} \<and> may_retry d r")
    case False
    note u = update_status_no_retry [OF assms False, of a b c]
    show ?thesis using u
      by (intro that [of "output_db st k a b c (finished_db st now s r d)"])
        (use False upd2 k(1) in \<open>auto simp: output_db_def\<close>)
  next
    case True
    let ?d' = "output_db st k a b c (retry_finished_db st now s r d)"
    note u = update_status_retries [OF assms True, of a b c]
    have runs: "db_runs ?d' = row_upd r_id k (\<lambda>_. set_output a b c (finish_row now s r)) (db_runs d) @ [retry_row (st 1) None r]"
      using upd2 k by (simp add: output_db_def retry_finished_db_def retried_db_def row_upd_def)
    show ?thesis using u
      by (intro that [of ?d']) (use True runs in \<open>auto simp: output_db_def retry_finished_db_def retried_db_def\<close>)
  qed
qed

section \<open>The two transactions of a report\<close>

lemma triggers_retry_iff:
  assumes "valid d" and "get_run_row k d = Some r"
  shows "triggers_retry s r d \<longleftrightarrow> s \<in> {''failed'', ''timeout''} \<and> may_retry d r"
proof -
  obtain j where j: "run_job d r = Some j" using assms by (rule valid_run_job)
  have "retry_limit_reached r (Some j) = Inr (\<not> may_retry d r)"
    using retry_limit_reached_iff [OF assms] by (simp only: j)
  then show ?thesis by (simp only: triggers_retry_def j) simp
qed

text \<open>The first transaction is \<open>apply_status\<close> up to the log line of the retry.\<close>

lemma report_retry_InrD:
  assumes v: "valid d" and ok: "report_retry st now k s d = Inr (Some n, d1)"
  obtains r where "get_run_row k d = Some r" "s \<in> {''failed'', ''timeout''}" "may_retry d r"
    "n = retry_row (st 1) None r" "d1 = retried_db st None (finish_row now s r) (finished_db st now s r d)"
    "valid d1"
    "apply_status st now s r d
     = Inr (add_logs [JobLog (st 3) k ''info'' ''system'' (''Automatic retry triggered: '' @ r_id n)] d1)"
proof -
  obtain r where r: "get_run_row k d = Some r" using ok by (auto simp: report_retry_def result_iff)
  have k: "r_id r = k" using r by (auto dest: get_run_row_SomeD)
  have t: "s \<in> {''failed'', ''timeout''}" "may_retry d r"
    using ok triggers_retry_iff [OF v r] by (auto simp: report_retry_def get_run_def r split: if_splits)
  let ?d1 = "finished_db st now s r d"
  have fdb: "?d1 = add_logs [JobLog (st 0) k ''info'' ''system'' (''Run finished: '' @ s)]
      (put_run (finish_row now s r) d)"
    by (simp add: finished_db_def k)
  have trig: "triggers_retry s r d" using t triggers_retry_iff [OF v r] by blast
  have "bind_result (flush ?d1) (\<lambda>d1. bind_result (retry_run st k None d1)
      (\<lambda>(new_run, d2). Inr (Some new_run, d2))) = Inr (Some n, d1)"
    using ok by (simp add: report_retry_def get_run_def r k finish_row_def [symmetric] fdb trig)
  then have fl: "flush ?d1 = Inr ?d1" and re: "retry_run st k None ?d1 = Inr (n, d1)"
    by (auto simp only: bind_result_Inr_iff flush_Inr_iff split: prod.splits)
  have v1: "valid ?d1" using fl by (simp add: result_iff)
  obtain r1 where r1: "get_run_row k ?d1 = Some r1" "n = retry_row (st 1) None r1"
    "d1 = retried_db st None r1 ?d1" "valid d1"
    using v1 re by (rule retry_run_InrD)
  have eq: "r1 = finish_row now s r" using r1(1) get_finished_db [OF r] by simp
  have "final_status s" using t(1) by (auto simp: final_status_def)
  then have "apply_status st now s r d = auto_retry st k ?d1"
    using apply_status_terminal [OF v r] t k by simp
  then have "apply_status st now s r d
      = Inr (add_logs [JobLog (st 3) k ''info'' ''system'' (''Automatic retry triggered: '' @ r_id n)] d1)"
    using fl re by (simp add: auto_retry_def)
  then show ?thesis using that [OF r t] r1 eq by simp
qed

lemma update_status_split:
  assumes v: "valid d" and ok: "report_retry st now k s d = Inr (Some n, d1)"
  shows "update_status st now k s out se err d = report_output st k (r_id n) out se err d1"
proof -
  obtain r where r: "get_run_row k d = Some r"
    and d1: "d1 = retried_db st None (finish_row now s r) (finished_db st now s r d)"
    and app: "apply_status st now s r d
     = Inr (add_logs [JobLog (st 3) k ''info'' ''system'' (''Automatic retry triggered: '' @ r_id n)] d1)"
    using v ok by (rule report_retry_InrD)
  have "get_run_row k d1 = Some (finish_row now s r)"
    using get_finished_db [OF r] by (simp add: d1 retried_db_def rows)
  then show ?thesis by (simp add: update_status_def get_run_def r app report_output_def)
qed

lemma report_output_InrD:
  assumes "report_output st k x out se err d = Inr (r', d')"
  obtains r where "get_run_row k d = Some r" "valid d'" "r' = set_output out se err r"
    "d' = output_db st k out se err (add_logs [JobLog (st 3) k ''info'' ''system''
            (''Automatic retry triggered: '' @ x)] d)"
proof -
  let ?d1 = "add_logs [JobLog (st 3) k ''info'' ''system'' (''Automatic retry triggered: '' @ x)] d"
  obtain r where r: "get_run_row k d = Some r"
    using assms by (auto simp: report_output_def split: option.splits)
  then have "bind_result (commit (output_db st k out se err ?d1))
      (\<lambda>d1. bind_result (get_run k d1) (\<lambda>r. Inr (r, d1))) = Inr (r', d')"
    using assms by (simp add: report_output_def output_db_def)
  then have "valid d'" "d' = output_db st k out se err ?d1" "get_run_row k d' = Some r'"
    by (auto simp only: result_iff Inr_inject prod.inject)
  then show ?thesis using that [OF r] get_output_db [of k st out se err ?d1] r by (simp add: rows)
qed

lemma report_output_succeeds:
  assumes v: "valid d" and get: "get_run_row k d = Some r" and st: "fresh_stamps 7 st d"
  shows "report_output st k x out se err d = Inr (set_output out se err r, output_db st k out se err
    (add_logs [JobLog (st 3) k ''info'' ''system'' (''Automatic retry triggered: '' @ x)] d))"
proof -
  let ?d1 = "add_logs [JobLog (st 3) k ''info'' ''system'' (''Automatic retry triggered: '' @ x)] d"
  have v1: "valid ?d1"
    using v get_run_row_in_table [OF get] fresh_stampsD(4,6) [OF st, of 3] by (intro valid_add_log) simp_all
  have g1: "get_run_row k ?d1 = Some r" using get by (simp add: rows)
  have "valid (output_db st k out se err ?d1)"
  proof (rule output_db_valid [OF v1 g1])
    show "\<forall>i \<in> {4, 5, 6}. fst (st i) \<notin> l_id ` set (db_logs ?d1) \<and> varchar 36 (fst (st i))"
      using fresh_stampsD(4,6) [OF st] fresh_stamps_inj [OF st, of _ 3] by auto
  qed (use fresh_stamps_inj [OF st] in simp_all)
  then show ?thesis using get get_output_db [of k st out se err ?d1] g1
    by (simp add: report_output_def output_db_def [symmetric] get_run_def)
qed

end
