(* ===== verification/Samples.thy ===== *)
theory Samples
  imports JobService QueueContract OutcomeCorrect
begin

text \<open>
  A small concrete database, at which the witnesses evaluate the model: two users, an
  extraction job that runs every minute, a load job that depends on it, and runs in several
  states. Times are microseconds since the epoch.
\<close>

definition admin_user :: user where
  "admin_user = \<lparr>u_id = ''u0'', u_username = ''root'', u_email = Some ''root@example.org'',
     u_password_hash = ''h0'', u_role = ''admin'', u_created_at = Aware 0\<rparr>"

definition alice :: user where
  "alice = \<lparr>u_id = ''u1'', u_username = ''alice'', u_email = None,
     u_password_hash = ''h1'', u_role = ''developer'', u_created_at = Aware 0\<rparr>"

definition extract_job :: job where
  "extract_job = \<lparr>j_id = ''j1'', j_user_id = Some ''u1'', j_name = Some ''extract'',
     j_task_name = Some ''extract'', j_task_type = Some ''shell'', j_script = Some ''ls'',
     j_working_dir = None, j_action_type = Some ''shell'', j_action_payload = Some [],
     j_schedule_rule = ''every:60s'', j_status = Some ''enabled'', j_enabled = True,
     j_timeout_seconds = Some 300, j_max_retry = Some 3, j_description = None,
     j_next_run_at = Some (Aware 1000), j_last_run_at = None, j_created_at = Aware 0\<rparr>"

definition load_job :: job where
  "load_job = \<lparr>j_id = ''j2'', j_user_id = Some ''u0'', j_name = Some ''load'',
     j_task_name = Some ''load'', j_task_type = None, j_script = None,
     j_working_dir = None, j_action_type = Some ''api_call'', j_action_payload = Some [],
     j_schedule_rule = ''every:60s'', j_status = Some ''active'', j_enabled = True,
     j_timeout_seconds = Some 300, j_max_retry = Some 1, j_description = None,
     j_next_run_at = Some (Aware 1000), j_last_run_at = None, j_created_at = Aware 0\<rparr>"

text \<open>The oldest pending run belongs to the dependent job; the next one is runnable.\<close>

definition load_run :: job_run where
  "load_run = (JobRun (''r1'', Aware 10) ''j2'')\<lparr>r_action_type := Some ''api_call''\<rparr>"

definition extract_run :: job_run where
  "extract_run = (JobRun (''r2'', Aware 20) ''j1'')\<lparr>r_action_type := Some ''shell''\<rparr>"

text \<open>A run whose worker died, one that has failed once, and one triggered by hand.\<close>

definition stale_run :: job_run where
  "stale_run = (JobRun (''r3'', Aware 5) ''j2'')
     \<lparr>r_action_type := Some ''api_call'', r_status := ''running'', r_worker_id := Some ''w0'',
      r_locked_by := Some ''w0'', r_locked_until := Some (Aware 500),
      r_start_time := Some (Aware 6)\<rparr>"

definition failed_run :: job_run where
  "failed_run = (JobRun (''r4'', Aware 1) ''j1'')
     \<lparr>r_action_type := Some ''shell'', r_status := ''failed'', r_user_id := Some ''u1''\<rparr>"

definition manual_run :: job_run where
  "manual_run = (JobRun (''r5'', Aware 30) ''j1'')
     \<lparr>r_action_type := Some ''shell'', r_trigger_type := ''manual''\<rparr>"

definition load_needs_extract :: job_dependency where
  "load_needs_extract = JobDependency (''d1'', Aware 0) ''j2'' ''j1''"

definition sample_db :: db where
  "sample_db = \<lparr>db_users = [admin_user, alice], db_jobs = [extract_job, load_job],
     db_runs = [load_run, extract_run, stale_run, failed_run, manual_run], db_logs = [],
     db_deps = [load_needs_extract]\<rparr>"

text \<open>Fresh primary keys: distinct, and not in use in the sample.\<close>

definition sample_stamps :: stamps where
  "sample_stamps i = (''n'' @ replicate i (CHR ''x''), Aware 1000)"

definition no_cron :: cron_lib where
  "no_cron = \<lparr>cron_is_valid = (\<lambda>_. False), cron_get_next = (\<lambda>_ t. Some t)\<rparr>"

lemmas sample_defs = admin_user_def alice_def extract_job_def load_job_def load_run_def
  extract_run_def stale_run_def failed_run_def manual_run_def load_needs_extract_def sample_db_def

lemma valid_sample [simp]: "valid sample_db"
  by code_simp

lemma fresh_sample [simp]: "fresh_stamps 7 sample_stamps sample_db" "fresh_stamps 1 sample_stamps sample_db"
  by code_simp+

lemma sample_rows:
  "get_run_row ''r1'' sample_db = Some load_run" "get_run_row ''r2'' sample_db = Some extract_run"
  "get_run_row ''r3'' sample_db = Some stale_run" "get_run_row ''r4'' sample_db = Some failed_run"
  by code_simp+

end
