(* ===== verification/QueueProperties.thy ===== *)
theory QueueProperties
  imports Samples
begin

text \<open>
  The properties of the queue, each a few steps over the lemmas of QueueCorrect and
  QueueContract, with a witness at the sample database.
\<close>

section \<open>Dequeue\<close>

text \<open>C2: the dequeue hands out exactly the run a reference queue would: of the pending
  runs of enabled jobs that no other transaction holds, in creation order, the first whose
  dependencies are satisfied. It locks that run for the worker until now plus the lock time
  and logs it, and changes nothing when there is no such run.\<close>

theorem dequeue_is_reference:
  assumes "valid d" and "varchar 80 worker" and "fresh_stamps 1 st d"
    and "add_timedelta now (lock_seconds * second_us) = Inr until"
  shows "dequeue_next_run locked lock_seconds worker now st d =
    Inr (case reference_dequeue locked d of
           None \<Rightarrow> (None, d)
         | Some run \<Rightarrow>
             (Some (lock_run worker until now run),
              add_logs [JobLog (st 0) (r_id run) ''info'' ''system'' (''Locked by '' @ worker)]
                (put_run (lock_run worker until now run) d)))"
proof -
  have "keys_ok d" using assms(1) by (simp add: valid_def db_ok_def)
  then have ref: "dequeue_loop locked d [] = reference_dequeue locked d"
    by (simp add: dequeue_loop_find reference_dequeue_def)
  show ?thesis
  proof (cases "reference_dequeue locked d")
    case None
    then show ?thesis by (simp add: dequeue_next_run_def ref)
  next
    case (Some run)
    obtain d' where ok: "dequeue_next_run locked lock_seconds worker now st d
        = Inr (Some (lock_run worker until now run), d')"
      using dequeue_next_run_succeeds [OF assms(1) _ assms(2,3,4)] ref Some by metis
    have "d' = add_logs [JobLog (st 0) (r_id run) ''info'' ''system'' (''Locked by '' @ worker)]
                (put_run (lock_run worker until now run) d)"
      using ok by (rule dequeue_next_run_SomeD) (simp add: ref Some)
    then show ?thesis using ok Some by simp
  qed
qed

theorem dequeue_is_reference_witness:
  "dequeue_next_run [] 300 ''w1'' (Aware 1000) sample_stamps sample_db =
    Inr (Some (lock_run ''w1'' (Aware 300001000) (Aware 1000) extract_run),
         add_logs [JobLog (sample_stamps 0) ''r2'' ''info'' ''system'' ''Locked by w1'']
           (put_run (lock_run ''w1'' (Aware 300001000) (Aware 1000) extract_run) sample_db))"
proof -
  have "add_timedelta (Aware 1000) (300 * second_us) = Inr (Aware 300001000)" by code_simp
  moreover have "reference_dequeue [] sample_db = Some extract_run" by code_simp
  moreover have "r_id extract_run = ''r2''" "varchar 80 ''w1''"
    by (simp_all add: extract_run_def varchar_def)
  ultimately show ?thesis
    using dequeue_is_reference [of sample_db "''w1''" sample_stamps "Aware 1000" 300 "Aware 300001000" "[]"]
    by (simp del: One_nat_def)
qed

text \<open>C3: however many workers pull from the queue one after the other, no run is handed out
  twice, every run handed out was pending when the sequence began, and the database keeps
  all its constraints.\<close>

theorem dequeue_never_repeats:
  assumes "valid d"
    and "dequeue_seq (dequeue_next_run locked lock_seconds) requests d = Inr (ids, d')"
  shows "distinct ids \<and> (\<forall>k \<in> set ids. pending_in d k) \<and> valid d'"
  using service_queue.seq_distinct_pending [OF assms(2,1)] .

definition sample_pulls :: "(string \<times> datetime \<times> stamps) list" where
  "sample_pulls = [(''w1'', Aware 1000, sample_stamps), (''w2'', Aware 1001, \<lambda>i. sample_stamps (Suc i)),
     (''w3'', Aware 1002, \<lambda>i. sample_stamps (i + 2))]"

theorem dequeue_never_repeats_witness:
  "\<exists>d'. dequeue_seq (dequeue_next_run [] 300) sample_pulls sample_db = Inr ([''r2'', ''r5''], d')
      \<and> distinct [''r2'', ''r5''] \<and> valid d'"
proof -
  have "case dequeue_seq (dequeue_next_run [] 300) sample_pulls sample_db of
          Inl e \<Rightarrow> False | Inr p \<Rightarrow> fst p = [''r2'', ''r5'']"
    by code_simp
  then obtain d' where ok: "dequeue_seq (dequeue_next_run [] 300) sample_pulls sample_db
      = Inr ([''r2'', ''r5''], d')"
    by (auto split: sum.splits)
  show ?thesis using ok dequeue_never_repeats [OF valid_sample ok] by blast
qed

text \<open>A run a worker obtains was pending, belongs to an enabled job of status enabled or
  active whose dependencies are all satisfied, and neither row was held by another
  transaction; the worker gets it running, under its own lock that ends exactly the lock time
  from now. All other runs and all jobs are as before.\<close>

theorem dequeue_locks_runnable_run:
  assumes "valid d"
    and "dequeue_next_run locked lock_seconds worker now st d = Inr (Some r, d')"
  shows "\<exists>r0 j. get_run_row (r_id r) d = Some r0 \<and> r_status r0 = ''pending''
      \<and> get_job_row (r_job_id r0) d = Some j \<and> j_enabled j \<and> active_status (j_status j)
      \<and> are_dependencies_satisfied d j \<and> r_id r0 \<notin> set locked \<and> j_id j \<notin> set locked
      \<and> r = lock_run worker (shift (lock_seconds * second_us) now) now r0
      \<and> get_run_row (r_id r) d' = Some r
      \<and> (\<forall>k. k \<noteq> r_id r \<longrightarrow> get_run_row k d' = get_run_row k d) \<and> db_jobs d' = db_jobs d"
proof -
  from assms(2) obtain run where run: "dequeue_loop locked d [] = Some run"
    and r: "r = lock_run worker (shift (lock_seconds * second_us) now) now run"
    and d': "d' = add_logs [JobLog (st 0) (r_id run) ''info'' ''system'' (''Locked by '' @ worker)]
               (put_run r d)"
    by (rule dequeue_next_run_SomeD)
  note D = dequeue_loop_SomeD [OF run]
  then obtain j where j: "run_job d run = Some j" by (auto simp: run_available_def split: option.splits)
  have "get_run_row (r_id run) d = Some run" using D assms(1) by (simp add: get_run_row_iff)
  then show ?thesis
    using D j dequeue_next_run_contract(2,8) [OF assms]
    by (auto simp: run_available_def runnable_def run_job_def r d')
qed

theorem dequeue_locks_runnable_run_witness:
  "\<exists>d'. dequeue_next_run [] 300 ''w1'' (Aware 1000) sample_stamps sample_db
       = Inr (Some (lock_run ''w1'' (Aware 300001000) (Aware 1000) extract_run), d')
     \<and> (\<exists>j. get_job_row ''j1'' sample_db = Some j \<and> are_dependencies_satisfied sample_db j)"
proof -
  let ?r = "lock_run ''w1'' (Aware 300001000) (Aware 1000) extract_run"
  have "case dequeue_next_run [] 300 ''w1'' (Aware 1000) sample_stamps sample_db of
          Inl e \<Rightarrow> False | Inr p \<Rightarrow> fst p = Some ?r"
    by code_simp
  then obtain d' where ok: "dequeue_next_run [] 300 ''w1'' (Aware 1000) sample_stamps sample_db
      = Inr (Some ?r, d')"
    by (auto split: sum.splits)
  have "r_id ?r = ''r2''" "r_job_id extract_run = ''j1''" by (simp_all add: extract_run_def)
  then show ?thesis
    using dequeue_locks_runnable_run [OF valid_sample ok] ok sample_rows(2) by auto
qed

text \<open>The older queue service (no dependency check) keeps the same contract: consecutive
  pulls never repeat a run and only take runs that were pending.\<close>

theorem legacy_dequeue_never_repeats:
  assumes "valid d"
    and "dequeue_seq (dequeue_and_lock locked lock_seconds) requests d = Inr (ids, d')"
  shows "distinct ids \<and> (\<forall>k \<in> set ids. pending_in d k) \<and> valid d'"
  using legacy_queue.seq_distinct_pending [OF assms(2,1)] .

theorem legacy_dequeue_never_repeats_witness:
  "\<exists>d'. dequeue_seq (dequeue_and_lock [] 300) sample_pulls sample_db = Inr ([''r1'', ''r2'', ''r5''], d')
      \<and> distinct [''r1'', ''r2'', ''r5''] \<and> valid d'"
proof -
  have "case dequeue_seq (dequeue_and_lock [] 300) sample_pulls sample_db of
          Inl e \<Rightarrow> False | Inr p \<Rightarrow> fst p = [''r1'', ''r2'', ''r5'']"
    by code_simp
  then obtain d' where ok: "dequeue_seq (dequeue_and_lock [] 300) sample_pulls sample_db
      = Inr ([''r1'', ''r2'', ''r5''], d')"
    by (auto split: sum.splits)
  show ?thesis using ok legacy_dequeue_never_repeats [OF valid_sample ok] by blast
qed

end
