(* ===== verification/DequeueLoop.thy ===== *)
theory DequeueLoop
  imports Samples "HOL-Library.While_Combinator"
begin

text \<open>
  The \<open>while True\<close> of \<open>JobRunService.dequeue_next_run\<close> as a loop: one turn of its body on the
  loop's variables, run by \<open>while_option\<close>, which is \<open>None\<close> for a loop that does not end. It
  always ends, after one turn more than there are blocked runs before the run it finds.
\<close>

section \<open>The loop\<close>

text \<open>The variables: the ids skipped (the last first) and, once the loop is left, the run it is
  left with.\<close>

type_synonym loop_state = "string list \<times> job_run option option"

definition dequeue_turn :: "string list \<Rightarrow> db \<Rightarrow> loop_state \<Rightarrow> loop_state" where
  "dequeue_turn locked d s =
     (let skipped_run_ids = fst s in
      case find_next_run_to_lock locked skipped_run_ids d of
        None \<Rightarrow> (skipped_run_ids, Some None)
      | Some run \<Rightarrow>
          if (case run_job d run of None \<Rightarrow> True | Some j \<Rightarrow> are_dependencies_satisfied d j)
          then (skipped_run_ids, Some (Some run))
          else (r_id run # skipped_run_ids, None))"

definition dequeue_while :: "string list \<Rightarrow> db \<Rightarrow> loop_state option" where
  "dequeue_while locked d = while_option (\<lambda>s. snd s = None) (dequeue_turn locked d) ([], None)"

section \<open>Its turns\<close>

text \<open>What is left of the queue when some ids are skipped.\<close>

definition rest :: "string list \<Rightarrow> db \<Rightarrow> string list \<Rightarrow> job_run list" where
  "rest locked d sk = filter (\<lambda>r. r_id r \<notin> set sk) (queue_order locked d)"

lemma rest_skip:
  assumes "keys_ok d" and "rest locked d sk = r # rs"
  shows "rest locked d (r_id r # sk) = rs"
proof -
  have "distinct (map r_id (rest locked d sk))"
    unfolding rest_def using distinct_queue_order [OF assms(1)] by (rule distinct_map_filter)
  then have "r_id r \<notin> r_id ` set rs" by (simp add: assms(2))
  then have "filter (\<lambda>s. r_id s \<noteq> r_id r) rs = rs" by (intro filter_True ballI) (metis imageI)
  moreover have "rest locked d (r_id r # sk) = filter (\<lambda>s. r_id s \<noteq> r_id r) (rest locked d sk)"
    by (auto simp: rest_def intro: filter_cong)
  ultimately show ?thesis by (simp add: assms(2))
qed

lemma dequeue_turn_rest:
  "dequeue_turn locked d (sk, x) =
     (case rest locked d sk of
        [] \<Rightarrow> (sk, Some None)
      | r # _ \<Rightarrow> if runnable d r then (sk, Some (Some r)) else (r_id r # sk, None))"
  by (simp add: dequeue_turn_def find_next_queue_order rest_def [symmetric] runnable_def split: list.split)

lemma while_left: "while_option (\<lambda>s. snd s = None) f (sk, Some x) = Some (sk, Some x)"
  by (simp add: while_option_unfold)

lemma dequeue_while_rest:
  assumes "keys_ok d"
  shows "rest locked d sk = q \<Longrightarrow>
     while_option (\<lambda>s. snd s = None) (dequeue_turn locked d) (sk, None)
       = Some (rev (map r_id (takeWhile (\<lambda>r. \<not> runnable d r) q)) @ sk, Some (find (runnable d) q))"
proof (induction q arbitrary: sk)
  case Nil
  then show ?case by (simp add: while_option_unfold dequeue_turn_rest while_left)
next
  case (Cons r rs)
  then have turn: "dequeue_turn locked d (sk, None)
      = (if runnable d r then (sk, Some (Some r)) else (r_id r # sk, None))"
    by (simp add: dequeue_turn_rest)
  show ?case
  proof (cases "runnable d r")
    case True
    then show ?thesis by (simp add: while_option_unfold turn while_left)
  next
    case False
    then show ?thesis
      using Cons.IH [OF rest_skip [OF assms Cons.prems]] by (subst while_option_unfold) (simp add: turn)
  qed
qed

section \<open>Termination\<close>

text \<open>C18: the endless-looking loop of the dequeue always ends: it skips exactly the runs at the
  head of the queue whose dependencies are not satisfied, one per turn, none twice, and leaves
  with the first run behind them, which is what the recursive definition computes.\<close>

theorem dequeue_loop_terminates:
  assumes "valid d"
  shows "dequeue_while locked d
     = Some (rev (map r_id (takeWhile (\<lambda>r. \<not> runnable d r) (queue_order locked d))),
             Some (dequeue_loop locked d []))
   \<and> distinct (map r_id (takeWhile (\<lambda>r. \<not> runnable d r) (queue_order locked d)))
   \<and> length (takeWhile (\<lambda>r. \<not> runnable d r) (queue_order locked d))
       \<le> length (filter (\<lambda>r. r_status r = ''pending'') (db_runs d))"
proof -
  have k: "keys_ok d" using assms by (simp add: valid_def db_ok_def)
  have "rest locked d [] = queue_order locked d" by (simp add: rest_def)
  then have 1: "dequeue_while locked d
     = Some (rev (map r_id (takeWhile (\<lambda>r. \<not> runnable d r) (queue_order locked d))),
             Some (dequeue_loop locked d []))"
    using dequeue_while_rest [OF k] dequeue_loop_find [OF k, of locked "[]"] by (simp add: dequeue_while_def)
  have 2: "distinct (map r_id (takeWhile (\<lambda>r. \<not> runnable d r) (queue_order locked d)))"
    using distinct_queue_order [OF k, of locked]
    by (metis distinct_append map_append takeWhile_dropWhile_id)
  have "run_available locked [] d r \<Longrightarrow> r_status r = ''pending''" for r
    by (simp add: run_available_def)
  then have "length (filter (run_available locked [] d) (db_runs d))
      \<le> length (filter (\<lambda>r. r_status r = ''pending'') (db_runs d))" by (rule length_filter_mono)
  then have "length (queue_order locked d) \<le> length (filter (\<lambda>r. r_status r = ''pending'') (db_runs d))"
    unfolding queue_order_def length_sort .
  moreover have "length (takeWhile (\<lambda>r. \<not> runnable d r) (queue_order locked d)) \<le> length (queue_order locked d)"
    by (rule length_takeWhile_le)
  ultimately show ?thesis using 1 2 order_trans by blast
qed

theorem dequeue_loop_terminates_witness:
  "dequeue_while [] sample_db = Some ([''r1''], Some (Some extract_run))"
proof -
  have k: "keys_ok sample_db" using valid_sample by (simp add: valid_def db_ok_def)
  have ref: "reference_dequeue [] sample_db = Some extract_run" by code_simp
  have skipped: "map r_id (takeWhile (\<lambda>r. \<not> runnable sample_db r) (queue_order [] sample_db)) = [''r1'']"
    by code_simp
  have "dequeue_loop [] sample_db [] = reference_dequeue [] sample_db"
    unfolding dequeue_loop_find [OF k] reference_dequeue_def by simp
  then show ?thesis using dequeue_loop_terminates [OF valid_sample, of "[]"] by (simp add: ref skipped)
qed

end
