(* ===== verification/OutcomeProperties.thy ===== *)
theory OutcomeProperties
  imports Samples
begin

text \<open>
  The properties of a run's outcome: recording a status with its automatic retry, retries by
  hand, durations, expired locks and heartbeats.
\<close>

section \<open>Recording an outcome\<close>

text \<open>C5: recording a terminal status succeeds for every existing run: the run gets the
  status, the end time, no lock and the output given; after a failure or timeout exactly one
  pending retry is queued when the job's retry budget allows it, and none otherwise; no other
  run, job, user or dependency changes, and all constraints hold. (The duration columns are
  32-bit, so the run must not have lasted longer than about 24.8 days.)\<close>

theorem outcome_recorded:
  assumes "valid d" and "get_run_row k d = Some r" and "final_status status"
    and "duration_fits now r" and "fresh_stamps 7 st d"
  shows "\<exists>d'. update_status st now k status stdout stderr err d
              = Inr (set_output stdout stderr err (finish_row now status r), d')
     \<and> db_runs d' = row_upd r_id k (\<lambda>_. set_output stdout stderr err (finish_row now status r)) (db_runs d)
          @ (if status \<in> {''failed'', ''timeout''} \<and> may_retry d r then [retry_row (st 1) None r] else [])
     \<and> db_jobs d' = db_jobs d \<and> db_users d' = db_users d \<and> db_deps d' = db_deps d \<and> valid d'"
  using assms by (rule update_status_finishes) blast

theorem outcome_recorded_witness:
  "\<exists>d'. update_status sample_stamps (Aware 9000006) ''r3'' ''failed'' (Some ''out'') None None sample_db
       = Inr (set_output (Some ''out'') None None (finish_row (Aware 9000006) ''failed'' stale_run), d')
     \<and> length (db_runs d') = 6"
proof -
  have "final_status ''failed''" by (simp add: final_status_def)
  moreover have "duration_fits (Aware 9000006) stale_run" by code_simp
  moreover have "may_retry sample_db stale_run" by code_simp
  moreover have "length (db_runs sample_db) = 5" by (simp add: sample_db_def)
  ultimately show ?thesis
    using outcome_recorded [OF valid_sample sample_rows(3), of "''failed''" "Aware 9000006"
        sample_stamps "Some ''out''" None None]
    by auto
qed

section \<open>Retries\<close>

text \<open>C9: every branch of a retry: the run must exist, must have failed, timed out or been
  canceled, and must have retries left; then one pending run with the retry count raised by
  one is added, and nothing else but a log line.\<close>

theorem retry_run_result:
  assumes "valid d" and "fresh_stamps 3 st d" and "opt_ok (in_table u_id (db_users d)) user_id"
  shows "retry_run st k user_id d =
    (case get_run_row k d of
       None \<Rightarrow> Inl (EntityNotFoundError (''Job run '' @ k @ '' not found''))
     | Some r \<Rightarrow>
         if r_status r \<notin> {''failed'', ''timeout'', ''canceled''}
           then Inl (BusinessRuleViolationError ''Only terminal failed runs can be retried'')
         else if \<not> may_retry d r then Inl (BusinessRuleViolationError ''Retry limit reached'')
         else Inr (retry_row (st 1) user_id r, retried_db st user_id r d))"
proof (cases "get_run_row k d")
  case None
  then show ?thesis by (simp add: retry_run_def get_run_def)
next
  case (Some r)
  have ids: "fst (st 1) \<notin> r_id ` set (db_runs d)" "varchar 36 (fst (st 1))"
    "fst (st 2) \<notin> l_id ` set (db_logs d)" "varchar 36 (fst (st 2))"
    using fresh_stampsD(3,4,6) [OF assms(2)] by simp_all
  note ok = retry_run_succeeds(1) [OF assms(1) Some _ _ assms(3) ids]
  have lim: "retry_limit_reached r (run_job d r) = Inr (\<not> may_retry d r)"
    using assms(1) Some by (rule retry_limit_reached_iff)
  show ?thesis
  proof (cases "r_status r \<in> {''failed'', ''timeout'', ''canceled''} \<and> may_retry d r")
    case True
    then show ?thesis using ok Some by auto
  next
    case False
    then show ?thesis by (auto simp: retry_run_def get_run_def Some lim)
  qed
qed

theorem retry_run_result_witness:
  "retry_run sample_stamps ''r4'' None sample_db
   = Inr (retry_row (sample_stamps 1) None failed_run, retried_db sample_stamps None failed_run sample_db)"
proof -
  have "fresh_stamps 3 sample_stamps sample_db" by code_simp
  moreover have "r_status failed_run = ''failed''" by (simp add: failed_run_def)
  moreover have "may_retry sample_db failed_run" by code_simp
  ultimately show ?thesis
    using retry_run_result [of sample_db sample_stamps None "''r4''"] sample_rows(4) by simp
qed

text \<open>No retry ever exceeds its job's budget: the new run's retry count is at least one
  and at most the job's \<open>max_retry\<close>, and it is a pending retry of the same job.\<close>

theorem retry_within_budget:
  assumes "valid d" and "retry_run st k user_id d = Inr (n, d')"
  shows "\<exists>j m. run_job d' n = Some j \<and> j_max_retry j = Some m \<and> 1 \<le> r_retry_count n \<and> r_retry_count n \<le> m
     \<and> r_status n = ''pending'' \<and> r_trigger_type n = ''retry''"
proof -
  obtain r where r: "get_run_row k d = Some r" "may_retry d r" "n = retry_row (st 1) user_id r"
    "d' = retried_db st user_id r d"
    using assms by (rule retry_run_InrD)
  have "0 \<le> r_retry_count r"
    using valid_run [OF assms(1)] get_run_row_SomeD [OF r(1)] by (auto simp: run_valid_def run_ok_def)
  then show ?thesis using r
    by (auto simp: may_retry_def run_job_def get_job_row_def retried_db_def split: option.splits)
qed

theorem retry_within_budget_witness:
  "\<exists>n d' j m. retry_run sample_stamps ''r4'' None sample_db = Inr (n, d')
     \<and> run_job d' n = Some j \<and> j_max_retry j = Some m \<and> r_retry_count n \<le> m"
proof -
  have "case retry_run sample_stamps ''r4'' None sample_db of Inl e \<Rightarrow> False | Inr p \<Rightarrow> True"
    by code_simp
  then obtain n d' where ok: "retry_run sample_stamps ''r4'' None sample_db = Inr (n, d')"
    by (auto split: sum.splits)
  show ?thesis using ok retry_within_budget [OF valid_sample ok] by blast
qed

section \<open>Durations\<close>



text \<open>A recorded duration is never zero: one millisecond and one second at least, also
  when the clock ran backwards between start and end.\<close>

theorem completion_duration_positive:
  assumes "complete e utcnow r = Inr r'" and "r_start_time r \<noteq> None"
  shows "\<exists>ms s. r_duration_ms r' = Some ms \<and> 1 \<le> ms \<and> r_duration_seconds r' = Some s \<and> 1 \<le> s
     \<and> r_locked_by r' = None \<and> r_locked_until r' = None"
proof -
  have "r' = completed (case e of None \<Rightarrow> utcnow | Some t \<Rightarrow> t) r"
    using assms(1) by (cases e) simp_all
  then show ?thesis using assms(2) elapsed_ms_ge_1 elapsed_whole_ge_1
    by (auto simp: completed_def Let_def)
qed

theorem completion_duration_positive_witness:
  "\<exists>ms. r_duration_ms (completed (Aware 0) stale_run) = Some ms \<and> 1 \<le> ms"
  using completion_duration_positive [of "Some (Aware 0)" "Aware 0" stale_run "completed (Aware 0) stale_run"]
  by (auto simp: stale_run_def)

section \<open>Expired locks\<close>

text \<open>C25: releasing expired locks puts exactly the running runs whose lock ended before now
  back in the queue, without worker or lock, and reports their number; every other run is
  untouched, and afterwards no run is expired.\<close>

theorem expired_locks_released:
  assumes "valid d" and "fresh_stamps (length (find_expired_runs now d)) st d"
  shows "\<exists>d'. release_expired_locks now st d = Inr (length (find_expired_runs now d), d')
     \<and> db_runs d' = map (\<lambda>r. if run_expired now r then release now r else r) (db_runs d)
     \<and> find_expired_runs now d' = []
     \<and> (\<forall>r \<in> set (find_expired_runs now d). pending_in d' (r_id r)) \<and> valid d'"
proof -
  let ?f = "\<lambda>r. if run_expired now r then release now r else r"
  let ?d = "add_logs (release_logs st (find_expired_runs now d)) (d\<lparr>db_runs := map ?f (db_runs d)\<rparr>)"
  have eq: "release_expired_locks now st d = Inr (length (find_expired_runs now d), ?d)"
    using assms by (rule release_expired_locks_eq)
  then have v: "valid ?d" by (auto simp: release_expired_locks_def Let_def result_iff)
  have "find_expired_runs now ?d = []" by (auto simp: find_expired_runs_def filter_empty_conv)
  moreover have "pending_in ?d (r_id r)" if r: "r \<in> set (find_expired_runs now d)" for r
  proof -
    have "?f r \<in> set (db_runs ?d)" "r_id (?f r) = r_id r" "r_status (?f r) = ''pending''"
      using r by (auto simp: find_expired_runs_def)
    then have "get_run_row (r_id r) ?d = Some (?f r)" by (simp only: get_run_row_iff [OF v] simp_thms)
    then show ?thesis using \<open>r_status (?f r) = ''pending''\<close> unfolding pending_in_def by blast
  qed
  ultimately show ?thesis using eq v by auto
qed

theorem expired_locks_released_witness:
  "\<exists>d'. release_expired_locks (Aware 600) sample_stamps sample_db = Inr (1, d')
     \<and> find_expired_runs (Aware 600) d' = [] \<and> pending_in d' ''r3''"
proof -
  have e: "find_expired_runs (Aware 600) sample_db = [stale_run]" by code_simp
  have "r_id stale_run = ''r3''" by (simp add: stale_run_def)
  then show ?thesis
    using expired_locks_released [of sample_db "Aware 600" sample_stamps] e fresh_sample(2)
    by (simp only: list.size list.set) auto
qed

text \<open>A heartbeat records the time and nothing else; in particular it does not prolong
  the lock: whether and when the run's lock expires is the same before and after.\<close>

theorem heartbeat_keeps_lock:
  assumes "heartbeat now k d = Inr (r', d')"
  shows "\<exists>r. get_run_row k d = Some r \<and> r' = r\<lparr>r_heartbeat_at := Some now\<rparr>
     \<and> (\<forall>t. run_expired t r' = run_expired t r) \<and> d' = put_run r' d"
proof -
  obtain r where r: "get_run_row k d = Some r" "d' = put_run (r\<lparr>r_heartbeat_at := Some now\<rparr>) d"
    "get_run_row k d' = Some r'"
    using assms by (auto simp: heartbeat_def result_iff)
  have "r_id r = k" using get_run_row_SomeD [OF r(1)] by simp
  then have "r' = r\<lparr>r_heartbeat_at := Some now\<rparr>" using r by (simp add: rows)
  then show ?thesis using r by (auto simp: run_expired_def)
qed

theorem heartbeat_keeps_lock_witness:
  "\<exists>r' d'. heartbeat (Aware 550) ''r3'' sample_db = Inr (r', d') \<and> run_expired (Aware 600) r'"
proof -
  have "case heartbeat (Aware 550) ''r3'' sample_db of Inl e \<Rightarrow> False | Inr p \<Rightarrow> True" by code_simp
  then obtain r' d' where ok: "heartbeat (Aware 550) ''r3'' sample_db = Inr (r', d')"
    by (auto split: sum.splits)
  have "run_expired (Aware 600) stale_run" by code_simp
  then show ?thesis using ok heartbeat_keeps_lock [OF ok] sample_rows(3) by auto
qed

end
