(* ===== verification/ScheduleProperties.thy ===== *)
theory ScheduleProperties
  imports Samples
begin

text \<open>
  The properties of scheduling: writing and reading schedule rules, keeping a job consistent,
  and the scan that creates the runs of due jobs.
\<close>

section \<open>Schedule rules\<close>

text \<open>C40: an interval survives the trip through the rule string: the rule chosen for an
  interval of n seconds is read back as an interval of n seconds, and its next run is exactly n
  seconds after the base time. (Up to the 4300 digits Python's \<open>int\<close> accepts.)\<close>

theorem interval_round_trip:
  assumes "\<bar>n\<bar> < 10 ^ int_max_str_digits"
  shows "schedule_type (resolve_schedule_rule (Some ''interval'') c (Some n) cur) = ''interval''
     \<and> interval_seconds (resolve_schedule_rule (Some ''interval'') c (Some n) cur) = Inr (Some n)
     \<and> compute_next_run cron (resolve_schedule_rule (Some ''interval'') c (Some n) cur) (Some base) utcnow
       = add_timedelta base (n * second_us)"
  by (simp only: resolve_interval interval_rule_type interval_seconds_every_int [OF assms]
      compute_next_run_interval [OF assms] simp_thms)

theorem interval_round_trip_witness:
  "interval_seconds (resolve_schedule_rule (Some ''interval'') None (Some 90) None) = Inr (Some 90)"
proof -
  have "\<bar>90\<bar> < (10 :: int) ^ int_max_str_digits" by (rule small_int) simp
  then show ?thesis using interval_round_trip [of 90 None None no_cron "Aware 0" "Aware 0"] by blast
qed

text \<open>The two readers of an interval rule agree on every string: the scheduler's next run
  is the base time plus the seconds the job reports, and where the job reports none or raises,
  the scheduler raises.\<close>

theorem interval_readers_agree:
  assumes "schedule_type rule = ''interval''"
  shows "compute_next_run cron rule (Some base) utcnow =
     (case interval_seconds rule of
        Inl e \<Rightarrow> Inl e
      | Inr None \<Rightarrow> Inl (ValueError ''Unsupported every format. Use every:5m, every:1h, or every:30s'')
      | Inr (Some k) \<Rightarrow> add_timedelta base (k * second_us))"
  using assms by (rule interval_seconds_agrees)

theorem interval_readers_agree_witness:
  "compute_next_run no_cron ''every: 5m '' (Some (Aware 0)) (Aware 0) = Inr (Aware 300000000)"
proof -
  have "schedule_type ''every: 5m '' = ''interval''" by code_simp
  moreover have "interval_seconds ''every: 5m '' = Inr (Some 300)" by code_simp
  moreover have "add_timedelta (Aware 0) (300 * second_us) = Inr (Aware 300000000)" by code_simp
  ultimately show ?thesis
    using interval_readers_agree [of "''every: 5m ''" no_cron "Aware 0" "Aware 0"] by simp
qed

section \<open>Consistent jobs\<close>

text \<open>Synchronising a job makes it consistent (\<open>enabled\<close> says whether the status is
  enabled or active; a next run exists only for an enabled job with a schedule and is the one
  its rule gives; the payload is a dictionary), touches nothing else, and doing it again at the
  same time changes nothing.\<close>

theorem sync_makes_consistent:
  assumes "sync_domain_logic cron now j = Inr j'"
  shows "job_consistent j' \<and> sync_domain_logic cron now j' = Inr j'
     \<and> (\<forall>t. j_next_run_at j' = Some t \<longrightarrow> compute_next_run cron (j_schedule_rule j) None now = Inr t)
     \<and> j_id j' = j_id j \<and> j_task_name j' = j_task_name j \<and> j_schedule_rule j' = j_schedule_rule j
     \<and> j_status j' = normal_status (j_status j)"
  using sync_consistent [OF assms] sync_idempotent [OF assms] sync_next_run [OF assms]
    sync_frame [OF assms] by blast

theorem sync_makes_consistent_witness:
  "\<exists>j'. sync_domain_logic no_cron (Aware 5) extract_job = Inr j' \<and> j_next_run_at j' = Some (Aware 60000005)
     \<and> job_consistent j'"
proof -
  have "case sync_domain_logic no_cron (Aware 5) extract_job of Inl e \<Rightarrow> False
        | Inr j' \<Rightarrow> j_next_run_at j' = Some (Aware 60000005)" by code_simp
  then obtain j' where ok: "sync_domain_logic no_cron (Aware 5) extract_job = Inr j'"
    and "j_next_run_at j' = Some (Aware 60000005)" by (auto split: sum.splits)
  then show ?thesis using sync_makes_consistent [OF ok] by blast
qed

section \<open>The scan\<close>

text \<open>C7: a scan creates exactly one pending scheduled run for each due, enabled job whose
  dependencies are satisfied and whose row no other transaction holds, moves these jobs (and
  no others) to the next time of their rule, and keeps every constraint; it succeeds exactly
  when all these jobs have a rule with a next time, so one bad rule stops the whole scan.\<close>

theorem scan_creates_due_runs:
  assumes "valid d" and "fresh_stamps (length (scan_fires locked now d)) st d"
  shows "(\<forall>j \<in> set (scan_fires locked now d).
            \<exists>t. compute_next_run cron (j_schedule_rule j) (Some now) now = Inr t)
     \<longleftrightarrow> (\<exists>d'. scan_due_jobs cron locked now st d = Inr (scan_runs st (scan_fires locked now d), d')
          \<and> db_jobs d' = map (next_or_same cron now (scan_fires locked now d)) (db_jobs d)
          \<and> db_runs d' = db_runs d @ scan_runs st (scan_fires locked now d)
          \<and> db_logs d' = db_logs d \<and> db_users d' = db_users d \<and> db_deps d' = db_deps d \<and> valid d')"
proof
  assume "\<forall>j \<in> set (scan_fires locked now d).
            \<exists>t. compute_next_run cron (j_schedule_rule j) (Some now) now = Inr t"
  then obtain d' where ok: "scan_due_jobs cron locked now st d
      = Inr (scan_runs st (scan_fires locked now d), d')"
    using scan_due_jobs_succeeds [OF assms] by blast
  show "\<exists>d'. scan_due_jobs cron locked now st d = Inr (scan_runs st (scan_fires locked now d), d')
          \<and> db_jobs d' = map (next_or_same cron now (scan_fires locked now d)) (db_jobs d)
          \<and> db_runs d' = db_runs d @ scan_runs st (scan_fires locked now d)
          \<and> db_logs d' = db_logs d \<and> db_users d' = db_users d \<and> db_deps d' = db_deps d \<and> valid d'"
    using ok scan_due_jobs_InrD(2-7) [OF assms(1) ok] by blast
next
  assume "\<exists>d'. scan_due_jobs cron locked now st d = Inr (scan_runs st (scan_fires locked now d), d')
          \<and> db_jobs d' = map (next_or_same cron now (scan_fires locked now d)) (db_jobs d)
          \<and> db_runs d' = db_runs d @ scan_runs st (scan_fires locked now d)
          \<and> db_logs d' = db_logs d \<and> db_users d' = db_users d \<and> db_deps d' = db_deps d \<and> valid d'"
  then show "\<forall>j \<in> set (scan_fires locked now d).
            \<exists>t. compute_next_run cron (j_schedule_rule j) (Some now) now = Inr t"
    using scan_due_jobs_InrD(8) [OF assms(1)] by blast
qed

text \<open>At the sample, the extraction job is due; the load job waits for it.\<close>

theorem scan_creates_due_runs_witness:
  "\<exists>d'. scan_due_jobs no_cron [] (Aware 2000) sample_stamps sample_db
       = Inr ([scheduled_run (sample_stamps 0) extract_job], d') \<and> length (db_runs d') = 6"
proof -
  have fires: "scan_fires [] (Aware 2000) sample_db = [extract_job]" by code_simp
  have "compute_next_run no_cron (j_schedule_rule extract_job) (Some (Aware 2000)) (Aware 2000)
      = Inr (Aware 60002000)" by code_simp
  moreover have "length (db_runs sample_db) = 5" by (simp add: sample_db_def)
  moreover have "fresh_stamps (length [extract_job]) sample_stamps sample_db"
    using fresh_sample(2) by (simp del: One_nat_def add: One_nat_def [symmetric])
  moreover have "scan_runs sample_stamps [extract_job] = [scheduled_run (sample_stamps 0) extract_job]"
    by (simp add: scan_runs_def)
  ultimately show ?thesis
    using scan_creates_due_runs [of sample_db "[]" "Aware 2000" sample_stamps no_cron] unfolding fires
    by auto
qed

text \<open>A scan leaves nothing to fire: when the rules of the jobs it fires lie in the
  future, a second scan at the same time creates no run. The runs it created, being pending,
  cannot satisfy any dependency either.\<close>

theorem scan_leaves_nothing_due:
  assumes "valid d" and "scan_due_jobs cron locked now st d = Inr (rs, d')"
    and "\<forall>j \<in> set (scan_fires locked now d). \<forall>t.
        compute_next_run cron (j_schedule_rule j) (Some now) now = Inr t \<longrightarrow> instant now < instant t"
  shows "scan_due_jobs cron locked now st' d' = Inr ([], d')"
proof -
  have "valid d'" using assms(1,2) by (rule scan_due_jobs_InrD)
  moreover have "scan_fires locked now d' = []" using assms by (rule scan_twice)
  ultimately show ?thesis by (rule scan_nothing_due)
qed

theorem scan_leaves_nothing_due_witness:
  "\<exists>rs d'. scan_due_jobs no_cron [] (Aware 2000) sample_stamps sample_db = Inr (rs, d')
     \<and> rs \<noteq> [] \<and> scan_due_jobs no_cron [] (Aware 2000) sample_stamps d' = Inr ([], d')"
proof -
  have "case scan_due_jobs no_cron [] (Aware 2000) sample_stamps sample_db of
          Inl e \<Rightarrow> False | Inr p \<Rightarrow> fst p \<noteq> []" by code_simp
  then obtain rs d' where ok: "scan_due_jobs no_cron [] (Aware 2000) sample_stamps sample_db = Inr (rs, d')"
    and "rs \<noteq> []" by (auto split: sum.splits)
  have fires: "scan_fires [] (Aware 2000) sample_db = [extract_job]" by code_simp
  have "compute_next_run no_cron (j_schedule_rule extract_job) (Some (Aware 2000)) (Aware 2000)
      = Inr (Aware 60002000)" by code_simp
  then show ?thesis
    using ok \<open>rs \<noteq> []\<close> scan_leaves_nothing_due [OF valid_sample ok, of sample_stamps] by (simp add: fires)
qed

end
