(* ===== verification/JobController.thy ===== *)
theory JobController
  imports JobService "HOL-Library.Sublist"
begin

text \<open>
  The job endpoints (\<open>app/presentation/controllers/job_controller.py\<close>): who may see a job,
  listing with filters, creating, updating, deleting, enabling and triggering. The current user
  is optional, as in the code; the routers always pass one. An \<open>HTTPException\<close> carries its
  status code and detail.
\<close>

section \<open>Access\<close>

definition is_admin :: "user option \<Rightarrow> bool" where
  "is_admin u = (case u of None \<Rightarrow> False | Some u \<Rightarrow> u_role u = ''admin'')"

text \<open>The filter of \<open>_job_query_for_user\<close>.\<close>

definition job_visible :: "user option \<Rightarrow> job \<Rightarrow> bool" where
  "job_visible current_user j =
     (case current_user of
        None \<Rightarrow> True
      | Some u \<Rightarrow> if \<not> is_admin current_user then j_user_id j = Some (u_id u) else True)"

definition job_not_found :: error where
  "job_not_found = HTTPException 404 ''Job not found''"

definition ensure_job_access :: "user option \<Rightarrow> job \<Rightarrow> job result" where
  "ensure_job_access current_user j =
     (case current_user of
        None \<Rightarrow> Inr j
      | Some u \<Rightarrow>
          if \<not> is_admin current_user \<and> truthy_str (j_user_id j) \<and> j_user_id j \<noteq> Some (u_id u)
          then Inl job_not_found else Inr j)"

definition get_job_or_404 :: "string \<Rightarrow> user option \<Rightarrow> db \<Rightarrow> job result" where
  "get_job_or_404 job_id current_user d =
     (case get_job_row job_id d of
        None \<Rightarrow> Inl job_not_found
      | Some j \<Rightarrow> ensure_job_access current_user j)"

text \<open>\<open>JobService.get_job\<close> and \<open>list_jobs\<close>, the reads without a user: at most the hundred newest.\<close>

definition service_get_job :: "string \<Rightarrow> db \<Rightarrow> job result" where
  "service_get_job job_id d = (case get_job_row job_id d of None \<Rightarrow> Inl job_not_found | Some j \<Rightarrow> Inr j)"

definition service_list_jobs :: "db \<Rightarrow> job list" where
  "service_list_jobs d = repo_list (\<lambda>_. True) j_created_at 0 100 (db_jobs d)"

lemma get_job_or_404_service:
  "get_job_or_404 k cu d = bind_result (service_get_job k d) (ensure_job_access cu)"
  by (simp add: get_job_or_404_def service_get_job_def split: option.split)

section \<open>Listing\<close>

text \<open>SQL \<open>LIKE\<close> with its two wildcards and the backslash escape; \<open>ILIKE\<close> compares
  lowercased strings.\<close>

function like_match :: "string \<Rightarrow> string \<Rightarrow> bool" where
  "like_match [] s = (s = [])"
| "like_match (c # p) s =
     (if c = CHR ''%'' then
        like_match p s \<or> (case s of [] \<Rightarrow> False | _ # t \<Rightarrow> like_match (c # p) t)
      else (case s of [] \<Rightarrow> False
        | x # t \<Rightarrow>
            if c = CHR ''_'' then like_match p t
            else if c = CHR 0x5C then (case p of [] \<Rightarrow> False | e # q \<Rightarrow> x = e \<and> like_match q t)
            else x = c \<and> like_match p t))"
  by pat_completeness auto
termination
  by (relation "measure (\<lambda>(p, s). length p + length s)") auto

declare like_match.simps(2) [simp del]

definition ilike :: "string \<Rightarrow> string \<Rightarrow> bool" where
  "ilike pattern s = like_match (lower pattern) (lower s)"

definition status_filter :: "string option \<Rightarrow> job \<Rightarrow> bool" where
  "status_filter status j =
     (if status = Some ''enabled'' then j_enabled j
      else if status = Some ''disabled'' then \<not> j_enabled j
      else if status = Some ''active'' then active_status (j_status j)
      else if truthy_str status then j_status j = status
      else True)"

definition keyword_filter :: "string option \<Rightarrow> job \<Rightarrow> bool" where
  "keyword_filter keyword j =
     (if truthy_str keyword then
        (case j_task_name j of None \<Rightarrow> False
         | Some name \<Rightarrow> ilike (CHR ''%'' # the keyword @ ''%'') name)
      else True)"

definition list_jobs :: "user option \<Rightarrow> string option \<Rightarrow> string option \<Rightarrow> db \<Rightarrow> job list" where
  "list_jobs current_user status keyword d =
     sort_key (\<lambda>j. - instant (j_created_at j))
       (filter (\<lambda>j. job_visible current_user j \<and> status_filter status j \<and> keyword_filter keyword j)
         (db_jobs d))"

section \<open>Creating\<close>

definition create_job ::
  "cron_lib \<Rightarrow> datetime \<Rightarrow> stamps \<Rightarrow> job_create \<Rightarrow> user \<Rightarrow> db \<Rightarrow> (job \<times> db) result" where
  "create_job cron utcnow st payload current_user d =
     (case create_job_service cron utcnow st payload (u_id current_user) d of
        Inl (ValueError m) \<Rightarrow> Inl (HTTPException 409 m)
      | r \<Rightarrow> r)"

section \<open>Updating\<close>

text \<open>A \<open>JobUpdate\<close>: the outer option says whether the field was set in the request, the
  inner one is its value (\<open>model_dump(exclude_unset=True)\<close>).\<close>

record job_update =
  p_task_name :: "string option option"
  p_description :: "string option option"
  p_status :: "string option option"
  p_schedule_type :: "string option option"
  p_cron_expression :: "string option option"
  p_interval_seconds :: "int option option"
  p_action :: "string option option"
  p_task_type :: "string option option"
  p_api_method :: "string option option"
  p_api_url :: "string option option"
  p_working_dir :: "string option option"
  p_shell_script :: "string option option"
  p_script_content :: "string option option"
  p_script :: "string option option"
  p_action_payload :: "pydict option option"
  p_timeout_seconds :: "int option option"
  p_retry_limit :: "int option option"
  p_depends_on :: "string list option option"

definition JobUpdate :: job_update where
  "JobUpdate = \<lparr>p_task_name = None, p_description = None, p_status = None, p_schedule_type = None,
     p_cron_expression = None, p_interval_seconds = None, p_action = None, p_task_type = None,
     p_api_method = None, p_api_url = None, p_working_dir = None, p_shell_script = None,
     p_script_content = None, p_script = None, p_action_payload = None, p_timeout_seconds = None,
     p_retry_limit = None, p_depends_on = None\<rparr>"

definition is_set :: "'a option \<Rightarrow> bool" where
  "is_set x \<longleftrightarrow> x \<noteq> None"

text \<open>The attribute of the request object: \<open>None\<close> when the field was not set.\<close>

definition value_of :: "'a option option \<Rightarrow> 'a option" where
  "value_of x = (case x of None \<Rightarrow> None | Some v \<Rightarrow> v)"

text \<open>\<open>if field in data: setattr(job, field, data[field])\<close>.\<close>

definition if_set :: "'a option \<Rightarrow> 'a \<Rightarrow> 'a" where
  "if_set x old = (case x of None \<Rightarrow> old | Some v \<Rightarrow> v)"

lemma if_set_simps [simp]: "if_set None old = old" "if_set (Some v) old = v"
  by (simp_all add: if_set_def)

lemma value_of_simps [simp]: "value_of None = None" "value_of (Some v) = v"
  by (simp_all add: value_of_def)

lemma is_set_simps [simp]: "\<not> is_set None" "is_set (Some v)"
  by (simp_all add: is_set_def)

definition apply_schedule :: "job_update \<Rightarrow> job \<Rightarrow> job" where
  "apply_schedule p j =
     (if is_set (p_schedule_type p) \<or> is_set (p_cron_expression p) \<or> is_set (p_interval_seconds p)
      then j\<lparr>j_schedule_rule := resolve_schedule_rule (value_of (p_schedule_type p))
               (value_of (p_cron_expression p)) (value_of (p_interval_seconds p))
               (Some (j_schedule_rule j))\<rparr>
      else j)"

definition apply_field_aliases :: "job_update \<Rightarrow> job \<Rightarrow> job" where
  "apply_field_aliases p j =
     j\<lparr>j_action_type := if_set (p_action p) (j_action_type j),
       j_task_type := if_set (p_task_type p) (j_task_type j),
       j_max_retry := if_set (p_retry_limit p) (j_max_retry j)\<rparr>"

definition apply_direct_fields :: "job_update \<Rightarrow> job \<Rightarrow> job" where
  "apply_direct_fields p j =
     j\<lparr>j_task_name := if_set (p_task_name p) (j_task_name j),
       j_script := if_set (p_script p) (j_script j),
       j_working_dir := if_set (p_working_dir p) (j_working_dir j),
       j_status := if_set (p_status p) (j_status j),
       j_timeout_seconds := if_set (p_timeout_seconds p) (j_timeout_seconds j),
       j_description := if_set (p_description p) (j_description j)\<rparr>"

definition payload_needs_rebuild :: "job_update \<Rightarrow> bool" where
  "payload_needs_rebuild p \<longleftrightarrow> is_set (p_api_method p) \<or> is_set (p_api_url p)
     \<or> is_set (p_shell_script p) \<or> is_set (p_script_content p) \<or> is_set (p_script p)
     \<or> is_set (p_working_dir p)"

definition str_or_null :: "string option \<Rightarrow> json" where
  "str_or_null x = (case x of None \<Rightarrow> JNull | Some s \<Rightarrow> JStr s)"

definition set_if :: "string \<Rightarrow> string option option \<Rightarrow> pydict \<Rightarrow> pydict" where
  "set_if k x d = (case x of None \<Rightarrow> d | Some v \<Rightarrow> dict_set k (str_or_null v) d)"

definition rebuild_action_payload :: "job \<Rightarrow> job_update \<Rightarrow> pydict" where
  "rebuild_action_payload j p =
     (let action_payload = (case j_action_payload j of None \<Rightarrow> [] | Some d \<Rightarrow> d) in
      if j_action_type j = Some ''api_call'' then
        set_if ''url'' (p_api_url p) (set_if ''method'' (p_api_method p) action_payload)
      else if j_action_type j \<in> {Some ''shell'', Some ''python''} then
        set_if ''working_dir'' (p_working_dir p)
          (put_script (or_str (or_str (value_of (p_script p)) (value_of (p_shell_script p)))
             (value_of (p_script_content p))) action_payload)
      else action_payload)"

definition sync_action_payload :: "job_update \<Rightarrow> job \<Rightarrow> job" where
  "sync_action_payload p j =
     (case p_action_payload p of
        Some v \<Rightarrow> j\<lparr>j_action_payload := v\<rparr>
      | None \<Rightarrow> if payload_needs_rebuild p
                then j\<lparr>j_action_payload := Some (rebuild_action_payload j p)\<rparr> else j)"

definition updated_job :: "job_update \<Rightarrow> job \<Rightarrow> job" where
  "updated_job p j =
     sync_action_payload p (apply_direct_fields p (apply_field_aliases p (apply_schedule p j)))"

text \<open>The dependency lookups see the database without the unflushed changes to the job; the
  flush inside \<open>update_dependencies\<close> writes them.\<close>

definition update_job ::
  "cron_lib \<Rightarrow> datetime \<Rightarrow> stamps \<Rightarrow> string \<Rightarrow> job_update \<Rightarrow> user option \<Rightarrow> db \<Rightarrow> (job \<times> db) result" where
  "update_job cron utcnow st job_id payload current_user d =
     bind_result (get_job_or_404 job_id current_user d) (\<lambda>j0.
     let j1 = updated_job payload j0 in
     bind_result (case p_depends_on payload of
                    None \<Rightarrow> Inr d
                  | Some names \<Rightarrow> update_dependencies (put_job j1) st job_id names d) (\<lambda>d1.
     bind_result (sync_domain_logic cron utcnow j1) (\<lambda>j2.
     bind_result (commit (put_job j2 d1)) (\<lambda>d2. Inr (j2, d2)))))"

section \<open>Deleting, enabling, triggering\<close>

text \<open>Deleting removes the dependencies on both sides, then the job, and by the ORM's cascade
  its runs and their logs.\<close>

definition delete_rows :: "string \<Rightarrow> db \<Rightarrow> db" where
  "delete_rows job_id d =
     (let gone = map r_id (filter (\<lambda>r. r_job_id r = job_id) (db_runs d)) in
      d\<lparr>db_deps := row_del (\<lambda>x. d_job_id x = job_id \<or> d_depends_on_job_id x = job_id) (db_deps d),
        db_logs := row_del (\<lambda>l. l_job_run_id l \<in> set gone) (db_logs d),
        db_runs := row_del (\<lambda>r. r_job_id r = job_id) (db_runs d),
        db_jobs := row_del (\<lambda>j. j_id j = job_id) (db_jobs d)\<rparr>)"

definition delete_job :: "string \<Rightarrow> user option \<Rightarrow> db \<Rightarrow> (string \<times> db) result" where
  "delete_job job_id current_user d =
     bind_result (get_job_or_404 job_id current_user d) (\<lambda>j.
     bind_result (commit (delete_rows (j_id j) d)) (\<lambda>d'. Inr (''job deleted'', d')))"

definition set_job_enabled ::
  "cron_lib \<Rightarrow> datetime \<Rightarrow> string \<Rightarrow> bool \<Rightarrow> user option \<Rightarrow> db \<Rightarrow> (job \<times> db) result" where
  "set_job_enabled cron utcnow job_id enabled current_user d =
     bind_result (get_job_or_404 job_id current_user d) (\<lambda>j.
     bind_result (sync_domain_logic cron utcnow
       (j\<lparr>j_status := Some (if enabled then ''enabled'' else ''disabled'')\<rparr>)) (\<lambda>j'.
     bind_result (commit (put_job j' d)) (\<lambda>d'. Inr (j', d'))))"

definition triggered_run :: "stamp \<Rightarrow> string option \<Rightarrow> string \<Rightarrow> job \<Rightarrow> job_run" where
  "triggered_run st user_id trigger_type j =
     (JobRun st (j_id j))
       \<lparr>r_user_id := user_id, r_status := ''pending'', r_trigger_type := trigger_type,
        r_triggered_by := Some trigger_type,
        r_task_type := or_str (j_task_type j) (j_action_type j),
        r_script := j_script j, r_working_dir := j_working_dir j,
        r_action_type := j_action_type j, r_action_payload := j_action_payload j,
        r_timeout_seconds := j_timeout_seconds j\<rparr>"

text \<open>The detail of the refusal, in Chinese in the source, is left out.\<close>

definition trigger_job ::
  "stamps \<Rightarrow> string \<Rightarrow> user option \<Rightarrow> string \<Rightarrow> db \<Rightarrow> (job_run \<times> db) result" where
  "trigger_job st job_id current_user trigger_type d =
     bind_result (get_job_or_404 job_id current_user d) (\<lambda>j.
     if trigger_type = ''schedule'' \<and> \<not> j_enabled j then Inl (HTTPException 400 [])
     else
       (let user_id = (case current_user of None \<Rightarrow> j_user_id j | Some u \<Rightarrow> Some (u_id u));
            run = triggered_run (st 0) user_id trigger_type j in
        bind_result (commit (add_runs [run] d)) (\<lambda>d'. Inr (run, d'))))"

section \<open>Access, as a rule\<close>

text \<open>Somebody else's job: it has an owner, who is not the current user, who is no admin.\<close>

definition foreign :: "user \<Rightarrow> string option \<Rightarrow> bool" where
  "foreign u owner \<longleftrightarrow> u_role u \<noteq> ''admin'' \<and> truthy_str owner \<and> owner \<noteq> Some (u_id u)"

lemma ensure_job_access_Some:
  "ensure_job_access (Some u) j = (if foreign u (j_user_id j) then Inl job_not_found else Inr j)"
  by (simp add: ensure_job_access_def is_admin_def foreign_def)

lemma ensure_job_access_Inr [result_iff]:
  "ensure_job_access cu j = Inr j' \<longleftrightarrow> j' = j \<and> (\<forall>u. cu = Some u \<longrightarrow> \<not> foreign u (j_user_id j))"
proof (cases cu)
  case None
  then show ?thesis by (auto simp: ensure_job_access_def)
qed (auto simp: ensure_job_access_Some)

lemma get_job_or_404_Inr [result_iff]:
  "get_job_or_404 k cu d = Inr j \<longleftrightarrow>
     get_job_row k d = Some j \<and> (\<forall>u. cu = Some u \<longrightarrow> \<not> foreign u (j_user_id j))"
  by (auto simp: get_job_or_404_def result_iff split: option.splits)

lemma get_job_or_404_denied:
  "(\<forall>j. get_job_row k d = Some j \<longrightarrow> foreign u (j_user_id j))
   \<Longrightarrow> get_job_or_404 k (Some u) d = Inl job_not_found"
  by (auto simp: get_job_or_404_def ensure_job_access_Some split: option.split)

section \<open>Keyword search\<close>

definition plain :: "string \<Rightarrow> bool" where
  "plain s \<longleftrightarrow> CHR ''%'' \<notin> set s \<and> CHR ''_'' \<notin> set s \<and> CHR 0x5C \<notin> set s"

lemma like_match_percent: "like_match (CHR ''%'' # p) s \<longleftrightarrow> (\<exists>a b. s = a @ b \<and> like_match p b)"
proof (induction s)
  case Nil
  then show ?case by (simp add: like_match.simps(2))
next
  case (Cons c s)
  then show ?case
    by (subst like_match.simps(2)) (auto simp: Cons_eq_append_conv)
qed

lemma like_match_all [simp]: "like_match ''%'' s"
  unfolding like_match_percent by auto

lemma like_match_plain: "plain k \<Longrightarrow> like_match (k @ ''%'') s \<longleftrightarrow> prefix k s"
proof (induction k arbitrary: s)
  case Nil
  then show ?case by simp
next
  case (Cons c k)
  then have "c \<noteq> CHR ''%''" "c \<noteq> CHR ''_''" "c \<noteq> CHR 0x5C" "plain k" by (auto simp: plain_def)
  then show ?case using Cons.IH
    by (cases s) (auto simp: like_match.simps(2))
qed

lemma plain_lower_char: "lower_char c = e \<Longrightarrow> e \<in> {CHR ''%'', CHR ''_'', CHR 0x5C} \<Longrightarrow> c = e"
proof -
  assume a: "lower_char c = e" and e: "e \<in> {CHR ''%'', CHR ''_'', CHR 0x5C}"
  show "c = e"
  proof (cases "65 \<le> (of_char c :: nat) \<and> (of_char c :: nat) \<le> 90")
    case True
    then have "e = char_of ((of_char c :: nat) + 32)" using a by (simp add: lower_char_def)
    then have "(of_char e :: nat) = of_char c + 32" using True by simp
    then show ?thesis using True e by auto
  next
    case False
    then show ?thesis using a unfolding lower_char_def by argo
  qed
qed

lemma plain_lower: "plain k \<Longrightarrow> plain (lower k)"
  using plain_lower_char by (fastforce simp: plain_def lower_def)

lemma keyword_filter_plain:
  assumes "plain k" and "k \<noteq> []" and "j_task_name j = Some name"
  shows "keyword_filter (Some k) j \<longleftrightarrow> sublist (lower k) (lower name)"
proof -
  have l: "lower (CHR ''%'' # k @ ''%'') = CHR ''%'' # lower k @ ''%''"
    by (simp add: lower_def lower_char_def)
  show ?thesis using assms like_match_plain [OF plain_lower [OF assms(1)]]
    by (auto simp: keyword_filter_def ilike_def l like_match_percent sublist_def prefix_def)
qed

section \<open>Deleting a job\<close>

lemma in_table_iff: "in_table key rs k \<longleftrightarrow> (\<exists>r \<in> set rs. key r = k)"
  by (auto simp: in_table_def)

lemma valid_delete_rows:
  assumes v: "valid d"
  shows "valid (delete_rows k d)"
proof -
  let ?gone = "map r_id (filter (\<lambda>r. r_job_id r = k) (db_runs d))"
  let ?d = "delete_rows k d"
  have sets: "set (db_jobs ?d) = {j \<in> set (db_jobs d). j_id j \<noteq> k}"
    "set (db_runs ?d) = {r \<in> set (db_runs d). r_job_id r \<noteq> k}"
    "set (db_logs ?d) = {l \<in> set (db_logs d). l_job_run_id l \<notin> set ?gone}"
    "set (db_deps ?d) = {x \<in> set (db_deps d). d_job_id x \<noteq> k \<and> d_depends_on_job_id x \<noteq> k}"
    "db_users ?d = db_users d"
    by (simp_all add: delete_rows_def Let_def set_row_del)
  have jobs: "in_table j_id (db_jobs ?d) i" if "in_table j_id (db_jobs d) i" "i \<noteq> k" for i
    using that by (auto simp: in_table_iff sets)
  have runs: "in_table r_id (db_runs ?d) i" if "in_table r_id (db_runs d) i" "i \<notin> set ?gone" for i
    using that by (auto simp: in_table_iff sets)
  have "db_fits ?d" and "rows_ok ?d"
    using v by (simp_all add: valid_def db_ok_def db_fits_def rows_ok_def list_all_iff sets)
  moreover have "keys_ok ?d" and "unique_ok ?d"
    using v by (simp_all add: valid_def db_ok_def keys_ok_def unique_ok_def delete_rows_def Let_def
        distinct_map_row_del)
  moreover have "fks_ok ?d"
    using v jobs runs unfolding valid_unfold sets by auto
  ultimately show ?thesis by (simp add: valid_def db_ok_def)
qed

lemma delete_job_succeeds:
  assumes "valid d" and "get_job_or_404 k cu d = Inr j"
  shows "delete_job k cu d = Inr (''job deleted'', delete_rows k d)"
proof -
  have "j_id j = k" using assms(2) by (auto simp: result_iff dest: get_job_row_SomeD)
  then show ?thesis using assms valid_delete_rows by (simp add: delete_job_def)
qed

section \<open>Triggering a job\<close>

lemma triggered_run_simps [simp]:
  "r_id (triggered_run st u t j) = fst st" "r_job_id (triggered_run st u t j) = j_id j"
  "r_status (triggered_run st u t j) = ''pending''" "r_trigger_type (triggered_run st u t j) = t"
  "r_user_id (triggered_run st u t j) = u" "r_retry_count (triggered_run st u t j) = 0"
  "r_triggered_by (triggered_run st u t j) = Some t"
  "r_action_type (triggered_run st u t j) = j_action_type j"
  "r_task_type (triggered_run st u t j) = or_str (j_task_type j) (j_action_type j)"
  "r_timeout_seconds (triggered_run st u t j) = j_timeout_seconds j"
  "r_action_payload (triggered_run st u t j) = j_action_payload j"
  "r_script (triggered_run st u t j) = j_script j"
  "r_working_dir (triggered_run st u t j) = j_working_dir j"
  by (simp_all add: triggered_run_def)

lemma triggered_run_valid:
  assumes v: "valid d" and j: "j \<in> set (db_jobs d)" and st: "varchar 36 (fst st)"
    and t: "one_of TRIGGER_TYPES t" and u: "opt_ok (in_table u_id (db_users d)) u"
  shows "run_valid d (triggered_run st u t j)"
proof -
  have ok: "job_ok j" "job_fits j" using valid_job [OF v j] by simp_all
  have tt: "opt_ok (one_of JOB_ACTION_TYPES) (or_str (j_task_type j) (j_action_type j))"
    using ok(1) by (auto simp: job_ok_def required_iff or_str_def)
  have tl: "varchar 80 t" using t by (auto simp: one_of_def TRIGGER_TYPES_def varchar_def)
  show ?thesis using ok u t st j tt tl
    by (auto simp: run_valid_def run_ok_def run_fits_def fk_run_def triggered_run_def job_ok_def
        job_fits_def in_table_def integer_column_def)
qed

lemma trigger_job_succeeds:
  assumes v: "valid d" and get: "get_job_or_404 k cu d = Inr j"
    and t: "one_of TRIGGER_TYPES t" "t = ''schedule'' \<longrightarrow> j_enabled j"
    and u: "\<And>w. cu = Some w \<Longrightarrow> in_table u_id (db_users d) (u_id w)" and st: "fresh_stamps 1 st d"
  defines "run \<equiv> triggered_run (st 0) (case cu of None \<Rightarrow> j_user_id j | Some w \<Rightarrow> Some (u_id w)) t j"
  shows "trigger_job st k cu t d = Inr (run, add_runs [run] d)" and "valid (add_runs [run] d)"
proof -
  have j: "j \<in> set (db_jobs d)" using get by (auto simp: result_iff dest: get_job_row_SomeD)
  have "opt_ok (in_table u_id (db_users d)) (case cu of None \<Rightarrow> j_user_id j | Some w \<Rightarrow> Some (u_id w))"
    using u v j by (auto simp: valid_unfold split: option.split)
  then have "run_valid d run"
    unfolding run_def using v j t(1) fresh_stampsD(6) [OF st, of 0] by (intro triggered_run_valid) auto
  then show va: "valid (add_runs [run] d)"
    using v fresh_stampsD(3) [OF st, of 0] by (intro valid_add_runs) (auto simp: run_def)
  show "trigger_job st k cu t d = Inr (run, add_runs [run] d)"
    using get t(2) va by (simp add: trigger_job_def Let_def run_def [symmetric])
qed

end
