(* ===== verification/JobCorrect.thy ===== *)
theory JobCorrect
  imports JobController Samples
begin

text \<open>
  Correctness of the job endpoints: the dependencies a request installs, what creating and
  updating a job leave in the database, and what disabling a job stops.
\<close>

section \<open>Dependencies\<close>

fun dep_rows :: "stamps \<Rightarrow> nat \<Rightarrow> string \<Rightarrow> job list \<Rightarrow> job_dependency list" where
  "dep_rows st i k [] = []"
| "dep_rows st i k (j # js) = JobDependency (st i) k (j_id j) # dep_rows st (Suc i) k js"

text \<open>The jobs that the names of a request denote, if all of them denote one.\<close>

definition named_jobs :: "db \<Rightarrow> string list \<Rightarrow> job list \<Rightarrow> bool" where
  "named_jobs d names js \<longleftrightarrow> map (\<lambda>n. find_dependency n d) names = map Some js"

lemma find_dependency_deps [simp]: "find_dependency n (d\<lparr>db_deps := xs\<rparr>) = find_dependency n d"
  by (simp add: find_dependency_def find_by_task_name_def get_job_row_def split: option.split)

lemma named_jobs_deps [simp]: "named_jobs (d\<lparr>db_deps := xs\<rparr>) names js = named_jobs d names js"
  by (simp add: named_jobs_def)

lemma find_dependency_add_dep [simp]: "find_dependency n (add_dep x d) = find_dependency n d"
  by (simp add: add_dep_def)

lemma add_dependencies_Inr [result_iff]:
  "add_dependencies st i k names d = Inr d' \<longleftrightarrow>
     (\<exists>js. named_jobs d names js \<and> d' = d\<lparr>db_deps := db_deps d @ dep_rows st i k js\<rparr>)"
proof (induction names arbitrary: i d)
  case Nil
  then show ?case by (auto simp: named_jobs_def)
next
  case (Cons n names)
  show ?case
  proof (cases "find_dependency n d")
    case None
    then show ?thesis by (auto simp: named_jobs_def Cons_eq_map_conv)
  next
    case (Some j)
    have step: "named_jobs d (n # names) js \<longleftrightarrow> (\<exists>ks. js = j # ks \<and> named_jobs d names ks)" for js
      using Some by (auto simp: named_jobs_def Cons_eq_map_conv)
    show ?thesis
      unfolding step using Cons.IH [of "Suc i" "add_dep (JobDependency (st i) k (j_id j)) d"] Some
      by (auto simp: add_dep_def)
  qed
qed

lemma add_dependencies_unknown:
  assumes "n \<in> set names" and "find_dependency n d = None"
  shows "\<exists>m \<in> set names. find_dependency m d = None
    \<and> add_dependencies st i k names d = Inl (ValueError (''Dependency job '' @ quoted m @ '' not found''))"
  using assms
proof (induction names arbitrary: i d)
  case (Cons m names)
  show ?case
  proof (cases "find_dependency m d")
    case None
    then show ?thesis by auto
  next
    case (Some j)
    then have "n \<in> set names" using Cons.prems by auto
    then show ?thesis
      using Cons.IH [of "add_dep (JobDependency (st i) k (j_id j)) d" "Suc i"] Cons.prems(2) Some by auto
  qed
qed simp

lemma dep_rows_keys: "\<forall>x \<in> set (dep_rows st i k js). d_job_id x = k \<and> d_required_status x = ''success''"
  by (induction js arbitrary: i) (auto simp: JobDependency_def)

section \<open>Creating\<close>

lemma create_job_service_InrD:
  assumes "create_job_service cron now st p uid d = Inr (j, d')"
  obtains js where "find_by_task_name (c_task_name p) d = None"
    "sync_domain_logic cron now (job_from_create (st 0) p uid) = Inr j"
    "named_jobs (add_job j d) (case c_depends_on p of None \<Rightarrow> [] | Some ns \<Rightarrow> ns) js"
    "d' = (add_job j d)\<lparr>db_deps := db_deps d @ dep_rows st 1 (j_id j) js\<rparr>" "valid d'" "valid (add_job j d)"
  using assms by (auto simp: create_job_service_def result_iff split: if_splits)

lemma create_job_InrD:
  assumes "create_job cron now st p u d = Inr (j, d')"
  shows "create_job_service cron now st p (u_id u) d = Inr (j, d')"
  using assms by (auto simp: create_job_def split: sum.splits error.splits)

section \<open>Updating\<close>

lemma updated_job_id [simp]: "j_id (updated_job p j) = j_id j"
  by (simp add: updated_job_def sync_action_payload_def apply_direct_fields_def
      apply_field_aliases_def apply_schedule_def split: option.split)

lemma update_dependencies_InrD:
  assumes "update_dependencies dirty st k names d = Inr d'"
  obtains js where "named_jobs d (case names of None \<Rightarrow> [] | Some ns \<Rightarrow> ns) js"
    "d' = (if js = [] then id else dirty)
            (d\<lparr>db_deps := row_del (\<lambda>x. d_job_id x = k) (db_deps d) @ dep_rows st 0 k js\<rparr>)"
proof (cases "names = None \<or> names = Some []")
  case True
  then show ?thesis using assms that [of "[]"]
    by (auto simp: update_dependencies_def Let_def named_jobs_def)
next
  case False
  then obtain n ns where names: "names = Some (n # ns)" by (cases names) (auto simp: neq_Nil_conv)
  let ?d1 = "d\<lparr>db_deps := row_del (\<lambda>x. d_job_id x = k) (db_deps d)\<rparr>"
  have "bind_result (add_dependencies st 0 k (n # ns) ?d1) (\<lambda>d2. flush (dirty d2)) = Inr d'"
    using assms by (simp only: update_dependencies_def names Let_def option.case list.case)
  then obtain d2 where "add_dependencies st 0 k (n # ns) ?d1 = Inr d2" and f: "flush (dirty d2) = Inr d'"
    unfolding bind_result_Inr_iff by blast
  then obtain js where js: "named_jobs ?d1 (n # ns) js"
    and d2: "d2 = ?d1\<lparr>db_deps := db_deps ?d1 @ dep_rows st 0 k js\<rparr>"
    unfolding add_dependencies_Inr by blast
  have "js \<noteq> []" using js by (auto simp: named_jobs_def)
  moreover have "named_jobs d (n # ns) js" using js by (simp add: named_jobs_def)
  moreover have "d' = dirty (d\<lparr>db_deps := row_del (\<lambda>x. d_job_id x = k) (db_deps d) @ dep_rows st 0 k js\<rparr>)"
    using f d2 by (simp add: result_iff)
  ultimately show ?thesis using that names by auto
qed

text \<open>What a successful update leaves: the job row rewritten, its dependencies replaced when
  the request names them, and nothing else touched.\<close>

lemma update_job_InrD:
  assumes "update_job cron now st k p cu d = Inr (j, d')"
  obtains j0 where "get_job_or_404 k cu d = Inr j0" "sync_domain_logic cron now (updated_job p j0) = Inr j"
    "valid d'" "db_jobs d' = row_upd j_id k (\<lambda>_. j) (db_jobs d)"
    "db_runs d' = db_runs d" "db_logs d' = db_logs d" "db_users d' = db_users d"
    "case p_depends_on p of
       None \<Rightarrow> db_deps d' = db_deps d
     | Some names \<Rightarrow> \<exists>js. named_jobs d (case names of None \<Rightarrow> [] | Some ns \<Rightarrow> ns) js
         \<and> db_deps d' = row_del (\<lambda>x. d_job_id x = k) (db_deps d) @ dep_rows st 0 k js"
proof -
  obtain j0 d1 where get: "get_job_or_404 k cu d = Inr j0"
    and deps: "(case p_depends_on p of None \<Rightarrow> Inr d
         | Some names \<Rightarrow> update_dependencies (put_job (updated_job p j0)) st k names d) = Inr d1"
    and sync: "sync_domain_logic cron now (updated_job p j0) = Inr j"
    and v: "valid d'" and d': "d' = put_job j d1"
    using assms by (auto simp: update_job_def Let_def result_iff)
  have id: "j_id j0 = k" using get by (auto simp: result_iff dest: get_job_row_SomeD)
  then have jid: "j_id j = k" using sync_frame(1) [OF sync] by simp
  have twice: "row_upd j_id k (\<lambda>_. j) (row_upd j_id k (\<lambda>_. updated_job p j0) rs) = row_upd j_id k (\<lambda>_. j) rs"
    for rs using id by (simp add: row_upd_def)
  show ?thesis
  proof (cases "p_depends_on p")
    case None
    then show ?thesis using that [OF get sync v] deps by (simp add: d' jid)
  next
    case (Some names)
    then have "update_dependencies (put_job (updated_job p j0)) st k names d = Inr d1" using deps by simp
    then obtain js where js: "named_jobs d (case names of None \<Rightarrow> [] | Some ns \<Rightarrow> ns) js"
      and d1: "d1 = (if js = [] then id else put_job (updated_job p j0))
            (d\<lparr>db_deps := row_del (\<lambda>x. d_job_id x = k) (db_deps d) @ dep_rows st 0 k js\<rparr>)"
      by (rule update_dependencies_InrD)
    have "db_jobs d' = row_upd j_id k (\<lambda>_. j) (db_jobs d)" "db_runs d' = db_runs d"
      "db_logs d' = db_logs d" "db_users d' = db_users d"
      "db_deps d' = row_del (\<lambda>x. d_job_id x = k) (db_deps d) @ dep_rows st 0 k js"
      using d1 by (auto simp: d' jid id twice split: if_splits)
    then show ?thesis using that [OF get sync v] js Some by auto
  qed
qed

section \<open>Disabling\<close>

lemma set_job_enabled_InrD:
  assumes "set_job_enabled cron now k b cu d = Inr (j, d')"
  obtains j0 where "get_job_or_404 k cu d = Inr j0"
    "sync_domain_logic cron now (j0\<lparr>j_status := Some (if b then ''enabled'' else ''disabled'')\<rparr>) = Inr j"
    "d' = put_job j d" "valid d'" "j_id j = k"
proof -
  obtain j0 where get: "get_job_or_404 k cu d = Inr j0"
    and sync: "sync_domain_logic cron now (j0\<lparr>j_status := Some (if b then ''enabled'' else ''disabled'')\<rparr>) = Inr j"
    and d': "d' = put_job j d" and v: "valid d'"
    using assms by (auto simp: set_job_enabled_def result_iff)
  have "j_id j0 = k" using get by (auto simp: result_iff dest: get_job_row_SomeD)
  then have "j_id j = k" using sync_frame(1) [OF sync] by simp
  then show ?thesis using that get sync d' v by blast
qed

lemma disabled_job:
  assumes "set_job_enabled cron now k False cu d = Inr (j, d')"
  shows "\<not> j_enabled j" "j_next_run_at j = None" "j_status j = Some ''disabled''"
    "get_job_row k d' = Some j" "j_id j = k"
proof -
  obtain j0 where get: "get_job_or_404 k cu d = Inr j0"
    and sync: "sync_domain_logic cron now (j0\<lparr>j_status := Some ''disabled''\<rparr>) = Inr j"
    and d': "d' = put_job j d" and id: "j_id j = k"
    using assms by (rule set_job_enabled_InrD) (simp only: if_False)
  have st: "normal_status (Some ''disabled'') = Some ''disabled''" "\<not> active_status (Some ''disabled'')"
    by (simp_all add: normal_status_def active_status_def)
  show "\<not> j_enabled j" "j_next_run_at j = None" "j_status j = Some ''disabled''" "j_id j = k"
    using sync id by (auto simp: sync_Inr_iff st next_run_or_none_def)
  show "get_job_row k d' = Some j" using get by (auto simp: d' id get_job_row_put_job result_iff)
qed

lemma disabled_job_row:
  assumes "set_job_enabled cron now k False cu d = Inr (j, d')" and "i \<in> set (db_jobs d')" and "j_id i = k"
  shows "\<not> j_enabled i"
proof -
  obtain j0 where "d' = put_job j d" "j_id j = k"
    using assms(1) by (rule set_job_enabled_InrD)
  then have "i = j" using assms(2,3) by (auto simp: set_row_upd split: if_splits)
  then show ?thesis using disabled_job(1) [OF assms(1)] by simp
qed

end
