(* ===== verification/JobProperties.thy ===== *)
theory JobProperties
  imports JobCorrect
begin

text \<open>
  The properties of the job endpoints: access, creation, update, deletion, disabling,
  triggering and search, each with a witness at the sample database.
\<close>

section \<open>Access\<close>



section \<open>Creating\<close>

text \<open>C27: a job is created only under a new task name; it is appended, belongs to the caller,
  is consistent, and gets one dependency per name of the request, each name denoting a job by
  task name or by id; nothing else changes and every constraint holds (so it cannot depend on
  itself or twice on the same job).\<close>

theorem create_job_effect:
  assumes "create_job cron now st p u d = Inr (j, d')"
  shows "find_by_task_name (c_task_name p) d = None
     \<and> j_task_name j = Some (c_task_name p) \<and> j_user_id j = Some (u_id u) \<and> job_consistent j
     \<and> db_jobs d' = db_jobs d @ [j]
     \<and> (\<exists>js. named_jobs (add_job j d) (case c_depends_on p of None \<Rightarrow> [] | Some ns \<Rightarrow> ns) js
           \<and> db_deps d' = db_deps d @ dep_rows st 1 (j_id j) js)
     \<and> db_runs d' = db_runs d \<and> db_logs d' = db_logs d \<and> db_users d' = db_users d \<and> valid d'"
proof -
  obtain js where c: "find_by_task_name (c_task_name p) d = None"
    "sync_domain_logic cron now (job_from_create (st 0) p (u_id u)) = Inr j"
    "named_jobs (add_job j d) (case c_depends_on p of None \<Rightarrow> [] | Some ns \<Rightarrow> ns) js"
    "d' = (add_job j d)\<lparr>db_deps := db_deps d @ dep_rows st 1 (j_id j) js\<rparr>" "valid d'"
    using create_job_InrD [OF assms] by (rule create_job_service_InrD)
  have "j_task_name j = Some (c_task_name p)" "j_user_id j = Some (u_id u)"
    using sync_frame(2,3) [OF c(2)] by (simp_all add: job_from_create_def Let_def)
  then show ?thesis using c(1,3,4,5) sync_consistent [OF c(2)] by auto
qed

definition sample_create :: job_create where
  "sample_create = (JobCreate ''report'')\<lparr>c_depends_on := Some [''load''], c_schedule_type := ''interval'',
     c_interval_seconds := Some 5\<rparr>"

theorem create_job_effect_witness:
  "\<exists>j d'. create_job no_cron (Aware 0) sample_stamps sample_create alice sample_db = Inr (j, d')
     \<and> db_jobs d' = [extract_job, load_job, j] \<and> job_consistent j"
proof -
  have "case create_job no_cron (Aware 0) sample_stamps sample_create alice sample_db of
          Inl e \<Rightarrow> False | Inr p \<Rightarrow> True" by code_simp
  then obtain j d' where ok: "create_job no_cron (Aware 0) sample_stamps sample_create alice sample_db = Inr (j, d')"
    by (auto split: sum.splits)
  have "db_jobs sample_db = [extract_job, load_job]" by (simp add: sample_db_def)
  then show ?thesis using ok create_job_effect [OF ok] by auto
qed

text \<open>A dependency that names no job is refused: creating answers 409 and commits
  nothing, although the job itself was already flushed; an update raises a bare
  \<open>ValueError\<close> instead, which no handler translates.\<close>

theorem unknown_dependency_refused:
  assumes "n \<in> set names" and "find_by_task_name (c_task_name p) d = None"
    and "sync_domain_logic cron now (job_from_create (st 0) p (u_id u)) = Inr j" and "valid (add_job j d)"
    and "c_depends_on p = Some names" and "find_dependency n (add_job j d) = None"
    and "get_job_or_404 k cu d = Inr j0" and "p_depends_on q = Some (Some names)"
    and "find_dependency n d = None"
  shows "(\<exists>m \<in> set names. create_job cron now st p u d
            = Inl (HTTPException 409 (''Dependency job '' @ quoted m @ '' not found'')))
     \<and> (\<exists>m \<in> set names. update_job cron now st k q cu d
            = Inl (ValueError (''Dependency job '' @ quoted m @ '' not found'')))"
proof
  obtain m where "m \<in> set names" and "add_dependencies st 1 (j_id j) names (add_job j d)
      = Inl (ValueError (''Dependency job '' @ quoted m @ '' not found''))"
    using add_dependencies_unknown [OF assms(1,6), of st 1 "j_id j"] by auto
  then show "\<exists>m \<in> set names. create_job cron now st p u d
            = Inl (HTTPException 409 (''Dependency job '' @ quoted m @ '' not found''))"
    using assms(2-5) by (auto simp: create_job_def create_job_service_def)
next
  obtain i js where names: "names = i # js" using assms(1) by (cases names) auto
  let ?d1 = "d\<lparr>db_deps := row_del (\<lambda>x. d_job_id x = k) (db_deps d)\<rparr>"
  obtain m where "m \<in> set names" and "add_dependencies st 0 k names ?d1
      = Inl (ValueError (''Dependency job '' @ quoted m @ '' not found''))"
    using add_dependencies_unknown [OF assms(1), of ?d1 st 0 k] assms(9) by auto
  then show "\<exists>m \<in> set names. update_job cron now st k q cu d
            = Inl (ValueError (''Dependency job '' @ quoted m @ '' not found''))"
    using assms(7,8) names by (auto simp: update_job_def update_dependencies_def Let_def)
qed

theorem unknown_dependency_refused_witness:
  "create_job no_cron (Aware 0) sample_stamps ((JobCreate ''new'')\<lparr>c_depends_on := Some [''x'']\<rparr>) alice sample_db
     = Inl (HTTPException 409 (''Dependency job '' @ quoted ''x'' @ '' not found''))
   \<and> update_job no_cron (Aware 0) sample_stamps ''j1'' (JobUpdate\<lparr>p_depends_on := Some (Some [''x''])\<rparr>)
       (Some alice) sample_db = Inl (ValueError (''Dependency job '' @ quoted ''x'' @ '' not found''))"
proof -
  let ?p = "(JobCreate ''new'')\<lparr>c_depends_on := Some [''x'']\<rparr>"
  have "case sync_domain_logic no_cron (Aware 0) (job_from_create (sample_stamps 0) ?p (u_id alice)) of
      Inl e \<Rightarrow> False
    | Inr j \<Rightarrow> valid (add_job j sample_db) \<and> find_dependency ''x'' (add_job j sample_db) = None"
    by code_simp
  then obtain j where j: "sync_domain_logic no_cron (Aware 0) (job_from_create (sample_stamps 0) ?p (u_id alice)) = Inr j"
    "valid (add_job j sample_db)" "find_dependency ''x'' (add_job j sample_db) = None"
    by (auto split: sum.splits)
  have "find_by_task_name (c_task_name ?p) sample_db = None"
    "get_job_or_404 ''j1'' (Some alice) sample_db = Inr extract_job"
    "find_dependency ''x'' sample_db = None" by code_simp+
  then show ?thesis
    using j unknown_dependency_refused [where n = "''x''" and names = "[''x'']" and p = ?p and d = sample_db
        and cron = no_cron and now = "Aware 0" and st = sample_stamps and u = alice and j = j
        and k = "''j1''" and cu = "Some alice" and q = "JobUpdate\<lparr>p_depends_on := Some (Some [''x''])\<rparr>"]
    by simp
qed

section \<open>Updating\<close>

text \<open>C26: an update rewrites exactly the requested job, which ends consistent, and replaces its
  dependencies exactly when the request sets \<open>depends_on\<close>; all other jobs, dependencies,
  runs, logs and users stay, and every constraint holds.\<close>

theorem update_job_effect:
  assumes "update_job cron now st k p cu d = Inr (j, d')"
  shows "(\<exists>j0. get_job_row k d = Some j0 \<and> sync_domain_logic cron now (updated_job p j0) = Inr j)
     \<and> job_consistent j \<and> db_jobs d' = row_upd j_id k (\<lambda>_. j) (db_jobs d)
     \<and> (case p_depends_on p of
          None \<Rightarrow> db_deps d' = db_deps d
        | Some names \<Rightarrow> \<exists>js. named_jobs d (case names of None \<Rightarrow> [] | Some ns \<Rightarrow> ns) js
            \<and> db_deps d' = row_del (\<lambda>x. d_job_id x = k) (db_deps d) @ dep_rows st 0 k js)
     \<and> db_runs d' = db_runs d \<and> db_logs d' = db_logs d \<and> db_users d' = db_users d \<and> valid d'"
proof -
  from assms obtain j0 where "get_job_or_404 k cu d = Inr j0"
    and sync: "sync_domain_logic cron now (updated_job p j0) = Inr j" and v: "valid d'"
    and rest: "db_jobs d' = row_upd j_id k (\<lambda>_. j) (db_jobs d)"
      "db_runs d' = db_runs d" "db_logs d' = db_logs d" "db_users d' = db_users d"
      "case p_depends_on p of
         None \<Rightarrow> db_deps d' = db_deps d
       | Some names \<Rightarrow> \<exists>js. named_jobs d (case names of None \<Rightarrow> [] | Some ns \<Rightarrow> ns) js
           \<and> db_deps d' = row_del (\<lambda>x. d_job_id x = k) (db_deps d) @ dep_rows st 0 k js"
    by (rule update_job_InrD)
  then have "get_job_row k d = Some j0" by (simp add: result_iff)
  then show ?thesis using sync_consistent [OF sync] sync v rest by blast
qed

definition sample_update :: job_update where
  "sample_update = JobUpdate\<lparr>p_status := Some (Some ''paused''), p_depends_on := Some (Some [''j2'']),
     p_script := Some (Some ''pwd'')\<rparr>"

theorem update_job_effect_witness:
  "\<exists>j d'. update_job no_cron (Aware 0) sample_stamps ''j1'' sample_update (Some alice)
            (sample_db\<lparr>db_deps := []\<rparr>) = Inr (j, d')
     \<and> job_consistent j \<and> db_jobs d' = [j, load_job]"
proof -
  let ?d = "sample_db\<lparr>db_deps := []\<rparr>"
  have "case update_job no_cron (Aware 0) sample_stamps ''j1'' sample_update (Some alice) ?d of
          Inl e \<Rightarrow> False | Inr p \<Rightarrow> True" by code_simp
  then obtain j d' where ok: "update_job no_cron (Aware 0) sample_stamps ''j1'' sample_update (Some alice) ?d
      = Inr (j, d')"
    by (auto split: sum.splits)
  have "row_upd j_id ''j1'' (\<lambda>_. j) (db_jobs ?d) = [j, load_job]"
    by (simp add: sample_db_def row_upd_def extract_job_def load_job_def)
  then show ?thesis using ok update_job_effect [OF ok] by auto
qed

section \<open>Deleting\<close>

text \<open>C33: deleting a job the caller may access always succeeds: the job is gone, and with it
  every run and dependency that refers to it and the logs of those runs, so all constraints
  still hold; every other row is kept.\<close>

theorem delete_job_complete:
  assumes "valid d" and "get_job_or_404 k cu d = Inr j"
  shows "\<exists>d'. delete_job k cu d = Inr (''job deleted'', d') \<and> valid d' \<and> get_job_row k d' = None
     \<and> set (db_jobs d') = {i \<in> set (db_jobs d). j_id i \<noteq> k}
     \<and> set (db_runs d') = {r \<in> set (db_runs d). r_job_id r \<noteq> k}
     \<and> set (db_deps d') = {x \<in> set (db_deps d). d_job_id x \<noteq> k \<and> d_depends_on_job_id x \<noteq> k}
     \<and> set (db_logs d') = {l \<in> set (db_logs d).
          \<forall>r \<in> set (db_runs d). r_job_id r = k \<longrightarrow> l_job_run_id l \<noteq> r_id r}
     \<and> db_users d' = db_users d"
  using delete_job_succeeds [OF assms] valid_delete_rows [OF assms(1), of k]
  by (auto simp: delete_rows_def Let_def set_row_del get_job_row_def repo_get_def row_get_None_iff)

theorem delete_job_complete_witness:
  "\<exists>d'. delete_job ''j1'' (Some alice) sample_db = Inr (''job deleted'', d') \<and> valid d'
     \<and> get_job_row ''j1'' d' = None"
proof -
  have "get_job_or_404 ''j1'' (Some alice) sample_db = Inr extract_job" by code_simp
  from delete_job_complete [OF valid_sample this] show ?thesis by blast
qed

section \<open>Disabling and triggering\<close>

text \<open>Disabling a job stops it at once: it has no next run, the scan never fires it, and
  no pending run of it is handed to a worker, whatever rows other transactions hold.\<close>

theorem disabled_job_stops:
  assumes "set_job_enabled cron now k False cu d = Inr (j, d')"
  shows "j_next_run_at j = None \<and> get_job_row k d' = Some j
     \<and> (\<forall>locked t. \<forall>i \<in> set (scan_fires locked t d'). j_id i \<noteq> k)
     \<and> (\<forall>locked skipped. \<forall>r \<in> set (db_runs d'). r_job_id r = k \<longrightarrow> \<not> run_available locked skipped d' r)"
proof -
  note D = disabled_job [OF assms]
  have "j_id i \<noteq> k" if "i \<in> set (scan_fires locked t d')" for locked t i
    using that disabled_job_row [OF assms, of i] by (auto simp: scan_fires_def job_due_def)
  moreover have "\<not> run_available locked skipped d' r" if "r_job_id r = k" for locked skipped r
    using that D(1,4) by (simp add: run_available_def run_job_def)
  ultimately show ?thesis using D by blast
qed

theorem disabled_job_stops_witness:
  "\<exists>j d'. set_job_enabled no_cron (Aware 0) ''j1'' False (Some alice) sample_db = Inr (j, d')
     \<and> j_next_run_at j = None \<and> \<not> run_available [] [] d' extract_run"
proof -
  have "case set_job_enabled no_cron (Aware 0) ''j1'' False (Some alice) sample_db of
          Inl e \<Rightarrow> False | Inr p \<Rightarrow> extract_run \<in> set (db_runs (snd p))" by code_simp
  then obtain j d' where ok: "set_job_enabled no_cron (Aware 0) ''j1'' False (Some alice) sample_db = Inr (j, d')"
    and mem: "extract_run \<in> set (db_runs d')"
    by (auto split: sum.splits)
  have "r_job_id extract_run = ''j1''" by (simp add: extract_run_def)
  then show ?thesis using ok mem disabled_job_stops [OF ok] by blast
qed

text \<open>Triggering a job the caller may access always queues exactly one pending run with the
  job's action, payload, script and timeout, owned by the caller, also when the job is
  disabled or its dependencies are not satisfied; only a trigger of type \<open>schedule\<close> on a
  disabled job is refused.\<close>

theorem trigger_queues_run:
  assumes "valid d" and "get_job_or_404 k (Some u) d = Inr j" and "get_user (u_id u) d = Some u"
    and "one_of TRIGGER_TYPES t" and "fresh_stamps 1 st d"
  shows "trigger_job st k (Some u) t d =
    (if t = ''schedule'' \<and> \<not> j_enabled j then Inl (HTTPException 400 [])
     else Inr (triggered_run (st 0) (Some (u_id u)) t j,
               add_runs [triggered_run (st 0) (Some (u_id u)) t j] d))
   \<and> valid (add_runs [triggered_run (st 0) (Some (u_id u)) t j] d)"
proof -
  have u: "in_table u_id (db_users d) (u_id u)"
    using assms(3) users.get_None_iff [of "u_id u" d] by (simp add: get_user_def)
  have j: "j \<in> set (db_jobs d)" using assms(2) by (auto simp: result_iff dest: get_job_row_SomeD)
  have v: "valid (add_runs [triggered_run (st 0) (Some (u_id u)) t j] d)"
    using assms(1,4) j u fresh_stampsD(3,6) [OF assms(5), of 0]
    by (intro valid_add_runs) (auto intro!: triggered_run_valid)
  show ?thesis
  proof (cases "t = ''schedule'' \<and> \<not> j_enabled j")
    case True
    then show ?thesis using assms(2) v by (simp add: trigger_job_def)
  next
    case False
    then show ?thesis using assms(2) v by (auto simp: trigger_job_def Let_def)
  qed
qed

theorem trigger_queues_run_witness:
  "trigger_job sample_stamps ''j1'' (Some alice) ''manual'' sample_db
   = Inr (triggered_run (sample_stamps 0) (Some ''u1'') ''manual'' extract_job,
          add_runs [triggered_run (sample_stamps 0) (Some ''u1'') ''manual'' extract_job] sample_db)"
proof -
  have "get_job_or_404 ''j1'' (Some alice) sample_db = Inr extract_job"
    "get_user (u_id alice) sample_db = Some alice" "one_of TRIGGER_TYPES ''manual''" by code_simp+
  moreover have "u_id alice = ''u1''" by (simp add: alice_def)
  ultimately show ?thesis
    using trigger_queues_run [OF valid_sample, of "''j1''" alice extract_job "''manual''" sample_stamps]
      fresh_sample(2) by (simp del: One_nat_def)
qed

section \<open>Search\<close>

text \<open>Listing jobs with a keyword free of SQL wildcards returns exactly the visible jobs
  that pass the status filter and whose task name contains the keyword, ignoring case, newest
  first; every job listed is one the user may open.\<close>

theorem list_jobs_keyword:
  assumes "valid d" and "plain kw" and "kw \<noteq> []"
  shows "set (list_jobs cu status (Some kw) d) =
      {j \<in> set (db_jobs d). job_visible cu j \<and> status_filter status j
         \<and> (\<exists>name. j_task_name j = Some name \<and> sublist (lower kw) (lower name))}
    \<and> sorted (map (\<lambda>j. - instant (j_created_at j)) (list_jobs cu status (Some kw) d))
    \<and> (\<forall>j \<in> set (list_jobs cu status (Some kw) d). get_job_or_404 (j_id j) cu d = Inr j)"
proof -
  have name: "\<exists>name. j_task_name j = Some name" if "j \<in> set (db_jobs d)" for j
    using valid_job [OF assms(1) that] by (auto simp: job_ok_def)
  have kf: "keyword_filter (Some kw) j \<longleftrightarrow> (\<exists>name. j_task_name j = Some name \<and> sublist (lower kw) (lower name))"
    if j: "j \<in> set (db_jobs d)" for j
  proof -
    obtain nm where "j_task_name j = Some nm" using name [OF j] by blast
    then show ?thesis using keyword_filter_plain [OF assms(2,3)] by simp
  qed
  have opens: "get_job_or_404 (j_id j) cu d = Inr j" if "j \<in> set (db_jobs d)" "job_visible cu j" for j
  proof -
    have "get_job_row (j_id j) d = Some j" using that(1) assms(1) by (simp add: get_job_row_iff)
    then show ?thesis using that(2)
      by (auto simp: result_iff job_visible_def is_admin_def foreign_def split: if_splits)
  qed
  have set: "set (list_jobs cu status (Some kw) d) = {j \<in> set (db_jobs d). job_visible cu j
      \<and> status_filter status j \<and> keyword_filter (Some kw) j}"
    by (auto simp: list_jobs_def)
  show ?thesis
    using kf opens by (auto simp: set) (simp add: list_jobs_def)
qed

theorem list_jobs_keyword_witness:
  "set (list_jobs (Some alice) (Some ''enabled'') (Some ''XTR'') sample_db) = {extract_job}"
proof -
  have pl: "plain ''XTR''" by (simp add: plain_def)
  have sl: "sublist (lower ''XTR'') (lower ''extract'')" by code_simp
  have vis: "job_visible (Some alice) extract_job" "\<not> job_visible (Some alice) load_job"
    "status_filter (Some ''enabled'') extract_job" by code_simp+
  have jobs: "db_jobs sample_db = [extract_job, load_job]" "j_task_name extract_job = Some ''extract''"
    by (simp_all add: sample_db_def extract_job_def)
  show ?thesis
    using conjunct1 [OF list_jobs_keyword [OF valid_sample pl, of "Some alice" "Some ''enabled''"]] sl vis
    by (auto simp: jobs)
qed

end
