(* ===== verification/RunController.thy ===== *)
theory RunController
  imports JobController QueueContract OutcomeCorrect
begin

text \<open>
  The run endpoints (\<open>app/presentation/controllers/job_run_controller.py\<close>, the clear
  endpoint of \<open>app/presentation/api/job_run_router.py\<close>) and what workers call
  (\<open>app/presentation/controllers/queue_controller.py\<close>): visibility, retry and cancel,
  logs, and the translation of domain exceptions to HTTP errors.
\<close>

section \<open>Access\<close>

definition visible_user_id :: "user option \<Rightarrow> string option \<Rightarrow> string option" where
  "visible_user_id current_user requested_user_id =
     (case current_user of
        None \<Rightarrow> requested_user_id
      | Some u \<Rightarrow> if \<not> is_admin current_user then Some (u_id u) else requested_user_id)"

definition run_not_found :: error where
  "run_not_found = HTTPException 404 ''Job run not found''"

definition ensure_run_access :: "user option \<Rightarrow> job_run \<Rightarrow> job_run result" where
  "ensure_run_access current_user r =
     (case current_user of
        None \<Rightarrow> Inr r
      | Some u \<Rightarrow>
          if \<not> is_admin current_user \<and> truthy_str (r_user_id r) \<and> r_user_id r \<noteq> Some (u_id u)
          then Inl run_not_found else Inr r)"

section \<open>Translating exceptions\<close>

fun to_404 :: "'a result \<Rightarrow> 'a result" where
  "to_404 (Inl (EntityNotFoundError m)) = Inl (HTTPException 404 m)"
| "to_404 r = r"

fun to_http :: "'a result \<Rightarrow> 'a result" where
  "to_http (Inl (EntityNotFoundError m)) = Inl (HTTPException 404 m)"
| "to_http (Inl (BusinessRuleViolationError m)) = Inl (HTTPException 400 m)"
| "to_http r = r"

section \<open>Runs\<close>

definition filter_field :: "string option \<Rightarrow> ('r \<Rightarrow> string option) \<Rightarrow> 'r \<Rightarrow> bool" where
  "filter_field v field r \<longleftrightarrow> (truthy_str v \<longrightarrow> field r = v)"

definition list_job_runs ::
  "string option \<Rightarrow> string option \<Rightarrow> string option \<Rightarrow> nat \<Rightarrow> nat \<Rightarrow> user option \<Rightarrow> db \<Rightarrow> job_run list" where
  "list_job_runs status user_id job_id limit offset current_user d =
     repo_list (\<lambda>r. filter_field status (\<lambda>r. Some (r_status r)) r
         \<and> filter_field (visible_user_id current_user user_id) r_user_id r
         \<and> filter_field job_id (\<lambda>r. Some (r_job_id r)) r)
       r_created_at offset limit (db_runs d)"

definition get_job_run :: "string \<Rightarrow> user option \<Rightarrow> db \<Rightarrow> job_run result" where
  "get_job_run run_id current_user d =
     to_404 (bind_result (get_run run_id d) (ensure_run_access current_user))"

definition new_job_run :: "stamp \<Rightarrow> datetime \<Rightarrow> job \<Rightarrow> string \<Rightarrow> bool \<Rightarrow> string option \<Rightarrow> int \<Rightarrow> job_run" where
  "new_job_run st now j triggered_by start_as_pending user_id retry_count =
     (let run = (JobRun st (j_id j))
            \<lparr>r_user_id := or_str user_id (j_user_id j),
             r_status := (if start_as_pending then ''pending'' else ''running''),
             r_trigger_type := triggered_by, r_triggered_by := Some triggered_by,
             r_retry_count := retry_count, r_action_type := j_action_type j,
             r_action_payload := j_action_payload j, r_timeout_seconds := j_timeout_seconds j\<rparr> in
      if \<not> start_as_pending then start None now run else run)"

definition create_job_run ::
  "stamps \<Rightarrow> datetime \<Rightarrow> job \<Rightarrow> string \<Rightarrow> bool \<Rightarrow> string option \<Rightarrow> int \<Rightarrow> db \<Rightarrow> (job_run \<times> db) result" where
  "create_job_run st now j triggered_by start_as_pending user_id retry_count d =
     (let run = new_job_run (st 0) now j triggered_by start_as_pending user_id retry_count in
      bind_result (commit (add_runs [run] d)) (\<lambda>d'. Inr (run, d')))"

definition update_job_run_status ::
  "stamps \<Rightarrow> datetime \<Rightarrow> string \<Rightarrow> string \<Rightarrow> string option \<Rightarrow> string option \<Rightarrow> string option
     \<Rightarrow> db \<Rightarrow> (job_run \<times> db) result" where
  "update_job_run_status st now run_id status stdout stderr error_message d =
     to_http (update_status st now run_id status stdout stderr error_message d)"

definition retry_job_run :: "stamps \<Rightarrow> string \<Rightarrow> user option \<Rightarrow> db \<Rightarrow> (job_run \<times> db) result" where
  "retry_job_run st run_id current_user d =
     to_http (bind_result (get_run run_id d) (\<lambda>r.
     bind_result (ensure_run_access current_user r) (\<lambda>_.
     retry_run st run_id (case current_user of None \<Rightarrow> None | Some u \<Rightarrow> Some (u_id u)) d)))"

definition cancel_job_run ::
  "stamps \<Rightarrow> datetime \<Rightarrow> string \<Rightarrow> user option \<Rightarrow> db \<Rightarrow> (job_run \<times> db) result" where
  "cancel_job_run st now run_id current_user d =
     to_http (bind_result (get_run run_id d) (\<lambda>r.
     bind_result (ensure_run_access current_user r) (\<lambda>_.
     update_status st now run_id ''canceled'' None None None d)))"

section \<open>Logs\<close>

definition normalized_level :: "string \<Rightarrow> string" where
  "normalized_level level = (if lower level = ''warn'' then ''warning'' else lower level)"

definition add_log ::
  "stamps \<Rightarrow> string \<Rightarrow> string \<Rightarrow> string \<Rightarrow> string \<Rightarrow> db \<Rightarrow> (job_log \<times> db) result" where
  "add_log st run_id level message stream d =
     (let l = JobLog (st 0) run_id (normalized_level level) stream message in
      bind_result (commit (add_logs [l] d)) (\<lambda>d'. Inr (l, d')))"

definition save_job_log ::
  "stamps \<Rightarrow> string \<Rightarrow> string \<Rightarrow> string \<Rightarrow> string \<Rightarrow> db \<Rightarrow> (job_log \<times> db) result" where
  "save_job_log st run_id log_level message stream d =
     bind_result (get_job_run run_id None d) (\<lambda>_.
     let l = JobLog (st 0) run_id (normalized_level log_level) stream message in
     bind_result (commit (add_logs [l] d)) (\<lambda>d'. Inr (l, d')))"

definition get_job_run_logs :: "string \<Rightarrow> user option \<Rightarrow> db \<Rightarrow> job_log list result" where
  "get_job_run_logs run_id current_user d =
     bind_result (get_job_run run_id current_user d) (\<lambda>_.
     Inr (sort_key (\<lambda>l. instant (l_created_at l)) (filter (\<lambda>l. l_job_run_id l = run_id) (db_logs d))))"

text \<open>The comparisons of \<open>start_time\<close> are false for \<open>NULL\<close>.\<close>

definition time_from :: "datetime option \<Rightarrow> job_run \<Rightarrow> bool" where
  "time_from t r = (case t of None \<Rightarrow> True
     | Some a \<Rightarrow> (case r_start_time r of None \<Rightarrow> False | Some s \<Rightarrow> instant a \<le> instant s))"

definition time_to :: "datetime option \<Rightarrow> job_run \<Rightarrow> bool" where
  "time_to t r = (case t of None \<Rightarrow> True
     | Some a \<Rightarrow> (case r_start_time r of None \<Rightarrow> False | Some s \<Rightarrow> instant s \<le> instant a))"

text \<open>A log with its run and its job: the two inner joins.\<close>

definition log_matches ::
  "string option \<Rightarrow> string option \<Rightarrow> string option \<Rightarrow> string option \<Rightarrow> datetime option \<Rightarrow> datetime option
     \<Rightarrow> db \<Rightarrow> job_log \<Rightarrow> bool" where
  "log_matches task_name status visible log_level start_time_from start_time_to d l =
     (case get_run_row (l_job_run_id l) d of
        None \<Rightarrow> False
      | Some r \<Rightarrow>
          (case run_job d r of
             None \<Rightarrow> False
           | Some j \<Rightarrow>
               filter_field task_name j_task_name j
               \<and> filter_field status (\<lambda>r. Some (r_status r)) r
               \<and> filter_field visible r_user_id r
               \<and> (truthy_str log_level \<longrightarrow> l_log_level l = lower (the log_level))
               \<and> time_from start_time_from r \<and> time_to start_time_to r))"

definition search_job_logs ::
  "string option \<Rightarrow> string option \<Rightarrow> string option \<Rightarrow> string option \<Rightarrow> datetime option \<Rightarrow> datetime option
     \<Rightarrow> nat \<Rightarrow> nat \<Rightarrow> user option \<Rightarrow> db \<Rightarrow> job_log list" where
  "search_job_logs task_name status user_id log_level start_time_from start_time_to limit offset
       current_user d =
     repo_list (log_matches task_name status (visible_user_id current_user user_id) log_level
         start_time_from start_time_to d)
       l_created_at offset limit (db_logs d)"

definition clear_all_runs :: "db \<Rightarrow> (string \<times> db) result" where
  "clear_all_runs d =
     bind_result (commit (d\<lparr>db_logs := [], db_runs := []\<rparr>)) (\<lambda>d'. Inr (''All records cleared'', d'))"

section \<open>What workers call\<close>

definition get_pending_jobs :: "nat \<Rightarrow> db \<Rightarrow> job_run list" where
  "get_pending_jobs limit d = take limit (filter (\<lambda>r. r_status r = ''pending'') (db_runs d))"

definition lock_pending_job ::
  "string list \<Rightarrow> int \<Rightarrow> string \<Rightarrow> datetime \<Rightarrow> stamps \<Rightarrow> db \<Rightarrow> (job_run option \<times> db) result" where
  "lock_pending_job locked lock_seconds worker_name now st d =
     dequeue_next_run locked lock_seconds worker_name now st d"

text \<open>The controller's \<open>dequeue_next_run\<close>, with the default lock of one hour.\<close>

definition worker_dequeue ::
  "string list \<Rightarrow> string \<Rightarrow> datetime \<Rightarrow> stamps \<Rightarrow> db \<Rightarrow> (job_run option \<times> db) result" where
  "worker_dequeue locked worker_id now st d = lock_pending_job locked 3600 worker_id now st d"

text \<open>An unknown run is \<open>None\<close>, not an exception.\<close>

fun none_if_missing :: "db \<Rightarrow> ('a \<times> db) result \<Rightarrow> ('a option \<times> db) result" where
  "none_if_missing d (Inl (EntityNotFoundError m)) = Inr (None, d)"
| "none_if_missing d (Inl e) = Inl e"
| "none_if_missing d (Inr (a, d')) = Inr (Some a, d')"

definition finish_run ::
  "stamps \<Rightarrow> datetime \<Rightarrow> string \<Rightarrow> string \<Rightarrow> string option \<Rightarrow> string option \<Rightarrow> string option
     \<Rightarrow> db \<Rightarrow> (job_run option \<times> db) result" where
  "finish_run st now run_id status error_message stdout stderr d =
     none_if_missing d (update_status st now run_id status stdout stderr error_message d)"

definition worker_heartbeat :: "datetime \<Rightarrow> string \<Rightarrow> db \<Rightarrow> (job_run option \<times> db) result" where
  "worker_heartbeat now run_id d = none_if_missing d (heartbeat now run_id d)"

section \<open>Access, as a rule\<close>

lemma ensure_run_access_Some:
  "ensure_run_access (Some u) r = (if foreign u (r_user_id r) then Inl run_not_found else Inr r)"
  by (simp add: ensure_run_access_def is_admin_def foreign_def)

lemma ensure_run_access_Inr [result_iff]:
  "ensure_run_access cu r = Inr r' \<longleftrightarrow> r' = r \<and> (\<forall>u. cu = Some u \<longrightarrow> \<not> foreign u (r_user_id r))"
proof (cases cu)
  case None
  then show ?thesis by (auto simp: ensure_run_access_def)
qed (auto simp: ensure_run_access_Some)

lemma to_404_Inr [result_iff]: "to_404 x = Inr y \<longleftrightarrow> x = Inr y"
  by (cases x rule: to_404.cases) auto

lemma to_http_Inr [result_iff]: "to_http x = Inr y \<longleftrightarrow> x = Inr y"
  by (cases x rule: to_http.cases) auto

lemma get_job_run_Inr [result_iff]:
  "get_job_run k cu d = Inr r \<longleftrightarrow>
     get_run_row k d = Some r \<and> (\<forall>u. cu = Some u \<longrightarrow> \<not> foreign u (r_user_id r))"
  by (auto simp: get_job_run_def result_iff)

lemma none_if_missing_Inr:
  "none_if_missing d x = Inr (got, d') \<longleftrightarrow>
     (\<exists>m. x = Inl (EntityNotFoundError m) \<and> got = None \<and> d' = d) \<or> (\<exists>a. x = Inr (a, d') \<and> got = Some a)"
  by (cases "(d, x)" rule: none_if_missing.cases) auto

lemma visible_user_id_Some:
  "u_role u \<noteq> ''admin'' \<Longrightarrow> visible_user_id (Some u) q = Some (u_id u)"
  by (simp add: visible_user_id_def is_admin_def)

text \<open>A log can be written exactly when its run exists, the level is one of the four (or
  \<open>warn\<close>) in any case, and the stream is known.\<close>

lemma add_log_valid_iff:
  assumes v: "valid d" and st: "fresh_stamps 1 st d"
  shows "(\<exists>l d'. add_log st k level message stream d = Inr (l, d')) \<longleftrightarrow>
    in_table r_id (db_runs d) k \<and> one_of LOG_LEVELS (normalized_level level) \<and> one_of LOG_STREAMS stream"
proof -
  let ?l = "JobLog (st 0) k (normalized_level level) stream message"
  have fresh: "fst (st 0) \<notin> l_id ` set (db_logs d)" "varchar 36 (fst (st 0))"
    using fresh_stampsD(4,6) [OF st, of 0] by simp_all
  have "valid (add_logs [?l] d) \<longleftrightarrow>
      in_table r_id (db_runs d) k \<and> one_of LOG_LEVELS (normalized_level level) \<and> one_of LOG_STREAMS stream"
  proof
    assume "valid (add_logs [?l] d)"
    then have "log_ok ?l" "in_table r_id (db_runs d) k" by (simp_all add: valid_unfold)
    then show "in_table r_id (db_runs d) k \<and> one_of LOG_LEVELS (normalized_level level) \<and> one_of LOG_STREAMS stream"
      by (simp add: log_ok_def)
  next
    assume "in_table r_id (db_runs d) k \<and> one_of LOG_LEVELS (normalized_level level) \<and> one_of LOG_STREAMS stream"
    then show "valid (add_logs [?l] d)" using v fresh by (intro valid_add_log) auto
  qed
  then show ?thesis by (auto simp: add_log_def Let_def result_iff)
qed

section \<open>Deleting everything\<close>

lemma valid_clear:
  assumes "valid d"
  shows "valid (d\<lparr>db_logs := [], db_runs := []\<rparr>)"
  using assms by (simp add: valid_unfold)

end
