(* ===== verification/Auth.thy ===== *)
theory Auth
  imports RunController
begin

text \<open>
  Authentication: \<open>app/core/security.py\<close>, \<open>app/presentation/controllers/auth_controller.py\<close>
  and the request and response models of \<open>app/presentation/dtos/auth_schema.py\<close>. passlib
  and jose are the parameter \<open>auth_lib\<close>; \<open>auth_lib_ok\<close> is what the program relies on.
\<close>

section \<open>The libraries\<close>

text \<open>Hashing takes the salt the library draws; decoding takes the clock it checks the expiry
  against, and gives \<open>None\<close> for a \<open>JWTError\<close>, otherwise the subject claim, if any. Key and
  algorithm are those of the settings throughout.\<close>

record auth_lib =
  pw_hash :: "string \<Rightarrow> string \<Rightarrow> string"
  pw_verify :: "string \<Rightarrow> string \<Rightarrow> bool"
  jwt_encode :: "string \<Rightarrow> datetime \<Rightarrow> string"
  jwt_decode :: "datetime \<Rightarrow> string \<Rightarrow> string option option"

text \<open>A password verifies against its hash, which fits the column, and a token can be decoded
  until a second before it expires.\<close>

definition auth_lib_ok :: "auth_lib \<Rightarrow> bool" where
  "auth_lib_ok lib \<longleftrightarrow>
     (\<forall>salt p. pw_verify lib p (pw_hash lib salt p) \<and> varchar 255 (pw_hash lib salt p))
     \<and> (\<forall>sub e t. instant t + second_us \<le> instant e
          \<longrightarrow> jwt_decode lib t (jwt_encode lib sub e) = Some (Some sub))"

section \<open>Requests and responses\<close>

record register_request =
  reg_username :: string
  reg_email :: "string option"
  reg_password :: string
  reg_role :: string

definition RegisterRequest :: "string \<Rightarrow> string \<Rightarrow> register_request" where
  "RegisterRequest username password =
     \<lparr>reg_username = username, reg_email = None, reg_password = password, reg_role = ''operator''\<rparr>"

text \<open>The field constraints of the model.\<close>

definition register_request_ok :: "register_request \<Rightarrow> bool" where
  "register_request_ok p \<longleftrightarrow> 3 \<le> length (reg_username p) \<and> length (reg_username p) \<le> 80
     \<and> 6 \<le> length (reg_password p)"

record login_request =
  login_username :: string
  login_password :: string

record user_response =
  ur_id :: string
  ur_username :: string
  ur_email :: "string option"
  ur_role :: string

definition UserResponse :: "user \<Rightarrow> user_response" where
  "UserResponse u = \<lparr>ur_id = u_id u, ur_username = u_username u, ur_email = u_email u, ur_role = u_role u\<rparr>"

record token_response =
  access_token :: string
  token_type :: string
  token_user :: user_response

section \<open>Security\<close>

definition access_token_expire_minutes :: int where
  "access_token_expire_minutes = 60 * 24"

text \<open>A timedelta of zero is false.\<close>

definition create_access_token :: "auth_lib \<Rightarrow> datetime \<Rightarrow> string \<Rightarrow> int option \<Rightarrow> string result" where
  "create_access_token lib utcnow subject expires_delta =
     (let delta = (if truthy_int expires_delta then the expires_delta
                   else access_token_expire_minutes * minute_us) in
      bind_result (add_timedelta utcnow delta) (\<lambda>expire. Inr (jwt_encode lib subject expire)))"

text \<open>\<open>credentials\<close> is the token of a well-formed bearer header.\<close>

definition get_current_user :: "auth_lib \<Rightarrow> datetime \<Rightarrow> string option \<Rightarrow> db \<Rightarrow> user result" where
  "get_current_user lib now credentials d =
     (case credentials of
        None \<Rightarrow> Inl (HTTPException 401 ''Missing bearer token'')
      | Some token \<Rightarrow>
          (case jwt_decode lib now token of
             None \<Rightarrow> Inl (HTTPException 401 ''Invalid token'')
           | Some None \<Rightarrow> Inl (HTTPException 401 ''Invalid token'')
           | Some (Some username) \<Rightarrow>
               (case repo_find_one (\<lambda>u. u_username u = username) (db_users d) of
                  None \<Rightarrow> Inl (HTTPException 401 ''User not found'')
                | Some u \<Rightarrow> Inr u)))"

fun join_comma :: "string list \<Rightarrow> string" where
  "join_comma [] = []"
| "join_comma [s] = s"
| "join_comma (s # ss) = s @ '', '' @ join_comma ss"

definition require_roles :: "string list \<Rightarrow> user \<Rightarrow> user result" where
  "require_roles roles current_user =
     (if u_role current_user \<notin> set roles
      then Inl (HTTPException 403 (''Required role: '' @ join_comma roles)) else Inr current_user)"

section \<open>The auth controller\<close>

definition add_user :: "user \<Rightarrow> db \<Rightarrow> db" where
  "add_user u d = d\<lparr>db_users := repo_add u (db_users d)\<rparr>"

definition new_user :: "auth_lib \<Rightarrow> string \<Rightarrow> stamp \<Rightarrow> register_request \<Rightarrow> user" where
  "new_user lib salt st p =
     \<lparr>u_id = fst st, u_username = reg_username p, u_email = reg_email p,
      u_password_hash = pw_hash lib salt (reg_password p), u_role = reg_role p,
      u_created_at = snd st\<rparr>"

definition register_user ::
  "auth_lib \<Rightarrow> string \<Rightarrow> stamps \<Rightarrow> register_request \<Rightarrow> db \<Rightarrow> (user \<times> db) result" where
  "register_user lib salt st p d =
     (if find_by_username (reg_username p) d \<noteq> None
        then Inl (HTTPException 409 ''Username already exists'')
      else if truthy_str (reg_email p) \<and> find_by_email (the (reg_email p)) d \<noteq> None
        then Inl (HTTPException 409 ''Email already exists'')
      else
        (let u = new_user lib salt (st 0) p in
         bind_result (commit (add_user u d)) (\<lambda>d'. Inr (u, d'))))"

definition login_user :: "auth_lib \<Rightarrow> datetime \<Rightarrow> login_request \<Rightarrow> db \<Rightarrow> token_response result" where
  "login_user lib utcnow p d =
     (case find_by_username (login_username p) d of
        None \<Rightarrow> Inl (HTTPException 401 ''Invalid username or password'')
      | Some u \<Rightarrow>
          if \<not> pw_verify lib (login_password p) (u_password_hash u)
          then Inl (HTTPException 401 ''Invalid username or password'')
          else bind_result (create_access_token lib utcnow (u_username u) None) (\<lambda>token.
               Inr \<lparr>access_token = token, token_type = ''bearer'', token_user = UserResponse u\<rparr>))"

definition put_user :: "user \<Rightarrow> db \<Rightarrow> db" where
  "put_user u d = d\<lparr>db_users := row_upd u_id (u_id u) (\<lambda>_. u) (db_users d)\<rparr>"

definition change_password ::
  "auth_lib \<Rightarrow> string \<Rightarrow> user \<Rightarrow> string \<Rightarrow> string \<Rightarrow> db \<Rightarrow> (string \<times> db) result" where
  "change_password lib salt current_user old_password new_password d =
     (if \<not> pw_verify lib old_password (u_password_hash current_user)
      then Inl (HTTPException 400 ''Old password is incorrect'')
      else bind_result
        (commit (put_user (current_user\<lparr>u_password_hash := pw_hash lib salt new_password\<rparr>) d))
        (\<lambda>d'. Inr (''password updated'', d')))"

section \<open>Registration\<close>

lemma find_by_username_None:
  "find_by_username n d = None \<longleftrightarrow> n \<notin> u_username ` set (db_users d)"
  by (auto simp: find_by_username_def repo_find_one_def find_None_iff)

lemma find_by_email_None:
  "find_by_email e d = None \<longleftrightarrow> Some e \<notin> u_email ` set (db_users d)"
  by (auto simp: find_by_email_def repo_find_one_def find_None_iff image_iff)

lemma find_by_username_SomeD:
  "find_by_username n d = Some u \<Longrightarrow> u \<in> set (db_users d) \<and> u_username u = n"
  by (auto simp: find_by_username_def repo_find_one_def find_Some_iff)

lemma find_by_username_iff:
  assumes "valid d"
  shows "find_by_username n d = Some u \<longleftrightarrow> u \<in> set (db_users d) \<and> u_username u = n"
  unfolding find_by_username_def repo_find_one_def row_get_def [symmetric]
  by (rule row_get_Some_iff) (use assms in \<open>simp add: valid_unfold\<close>)

lemma in_table_snoc: "in_table key (rs @ [r]) k \<longleftrightarrow> in_table key rs k \<or> k = key r"
  by (auto simp: in_table_def)

lemma opt_ok_mono: "opt_ok P x \<Longrightarrow> (\<And>a. P a \<Longrightarrow> Q a) \<Longrightarrow> opt_ok Q x"
  by (cases x) auto

lemma valid_add_user:
  assumes v: "valid d" and u: "user_ok u" "user_fits u"
    and new: "u_id u \<notin> u_id ` set (db_users d)" "u_username u \<notin> u_username ` set (db_users d)"
      "u_email u \<noteq> None \<longrightarrow> u_email u \<notin> u_email ` set (db_users d)"
  shows "valid (add_user u d)"
proof -
  have tab: "in_table u_id (db_users (add_user u d)) k" if "in_table u_id (db_users d) k" for k
    using that by (simp add: add_user_def repo_add_def)
  have mono: "opt_ok (in_table u_id (db_users (add_user u d))) x"
    if "opt_ok (in_table u_id (db_users d)) x" for x
    using that by (rule opt_ok_mono) (rule tab)
  have frame: "db_jobs (add_user u d) = db_jobs d" "db_runs (add_user u d) = db_runs d"
    "db_logs (add_user u d) = db_logs d" "db_deps (add_user u d) = db_deps d"
    and users: "db_users (add_user u d) = db_users d @ [u]"
    by (simp_all add: add_user_def repo_add_def)
  have "fks_ok (add_user u d)"
    using v mono by (simp add: valid_def db_ok_def fks_ok_def list_all_iff frame)
  moreover have "keys_ok (add_user u d)"
    using v new(1) by (simp add: valid_def db_ok_def keys_ok_def frame users)
  moreover have "unique_ok (add_user u d)"
    using v new(2,3) by (auto simp: valid_def db_ok_def unique_ok_def frame users)
  moreover have "rows_ok (add_user u d)" "db_fits (add_user u d)"
    using v u by (simp_all add: valid_def db_ok_def rows_ok_def db_fits_def frame users)
  ultimately show ?thesis by (simp add: valid_def db_ok_def)
qed

lemma new_user_simps [simp]:
  "u_id (new_user lib s st p) = fst st" "u_username (new_user lib s st p) = reg_username p"
  "u_email (new_user lib s st p) = reg_email p" "u_role (new_user lib s st p) = reg_role p"
  "u_password_hash (new_user lib s st p) = pw_hash lib s (reg_password p)"
  by (simp_all add: new_user_def)

text \<open>What makes the database refuse a registration that passed both lookups: a role outside the
  four, an email that does not fit, or the empty email a second time.\<close>

lemma register_succeeds_iff:
  assumes lib: "auth_lib_ok lib" and v: "valid d" and p: "register_request_ok p"
    and st: "fresh_stamps 1 st d"
  shows "(\<exists>r. register_user lib salt st p d = Inr r) \<longleftrightarrow>
    find_by_username (reg_username p) d = None
    \<and> (\<forall>e. reg_email p = Some e \<longrightarrow> find_by_email e d = None \<and> varchar 255 e)
    \<and> one_of [''admin'', ''developer'', ''operator'', ''viewer''] (reg_role p)"
    (is "?L = (?name \<and> ?email \<and> ?role)")
proof
  let ?u = "new_user lib salt (st 0) p"
  assume ?L
  then have name: ?name and va: "valid (add_user ?u d)"
    by (auto simp: register_user_def Let_def result_iff split: if_splits)
  have ok: "user_ok ?u" "user_fits ?u" and un: "unique_ok (add_user ?u d)"
    using va by (simp_all add: valid_unfold add_user_def repo_add_def)
  have ?role using ok(1) by (simp add: user_ok_def)
  moreover have ?email
  proof (intro allI impI)
    fix e assume e: "reg_email p = Some e"
    have "distinct (filter (\<lambda>e. e \<noteq> None) (map u_email (db_users d) @ [Some e]))"
      using un e by (simp add: unique_ok_def add_user_def repo_add_def del: filter_append)
    then have "Some e \<notin> set (map u_email (db_users d))" by simp
    then show "find_by_email e d = None \<and> varchar 255 e"
      using ok(2) e by (simp add: find_by_email_None user_fits_def)
  qed
  ultimately show "?name \<and> ?email \<and> ?role" using name by blast
next
  let ?u = "new_user lib salt (st 0) p"
  assume R: "?name \<and> ?email \<and> ?role"
  have len: "length (reg_role p) \<le> 32" using R by (auto simp: one_of_def)
  have fits: "user_fits ?u"
    using R lib p fresh_stampsD(6) [OF st, of 0] len
    by (auto simp: user_fits_def auth_lib_ok_def register_request_ok_def varchar_def opt_ok_def
        split: option.split)
  have "valid (add_user ?u d)"
  proof (rule valid_add_user [OF v _ fits])
    show "user_ok ?u" using R by (simp add: user_ok_def)
    show "u_id ?u \<notin> u_id ` set (db_users d)" using fresh_stampsD(1) [OF st, of 0] by simp
    show "u_username ?u \<notin> u_username ` set (db_users d)" using R by (simp add: find_by_username_None)
    show "u_email ?u \<noteq> None \<longrightarrow> u_email ?u \<notin> u_email ` set (db_users d)"
    proof
      assume "u_email ?u \<noteq> None"
      then obtain e where "reg_email p = Some e" by auto
      then show "u_email ?u \<notin> u_email ` set (db_users d)" using R find_by_email_None [of e d] by simp
    qed
  qed
  then show ?L using R
    by (auto simp: register_user_def Let_def truthy_str_iff)
qed

text \<open>A token from a login is good for the next day.\<close>

lemma login_token:
  assumes "login_user lib now p d = Inr tok" and "auth_lib_ok lib" and "valid d"
    and "instant t + second_us \<le> instant now + access_token_expire_minutes * minute_us"
  shows "\<exists>u. get_current_user lib t (Some (access_token tok)) d = Inr u
    \<and> u_username u = login_username p \<and> token_user tok = UserResponse u"
proof -
  obtain u where u: "find_by_username (login_username p) d = Some u"
    and tok: "create_access_token lib now (u_username u) None = Inr (access_token tok)"
    and r: "token_user tok = UserResponse u"
    using assms(1) by (auto simp: login_user_def result_iff split: option.splits if_splits)
  have e: "access_token tok
      = jwt_encode lib (u_username u) (shift (access_token_expire_minutes * minute_us) now)"
    using tok by (auto simp: create_access_token_def truthy_int_def result_iff)
  have n: "u_username u = login_username p" using find_by_username_SomeD [OF u] by simp
  have "jwt_decode lib t (access_token tok) = Some (Some (u_username u))"
    using assms(2,4) by (simp add: e auth_lib_ok_def)
  then show ?thesis using u n r
    by (simp add: get_current_user_def find_by_username_def)
qed

lemma put_user_frame [simp]:
  "db_jobs (put_user u d) = db_jobs d" "db_runs (put_user u d) = db_runs d"
  "db_logs (put_user u d) = db_logs d" "db_deps (put_user u d) = db_deps d"
  "db_users (put_user u d) = row_upd u_id (u_id u) (\<lambda>_. u) (db_users d)"
  by (simp_all add: put_user_def)

text \<open>A library that keeps the documented behaviour: the hash is the constant-length prefix of
  the password it checks, the token is the subject.\<close>

definition toy_lib :: auth_lib where
  "toy_lib = \<lparr>pw_hash = (\<lambda>salt p. take 255 p), pw_verify = (\<lambda>p h. take 255 p = h),
     jwt_encode = (\<lambda>sub e. sub), jwt_decode = (\<lambda>t tok. Some (Some tok))\<rparr>"

lemma toy_lib_ok: "auth_lib_ok toy_lib"
  by (simp add: auth_lib_ok_def toy_lib_def varchar_def)

end
