(* ===== verification/JobSchema.thy ===== *)
theory JobSchema
  imports JobController
begin

text \<open>
  The request and response models of jobs and runs (\<open>app/presentation/dtos/job_schema.py\<close>,
  \<open>app/presentation/dtos/job_run_schema.py\<close>): the validator that maps legacy request fields
  onto the current ones, and the responses built from a job, a run and a log.
  \<open>updated_at\<close> is left out.
\<close>

section \<open>Legacy request fields\<close>

text \<open>\<open>if old in normalized and new not in normalized: normalized[new] = normalized[old]\<close>.\<close>

definition copy_missing :: "string \<Rightarrow> string \<Rightarrow> pydict \<Rightarrow> pydict" where
  "copy_missing old new d =
     (if dict_has d old \<and> \<not> dict_has d new then dict_set new (get_or_null d old) d else d)"

definition rename_value :: "string \<Rightarrow> json \<Rightarrow> json \<Rightarrow> pydict \<Rightarrow> pydict" where
  "rename_value k old new d = (if get_or_null d k = old then dict_set k new d else d)"

text \<open>The \<open>schedule_rule\<close> of a legacy request; a rule that is no string has no
  \<open>startswith\<close>.\<close>

definition sync_schedule_rule :: "pydict \<Rightarrow> pydict result" where
  "sync_schedule_rule d =
     (case dict_get d ''schedule_rule'' of
        None \<Rightarrow> Inr d
      | Some (JStr rule) \<Rightarrow>
          if rule = ''manual'' then Inr (dict_set ''schedule_type'' (JStr ''manual'') d)
          else if startswith rule ''cron:'' then
            Inr (dict_set ''cron_expression'' (JStr (drop 5 rule))
                  (dict_set ''schedule_type'' (JStr ''cron'') d))
          else if startswith rule ''every:'' then
            (let val = drop 6 rule;
                 val = (if endswith val ''s'' then butlast val else val) in
             bind_result (int_or_raise val) (\<lambda>n.
             Inr (dict_set ''interval_seconds'' (JInt n)
                   (dict_set ''schedule_type'' (JStr ''interval'') d))))
          else
            Inr (dict_set ''schedule_type''
                  (case dict_get d ''schedule_type'' of None \<Rightarrow> JStr ''manual'' | Some v \<Rightarrow> v) d)
      | Some v \<Rightarrow> Inl (no_attribute (type_name v) ''startswith''))"

definition sync_legacy_fields :: "pydict \<Rightarrow> pydict result" where
  "sync_legacy_fields data =
     (let d1 = copy_missing ''name'' ''task_name'' data;
          d2 = copy_missing ''action_type'' ''action'' d1;
          d3 = copy_missing ''task_type'' ''action'' d2;
          d4 = rename_value ''action'' (JStr ''python_script'') (JStr ''python'') d3;
          d5 = rename_value ''task_type'' (JStr ''python_script'') (JStr ''python'') d4;
          d6 = copy_missing ''max_retry'' ''retry_limit'' d5;
          d7 = copy_missing ''script_content'' ''script'' d6;
          d8 = copy_missing ''shell_script'' ''script'' d7 in
      sync_schedule_rule d8)"

section \<open>Responses\<close>

record job_response =
  jr_id :: string
  jr_user :: string
  jr_created_by :: string
  jr_name :: "string option"
  jr_task_name :: "string option"
  jr_task_type :: "string option"
  jr_action :: "string option"
  jr_action_type :: "string option"
  jr_action_payload :: "pydict option"
  jr_status :: "string option"
  jr_enabled :: bool
  jr_description :: "string option"
  jr_schedule_rule :: string
  jr_schedule_type :: string
  jr_cron_expression :: "string option"
  jr_interval_seconds :: "int option"
  jr_max_retry :: "int option"
  jr_retry_limit :: "int option"
  jr_timeout_seconds :: "int option"
  jr_next_run_at :: "datetime option"
  jr_last_run_at :: "datetime option"
  jr_created_at :: datetime
  jr_depends_on :: "string option list"

text \<open>\<open>data.user\<close> is the creator's name, a string, which has no attribute \<open>username\<close>: the
  default \<open>unknown\<close> is what both fields get.\<close>

definition normalize_for_response :: "db \<Rightarrow> job \<Rightarrow> job_response result" where
  "normalize_for_response d j =
     bind_result (job_interval_seconds j) (\<lambda>n.
     Inr \<lparr>jr_id = j_id j, jr_user = ''unknown'', jr_created_by = ''unknown'', jr_name = j_name j,
          jr_task_name = j_task_name j, jr_task_type = j_task_type j, jr_action = j_action_type j,
          jr_action_type = j_action_type j, jr_action_payload = j_action_payload j,
          jr_status = j_status j, jr_enabled = j_enabled j, jr_description = j_description j,
          jr_schedule_rule = j_schedule_rule j, jr_schedule_type = job_schedule_type j,
          jr_cron_expression = job_cron_expression j, jr_interval_seconds = n,
          jr_max_retry = j_max_retry j, jr_retry_limit = j_max_retry j,
          jr_timeout_seconds = j_timeout_seconds j, jr_next_run_at = j_next_run_at j,
          jr_last_run_at = j_last_run_at j, jr_created_at = j_created_at j,
          jr_depends_on = depends_on_names d j\<rparr>)"

record run_response =
  rr_id :: string
  rr_job_id :: string
  rr_status :: string
  rr_triggered_by :: "string option"
  rr_trigger_type :: string
  rr_worker_id :: "string option"
  rr_locked_by :: "string option"
  rr_locked_until :: "datetime option"
  rr_start_time :: "datetime option"
  rr_end_time :: "datetime option"
  rr_heartbeat_at :: "datetime option"
  rr_duration_seconds :: "int option"
  rr_duration_seconds_decimal :: "rat option"
  rr_duration_ms :: "int option"
  rr_duration :: "py_number option"
  rr_retry_count :: int
  rr_task_type :: "string option"
  rr_script :: "string option"
  rr_working_dir :: "string option"
  rr_task_name :: "string option"
  rr_action :: "string option"
  rr_user :: string
  rr_action_type :: "string option"
  rr_action_payload :: "pydict option"
  rr_timeout_seconds :: "int option"
  rr_stdout :: "string option"
  rr_stderr :: "string option"
  rr_error_message :: "string option"
  rr_created_at :: datetime

definition JobRunResponse :: "db \<Rightarrow> job_run \<Rightarrow> run_response" where
  "JobRunResponse d r =
     \<lparr>rr_id = r_id r, rr_job_id = r_job_id r, rr_status = r_status r,
      rr_triggered_by = r_triggered_by r, rr_trigger_type = r_trigger_type r,
      rr_worker_id = r_worker_id r, rr_locked_by = r_locked_by r,
      rr_locked_until = r_locked_until r, rr_start_time = r_start_time r,
      rr_end_time = r_end_time r, rr_heartbeat_at = r_heartbeat_at r,
      rr_duration_seconds = r_duration_seconds r,
      rr_duration_seconds_decimal = r_duration_seconds_decimal r,
      rr_duration_ms = r_duration_ms r, rr_duration = duration r,
      rr_retry_count = r_retry_count r, rr_task_type = r_task_type r, rr_script = r_script r,
      rr_working_dir = r_working_dir r, rr_task_name = run_task_name d r,
      rr_action = r_action_type r, rr_user = run_user d r, rr_action_type = r_action_type r,
      rr_action_payload = r_action_payload r, rr_timeout_seconds = r_timeout_seconds r,
      rr_stdout = r_stdout r, rr_stderr = r_stderr r, rr_error_message = r_error_message r,
      rr_created_at = r_created_at r\<rparr>"

section \<open>What the validator guarantees\<close>

text \<open>A dict the validator has already seen: nothing left to copy or rename, and schedule fields
  that agree with the rule.\<close>

lemma copy_missing_has [simp]:
  "dict_has (copy_missing a b d) k \<longleftrightarrow> dict_has d k \<or> (k = b \<and> dict_has d a)"
  by (auto simp: copy_missing_def)

lemma copy_missing_done: "dict_has d b \<or> \<not> dict_has d a \<Longrightarrow> copy_missing a b d = d"
  by (auto simp: copy_missing_def)

lemma copy_missing_get [simp]:
  "dict_get (copy_missing a b d) k =
     (if k = b \<and> \<not> dict_has d b then dict_get d a else dict_get d k)"
  by (auto simp: copy_missing_def dict_has_def get_or_null_def split: option.split)

lemma rename_value_has [simp]:
  "old \<noteq> JNull \<Longrightarrow> dict_has (rename_value k old new d) x \<longleftrightarrow> dict_has d x"
  by (auto simp: rename_value_def dict_has_def get_or_null_def split: option.split)

lemma rename_value_get [simp]:
  "x \<noteq> k \<Longrightarrow> dict_get (rename_value k old new d) x = dict_get d x"
  by (simp add: rename_value_def)

text \<open>The rule reaches the last step unchanged.\<close>

lemma sync_schedule_rule_reached:
  "\<exists>d'. sync_legacy_fields d = sync_schedule_rule d' \<and> dict_get d' ''schedule_rule'' = dict_get d ''schedule_rule''
     \<and> dict_get d' ''schedule_type'' = dict_get d ''schedule_type''"
  unfolding sync_legacy_fields_def Let_def by (rule exI, rule conjI, rule refl) simp

lemma sync_every:
  assumes "dict_get d ''schedule_rule'' = Some (JStr (''every:'' @ int_str n @ ''s''))"
    and "\<bar>n\<bar> < 10 ^ int_max_str_digits"
  shows "\<exists>d'. sync_legacy_fields d = Inr d' \<and> dict_get d' ''schedule_type'' = Some (JStr ''interval'')
     \<and> dict_get d' ''interval_seconds'' = Some (JInt n)"
proof -
  obtain d1 where d1: "sync_legacy_fields d = sync_schedule_rule d1"
    "dict_get d1 ''schedule_rule'' = dict_get d ''schedule_rule''"
    using sync_schedule_rule_reached by blast
  have "int_or_raise (int_str n) = Inr n" by (simp add: int_or_raise_def py_int_int_str [OF assms(2)])
  then show ?thesis using assms(1) d1 by (simp add: sync_schedule_rule_def Let_def)
qed

lemma sync_cron:
  assumes "dict_get d ''schedule_rule'' = Some (JStr (''cron:'' @ c))"
  shows "\<exists>d'. sync_legacy_fields d = Inr d' \<and> dict_get d' ''schedule_type'' = Some (JStr ''cron'')
     \<and> dict_get d' ''cron_expression'' = Some (JStr c)"
proof -
  obtain d1 where d1: "sync_legacy_fields d = sync_schedule_rule d1"
    "dict_get d1 ''schedule_rule'' = dict_get d ''schedule_rule''"
    using sync_schedule_rule_reached by blast
  then show ?thesis using assms by (simp add: sync_schedule_rule_def)
qed

text \<open>Any other rule, a bare cron expression among them, makes the job manual.\<close>

lemma sync_other:
  assumes "dict_get d ''schedule_rule'' = Some (JStr rule)" and "\<not> startswith rule ''cron:''"
    and "\<not> startswith rule ''every:''" and "dict_get d ''schedule_type'' = None"
  shows "\<exists>d'. sync_legacy_fields d = Inr d' \<and> dict_get d' ''schedule_type'' = Some (JStr ''manual'')"
proof -
  obtain d1 where d1: "sync_legacy_fields d = sync_schedule_rule d1"
    "dict_get d1 ''schedule_rule'' = dict_get d ''schedule_rule''"
    "dict_get d1 ''schedule_type'' = dict_get d ''schedule_type''"
    using sync_schedule_rule_reached by blast
  then show ?thesis using assms by (simp add: sync_schedule_rule_def)
qed

end
