(* ===== verification/Monitoring.thy ===== *)
theory Monitoring
  imports Auth JobSchema
begin

text \<open>
  The read-only and worker-facing endpoints: the dashboard, the metrics, the scan and the
  worker API (\<open>dashboard_controller.py\<close>, \<open>metrics_router.py\<close>, \<open>scheduler_controller.py\<close>,
  \<open>worker_router.py\<close>), and the settings. The Prometheus client, the file system and the
  environment are outside: a file is its text or nothing.
\<close>

section \<open>Dashboard\<close>

definition midnight :: "datetime \<Rightarrow> datetime" where
  "midnight now = Aware (instant now - instant now mod day_us)"

record dashboard =
  total_jobs :: nat
  enabled_jobs :: nat
  pending_runs :: nat
  running_runs :: nat
  success_today :: nat
  failed_today :: nat
  total_runs_today :: nat
  worker_count_hint :: nat

definition dashboard_summary :: "datetime \<Rightarrow> db \<Rightarrow> dashboard" where
  "dashboard_summary now d =
     (let today = midnight now in
      \<lparr>total_jobs = repo_count (\<lambda>_. True) (db_jobs d), enabled_jobs = count_enabled d,
       pending_runs = repo_count (\<lambda>r. r_status r = ''pending'') (db_runs d),
       running_runs = repo_count (\<lambda>r. r_status r = ''running'') (db_runs d),
       success_today = count_by_status_since [''success''] today d,
       failed_today = count_by_status_since [''failed'', ''timeout''] today d,
       total_runs_today = count_since today d, worker_count_hint = 1\<rparr>)"

section \<open>Metrics\<close>

definition metric_statuses :: "string list" where
  "metric_statuses = [''pending'', ''running'', ''success'', ''failed'', ''timeout'', ''canceled'']"

definition status_count :: "string \<Rightarrow> db \<Rightarrow> nat" where
  "status_count s d = length (filter (\<lambda>r. r_status r = s) (db_runs d))"

record job_metrics =
  job_runs_by_status :: "(string \<times> nat) list"
  queue_length :: nat
  worker_load :: nat

definition update_job_metrics :: "db \<Rightarrow> job_metrics" where
  "update_job_metrics d =
     \<lparr>job_runs_by_status = map (\<lambda>s. (s, status_count s d)) metric_statuses,
      queue_length = status_count ''pending'' d, worker_load = status_count ''running'' d\<rparr>"

definition line_end :: "char \<Rightarrow> bool" where
  "line_end c \<longleftrightarrow> c \<in> set [CHR 0x0A, CHR 0x0B, CHR 0x0C, CHR 0x0D, CHR 0x1C, CHR 0x1D, CHR 0x1E]"

fun splitlines_acc :: "string \<Rightarrow> string \<Rightarrow> string list" where
  "splitlines_acc acc [] = (if acc = [] then [] else [rev acc])"
| "splitlines_acc acc (c # cs) =
     (if c = CHR 0x0D \<and> cs \<noteq> [] \<and> hd cs = CHR 0x0A then rev acc # splitlines_acc [] (tl cs)
      else if line_end c then rev acc # splitlines_acc [] cs
      else splitlines_acc (c # acc) cs)"

definition splitlines :: "string \<Rightarrow> string list" where
  "splitlines s = splitlines_acc [] s"

text \<open>\<open>key, value = line.split(maxsplit=1)\<close>; \<open>None\<close> where the unpacking raises.\<close>

definition split_once :: "string \<Rightarrow> (string \<times> string) option" where
  "split_once line =
     (let l = dropWhile is_space line;
          key = takeWhile (\<lambda>c. \<not> is_space c) l;
          value = dropWhile is_space (dropWhile (\<lambda>c. \<not> is_space c) l) in
      if key = [] \<or> value = [] then None else Some (key, value))"

definition read_int :: "(string \<Rightarrow> string option) \<Rightarrow> string \<Rightarrow> int option" where
  "read_int fs path = (case fs path of None \<Rightarrow> None | Some t \<Rightarrow> py_int (strip t))"

fun find_usage :: "string list \<Rightarrow> int option" where
  "find_usage [] = None"
| "find_usage (line # ls) =
     (case split_once line of
        None \<Rightarrow> None
      | Some (key, value) \<Rightarrow> if key = ''usage_usec'' then py_int value else find_usage ls)"

definition read_cpu_usec :: "(string \<Rightarrow> string option) \<Rightarrow> int option" where
  "read_cpu_usec fs =
     (case fs ''/sys/fs/cgroup/cpu.stat'' of None \<Rightarrow> None | Some t \<Rightarrow> find_usage (splitlines t))"

text \<open>The memory and CPU gauges; \<open>None\<close> leaves a gauge as it is.\<close>

definition container_metrics :: "(string \<Rightarrow> string option) \<Rightarrow> int option \<times> rat option" where
  "container_metrics fs =
     (let memory = (if truthy_int (read_int fs ''/sys/fs/cgroup/memory.current'')
                    then read_int fs ''/sys/fs/cgroup/memory.current''
                    else read_int fs ''/sys/fs/cgroup/memory/memory.usage_in_bytes'') in
      (memory, map_option (\<lambda>u. fl (of_int u / 1000000)) (read_cpu_usec fs)))"

text \<open>The registry of the process: a counter and gauges, which keep their values from one scrape to
  the next. What \<open>float\<close> reads is a parameter.\<close>

record registry =
  api_requests_total :: nat
  job_gauges :: job_metrics
  memory_gauge :: rat
  cpu_gauge :: rat
  restart_gauge :: rat

definition new_registry :: registry where
  "new_registry = \<lparr>api_requests_total = 0,
     job_gauges = \<lparr>job_runs_by_status = [], queue_length = 0, worker_load = 0\<rparr>,
     memory_gauge = 0, cpu_gauge = 0, restart_gauge = 0\<rparr>"

definition set_gauge :: "rat option \<Rightarrow> rat \<Rightarrow> rat" where
  "set_gauge v old = (case v of None \<Rightarrow> old | Some x \<Rightarrow> x)"

definition update_container_metrics :: "(string \<Rightarrow> string option) \<Rightarrow> registry \<Rightarrow> registry" where
  "update_container_metrics fs reg =
     (let (memory, cpu) = container_metrics fs in
      reg\<lparr>memory_gauge := set_gauge (map_option (\<lambda>m. fl (of_int m)) memory) (memory_gauge reg),
          cpu_gauge := set_gauge cpu (cpu_gauge reg)\<rparr>)"

text \<open>One scrape; \<open>POD_RESTART_COUNT\<close> is read last, and may not be a number.\<close>

definition scrape :: "(string \<Rightarrow> string option) \<Rightarrow> rat option \<Rightarrow> db \<Rightarrow> registry \<Rightarrow> registry result \<times> registry" where
  "scrape fs restarts d reg =
     (let reg1 = update_container_metrics fs
            (reg\<lparr>api_requests_total := Suc (api_requests_total reg), job_gauges := update_job_metrics d\<rparr>) in
      case restarts of
        None \<Rightarrow> (Inl (ValueError ''could not convert string to float''), reg1)
      | Some x \<Rightarrow> (Inr (reg1\<lparr>restart_gauge := x\<rparr>), reg1\<lparr>restart_gauge := x\<rparr>))"

definition restart_count :: "(string \<Rightarrow> rat option) \<Rightarrow> (string \<Rightarrow> string option) \<Rightarrow> rat option" where
  "restart_count to_float env = to_float (case env ''POD_RESTART_COUNT'' of None \<Rightarrow> ''0'' | Some s \<Rightarrow> s)"

fun scrapes :: "((string \<Rightarrow> string option) \<times> rat option \<times> db) list \<Rightarrow> registry \<Rightarrow> registry" where
  "scrapes [] reg = reg"
| "scrapes ((fs, restarts, d) # xs) reg = scrapes xs (snd (scrape fs restarts d reg))"

section \<open>Scan endpoint\<close>

record scan_report =
  scanned_at :: datetime
  created_runs :: nat
  run_ids :: "string list"

text \<open>The report's time is read before the service reads its own.\<close>

definition scan_endpoint ::
  "cron_lib \<Rightarrow> string list \<Rightarrow> datetime \<Rightarrow> datetime \<Rightarrow> stamps \<Rightarrow> db \<Rightarrow> (scan_report \<times> db) result" where
  "scan_endpoint cron locked now0 now st d =
     bind_result (scan_due_jobs cron locked now st d) (\<lambda>(rs, d').
     Inr (\<lparr>scanned_at = now0, created_runs = length rs, run_ids = map r_id rs\<rparr>, d'))"

section \<open>Worker API\<close>

text \<open>The order of \<open>SELECT DISTINCT\<close> is the first occurrence's.\<close>

definition list_workers :: "db \<Rightarrow> string list" where
  "list_workers d =
     rev (remdups (rev (map (\<lambda>r. the (r_worker_id r))
       (filter (\<lambda>r. r_status r = ''running'' \<and> r_worker_id r \<noteq> None) (db_runs d)))))"

record task =
  t_run_id :: string
  t_job_id :: string
  t_status :: string
  t_action_type :: "string option"
  t_action_payload :: pydict
  t_timeout_seconds :: "int option"
  t_retry_count :: int

definition task_of_run :: "job_run \<Rightarrow> task" where
  "task_of_run r =
     \<lparr>t_run_id = r_id r, t_job_id = r_job_id r, t_status = r_status r,
      t_action_type = r_action_type r,
      t_action_payload = (case r_action_payload r of None \<Rightarrow> [] | Some p \<Rightarrow> p),
      t_timeout_seconds = r_timeout_seconds r, t_retry_count = r_retry_count r\<rparr>"

definition pull_task ::
  "string list \<Rightarrow> string \<Rightarrow> datetime \<Rightarrow> stamps \<Rightarrow> db \<Rightarrow> (task option \<times> db) result" where
  "pull_task locked worker_id now st d =
     bind_result (worker_dequeue locked worker_id now st d) (\<lambda>(run, d').
     Inr (map_option task_of_run run, d'))"

definition status_or_not_found :: "job_run option \<Rightarrow> string" where
  "status_or_not_found run = (case run of None \<Rightarrow> ''not_found'' | Some r \<Rightarrow> r_status r)"

definition run_heartbeat :: "datetime \<Rightarrow> string \<Rightarrow> db \<Rightarrow> (string \<times> db) result" where
  "run_heartbeat now run_id d =
     bind_result (worker_heartbeat now run_id d) (\<lambda>(run, d'). Inr (status_or_not_found run, d'))"

record status_update =
  su_status :: string
  su_stdout :: "string option"
  su_stderr :: "string option"
  su_error_message :: "string option"

text \<open>The body, if there is one, replaces the query parameters.\<close>

definition run_finish ::
  "stamps \<Rightarrow> datetime \<Rightarrow> string \<Rightarrow> status_update option \<Rightarrow> string option \<Rightarrow> string option
     \<Rightarrow> string option \<Rightarrow> string option \<Rightarrow> db \<Rightarrow> (string \<times> db) result" where
  "run_finish st now run_id payload status stdout stderr error_message d =
     (let final = (case payload of None \<Rightarrow> status | Some p \<Rightarrow> Some (su_status p)) in
      if \<not> truthy_str final then Inl (HTTPException 400 ''status is required'')
      else bind_result
        (finish_run st now run_id (the final)
          (case payload of None \<Rightarrow> error_message | Some p \<Rightarrow> su_error_message p)
          (case payload of None \<Rightarrow> stdout | Some p \<Rightarrow> su_stdout p)
          (case payload of None \<Rightarrow> stderr | Some p \<Rightarrow> su_stderr p) d)
        (\<lambda>(run, d'). Inr (status_or_not_found run, d')))"

section \<open>Health\<close>

definition health_check :: "bool \<Rightarrow> (string \<times> string) list" where
  "health_check answers =
     [(''status'', if answers then ''healthy'' else ''unhealthy''),
      (''database'', if answers then ''connected'' else ''disconnected''),
      (''api'', ''running''), (''worker_hint'', ''check worker deployment or /api/dashboard/summary'')]"

section \<open>Settings\<close>

fun split_on :: "char \<Rightarrow> string \<Rightarrow> string list" where
  "split_on c [] = [[]]"
| "split_on c (x # xs) =
     (if x = c then [] # split_on c xs
      else (case split_on c xs of [] \<Rightarrow> [[x]] | s # ss \<Rightarrow> (x # s) # ss))"

definition cors_origin_list :: "string \<Rightarrow> string list" where
  "cors_origin_list cors_origins =
     map strip (filter (\<lambda>x. strip x \<noteq> []) (split_on (CHR '','') cors_origins))"

section \<open>Counting\<close>

lemma length_filter_disjoint:
  assumes "\<And>x. x \<in> set xs \<Longrightarrow> P x \<Longrightarrow> \<not> Q x"
  shows "length (filter P xs) + length (filter Q xs) = length (filter (\<lambda>x. P x \<or> Q x) xs)"
  using assms by (induction xs) auto

lemma sum_status_counts:
  assumes "distinct ss"
  shows "sum_list (map (\<lambda>s. status_count s d) ss)
         = length (filter (\<lambda>r. r_status r \<in> set ss) (db_runs d))"
  using assms
proof (induction ss)
  case Nil
  then show ?case by simp
next
  case (Cons s ss)
  have "status_count s d + length (filter (\<lambda>r. r_status r \<in> set ss) (db_runs d))
      = length (filter (\<lambda>r. r_status r = s \<or> r_status r \<in> set ss) (db_runs d))"
    unfolding status_count_def by (rule length_filter_disjoint) (use Cons.prems in auto)
  then show ?case using Cons by simp
qed

text \<open>Every scrape is counted and shows the database as it is, the failing ones included.\<close>

lemma scrape_registry:
  "api_requests_total (snd (scrape fs restarts d reg)) = Suc (api_requests_total reg)"
  "job_gauges (snd (scrape fs restarts d reg)) = update_job_metrics d"
  "(\<exists>r. fst (scrape fs restarts d reg) = Inr r) \<longleftrightarrow> restarts \<noteq> None"
  by (auto simp: scrape_def update_container_metrics_def Let_def split: option.split prod.split)

lemma scrapes_counted: "api_requests_total (scrapes xs reg) = api_requests_total reg + length xs"
  by (induction xs reg rule: scrapes.induct) (simp_all add: scrape_registry)

lemma scrapes_append: "scrapes (xs @ ys) reg = scrapes ys (scrapes xs reg)"
  by (induction xs reg rule: scrapes.induct) simp_all

text \<open>Every run of a committed database is in one of the gauges or awaits a result.\<close>

lemma metrics_cover:
  assumes "valid d"
  shows "sum_list (map snd (job_runs_by_status (update_job_metrics d)))
         + status_count ''awaiting_result'' d = length (db_runs d)"
proof -
  have st: "r_status r \<in> set (metric_statuses @ [''awaiting_result''])" if "r \<in> set (db_runs d)" for r
    using valid_run [OF assms that]
    by (auto simp: run_valid_def run_ok_def one_of_def JOB_RUN_STATUSES_def metric_statuses_def)
  have "sum_list (map (\<lambda>s. status_count s d) (metric_statuses @ [''awaiting_result'']))
      = length (filter (\<lambda>r. r_status r \<in> set (metric_statuses @ [''awaiting_result''])) (db_runs d))"
    by (rule sum_status_counts) (simp add: metric_statuses_def)
  also have "\<dots> = length (db_runs d)" using st by (simp add: filter_True)
  finally show ?thesis by (simp add: update_job_metrics_def comp_def)
qed

end
