(* ===== verification/AccountProperties.thy ===== *)
theory AccountProperties
  imports Monitoring Samples
begin

text \<open>
  The properties of the run endpoints, of accounts and tokens, of the legacy request fields and
  of the dashboard and metrics, with witnesses at the sample database and a toy password and
  token library.
\<close>

section \<open>Runs of other users\<close>

text \<open>A user who is no admin sees only runs of their own: the run list holds no other,
  and reading, retrying or canceling somebody else's run answers 404 and changes nothing.\<close>

theorem foreign_run_not_found:
  assumes "u_role u \<noteq> ''admin''" and "u_id u \<noteq> []"
  shows "(\<forall>r \<in> set (list_job_runs status user job limit offset (Some u) d). r_user_id r = Some (u_id u))
     \<and> (\<forall>r. get_run_row k d = Some r \<and> truthy_str (r_user_id r) \<and> r_user_id r \<noteq> Some (u_id u) \<longrightarrow>
          get_job_run k (Some u) d = Inl run_not_found
          \<and> retry_job_run st k (Some u) d = Inl run_not_found
          \<and> cancel_job_run st now k (Some u) d = Inl run_not_found
          \<and> get_job_run_logs k (Some u) d = Inl run_not_found)"
proof -
  have e: "ensure_run_access (Some u) r = Inl run_not_found"
    if "truthy_str (r_user_id r)" "r_user_id r \<noteq> Some (u_id u)" for r
    using assms(1) that by (simp add: ensure_run_access_Some foreign_def)
  have "r_user_id r = Some (u_id u)"
    if "r \<in> set (list_job_runs status user job limit offset (Some u) d)" for r
    using that assms visible_user_id_Some [OF assms(1), of user]
    by (auto simp: list_job_runs_def repo_list_def filter_field_def dest!: in_set_takeD in_set_dropD)
  then show ?thesis using e
    by (auto simp: get_job_run_def retry_job_run_def cancel_job_run_def get_job_run_logs_def get_run_def
        run_not_found_def)
qed

theorem foreign_run_not_found_witness:
  "cancel_job_run sample_stamps (Aware 0) ''r4'' (Some (alice\<lparr>u_id := ''u9''\<rparr>)) sample_db = Inl run_not_found"
proof -
  have "u_role (alice\<lparr>u_id := ''u9''\<rparr>) \<noteq> ''admin''" "u_id (alice\<lparr>u_id := ''u9''\<rparr>) \<noteq> []"
    "truthy_str (r_user_id failed_run)" "r_user_id failed_run \<noteq> Some (u_id (alice\<lparr>u_id := ''u9''\<rparr>))"
    by code_simp+
  then show ?thesis using foreign_run_not_found [of "alice\<lparr>u_id := ''u9''\<rparr>"] sample_rows(4) by blast
qed

text \<open>Canceling a run the caller may access always works, whatever its status, also when
  it has already finished: the run ends canceled and unlocked, no retry is queued, and no
  other run changes.\<close>

theorem cancel_always_works:
  assumes "valid d" and "get_job_run k cu d = Inr r" and "duration_fits now r" and "fresh_stamps 7 st d"
  shows "\<exists>d'. cancel_job_run st now k cu d = Inr (set_output None None None (finish_row now ''canceled'' r), d')
     \<and> db_runs d' = row_upd r_id k (\<lambda>_. set_output None None None (finish_row now ''canceled'' r)) (db_runs d)
     \<and> valid d'"
proof -
  have get: "get_run_row k d = Some r" and acc: "ensure_run_access cu r = Inr r"
    using assms(2) by (auto simp: result_iff)
  have s: "final_status ''canceled''" by (simp add: final_status_def)
  obtain d' where "update_status st now k ''canceled'' None None None d
      = Inr (set_output None None None (finish_row now ''canceled'' r), d')" and "valid d'"
    and "db_runs d' = row_upd r_id k (\<lambda>_. set_output None None None (finish_row now ''canceled'' r)) (db_runs d)
        @ (if ''canceled'' \<in> {''failed'', ''timeout''} \<and> may_retry d r then [retry_row (st 1) None r] else [])"
    using assms(1) get s assms(3,4) by (rule update_status_finishes)
  then show ?thesis using get acc by (simp add: cancel_job_run_def get_run_def)
qed

theorem cancel_always_works_witness:
  "\<exists>d'. cancel_job_run sample_stamps (Aware 2000) ''r4'' (Some alice) sample_db
     = Inr (set_output None None None (finish_row (Aware 2000) ''canceled'' failed_run), d') \<and> valid d'"
proof -
  have "get_job_run ''r4'' (Some alice) sample_db = Inr failed_run" by code_simp
  moreover have "duration_fits (Aware 2000) failed_run" by code_simp
  ultimately show ?thesis
    using cancel_always_works [OF valid_sample] fresh_sample(1) by blast
qed

text \<open>The run controller's own way of creating a run cannot work with its default
  arguments: the trigger type \<open>scheduler\<close> violates the check constraint of the table.\<close>

theorem default_job_run_refused:
  "create_job_run st now j ''scheduler'' pending user_id retry_count d = Inl DataError
   \<or> create_job_run st now j ''scheduler'' pending user_id retry_count d = Inl IntegrityError"
proof -
  let ?r = "new_job_run (st 0) now j ''scheduler'' pending user_id retry_count"
  have "r_trigger_type ?r = ''scheduler''" by (simp add: new_job_run_def Let_def)
  then have "\<not> run_ok ?r" by (simp add: run_ok_def one_of_def TRIGGER_TYPES_def)
  then have "\<not> valid (add_runs [?r] d)" by (auto simp: valid_unfold)
  then show ?thesis
    by (auto simp: create_job_run_def Let_def commit_def flush_def valid_def)
qed

text \<open>A log line is accepted exactly for an existing run, one of the four levels (or
  \<open>warn\<close>) in any capitalisation, and one of the three streams.\<close>

theorem log_accepted_iff:
  assumes "valid d" and "fresh_stamps 1 st d"
  shows "(\<exists>r. add_log st k level message stream d = Inr r) \<longleftrightarrow>
    in_table r_id (db_runs d) k \<and> one_of (''warn'' # LOG_LEVELS) (lower level) \<and> one_of LOG_STREAMS stream"
proof -
  have "one_of LOG_LEVELS (normalized_level level) \<longleftrightarrow> one_of (''warn'' # LOG_LEVELS) (lower level)"
    by (auto simp: normalized_level_def one_of_def LOG_LEVELS_def)
  then show ?thesis using add_log_valid_iff [OF assms, of k level message stream] by auto
qed

theorem log_accepted_iff_witness:
  "(\<exists>r. add_log sample_stamps ''r1'' ''WARN'' ''m'' ''system'' sample_db = Inr r)
   \<and> \<not> (\<exists>r. add_log sample_stamps ''r1'' ''fatal'' ''m'' ''system'' sample_db = Inr r)"
proof -
  have "in_table r_id (db_runs sample_db) ''r1''" "one_of (''warn'' # LOG_LEVELS) (lower ''WARN'')"
    "\<not> one_of (''warn'' # LOG_LEVELS) (lower ''fatal'')" "one_of LOG_STREAMS ''system''" by code_simp+
  then show ?thesis using log_accepted_iff [OF valid_sample fresh_sample(2)] by blast
qed

section \<open>Accounts\<close>

text \<open>A registration that passes validation succeeds exactly when the user name is new,
  the email (if any) is new and fits, and the role is one of the four; in particular anybody
  may register as admin.\<close>

theorem register_iff:
  assumes "auth_lib_ok lib" and "valid d" and "register_request_ok p" and "fresh_stamps 1 st d"
  shows "(\<exists>r. register_user lib salt st p d = Inr r) \<longleftrightarrow>
    find_by_username (reg_username p) d = None
    \<and> (\<forall>e. reg_email p = Some e \<longrightarrow> find_by_email e d = None \<and> varchar 255 e)
    \<and> one_of [''admin'', ''developer'', ''operator'', ''viewer''] (reg_role p)"
  using assms by (rule register_succeeds_iff)

theorem register_iff_witness:
  "\<exists>r. register_user toy_lib ''s'' sample_stamps
     ((RegisterRequest ''mallory'' ''secret'')\<lparr>reg_role := ''admin''\<rparr>) sample_db = Inr r"
proof -
  let ?p = "(RegisterRequest ''mallory'' ''secret'')\<lparr>reg_role := ''admin''\<rparr>"
  have "register_request_ok ?p" "find_by_username (reg_username ?p) sample_db = None"
    "one_of [''admin'', ''developer'', ''operator'', ''viewer''] (reg_role ?p)" by code_simp+
  moreover have "reg_email ?p = None" by (simp add: RegisterRequest_def)
  ultimately show ?thesis
    using register_iff [OF toy_lib_ok valid_sample _ fresh_sample(2), of ?p "''s''"] by auto
qed

text \<open>C35: whoever registers can log in with the same password, and the token they get
  identifies them to every endpoint until a second before a day has passed.\<close>

theorem register_login_token:
  assumes "auth_lib_ok lib" and "valid d" and "register_user lib salt st p d = Inr (u, d')"
    and "datetime_ok (instant now + access_token_expire_minutes * minute_us)"
    and "instant t + second_us \<le> instant now + access_token_expire_minutes * minute_us"
  shows "\<exists>tok. login_user lib now \<lparr>login_username = reg_username p, login_password = reg_password p\<rparr> d' = Inr tok
     \<and> token_user tok = UserResponse u
     \<and> get_current_user lib t (Some (access_token tok)) d' = Inr u"
proof -
  have u: "u = new_user lib salt (st 0) p" and v: "valid d'" and d': "d' = add_user u d"
    using assms(3) by (auto simp: register_user_def Let_def result_iff split: if_splits)
  have mem: "u \<in> set (db_users d')" "u_username u = reg_username p"
    by (simp_all add: d' add_user_def repo_add_def u)
  then have find: "find_by_username (reg_username p) d' = Some u"
    using v by (simp add: find_by_username_iff)
  have pw: "pw_verify lib (reg_password p) (u_password_hash u)"
    using assms(1) by (simp add: auth_lib_ok_def u)
  have td: "timedelta_ok (access_token_expire_minutes * minute_us)" by code_simp
  obtain tok where tok: "login_user lib now \<lparr>login_username = reg_username p, login_password = reg_password p\<rparr> d' = Inr tok"
    using find pw td assms(4)
    by (simp add: login_user_def create_access_token_def truthy_int_def add_timedelta_def)
  obtain w where w: "get_current_user lib t (Some (access_token tok)) d' = Inr w"
    "u_username w = reg_username p" "token_user tok = UserResponse w"
    using login_token [OF tok assms(1) v assms(5)] by auto
  have "w = u"
    using w(1) find v
    by (auto simp: get_current_user_def w(2) find_by_username_def repo_find_one_def find_Some_iff
        split: option.splits) (metis find_by_username_def find_by_username_iff find repo_find_one_def nth_mem option.inject v w(2))
  then show ?thesis using tok w by blast
qed

theorem register_login_token_witness:
  "\<exists>u d' tok. register_user toy_lib ''s'' sample_stamps (RegisterRequest ''bob'' ''secret'') sample_db = Inr (u, d')
     \<and> login_user toy_lib (Aware 0) \<lparr>login_username = ''bob'', login_password = ''secret''\<rparr> d' = Inr tok
     \<and> get_current_user toy_lib (Aware 5000000) (Some (access_token tok)) d' = Inr u"
proof -
  let ?p = "RegisterRequest ''bob'' ''secret''"
  have "case register_user toy_lib ''s'' sample_stamps ?p sample_db of Inl e \<Rightarrow> False | Inr r \<Rightarrow> True"
    by code_simp
  then obtain u d' where ok: "register_user toy_lib ''s'' sample_stamps ?p sample_db = Inr (u, d')"
    by (auto split: sum.splits)
  have "datetime_ok (instant (Aware 0) + access_token_expire_minutes * minute_us)"
    "instant (Aware 5000000) + second_us \<le> instant (Aware 0) + access_token_expire_minutes * minute_us"
    by code_simp+
  moreover have "reg_username ?p = ''bob''" "reg_password ?p = ''secret''"
    by (simp_all add: RegisterRequest_def)
  ultimately show ?thesis
    using ok register_login_token [OF toy_lib_ok valid_sample ok, of "Aware 0" "Aware 5000000"] by auto
qed

section \<open>Legacy requests\<close>

text \<open>An interval rule of a job, sent back as the legacy field \<open>schedule_rule\<close>, is
  understood again as that interval, and a rule with the prefix \<open>cron:\<close> as that cron
  expression; but a cron rule as the job itself stores and reports it, without prefix, turns
  the job manual.\<close>

theorem legacy_schedule_rule:
  assumes "\<bar>n\<bar> < 10 ^ int_max_str_digits"
    and "dict_get d1 ''schedule_rule''
         = Some (JStr (resolve_schedule_rule (Some ''interval'') None (Some n) None))"
    and "dict_get d2 ''schedule_rule'' = Some (JStr (''cron:'' @ c))"
    and "schedule_type rule = ''cron''" and "\<not> startswith rule ''cron:''"
    and "dict_get d3 ''schedule_rule'' = Some (JStr rule)" and "dict_get d3 ''schedule_type'' = None"
  shows "\<exists>r1 r2 r3. sync_legacy_fields d1 = Inr r1 \<and> dict_get r1 ''schedule_type'' = Some (JStr ''interval'')
       \<and> dict_get r1 ''interval_seconds'' = Some (JInt n)
     \<and> sync_legacy_fields d2 = Inr r2 \<and> dict_get r2 ''schedule_type'' = Some (JStr ''cron'')
       \<and> dict_get r2 ''cron_expression'' = Some (JStr c)
     \<and> sync_legacy_fields d3 = Inr r3 \<and> dict_get r3 ''schedule_type'' = Some (JStr ''manual'')"
proof -
  have "\<not> startswith rule ''every:''" using assms(4) by (auto simp: schedule_type_def split: if_splits)
  then show ?thesis
    using sync_every [OF assms(2) [unfolded resolve_interval] assms(1)] sync_cron [OF assms(3)]
      sync_other [OF assms(6,5) _ assms(7)]
    by blast
qed

theorem legacy_schedule_rule_witness:
  "\<exists>r. sync_legacy_fields [(''name'', JStr ''a''), (''schedule_rule'', JStr ''0 2 * * *'')] = Inr r
     \<and> dict_get r ''schedule_type'' = Some (JStr ''manual'')"
proof -
  have n: "\<bar>5\<bar> < (10 :: int) ^ int_max_str_digits" by (rule small_int) simp
  have "schedule_type ''0 2 * * *'' = ''cron''" "\<not> startswith ''0 2 * * *'' ''cron:''" by code_simp+
  then show ?thesis
    using legacy_schedule_rule [OF n, where c = "''x''" and rule = "''0 2 * * *''"
        and ?d1.0 = "[(''schedule_rule'', JStr (resolve_schedule_rule (Some ''interval'') None (Some 5) None))]"
        and ?d2.0 = "[(''schedule_rule'', JStr ''cron:x'')]"
        and ?d3.0 = "[(''name'', JStr ''a''), (''schedule_rule'', JStr ''0 2 * * *'')]"]
    by auto
qed

section \<open>Counts\<close>

text \<open>The figures of the dashboard fit together (enabled jobs among all jobs, today's
  successes and failures among today's runs), and the metrics count every run exactly once,
  except those that await an external result, which no gauge shows.\<close>

theorem counts_consistent:
  assumes "valid d"
  shows "enabled_jobs (dashboard_summary now d) \<le> total_jobs (dashboard_summary now d)
     \<and> success_today (dashboard_summary now d) + failed_today (dashboard_summary now d)
       \<le> total_runs_today (dashboard_summary now d)
     \<and> sum_list (map snd (job_runs_by_status (update_job_metrics d)))
       + status_count ''awaiting_result'' d = length (db_runs d)"
proof -
  let ?t = "midnight now"
  have "success_today (dashboard_summary now d) + failed_today (dashboard_summary now d)
      = length (filter (\<lambda>r. instant ?t \<le> instant (r_created_at r) \<and> r_status r \<in> set [''success'']
          \<or> instant ?t \<le> instant (r_created_at r) \<and> r_status r \<in> set [''failed'', ''timeout'']) (db_runs d))"
    unfolding dashboard_summary_def Let_def dashboard.select_convs count_by_status_since_def
    by (rule length_filter_disjoint) auto
  also have "\<dots> \<le> total_runs_today (dashboard_summary now d)"
    unfolding dashboard_summary_def Let_def dashboard.select_convs count_since_def
    by (rule length_filter_mono) auto
  finally have today: "success_today (dashboard_summary now d) + failed_today (dashboard_summary now d)
      \<le> total_runs_today (dashboard_summary now d)" .
  have "enabled_jobs (dashboard_summary now d) \<le> total_jobs (dashboard_summary now d)"
    by (simp add: dashboard_summary_def count_enabled_def repo_count_def Let_def)
  then show ?thesis using today metrics_cover [OF assms] by blast
qed

theorem counts_consistent_witness:
  "sum_list (map snd (job_runs_by_status (update_job_metrics sample_db)))
   + status_count ''awaiting_result'' sample_db = 5"
proof -
  have "length (db_runs sample_db) = 5" by (simp add: sample_db_def)
  then show ?thesis using counts_consistent [OF valid_sample] by metis
qed

end
