(* ===== verification/Executor.thy ===== *)
theory Executor
  imports PyFloat
begin

text \<open>
  The executor (\<open>app/application/services/executor.py\<close>): dispatch on the action type, HTTP
  calls, shell and Python scripts in a contained working directory, and the triggering of
  external jobs. The outside is the parameter \<open>world\<close>: the HTTP client, the file system,
  the operating system's processes, and the text Python prints for floats, lists and dicts.
  A timeout is an outcome of a process or of a request. Bytes of output are their decoded text.
\<close>

section \<open>Paths\<close>

text \<open>An absolute path is the list of its parts. A relative path string is split at slashes;
  empty parts and single dots vanish, double dots stay.\<close>

type_synonym path = "string list"

fun split_slash :: "string \<Rightarrow> string list" where
  "split_slash [] = [[]]"
| "split_slash (x # xs) =
     (if x = CHR ''/'' then [] # split_slash xs
      else (case split_slash xs of [] \<Rightarrow> [[x]] | s # ss \<Rightarrow> (x # s) # ss))"

definition path_parts :: "string \<Rightarrow> path" where
  "path_parts s = filter (\<lambda>p. p \<noteq> [] \<and> p \<noteq> ''.'') (split_slash s)"

definition is_absolute :: "string \<Rightarrow> bool" where
  "is_absolute s = startswith s ''/''"

text \<open>\<open>base / s\<close>: an absolute right operand replaces the left one.\<close>

definition join_path :: "path \<Rightarrow> string \<Rightarrow> path" where
  "join_path base s = (if is_absolute s then path_parts s else base @ path_parts s)"

fun path_str :: "path \<Rightarrow> string" where
  "path_str [] = []"
| "path_str (p # ps) = CHR ''/'' # p @ path_str ps"

text \<open>\<open>base in (p, *p.parents)\<close> and \<open>base in p.parents\<close>.\<close>

definition is_under :: "path \<Rightarrow> path \<Rightarrow> bool" where
  "is_under base p \<longleftrightarrow> take (length base) p = base"

definition is_strictly_under :: "path \<Rightarrow> path \<Rightarrow> bool" where
  "is_strictly_under base p \<longleftrightarrow> is_under base p \<and> p \<noteq> base"

section \<open>The outside world\<close>

record http_response =
  status_code :: nat
  response_text :: string
  response_json :: "json result"

record http_call =
  http_method :: string
  http_url :: json
  http_headers :: json
  http_body :: json
  http_timeout :: int

datatype process_outcome =
    SpawnError error
  | TimedOut
  | Exited int string string

record command =
  cmd_argv :: "string list"
  cmd_cwd :: path
  cmd_retry_count :: string
  cmd_script :: "(path \<times> string) option"

record world =
  http :: "http_call \<Rightarrow> http_response result"
  spawn :: "command \<Rightarrow> int \<Rightarrow> process_outcome"
  fs_resolve :: "path \<Rightarrow> path result"
  fs_exists :: "path \<Rightarrow> bool result"
  fs_mkdir :: "path \<Rightarrow> unit result"
  temp_name :: "string \<Rightarrow> string"
  scripts_dir :: path
  default_work_dir :: path
  repr_text :: "json \<Rightarrow> string"

definition py_str :: "world \<Rightarrow> json \<Rightarrow> string" where
  "py_str w v =
     (case v of
        JStr s \<Rightarrow> s
      | JNull \<Rightarrow> ''None''
      | JBool b \<Rightarrow> if b then ''True'' else ''False''
      | JInt i \<Rightarrow> int_str i
      | _ \<Rightarrow> repr_text w v)"

section \<open>Results\<close>

text \<open>\<open>external_id\<close> is there exactly when the result's status is \<open>awaiting\<close>.\<close>

record exec_result =
  x_success :: bool
  x_stdout :: string
  x_stderr :: string
  x_external_id :: "json option"

definition failed_result :: "string \<Rightarrow> exec_result" where
  "failed_result stderr = \<lparr>x_success = False, x_stdout = [], x_stderr = stderr, x_external_id = None\<rparr>"

definition ok_result :: "string \<Rightarrow> exec_result" where
  "ok_result stdout = \<lparr>x_success = True, x_stdout = stdout, x_stderr = [], x_external_id = None\<rparr>"

definition output_limit :: nat where
  "output_limit = 5000"

section \<open>API calls\<close>

text \<open>\<open>payload.get("method", default).upper()\<close>: only a string has \<open>upper\<close>.\<close>

definition method_of :: "string \<Rightarrow> pydict \<Rightarrow> string result" where
  "method_of deflt payload =
     (case dict_get payload ''method'' of
        None \<Rightarrow> Inr (upper deflt)
      | Some (JStr m) \<Rightarrow> Inr (upper m)
      | Some v \<Rightarrow> Inl (no_attribute (type_name v) ''upper''))"

definition http_error_text :: "nat \<Rightarrow> string" where
  "http_error_text code = ''HTTP '' @ nat_str code"

definition execute_api_call :: "world \<Rightarrow> pydict \<Rightarrow> int \<Rightarrow> exec_result result" where
  "execute_api_call w payload timeout_seconds =
     bind_result (method_of ''GET'' payload) (\<lambda>m.
     let url = get_or_null payload ''url'';
         headers = json_or (get_or_null payload ''headers'') (JObj []);
         body = get_or_null payload ''body'' in
     if \<not> truthy url then Inr (failed_result ''missing url'')
     else bind_result (http w \<lparr>http_method = m, http_url = url, http_headers = headers,
                               http_body = body, http_timeout = timeout_seconds\<rparr>) (\<lambda>r.
       Inr \<lparr>x_success = status_code r < 400, x_stdout = take output_limit (response_text r),
            x_stderr = (if status_code r < 400 then [] else http_error_text (status_code r)),
            x_external_id = None\<rparr>))"

section \<open>The working directory\<close>

text \<open>\<open>Inr None\<close> is the answer \<open>None\<close>, an invalid directory; an \<open>OSError\<close> of creating the
  directory is that answer too.\<close>

definition resolve_working_dir :: "world \<Rightarrow> json \<Rightarrow> path option result" where
  "resolve_working_dir w raw_working_dir =
     (if \<not> truthy raw_working_dir then
        bind_result (fs_mkdir w (default_work_dir w)) (\<lambda>_. Inr (Some (default_work_dir w)))
      else
        (case raw_working_dir of
           JStr s \<Rightarrow>
             if is_absolute s \<or> ''..'' \<in> set (path_parts s) then Inr None
             else bind_result (fs_resolve w (join_path (default_work_dir w) s)) (\<lambda>p.
                  bind_result (fs_resolve w (default_work_dir w)) (\<lambda>base.
                  if \<not> is_under base p then Inr None
                  else
                    (case fs_mkdir w p of
                       Inr _ \<Rightarrow> Inr (Some p)
                     | Inl (OSError m) \<Rightarrow> Inr None
                     | Inl e \<Rightarrow> Inl e)))
         | _ \<Rightarrow> Inl TypeError))"

section \<open>Scripts\<close>

definition retry_count_text :: "world \<Rightarrow> pydict \<Rightarrow> string" where
  "retry_count_text w payload =
     (case dict_get payload ''retry_count'' of None \<Rightarrow> ''0'' | Some v \<Rightarrow> py_str w v)"

text \<open>What \<open>[... for x in value]\<close> iterates over.\<close>

definition iterate :: "json \<Rightarrow> json list result" where
  "iterate v =
     (case v of
        JList xs \<Rightarrow> Inr xs
      | JStr s \<Rightarrow> Inr (map (\<lambda>c. JStr [c]) s)
      | JObj d \<Rightarrow> Inr (map (\<lambda>(k, _). JStr k) d)
      | _ \<Rightarrow> Inl TypeError)"

definition temp_script :: "world \<Rightarrow> path \<Rightarrow> string \<Rightarrow> string \<Rightarrow> path \<times> string" where
  "temp_script w working_dir suffix content = (working_dir @ [temp_name w suffix], content @ [CHR 0x0A])"

definition script_of :: "pydict \<Rightarrow> json" where
  "script_of payload = json_or (get_or_null payload ''content'') (get_or_null payload ''script'')"

text \<open>The command line of a shell job: an explicit command, a script of the scripts directory
  with its arguments, or the text as a temporary script.\<close>

definition shell_command :: "world \<Rightarrow> pydict \<Rightarrow> path \<Rightarrow> command option result" where
  "shell_command w payload working_dir =
     (let script = script_of payload; cmd = get_or_null payload ''command'';
          args = json_or (get_or_null payload ''args'') (JList []);
          rc = retry_count_text w payload in
      if truthy cmd then
        (case cmd of
           JList parts \<Rightarrow>
             Inr (Some \<lparr>cmd_argv = map (py_str w) parts, cmd_cwd = working_dir,
                        cmd_retry_count = rc, cmd_script = None\<rparr>)
         | _ \<Rightarrow> Inr None)
      else
        (let text = py_str w script;
             temp = temp_script w working_dir ''.sh'' text;
             from_temp = Inr (Some \<lparr>cmd_argv = [''bash'', path_str (fst temp)], cmd_cwd = working_dir,
                                    cmd_retry_count = rc, cmd_script = Some temp\<rparr>) in
         bind_result (fs_resolve w (join_path (scripts_dir w) text)) (\<lambda>script_path.
         if CHR 0x0A \<notin> set text \<and> is_strictly_under (scripts_dir w) script_path then
           bind_result (fs_exists w script_path) (\<lambda>found.
           if found then
             bind_result (iterate args) (\<lambda>xs.
             Inr (Some \<lparr>cmd_argv = ''bash'' # path_str script_path # map (py_str w) xs,
                        cmd_cwd = working_dir, cmd_retry_count = rc, cmd_script = None\<rparr>))
           else from_temp)
         else from_temp)))"

definition run_command :: "world \<Rightarrow> command \<Rightarrow> int \<Rightarrow> exec_result result" where
  "run_command w cmd timeout_seconds =
     (case spawn w cmd timeout_seconds of
        SpawnError e \<Rightarrow> Inl e
      | TimedOut \<Rightarrow> Inr (failed_result (''timeout after '' @ int_str timeout_seconds @ ''s''))
      | Exited code out err \<Rightarrow>
          Inr \<lparr>x_success = (code = 0), x_stdout = take output_limit out,
               x_stderr = take output_limit err, x_external_id = None\<rparr>)"

definition execute_shell :: "world \<Rightarrow> pydict \<Rightarrow> int \<Rightarrow> exec_result result" where
  "execute_shell w payload timeout_seconds =
     (if \<not> truthy (script_of payload) \<and> \<not> truthy (get_or_null payload ''command'')
      then Inr (failed_result ''missing script'')
      else bind_result (resolve_working_dir w (get_or_null payload ''working_dir'')) (\<lambda>dir.
        case dir of
          None \<Rightarrow> Inr (failed_result ''invalid working_dir'')
        | Some working_dir \<Rightarrow>
            bind_result (shell_command w payload working_dir) (\<lambda>cmd.
            case cmd of
              None \<Rightarrow> Inr (failed_result ''command must be a non-empty list'')
            | Some c \<Rightarrow> run_command w c timeout_seconds)))"

definition python_command :: "world \<Rightarrow> pydict \<Rightarrow> path \<Rightarrow> command" where
  "python_command w payload working_dir =
     (let temp = temp_script w working_dir ''.py'' (py_str w (script_of payload)) in
      \<lparr>cmd_argv = [''python'', path_str (fst temp)], cmd_cwd = working_dir,
       cmd_retry_count = retry_count_text w payload, cmd_script = Some temp\<rparr>)"

definition execute_python :: "world \<Rightarrow> pydict \<Rightarrow> int \<Rightarrow> exec_result result" where
  "execute_python w payload timeout_seconds =
     (if \<not> truthy (script_of payload) then Inr (failed_result ''missing python script'')
      else bind_result (resolve_working_dir w (get_or_null payload ''working_dir'')) (\<lambda>dir.
        case dir of
          None \<Rightarrow> Inr (failed_result ''invalid working_dir'')
        | Some working_dir \<Rightarrow> run_command w (python_command w payload working_dir) timeout_seconds))"

section \<open>External jobs\<close>

definition external_id_of :: "pydict \<Rightarrow> json" where
  "external_id_of data =
     json_or (json_or (get_or_null data ''job_id'') (get_or_null data ''id'')) (get_or_null data ''external_id'')"

definition poll_result :: "world \<Rightarrow> http_response \<Rightarrow> exec_result result" where
  "poll_result w r =
     (if 400 \<le> status_code r
      then Inr (failed_result (http_error_text (status_code r) @ '': '' @ response_text r))
      else bind_result (response_json r) (\<lambda>data.
        case data of
          JObj d \<Rightarrow>
            (let external_id = external_id_of d in
             if \<not> truthy external_id then Inr (failed_result ''API did not return a job_id'')
             else Inr \<lparr>x_success = True,
                       x_stdout = ''Job triggered. External ID: '' @ py_str w external_id,
                       x_stderr = [], x_external_id = Some external_id\<rparr>)
        | v \<Rightarrow> Inl (no_attribute (type_name v) ''get'')))"

text \<open>The text of a caught exception is the parameter \<open>text_of\<close>.\<close>

definition execute_api_poll :: "(error \<Rightarrow> string) \<Rightarrow> world \<Rightarrow> pydict \<Rightarrow> int \<Rightarrow> exec_result result" where
  "execute_api_poll text_of w payload timeout_seconds =
     bind_result (method_of ''POST'' payload) (\<lambda>m.
     let trigger_url = json_or (get_or_null payload ''trigger_url'') (get_or_null payload ''url'');
         headers = json_or (get_or_null payload ''headers'') (JObj []);
         body = get_or_null payload ''body'' in
     if \<not> truthy trigger_url then Inr (failed_result ''missing trigger_url'')
     else
       (case bind_result (http w \<lparr>http_method = m, http_url = trigger_url, http_headers = headers,
                                  http_body = body, http_timeout = timeout_seconds\<rparr>) (poll_result w) of
          Inr x \<Rightarrow> Inr x
        | Inl e \<Rightarrow> Inr (failed_result (text_of e))))"

section \<open>Dispatch\<close>

definition execute_job ::
  "(error \<Rightarrow> string) \<Rightarrow> world \<Rightarrow> string option \<Rightarrow> pydict \<Rightarrow> int \<Rightarrow> exec_result result" where
  "execute_job text_of w action_type payload timeout_seconds =
     (if action_type = Some ''api_call'' then execute_api_call w payload timeout_seconds
      else if action_type = Some ''api_poll'' then execute_api_poll text_of w payload timeout_seconds
      else if action_type = Some ''shell'' then execute_shell w payload timeout_seconds
      else if action_type = Some ''python'' then execute_python w payload timeout_seconds
      else if action_type = Some ''report'' then Inr (ok_result ''daily report generated'')
      else if action_type = Some ''email'' then Inr (ok_result ''email sent'')
      else if action_type = Some ''backup'' then Inr (ok_result ''database backup completed'')
      else if action_type = Some ''fail-test'' then Inr (failed_result ''intentional failure for retry test'')
      else if action_type = Some ''long-task'' then Inr (ok_result ''long task completed'')
      else Inr (failed_result (''unsupported action_type: '' @ opt_str action_type)))"

section \<open>Containment\<close>

lemma bind_result_Inr: "bind_result x f = Inr y \<longleftrightarrow> (\<exists>a. x = Inr a \<and> f a = Inr y)"
  by (rule bind_result_Inr_iff)

text \<open>Whatever the file system's symbolic links, a directory asked for is inside the resolved
  work directory, and was given by a relative path without double dots.\<close>

lemma resolve_working_dir_SomeD:
  assumes "resolve_working_dir w raw = Inr (Some p)"
  shows "p = default_work_dir w \<and> \<not> truthy raw
     \<or> (\<exists>s base. raw = JStr s \<and> \<not> is_absolute s \<and> ''..'' \<notin> set (path_parts s)
          \<and> fs_resolve w (default_work_dir w) = Inr base \<and> is_under base p)"
  using assms
  by (auto simp: resolve_working_dir_def bind_result_Inr split: if_splits json.splits sum.splits error.splits)

lemma shell_command_cwd: "shell_command w payload dir = Inr (Some c) \<Longrightarrow> cmd_cwd c = dir"
  by (auto simp: shell_command_def Let_def bind_result_Inr split: if_splits json.splits)

lemma output_bounded:
  assumes "run_command w c t = Inr x"
  shows "length (x_stdout x) \<le> output_limit"
  using assms by (auto simp: run_command_def failed_result_def split: process_outcome.splits)

end
