(* ===== verification/WorkerLoop.thy ===== *)
theory WorkerLoop
  imports Executor RunController
begin

text \<open>
  A worker's task (\<open>app/services/worker_loop.py\<close>): dequeue, prepare, execute, record. While
  the executor runs, other processes may change the database, so a task is two steps: its
  beginning up to the execution, and its end. The concurrency limit and the notification
  listener only decide when tasks begin.
\<close>

section \<open>Preparing\<close>

definition prepare_payload :: "job_run \<Rightarrow> job \<Rightarrow> pydict" where
  "prepare_payload run j =
     (let action_payload = (case r_action_payload run of Some p \<Rightarrow> p
            | None \<Rightarrow> (case j_action_payload j of Some p \<Rightarrow> p | None \<Rightarrow> []));
          d1 = (case r_script run of None \<Rightarrow> action_payload
                | Some s \<Rightarrow> dict_set ''script'' (JStr s) action_payload);
          d2 = (case r_working_dir run of None \<Rightarrow> d1
                | Some s \<Rightarrow> dict_set ''working_dir'' (JStr s) d1) in
      dict_set ''retry_count'' (JInt (r_retry_count run)) d2)"

definition or_int :: "int option \<Rightarrow> int option \<Rightarrow> int option" where
  "or_int a b = (if truthy_int a then a else b)"

record job_task =
  tk_run_id :: string
  tk_task_type :: "string option"
  tk_payload :: pydict
  tk_timeout :: int

text \<open>What a task begins with: nothing to do, work to execute, or an exception after a run
  was taken. A timeout that is \<open>NULL\<close> in both rows cannot occur (both columns are
  \<open>NOT NULL\<close>) and counts as an exception.\<close>

datatype task_begin = NoTask | Work job_task | Broken string error

definition begin_message :: "job \<Rightarrow> string option \<Rightarrow> string" where
  "begin_message j task_type =
     ''Start executing job: '' @ opt_str (j_task_name j) @ '' ('' @ opt_str task_type @ '')''"

definition begin_task ::
  "string list \<Rightarrow> string \<Rightarrow> datetime \<Rightarrow> stamps \<Rightarrow> db \<Rightarrow> task_begin \<times> db" where
  "begin_task locked worker_id now st d =
     (case worker_dequeue locked worker_id now st d of
        Inl e \<Rightarrow> (NoTask, d)
      | Inr (None, d1) \<Rightarrow> (NoTask, d1)
      | Inr (Some run, d1) \<Rightarrow>
          (case run_job d1 run of
             None \<Rightarrow> (Broken (r_id run) (no_attribute ''NoneType'' ''task_name''), d1)
           | Some j \<Rightarrow>
               (case or_int (r_timeout_seconds run) (j_timeout_seconds j) of
                  None \<Rightarrow> (Broken (r_id run) TypeError, d1)
                | Some timeout_seconds \<Rightarrow>
                    (let task_type = or_str (r_task_type run) (r_action_type run) in
                     case add_log (\<lambda>i. st (Suc i)) (r_id run) ''INFO'' (begin_message j task_type)
                            ''system'' d1 of
                       Inl e \<Rightarrow> (Broken (r_id run) e, d1)
                     | Inr (l, d2) \<Rightarrow>
                         (Work \<lparr>tk_run_id = r_id run, tk_task_type = task_type,
                                tk_payload = prepare_payload run j, tk_timeout = timeout_seconds\<rparr>,
                          d2)))))"

section \<open>Ending\<close>

text \<open>A failed flush leaves the session unusable: recording the failure raises in turn, and the
  database stays as it was.\<close>

definition database_error :: "error \<Rightarrow> bool" where
  "database_error e \<longleftrightarrow> e \<in> {IntegrityError, DataError, PendingRollbackError, StaleDataError}"

datatype task_end = Finished | Awaiting | Crashed error

definition on_exception ::
  "stamps \<Rightarrow> datetime \<Rightarrow> string \<Rightarrow> error \<Rightarrow> db \<Rightarrow> task_end \<times> db" where
  "on_exception st now run_id e d =
     (if database_error e then (Crashed PendingRollbackError, d)
      else
        (case finish_run st now run_id ''failed'' (Some (error_text e)) None None d of
           Inl e' \<Rightarrow> (Crashed e', d)
         | Inr (run, d') \<Rightarrow> (Finished, d')))"

definition await_row :: "json \<Rightarrow> string \<Rightarrow> job_run \<Rightarrow> job_run" where
  "await_row external_id stdout r =
     r\<lparr>r_status := ''awaiting_result'', r_metadata_json := Some [(''external_id'', external_id)],
       r_stdout := Some stdout\<rparr>"

definition await_result :: "string \<Rightarrow> json \<Rightarrow> string \<Rightarrow> db \<Rightarrow> db result" where
  "await_result run_id external_id stdout d =
     (if get_run_row run_id d = None then Inl StaleDataError
      else commit (upd_run run_id (await_row external_id stdout) d))"

definition finish_status :: "exec_result \<Rightarrow> string" where
  "finish_status x =
     (if startswith (x_stderr x) ''timeout after'' then ''timeout''
      else if x_success x then ''success'' else ''failed'')"

definition end_task ::
  "stamps \<Rightarrow> datetime \<Rightarrow> string \<Rightarrow> exec_result result \<Rightarrow> db \<Rightarrow> task_end \<times> db" where
  "end_task st now run_id res d =
     (case res of
        Inl e \<Rightarrow> on_exception st now run_id e d
      | Inr x \<Rightarrow>
          (case x_external_id x of
             Some external_id \<Rightarrow>
               (case await_result run_id external_id (x_stdout x) d of
                  Inl e \<Rightarrow> on_exception st now run_id e d
                | Inr d' \<Rightarrow> (Awaiting, d'))
           | None \<Rightarrow>
               (case finish_run st now run_id (finish_status x)
                       (if x_success x then None else Some (x_stderr x))
                       (Some (x_stdout x)) (Some (x_stderr x)) d of
                  Inl e \<Rightarrow> on_exception st now run_id e d
                | Inr (run, d') \<Rightarrow> (Finished, d'))))"

definition run_work :: "world \<Rightarrow> job_task \<Rightarrow> exec_result result" where
  "run_work w t = execute_job error_text w (tk_task_type t) (tk_payload t) (tk_timeout t)"

section \<open>A task always settles its run\<close>

definition settled_status :: "exec_result result \<Rightarrow> string" where
  "settled_status res =
     (case res of
        Inl e \<Rightarrow> ''failed''
      | Inr x \<Rightarrow>
          if x_external_id x \<noteq> None then ''awaiting_result''
          else if startswith (x_stderr x) ''timeout after'' then ''timeout''
          else if x_success x then ''success'' else ''failed'')"

lemma settled_status_Inr:
  "settled_status (Inr x) = (if x_external_id x \<noteq> None then ''awaiting_result'' else finish_status x)"
  by (auto simp: settled_status_def finish_status_def)

lemma finish_status_final: "final_status (finish_status x)"
  by (simp add: final_status_def finish_status_def)

lemma finish_run_settles:
  assumes v: "valid d" and get: "get_run_row k d = Some r" and s: "final_status s"
    and fits: "duration_fits now r" and st: "fresh_stamps 7 st d"
  obtains r' d' where "finish_run st now k s err out se d = Inr (Some r', d')" "valid d'"
    "get_run_row k d' = Some r'" "r_status r' = s"
proof -
  let ?r = "set_output out se err (finish_row now s r)"
  obtain d' where ok: "update_status st now k s out se err d = Inr (?r, d')" and v': "valid d'"
    and runs: "db_runs d' = row_upd r_id k (\<lambda>_. ?r) (db_runs d)
           @ (if s \<in> {''failed'', ''timeout''} \<and> may_retry d r then [retry_row (st 1) None r] else [])"
    using v get s fits st by (rule update_status_finishes)
  have k: "r_id r = k" "r \<in> set (db_runs d)" using get by (auto dest: get_run_row_SomeD)
  have "?r \<in> set (db_runs d')" using k by (auto simp: runs set_row_upd)
  then have "get_run_row k d' = Some ?r" using k v' by (simp add: get_run_row_iff)
  then show ?thesis using that [of ?r d'] ok v' by (simp add: finish_run_def)
qed

lemma await_row_valid: "run_valid d r \<Longrightarrow> run_valid d (await_row x s r)"
  by (simp add: run_valid_def run_ok_def run_fits_def fk_run_def await_row_def)

lemma await_row_simps [simp]:
  "r_id (await_row x s r) = r_id r" "r_status (await_row x s r) = ''awaiting_result''"
  "r_locked_by (await_row x s r) = r_locked_by r" "r_locked_until (await_row x s r) = r_locked_until r"
  "r_worker_id (await_row x s r) = r_worker_id r" "r_end_time (await_row x s r) = r_end_time r"
  "r_metadata_json (await_row x s r) = Some [(''external_id'', x)]"
  by (simp_all add: await_row_def)

lemma await_result_settles:
  assumes v: "valid d" and get: "get_run_row k d = Some r"
  obtains d' where "await_result k x s d = Inr d'" "valid d'" "get_run_row k d' = Some (await_row x s r)"
proof -
  have "valid (upd_run k (await_row x s) d)"
    using v by (intro valid_upd_run) (auto intro: await_row_valid dest: valid_run)
  moreover have "get_run_row k (upd_run k (await_row x s) d) = Some (await_row x s r)"
    using get by (simp add: get_run_row_upd_run)
  ultimately show ?thesis using that get by (simp add: await_result_def)
qed

lemma end_task_settles:
  assumes v: "valid d" and get: "get_run_row k d = Some r" and fits: "duration_fits now r"
    and st: "fresh_stamps 7 st d" and db: "\<And>e. res = Inl e \<Longrightarrow> \<not> database_error e"
  obtains r' d' where "end_task st now k res d
      = (if \<exists>x. res = Inr x \<and> x_external_id x \<noteq> None then Awaiting else Finished, d')"
    "valid d'" "get_run_row k d' = Some r'" "r_status r' = settled_status res"
proof (cases res)
  case (Inl e)
  have "final_status ''failed''" by (simp add: final_status_def)
  from finish_run_settles [OF v get this fits st, of "Some (error_text e)" None None]
  obtain r' d' where f: "finish_run st now k ''failed'' (Some (error_text e)) None None d = Inr (Some r', d')"
    "valid d'" "get_run_row k d' = Some r'" "r_status r' = ''failed''" .
  then show ?thesis using that [of d' r'] db [OF Inl] Inl
    by (simp add: end_task_def on_exception_def settled_status_def)
next
  case (Inr x)
  show ?thesis
  proof (cases "x_external_id x")
    case None
    from finish_run_settles [OF v get finish_status_final fits st,
        of x "if x_success x then None else Some (x_stderr x)" "Some (x_stdout x)" "Some (x_stderr x)"]
    obtain r' d' where f: "finish_run st now k (finish_status x)
        (if x_success x then None else Some (x_stderr x)) (Some (x_stdout x)) (Some (x_stderr x)) d
        = Inr (Some r', d')"
      "valid d'" "get_run_row k d' = Some r'" "r_status r' = finish_status x" .
    then show ?thesis using that [of d' r'] Inr None
      by (simp add: end_task_def settled_status_Inr)
  next
    case (Some ext)
    obtain d' where f: "await_result k ext (x_stdout x) d = Inr d'" "valid d'"
      "get_run_row k d' = Some (await_row ext (x_stdout x) r)"
      using v get by (rule await_result_settles)
    then show ?thesis using that [of d' "await_row ext (x_stdout x) r"] Inr Some
      by (simp add: end_task_def settled_status_Inr)
  qed
qed

section \<open>Which processes a task may start\<close>

text \<open>A command is confined when it runs in the default work directory, or under its resolved
  form, and its \<open>RETRY_COUNT\<close> is the one given.\<close>

definition confined :: "world \<Rightarrow> string \<Rightarrow> command \<Rightarrow> bool" where
  "confined w rc c \<longleftrightarrow> cmd_retry_count c = rc
     \<and> (cmd_cwd c = default_work_dir w
        \<or> (\<exists>base. fs_resolve w (default_work_dir w) = Inr base \<and> is_under base (cmd_cwd c)))"

lemma shell_command_retry:
  "shell_command w payload dir = Inr (Some c) \<Longrightarrow> cmd_retry_count c = retry_count_text w payload"
  by (auto simp: shell_command_def Let_def bind_result_Inr split: if_splits json.splits)

lemma resolve_confined:
  assumes "resolve_working_dir w raw = Inr (Some p)" and "cmd_cwd c = p" and "cmd_retry_count c = rc"
  shows "confined w rc c"
  using resolve_working_dir_SomeD [OF assms(1)] assms(2,3) by (auto simp: confined_def)

lemma world_fields:
  "http (w\<lparr>spawn := s\<rparr>) = http w" "fs_resolve (w\<lparr>spawn := s\<rparr>) = fs_resolve w"
  "fs_exists (w\<lparr>spawn := s\<rparr>) = fs_exists w" "fs_mkdir (w\<lparr>spawn := s\<rparr>) = fs_mkdir w"
  "temp_name (w\<lparr>spawn := s\<rparr>) = temp_name w" "scripts_dir (w\<lparr>spawn := s\<rparr>) = scripts_dir w"
  "default_work_dir (w\<lparr>spawn := s\<rparr>) = default_work_dir w" "repr_text (w\<lparr>spawn := s\<rparr>) = repr_text w"
  by simp_all

lemma world_spawn_simps [simp]:
  "resolve_working_dir (w\<lparr>spawn := s\<rparr>) raw = resolve_working_dir w raw"
  unfolding resolve_working_dir_def world_fields by (rule refl)

lemma world_spawn_fun [simp]: "py_str (w\<lparr>spawn := s\<rparr>) = py_str w"
  by (rule ext) (unfold py_str_def world_fields, rule refl)

lemma retry_count_text_spawn [simp]: "retry_count_text (w\<lparr>spawn := s\<rparr>) p = retry_count_text w p"
  unfolding retry_count_text_def world_spawn_fun by (rule refl)

lemma shell_command_spawn [simp]: "shell_command (w\<lparr>spawn := s\<rparr>) p dir = shell_command w p dir"
  unfolding shell_command_def temp_script_def world_fields world_spawn_fun retry_count_text_spawn
  by (rule refl)

lemma python_command_spawn [simp]: "python_command (w\<lparr>spawn := s\<rparr>) p dir = python_command w p dir"
  unfolding python_command_def temp_script_def world_fields world_spawn_fun retry_count_text_spawn
  by (rule refl)

lemma bind_result_cong: "(\<And>a. x = Inr a \<Longrightarrow> f a = g a) \<Longrightarrow> bind_result x f = bind_result x g"
  by (cases x) auto

lemma run_command_cong:
  "spawn w c t = s c t \<Longrightarrow> run_command w c t = run_command (w\<lparr>spawn := s\<rparr>) c t"
  by (simp add: run_command_def)

lemma execute_shell_confined:
  assumes "\<And>c t. confined w (retry_count_text w payload) c \<Longrightarrow> spawn w c t = s c t"
  shows "execute_shell w payload t = execute_shell (w\<lparr>spawn := s\<rparr>) payload t"
proof (cases "\<not> truthy (script_of payload) \<and> \<not> truthy (get_or_null payload ''command'')")
  case True
  then show ?thesis by (simp add: execute_shell_def)
next
  case False
  have "bind_result (shell_command w payload p)
          (\<lambda>cmd. case cmd of None \<Rightarrow> Inr (failed_result ''command must be a non-empty list'')
                 | Some c \<Rightarrow> run_command w c t)
      = bind_result (shell_command w payload p)
          (\<lambda>cmd. case cmd of None \<Rightarrow> Inr (failed_result ''command must be a non-empty list'')
                 | Some c \<Rightarrow> run_command (w\<lparr>spawn := s\<rparr>) c t)"
    if dir: "resolve_working_dir w (get_or_null payload ''working_dir'') = Inr (Some p)" for p
  proof (rule bind_result_cong)
    fix cmd assume c: "shell_command w payload p = Inr cmd"
    show "(case cmd of None \<Rightarrow> Inr (failed_result ''command must be a non-empty list'')
            | Some c \<Rightarrow> run_command w c t)
        = (case cmd of None \<Rightarrow> Inr (failed_result ''command must be a non-empty list'')
            | Some c \<Rightarrow> run_command (w\<lparr>spawn := s\<rparr>) c t)"
    proof (cases cmd)
      case (Some x)
      have "confined w (retry_count_text w payload) x"
        using dir shell_command_cwd [OF c [unfolded Some]] shell_command_retry [OF c [unfolded Some]]
        by (rule resolve_confined)
      then show ?thesis using Some run_command_cong [of w x t s] assms by simp
    qed simp
  qed
  then show ?thesis using False
    unfolding execute_shell_def world_spawn_simps shell_command_spawn
    by (simp only: if_False) (rule bind_result_cong, simp split: option.split)
qed

lemma execute_python_confined:
  assumes "\<And>c t. confined w (retry_count_text w payload) c \<Longrightarrow> spawn w c t = s c t"
  shows "execute_python w payload t = execute_python (w\<lparr>spawn := s\<rparr>) payload t"
proof -
  have "run_command w (python_command w payload p) t
      = run_command (w\<lparr>spawn := s\<rparr>) (python_command w payload p) t"
    if dir: "resolve_working_dir w (get_or_null payload ''working_dir'') = Inr (Some p)" for p
  proof (rule run_command_cong, rule assms)
    show "confined w (retry_count_text w payload) (python_command w payload p)"
      using dir by (rule resolve_confined) (simp_all add: python_command_def Let_def)
  qed
  then show ?thesis
    unfolding execute_python_def world_spawn_simps python_command_spawn
    by (auto intro!: bind_result_cong split: option.split)
qed

lemma execute_job_confined:
  assumes "\<And>c t. confined w (retry_count_text w payload) c \<Longrightarrow> spawn w c t = s c t"
  shows "execute_job txt w a payload t = execute_job txt (w\<lparr>spawn := s\<rparr>) a payload t"
proof -
  have poll: "poll_result (w\<lparr>spawn := s\<rparr>) = poll_result w"
    by (rule ext) (unfold poll_result_def world_spawn_fun, rule refl)
  have api: "execute_api_call (w\<lparr>spawn := s\<rparr>) payload t = execute_api_call w payload t"
    "execute_api_poll txt (w\<lparr>spawn := s\<rparr>) payload t = execute_api_poll txt w payload t"
    unfolding execute_api_call_def execute_api_poll_def world_fields poll by (rule refl)+
  show ?thesis
    unfolding execute_job_def api
    by (simp only: execute_shell_confined [OF assms] execute_python_confined [OF assms])
qed

lemma prepare_payload_retry:
  "retry_count_text w (prepare_payload run j) = int_str (r_retry_count run)"
  by (simp add: retry_count_text_def prepare_payload_def py_str_def Let_def)

end
