(* ===== verification/Pollers.thy ===== *)
theory Pollers
  imports WorkerLoop JobService
begin

text \<open>
  The status poller (\<open>app/services/status_poller.py\<close>), which asks external services about
  runs that await a result, and a turn of the scheduler loop
  (\<open>app/services/scheduler_loop.py\<close>), which scans for due jobs and then releases expired
  locks. Each gives the database it leaves; exceptions are logged and end the turn.
\<close>

section \<open>Format strings\<close>

text \<open>\<open>template.format(external_id=value)\<close>: doubled braces are literal, the field
  \<open>external_id\<close> is replaced, an unbalanced brace or another field raises. Conversions and
  format specifications inside a field are not modelled: they count as another field.\<close>

function format_id :: "string \<Rightarrow> string \<Rightarrow> string result" where
  "format_id value [] = Inr []"
| "format_id value (c # cs) =
     (if c = CHR 0x7B then
        (if cs \<noteq> [] \<and> hd cs = CHR 0x7B
         then bind_result (format_id value (tl cs)) (\<lambda>s. Inr (CHR 0x7B # s))
         else
           (let name = takeWhile (\<lambda>x. x \<noteq> CHR 0x7D) cs;
                rest = dropWhile (\<lambda>x. x \<noteq> CHR 0x7D) cs in
            if rest = [] then Inl (ValueError ''unbalanced brace in format string'')
            else if name \<noteq> ''external_id'' then Inl (KeyError name)
            else bind_result (format_id value (tl rest)) (\<lambda>s. Inr (value @ s))))
      else if c = CHR 0x7D then
        (if cs \<noteq> [] \<and> hd cs = CHR 0x7D
         then bind_result (format_id value (tl cs)) (\<lambda>s. Inr (CHR 0x7D # s))
         else Inl (ValueError ''unbalanced brace in format string''))
      else bind_result (format_id value cs) (\<lambda>s. Inr (c # s)))"
  by pat_completeness auto
termination
proof (relation "measure (\<lambda>(value, s). length s)", goal_cases)
  case (3 v c cs name rest)
  have "length rest \<le> length cs" using 3 by (simp add: length_dropWhile_le)
  then show ?case by simp
qed simp_all

section \<open>The status poller\<close>

datatype poll_next = Go db | Stop db

definition external_done :: "string list" where
  "external_done = [''completed'', ''success'', ''done'']"

definition external_failed :: "string list" where
  "external_failed = [''failed'', ''error'']"

definition poll_timeout :: int where
  "poll_timeout = 10"

text \<open>\<open>data.get("status", "").lower()\<close>; \<open>None\<close> when the value is no string.\<close>

definition external_status :: "pydict \<Rightarrow> string option" where
  "external_status data =
     (case dict_get data ''status'' of
        None \<Rightarrow> Some []
      | Some (JStr s) \<Rightarrow> Some (lower s)
      | Some _ \<Rightarrow> None)"

text \<open>\<open>data.get("error", "External failure")\<close> as the text column takes it; \<open>None\<close> when it is
  a value the column does not take, at which the flush raises.\<close>

definition external_error :: "pydict \<Rightarrow> string option option" where
  "external_error data =
     (case dict_get data ''error'' of
        None \<Rightarrow> Some (Some ''External failure'')
      | Some (JStr s) \<Rightarrow> Some (Some s)
      | Some JNull \<Rightarrow> Some None
      | Some _ \<Rightarrow> None)"

text \<open>After a failed flush the session is unusable, and reading the next run raises out of the
  loop.\<close>

definition recorded :: "(job_run option \<times> db) result \<Rightarrow> db \<Rightarrow> poll_next" where
  "recorded res d =
     (case res of
        Inl e \<Rightarrow> if database_error e then Stop d else Go d
      | Inr (run, d') \<Rightarrow> Go d')"

definition poll_response ::
  "stamps \<Rightarrow> datetime \<Rightarrow> string \<Rightarrow> http_response \<Rightarrow> db \<Rightarrow> poll_next" where
  "poll_response st now run_id response d =
     (if status_code response \<noteq> 200 then Go d
      else
        (case response_json response of
           Inr (JObj data) \<Rightarrow>
             (case external_status data of
                None \<Rightarrow> Go d
              | Some ext_status \<Rightarrow>
                  if ext_status \<in> set external_done then
                    recorded (finish_run st now run_id ''success'' None (Some (response_text response)) None d) d
                  else if ext_status \<in> set external_failed then
                    (case external_error data of
                       None \<Rightarrow> Stop d
                     | Some msg \<Rightarrow>
                         recorded (finish_run st now run_id ''failed'' msg None (Some (response_text response)) d) d)
                  else Go d)
         | _ \<Rightarrow> Go d))"

definition poll_call :: "string \<Rightarrow> http_call" where
  "poll_call url = \<lparr>http_method = ''GET'', http_url = JStr url, http_headers = JNull,
     http_body = JNull, http_timeout = poll_timeout\<rparr>"

definition poll_run :: "world \<Rightarrow> stamps \<Rightarrow> datetime \<Rightarrow> string \<Rightarrow> db \<Rightarrow> poll_next" where
  "poll_run w st now run_id d =
     (case get_run_row run_id d of
        None \<Rightarrow> Stop d
      | Some run \<Rightarrow>
          (case r_metadata_json run of
             None \<Rightarrow> Stop d
           | Some meta \<Rightarrow>
               (let external_id = get_or_null meta ''external_id'' in
                if \<not> truthy external_id then Go d
                else
                  (case r_action_payload run of
                     None \<Rightarrow> Stop d
                   | Some payload \<Rightarrow>
                       (case get_or_null payload ''status_url'' of
                          JStr template \<Rightarrow>
                            if template = [] then Go d
                            else
                              (case format_id (py_str w external_id) template of
                                 Inl e \<Rightarrow> Stop d
                               | Inr url \<Rightarrow>
                                   (case http w (poll_call url) of
                                      Inl e \<Rightarrow> Go d
                                    | Inr response \<Rightarrow> poll_response st now run_id response d))
                        | v \<Rightarrow> if truthy v then Stop d else Go d)))))"

fun poll_loop ::
  "world \<Rightarrow> (nat \<Rightarrow> stamps) \<Rightarrow> (nat \<Rightarrow> datetime) \<Rightarrow> nat \<Rightarrow> string list \<Rightarrow> db \<Rightarrow> db" where
  "poll_loop w st now i [] d = d"
| "poll_loop w st now i (k # ks) d =
     (case poll_run w (st i) (now i) k d of
        Stop d' \<Rightarrow> d'
      | Go d' \<Rightarrow> poll_loop w st now (Suc i) ks d')"

definition poll_awaiting_runs :: "world \<Rightarrow> (nat \<Rightarrow> stamps) \<Rightarrow> (nat \<Rightarrow> datetime) \<Rightarrow> db \<Rightarrow> db" where
  "poll_awaiting_runs w st now d =
     poll_loop w st now 0
       (map r_id (filter (\<lambda>r. r_status r = ''awaiting_result'') (db_runs d))) d"

section \<open>The scheduler loop\<close>

text \<open>One turn: the scan commits before the release; an exception skips what follows.\<close>

definition scheduler_tick ::
  "cron_lib \<Rightarrow> string list \<Rightarrow> datetime \<Rightarrow> stamps \<Rightarrow> datetime \<Rightarrow> stamps \<Rightarrow> db \<Rightarrow> db" where
  "scheduler_tick cron locked now st now' st' d =
     (case scan_due_jobs cron locked now st d of
        Inl e \<Rightarrow> d
      | Inr (created, d1) \<Rightarrow>
          (case release_expired_locks now' st' d1 of
             Inl e \<Rightarrow> d1
           | Inr (released, d2) \<Rightarrow> d2))"

section \<open>What polling does\<close>

lemma format_id_plain:
  assumes "CHR 0x7B \<notin> set s" and "CHR 0x7D \<notin> set s"
  shows "format_id v (s @ t) = bind_result (format_id v t) (\<lambda>u. Inr (s @ u))"
  using assms
proof (induction s)
  case Nil
  then show ?case by (cases "format_id v t") auto
next
  case (Cons c s)
  then have "c \<noteq> CHR 0x7B" "c \<noteq> CHR 0x7D" by auto
  then show ?case using Cons by (cases "format_id v t") auto
qed

lemma format_id_field:
  assumes "CHR 0x7B \<notin> set a" and "CHR 0x7D \<notin> set a" and "CHR 0x7B \<notin> set b" and "CHR 0x7D \<notin> set b"
  shows "format_id v (a @ CHR 0x7B # ''external_id'' @ CHR 0x7D # b) = Inr (a @ v @ b)"
proof -
  have b: "format_id v b = Inr b" using format_id_plain [OF assms(3,4), of v "[]"] by simp
  have "format_id v (CHR 0x7B # ''external_id'' @ CHR 0x7D # b) = Inr (v @ b)"
    by (simp add: b)
  then show ?thesis using format_id_plain [OF assms(1,2)] by simp
qed

text \<open>A run whose external job reports completion is finished as a success, one whose job
  reports failure as failed, in any capitalisation of the report.\<close>

definition reported :: "string \<Rightarrow> string option" where
  "reported s = (if lower s \<in> set external_done then Some ''success''
                 else if lower s \<in> set external_failed then Some ''failed'' else None)"

lemma poll_response_settles:
  assumes v: "valid d" and get: "get_run_row k d = Some r" and fits: "duration_fits now r"
    and st: "fresh_stamps 7 st d" and code: "status_code resp = 200"
    and json: "response_json resp = Inr (JObj data)" and s: "dict_get data ''status'' = Some (JStr s)"
    and err: "external_error data \<noteq> None" and rep: "reported s = Some final"
  obtains r' d' where "poll_response st now k resp d = Go d'" "valid d'"
    "get_run_row k d' = Some r'" "r_status r' = final"
proof -
  obtain msg where msg: "external_error data = Some msg" using err by blast
  have es: "external_status data = Some (lower s)" using s by (simp add: external_status_def)
  show ?thesis
  proof (cases "lower s \<in> set external_done")
    case True
    have f: "final = ''success''" using rep True by (simp add: reported_def)
    have "final_status ''success''" by (simp add: final_status_def)
    from finish_run_settles [OF v get this fits st, of None "Some (response_text resp)" None]
    obtain r' d' where "finish_run st now k ''success'' None (Some (response_text resp)) None d
        = Inr (Some r', d')" "valid d'" "get_run_row k d' = Some r'" "r_status r' = ''success''" .
    then show ?thesis using that [of d' r'] True code json es f
      by (simp add: poll_response_def recorded_def)
  next
    case False
    then have fl: "lower s \<in> set external_failed" "final = ''failed''"
      using rep by (auto simp: reported_def split: if_splits)
    have "final_status ''failed''" by (simp add: final_status_def)
    from finish_run_settles [OF v get this fits st, of msg None "Some (response_text resp)"]
    obtain r' d' where "finish_run st now k ''failed'' msg None (Some (response_text resp)) d
        = Inr (Some r', d')" "valid d'" "get_run_row k d' = Some r'" "r_status r' = ''failed''" .
    then show ?thesis using that [of d' r'] False fl code json es msg
      by (simp add: poll_response_def recorded_def)
  qed
qed

lemma poll_run_calls:
  assumes "get_run_row k d = Some r" and "r_metadata_json r = Some meta"
    and "truthy (get_or_null meta ''external_id'')" and "r_action_payload r = Some payload"
    and "get_or_null payload ''status_url'' = JStr (a @ CHR 0x7B # ''external_id'' @ CHR 0x7D # b)"
    and "CHR 0x7B \<notin> set a" and "CHR 0x7D \<notin> set a" and "CHR 0x7B \<notin> set b" and "CHR 0x7D \<notin> set b"
    and "http w (poll_call (a @ py_str w (get_or_null meta ''external_id'') @ b)) = Inr resp"
  shows "poll_run w st now k d = poll_response st now k resp d"
  using assms(1-5,10) format_id_field [OF assms(6-9)] by (simp add: poll_run_def Let_def)

text \<open>A scan that raises keeps the whole turn from doing anything.\<close>

lemma tick_blocked:
  assumes "valid d" and "j \<in> set (scan_fires locked now d)"
    and "compute_next_run cron (j_schedule_rule j) (Some now) now = Inl e"
  shows "scheduler_tick cron locked now st now' st' d = d"
proof (cases "scan_due_jobs cron locked now st d")
  case (Inr p)
  obtain rs d1 where p: "p = (rs, d1)" by (cases p)
  have "\<exists>t. compute_next_run cron (j_schedule_rule j) (Some now) now = Inr t"
    using scan_due_jobs_InrD(8) [OF assms(1) Inr [unfolded p]] assms(2) by blast
  then show ?thesis using assms(3) by simp
qed (simp add: scheduler_tick_def)

end
