(* ===== verification/WorkerProperties.thy ===== *)
theory WorkerProperties
  imports Pollers Samples
begin

text \<open>
  The properties of workers, of the executor, of the status poller and of the scheduler loop,
  with witnesses at the sample database and a toy world without symbolic links.
\<close>

section \<open>Tasks\<close>

text \<open>C16: whatever the execution gives, the end of a task settles its run: success, failed (an
  exception of the executor included), timeout (an error output that begins with
  \<open>timeout after\<close>), or awaiting an external result; the recording never raises and all
  constraints hold. (For a run that still exists and lasted less than about 24.8 days.)\<close>

theorem task_settles_run:
  assumes "valid d" and "get_run_row k d = Some r" and "duration_fits now r" and "fresh_stamps 7 st d"
    and "\<And>e. res = Inl e \<Longrightarrow> \<not> database_error e"
  shows "\<exists>r' d'. end_task st now k res d
      = (if \<exists>x. res = Inr x \<and> x_external_id x \<noteq> None then Awaiting else Finished, d')
     \<and> get_run_row k d' = Some r' \<and> r_status r' = settled_status res \<and> valid d'"
  using assms by (rule end_task_settles) blast+

theorem task_settles_run_witness:
  "\<exists>r' d'. end_task sample_stamps (Aware 9000000) ''r3'' (Inl (HttpxError ''timed out'')) sample_db = (Finished, d')
     \<and> get_run_row ''r3'' d' = Some r' \<and> r_status r' = ''failed''"
proof -
  have "duration_fits (Aware 9000000) stale_run" by code_simp
  moreover have "\<not> database_error (HttpxError ''timed out'')" by (simp add: database_error_def)
  moreover have "settled_status (Inl (HttpxError ''timed out'')) = ''failed''" by (simp add: settled_status_def)
  ultimately show ?thesis
    using task_settles_run [OF valid_sample sample_rows(3), of "Aware 9000000" sample_stamps
        "Inl (HttpxError ''timed out'')"] by auto
qed

section \<open>The executor\<close>

text \<open>A world without symbolic links, in which every process succeeds.\<close>

definition toy_world :: world where
  "toy_world = \<lparr>http = (\<lambda>c. Inr \<lparr>status_code = 200, response_text = ''ok'',
       response_json = Inr (JObj [(''status'', JStr ''Completed'')])\<rparr>),
     spawn = (\<lambda>c t. Exited 0 ''done'' []), fs_resolve = Inr, fs_exists = (\<lambda>p. Inr False),
     fs_mkdir = (\<lambda>p. Inr ()), temp_name = (\<lambda>s. ''tmp'' @ s), scripts_dir = [''app'', ''scripts''],
     default_work_dir = [''work''], repr_text = (\<lambda>v. ''?'')\<rparr>"

text \<open>C36: the only processes a worker can start for a run are confined: they run in the
  default work directory or under its resolved form, whatever \<open>working_dir\<close>, script, command
  or symbolic links say, and see the run's retry count in \<open>RETRY_COUNT\<close>. (How the system
  would answer any other command makes no difference to the result.)\<close>

theorem processes_confined:
  assumes "\<And>c t. confined w (int_str (r_retry_count run)) c \<Longrightarrow> spawn w c t = s c t"
  shows "execute_job error_text w a (prepare_payload run j) t
       = execute_job error_text (w\<lparr>spawn := s\<rparr>) a (prepare_payload run j) t"
  using execute_job_confined [of w "prepare_payload run j" s error_text a t] assms
  by (simp add: prepare_payload_retry)

theorem processes_confined_witness:
  "execute_job error_text toy_world (Some ''shell'') (prepare_payload extract_run extract_job) 5
   = execute_job error_text
       (toy_world\<lparr>spawn := (\<lambda>c t. if confined toy_world ''0'' c then Exited 0 ''done'' []
                                else SpawnError (OSError ''refused''))\<rparr>)
       (Some ''shell'') (prepare_payload extract_run extract_job) 5"
proof (rule processes_confined)
  have rc: "int_str (r_retry_count extract_run) = ''0''" by code_simp
  fix c t
  assume "confined toy_world (int_str (r_retry_count extract_run)) c"
  then show "spawn toy_world c t = (if confined toy_world ''0'' c then Exited 0 ''done'' []
      else SpawnError (OSError ''refused''))"
    unfolding rc by (simp add: toy_world_def)
qed

section \<open>The status poller\<close>

text \<open>C37: polling a run that awaits the external job with the id in its metadata asks the URL
  of the template with that id filled in; when the service answers 200 with a status that
  means completion or failure, in any capitalisation, the run is settled accordingly.\<close>

theorem poll_settles_run:
  assumes "valid d" and "get_run_row k d = Some r" and "duration_fits now r" and "fresh_stamps 7 st d"
    and "r_metadata_json r = Some meta" and "truthy (get_or_null meta ''external_id'')"
    and "r_action_payload r = Some payload"
    and "get_or_null payload ''status_url'' = JStr (a @ CHR 0x7B # ''external_id'' @ CHR 0x7D # b)"
    and "CHR 0x7B \<notin> set a" and "CHR 0x7D \<notin> set a" and "CHR 0x7B \<notin> set b" and "CHR 0x7D \<notin> set b"
    and "http w (poll_call (a @ py_str w (get_or_null meta ''external_id'') @ b)) = Inr resp"
    and "status_code resp = 200" and "response_json resp = Inr (JObj data)"
    and "dict_get data ''status'' = Some (JStr s)" and "external_error data \<noteq> None"
    and "reported s = Some final"
  shows "\<exists>r' d'. poll_run w st now k d = Go d' \<and> get_run_row k d' = Some r' \<and> r_status r' = final \<and> valid d'"
proof -
  have "poll_run w st now k d = poll_response st now k resp d"
    using assms(2,5-13) by (rule poll_run_calls)
  moreover obtain r' d' where "poll_response st now k resp d = Go d'" "valid d'"
    "get_run_row k d' = Some r'" "r_status r' = final"
    using assms(1-4,14-18) by (rule poll_response_settles)
  ultimately show ?thesis by auto
qed

definition awaiting_db :: db where
  "awaiting_db = sample_db\<lparr>db_runs := [stale_run\<lparr>r_status := ''awaiting_result'',
     r_metadata_json := Some [(''external_id'', JStr ''e7'')],
     r_action_payload := Some [(''status_url'',
        JStr (''http://x/'' @ CHR 0x7B # ''external_id'' @ CHR 0x7D # []))]\<rparr>]\<rparr>"

theorem poll_settles_run_witness:
  "\<exists>r' d'. poll_run toy_world sample_stamps (Aware 2000000) ''r3'' awaiting_db = Go d'
     \<and> get_run_row ''r3'' d' = Some r' \<and> r_status r' = ''success''"
proof -
  let ?r = "stale_run\<lparr>r_status := ''awaiting_result'',
     r_metadata_json := Some [(''external_id'', JStr ''e7'')],
     r_action_payload := Some [(''status_url'',
        JStr (''http://x/'' @ CHR 0x7B # ''external_id'' @ CHR 0x7D # []))]\<rparr>"
  have 1: "valid awaiting_db" "get_run_row ''r3'' awaiting_db = Some ?r" "duration_fits (Aware 2000000) ?r"
    "fresh_stamps 7 sample_stamps awaiting_db" by code_simp+
  have 2: "r_metadata_json ?r = Some [(''external_id'', JStr ''e7'')]"
    "r_action_payload ?r = Some [(''status_url'', JStr (''http://x/'' @ CHR 0x7B # ''external_id'' @ CHR 0x7D # []))]"
    by simp_all
  have 3: "reported ''Completed'' = Some ''success''" by code_simp
  show ?thesis
    using poll_settles_run [OF 1 2(1) _ 2(2), of "''http://x/''" "[]" toy_world
        "\<lparr>status_code = 200, response_text = ''ok'', response_json = Inr (JObj [(''status'', JStr ''Completed'')])\<rparr>"
        "[(''status'', JStr ''Completed'')]" "''Completed''" "''success''"] 3
    by (auto simp: get_or_null_def toy_world_def external_error_def)
qed

section \<open>The scheduler loop\<close>

text \<open>One due job whose rule has no next time stops the whole turn of the scheduler: no
  other due job gets its run, and no expired lock is released, at this turn or at any later
  one while the job stays due.\<close>

theorem bad_rule_blocks_tick:
  assumes "valid d" and "j \<in> set (scan_fires locked now d)"
    and "compute_next_run cron (j_schedule_rule j) (Some now) now = Inl e"
  shows "scheduler_tick cron locked now st now' st' d = d"
  using assms by (rule tick_blocked)

definition stuck_db :: db where
  "stuck_db = sample_db\<lparr>db_jobs := [extract_job\<lparr>j_schedule_rule := ''0 0 30 2 *''\<rparr>, load_job]\<rparr>"

theorem bad_rule_blocks_tick_witness:
  "scheduler_tick no_cron [] (Aware 2000) sample_stamps (Aware 2000) sample_stamps stuck_db = stuck_db
   \<and> find_expired_runs (Aware 2000) stuck_db \<noteq> []"
proof -
  have "valid stuck_db" "find_expired_runs (Aware 2000) stuck_db \<noteq> []"
    "extract_job\<lparr>j_schedule_rule := ''0 0 30 2 *''\<rparr> \<in> set (scan_fires [] (Aware 2000) stuck_db)"
    by code_simp+
  moreover have "compute_next_run no_cron (j_schedule_rule (extract_job\<lparr>j_schedule_rule := ''0 0 30 2 *''\<rparr>))
      (Some (Aware 2000)) (Aware 2000) = Inl (ValueError
        ''Unsupported schedule_rule. Use every:5m or cron expression like 0 2 * * *'')" by code_simp
  ultimately show ?thesis using bad_rule_blocks_tick by blast
qed

end
