(* ===== verification/Invariant.thy ===== *)
theory Invariant
  imports Monitoring Pollers JobCorrect
begin

text \<open>
  The invariant of the whole system and its preservation by every operation that writes: the
  database keeps its constraints, every job is consistent, and every run is in a sensible
  state (a locked run is running or awaits a result and has not ended, a pending run has
  neither worker nor lock nor end). The contract of a request, as a locale, is in System.
\<close>

section \<open>The invariant\<close>

definition run_state_ok :: "job_run \<Rightarrow> bool" where
  "run_state_ok r \<longleftrightarrow>
     (r_locked_by r = None \<longleftrightarrow> r_locked_until r = None)
     \<and> (r_locked_until r \<noteq> None \<longrightarrow> r_status r \<in> {''running'', ''awaiting_result''}
          \<and> r_end_time r = None \<and> r_worker_id r = r_locked_by r)
     \<and> (r_status r = ''pending'' \<longrightarrow> r_worker_id r = None \<and> r_end_time r = None)"

definition good :: "db \<Rightarrow> bool" where
  "good d \<longleftrightarrow> valid d \<and> list_all job_consistent (db_jobs d) \<and> list_all run_state_ok (db_runs d)"

lemma goodD:
  assumes "good d"
  shows "valid d" and "\<And>j. j \<in> set (db_jobs d) \<Longrightarrow> job_consistent j"
    and "\<And>r. r \<in> set (db_runs d) \<Longrightarrow> run_state_ok r"
  using assms by (simp_all add: good_def list_all_iff)

text \<open>An operation on runs and logs needs no argument about jobs.\<close>

lemma good_runs:
  assumes "good d" and "valid d'" and "db_jobs d' = db_jobs d" and "\<forall>r \<in> set (db_runs d'). run_state_ok r"
  shows "good d'"
  using assms by (simp add: good_def list_all_iff)

lemma good_jobs:
  assumes "good d" and "valid d'" and "set (db_runs d') \<subseteq> set (db_runs d)"
    and "\<forall>j \<in> set (db_jobs d'). job_consistent j"
  shows "good d'"
  using assms by (auto simp: good_def list_all_iff)

lemma row_upd_state:
  assumes "good d" and "\<And>r. r \<in> set (db_runs d) \<Longrightarrow> r_id r = k \<Longrightarrow> run_state_ok r \<Longrightarrow> run_state_ok (f r)"
  shows "\<forall>r \<in> set (row_upd r_id k f (db_runs d)). run_state_ok r"
  using goodD(3) [OF assms(1)] assms(2) by (intro row_upd_ball) auto

section \<open>The states an operation leaves a run in\<close>

lemma state_new [simp]:
  "run_state_ok (retry_row st u r)" "run_state_ok (scheduled_run st j)"
  "run_state_ok (triggered_run st u t j)" "run_state_ok (new_job_run st n j t b u c)"
  by (simp_all add: run_state_ok_def retry_row_def scheduled_run_def triggered_run_def
      new_job_run_def JobRun_def start_def Let_def)

lemma state_set_output [simp]: "run_state_ok (set_output a b c r) = run_state_ok r"
  by (simp add: run_state_ok_def set_output_def)

lemma state_finish [simp]: "final_status s \<Longrightarrow> run_state_ok (finish_row now s r)"
  by (auto simp: run_state_ok_def final_status_def)

lemma state_start: "run_state_ok r \<Longrightarrow> run_state_ok (start t n r)"
  by (auto simp: run_state_ok_def)

lemma state_lock: "run_state_ok r \<Longrightarrow> r_status r = ''pending'' \<Longrightarrow> run_state_ok (lock_run w u n r)"
  by (auto simp: run_state_ok_def lock_run_def)

lemma state_release: "run_state_ok r \<Longrightarrow> run_expired t r \<Longrightarrow> run_state_ok (release now r)"
  by (auto simp: run_state_ok_def release_def run_expired_def split: option.splits)

lemma state_cleanup: "run_state_ok r \<Longrightarrow> run_expired t r \<Longrightarrow> run_state_ok (cleanup_release r)"
  by (auto simp: run_state_ok_def cleanup_release_def run_expired_def split: option.splits)

lemma state_heartbeat [simp]: "run_state_ok (r\<lparr>r_heartbeat_at := h\<rparr>) = run_state_ok r"
  by (simp add: run_state_ok_def)

lemma state_await: "run_state_ok r \<Longrightarrow> run_state_ok (await_row x s r)"
  by (auto simp: run_state_ok_def)

section \<open>Queue operations\<close>

lemma good_dequeue:
  assumes g: "good d" and ok: "dequeue_next_run locked secs w now st d = Inr (got, d')"
  shows "good d'"
proof (cases got)
  case None
  then show ?thesis using g ok dequeue_next_run_None(1) goodD(1) by blast
next
  case (Some r)
  from ok [unfolded Some] obtain run where run: "dequeue_loop locked d [] = Some run"
    and r: "r = lock_run w (shift (secs * second_us) now) now run" and v: "valid d'"
    and d': "d' = add_logs [JobLog (st 0) (r_id run) ''info'' ''system'' (''Locked by '' @ w)] (put_run r d)"
    by (rule dequeue_next_run_SomeD)
  have "run \<in> set (db_runs d)" "r_status run = ''pending''"
    using dequeue_loop_SomeD [OF run] by (auto simp: run_available_def)
  then have "run_state_ok r" unfolding r using goodD(3) [OF g] by (intro state_lock) auto
  then have "\<forall>s \<in> set (db_runs d'). run_state_ok s"
    unfolding d' add_logs_frame put_run_frame using g by (intro row_upd_state)
  then show ?thesis using good_runs [OF g v] by (simp add: d')
qed

lemma good_legacy_dequeue:
  assumes g: "good d" and ok: "dequeue_and_lock locked secs w now st d = Inr (got, d')"
  shows "good d'"
proof (cases got)
  case None
  then show ?thesis using g ok dequeue_and_lock_None goodD(1) by blast
next
  case (Some r)
  from ok [unfolded Some] goodD(1) [OF g] obtain run where
    run: "find_next_run_to_lock locked [] d = Some run" and v: "valid d'"
    and f: "get_run_row (r_id run) d = Some run" "r_status run = ''pending''" "r_id r = r_id run"
      "r_status r = ''running''" "r_worker_id r = Some w" "r_locked_by r = Some w"
      "r_locked_until r \<noteq> None" "r_start_time r \<noteq> None"
    and d': "d' = add_logs [JobLog (st 0) (r_id run) ''info'' ''system'' (''Locked by '' @ w)] (put_run r d)"
    by (rule dequeue_and_lock_SomeD)
  have "r_end_time r = r_end_time run"
  proof -
    define r1 where "r1 = run\<lparr>r_status := ''running'', r_worker_id := Some w, r_locked_by := Some w,
      r_locked_until := Some (shift (secs * second_us) now),
      r_start_time := (case r_start_time run of None \<Rightarrow> Some now | Some s \<Rightarrow> Some s),
      r_heartbeat_at := Some now\<rparr>"
    have id: "r_id r1 = r_id run" by (simp add: r1_def)
    have "get_run_row (r_id run) d' = Some r"
      and d1: "d' = add_logs [JobLog (st 0) (r_id run) ''info'' ''system'' (''Locked by '' @ w)] (put_run r1 d)"
      using ok Some run by (auto simp: dequeue_and_lock_def Let_def result_iff r1_def)
    then have "r = r1" using f(1) by (simp add: rows id)
    then show ?thesis by (simp add: r1_def)
  qed
  moreover have "run_state_ok run" using f(1) goodD(3) [OF g] by (blast dest: get_run_row_SomeD)
  ultimately have "run_state_ok r" using f by (auto simp: run_state_ok_def)
  then have "\<forall>s \<in> set (db_runs d'). run_state_ok s"
    unfolding d' add_logs_frame put_run_frame using g by (intro row_upd_state)
  then show ?thesis using good_runs [OF g v] by (simp add: d')
qed

lemma good_map_runs:
  assumes g: "good d" and v: "valid (add_logs ls (d\<lparr>db_runs := map f (db_runs d)\<rparr>))"
    and f: "\<And>r. run_state_ok r \<Longrightarrow> run_state_ok (f r)"
  shows "good (add_logs ls (d\<lparr>db_runs := map f (db_runs d)\<rparr>))"
  using g v by (rule good_runs) (use goodD(3) [OF g] f in auto)

lemma good_release:
  assumes "good d" and "release_expired_locks now st d = Inr (n, d')"
  shows "good d'"
  using assms
  by (auto simp: release_expired_locks_def Let_def result_iff intro!: good_map_runs intro: state_release)

lemma good_cleanup:
  assumes "good d" and "cleanup_expired_runs now st d = Inr (n, d')"
  shows "good d'"
  using assms
  by (auto simp: cleanup_expired_runs_def Let_def result_iff intro!: good_map_runs intro: state_cleanup)

lemma good_heartbeat:
  assumes g: "good d" and ok: "heartbeat now k d = Inr (r', d')"
  shows "good d'"
proof -
  obtain r where r: "get_run_row k d = Some r" and v: "valid d'"
    and d': "d' = put_run (r\<lparr>r_heartbeat_at := Some now\<rparr>) d"
    using ok by (auto simp: heartbeat_def result_iff)
  have "run_state_ok r" using r goodD(3) [OF g] by (blast dest: get_run_row_SomeD)
  then have "\<forall>s \<in> set (db_runs d'). run_state_ok s"
    unfolding d' put_run_frame using g by (intro row_upd_state) simp_all
  then show ?thesis using good_runs [OF g v] by (simp add: d')
qed

section \<open>Outcomes\<close>

lemma good_retry:
  assumes g: "good d" and ok: "retry_run st k u d = Inr (n, d')"
  shows "good d'"
proof -
  obtain r where d': "d' = retried_db st u r d" and v: "valid d'"
    using goodD(1) [OF g] ok by (rule retry_run_InrD)
  show ?thesis using g v by (rule good_runs) (use goodD(3) [OF g] in \<open>auto simp: d' retried_db_def\<close>)
qed

text \<open>The part of the invariant that holds before the commit.\<close>

definition almost :: "db \<Rightarrow> bool" where
  "almost d \<longleftrightarrow> list_all job_consistent (db_jobs d) \<and> list_all run_state_ok (db_runs d)"

lemma good_iff: "good d \<longleftrightarrow> valid d \<and> almost d"
  by (simp add: good_def almost_def)

lemma almost_add_logs [simp]: "almost (add_logs ls d) = almost d"
  by (simp add: almost_def)

lemma almost_upd_run:
  assumes "almost d" and "\<And>r. run_state_ok r \<Longrightarrow> r_id r = k \<Longrightarrow> run_state_ok (f r)"
  shows "almost (upd_run k f d)"
  using assms by (auto simp: almost_def list_all_iff set_row_upd)

lemma almost_put_run: "almost d \<Longrightarrow> run_state_ok r \<Longrightarrow> almost (put_run r d)"
  unfolding put_run_def by (rule almost_upd_run)

lemma almost_add_runs: "almost d \<Longrightarrow> (\<forall>r \<in> set rs. run_state_ok r) \<Longrightarrow> almost (add_runs rs d)"
  by (simp add: almost_def list_all_iff ball_Un)

lemma almost_auto_retry:
  assumes "almost d" and "auto_retry st k d = Inr d'"
  shows "almost d'"
proof -
  have v: "valid d" using assms(2) by (auto simp: auto_retry_def result_iff)
  show ?thesis
  proof (cases "retry_run st k None d")
    case (Inl e)
    then show ?thesis using assms v by (auto simp: auto_retry_def split: if_splits)
  next
    case (Inr p)
    obtain n d2 where p: "p = (n, d2)" by (cases p)
    have "good d2" using good_retry [of d st k None n d2] Inr p assms(1) v by (simp add: good_iff)
    then show ?thesis using assms(2) v Inr p by (auto simp: auto_retry_def good_iff)
  qed
qed

lemma almost_apply_status:
  assumes a: "almost d" and r: "run_state_ok r" and ok: "apply_status st now s r d = Inr d'"
  shows "almost d'"
proof -
  consider (running) "s = ''running''" | (final) "final_status s" "s \<noteq> ''running''"
    | (other) "\<not> final_status s" "s \<noteq> ''running''" by blast
  then show ?thesis
  proof cases
    case running
    then show ?thesis using a r ok by (auto simp: apply_status_def intro: almost_put_run state_start)
  next
    case other
    then show ?thesis using a ok by (auto simp: apply_status_def final_status_def)
  next
    case final
    let ?d1 = "finished_db st now s r d"
    have a1: "almost ?d1"
      unfolding finished_db_def using a final(1) by (simp add: almost_put_run)
    have s: "s \<in> {''success'', ''failed'', ''timeout'', ''canceled''}" using final by (simp add: final_status_def)
    have "d' = ?d1 \<or> auto_retry st (r_id r) ?d1 = Inr d'"
      using ok final(2) s
      by (simp only: apply_status_def complete_eq bind_result_simps finish_row_def [symmetric]
          finished_db_def [symmetric] Let_def if_False if_True)
         (auto simp: bind_result_Inr_iff split: if_splits)
    then show ?thesis using a1 almost_auto_retry by blast
  qed
qed

lemma good_update_status:
  assumes g: "good d" and ok: "update_status st now k s out se err d = Inr (r', d')"
  shows "good d'"
proof -
  obtain r d1 where r: "get_run_row k d = Some r" and app: "apply_status st now s r d = Inr d1"
    and v: "valid d'"
    and d': "d' = add_logs (output_logs st k out se err) (upd_run k (set_output out se err) d1)"
    using ok by (auto simp: update_status_def result_iff)
  have "run_state_ok r" using r goodD(3) [OF g] by (blast dest: get_run_row_SomeD)
  then have "almost d1" using almost_apply_status [OF _ _ app] g by (simp add: good_iff)
  then show ?thesis using v by (simp add: good_iff d' almost_upd_run)
qed

lemma good_report_retry:
  assumes g: "good d" and ok: "report_retry st now k s d = Inr (got, d')"
  shows "good d'"
proof (cases got)
  case None
  then show ?thesis using g ok by (auto simp: report_retry_def result_iff split: if_splits)
next
  case (Some n)
  from goodD(1) [OF g] ok [unfolded Some] obtain r where r: "get_run_row k d = Some r" and v: "valid d'"
    and app: "apply_status st now s r d
     = Inr (add_logs [JobLog (st 3) k ''info'' ''system'' (''Automatic retry triggered: '' @ r_id n)] d')"
    by (rule report_retry_InrD)
  have "run_state_ok r" using r goodD(3) [OF g] by (blast dest: get_run_row_SomeD)
  then have "almost d'" using almost_apply_status [OF _ _ app] g by (simp add: good_iff)
  then show ?thesis using v by (simp add: good_iff)
qed

lemma good_report_output:
  assumes g: "good d" and ok: "report_output st k x out se err d = Inr (r', d')"
  shows "good d'"
proof -
  have "valid d'" and "d' = output_db st k out se err
      (add_logs [JobLog (st 3) k ''info'' ''system'' (''Automatic retry triggered: '' @ x)] d)"
    using ok by (rule report_output_InrD, blast)+
  then show ?thesis using g by (simp add: good_iff output_db_def almost_upd_run)
qed

lemma good_finish_run:
  assumes "good d" and "finish_run st now k s err out se d = Inr (got, d')"
  shows "good d'"
  using assms by (auto simp: finish_run_def none_if_missing_Inr dest: good_update_status)

lemma good_await:
  assumes g: "good d" and ok: "await_result k x s d = Inr d'"
  shows "good d'"
proof -
  have "valid d'" "d' = upd_run k (await_row x s) d"
    using ok by (auto simp: await_result_def result_iff split: if_splits)
  then show ?thesis using g by (simp add: good_iff almost_upd_run state_await)
qed

section \<open>Other writes to runs and logs\<close>

lemma good_add_runs:
  assumes "good d" and "valid (add_runs rs d)" and "\<forall>r \<in> set rs. run_state_ok r"
  shows "good (add_runs rs d)"
  using assms by (simp add: good_iff almost_add_runs)

lemma good_add_logs: "good d \<Longrightarrow> valid (add_logs ls d) \<Longrightarrow> good (add_logs ls d)"
  by (simp add: good_iff)

lemma good_trigger:
  assumes "good d" and "trigger_job st k cu t d = Inr (r, d')"
  shows "good d'"
  using assms by (auto simp: trigger_job_def Let_def result_iff split: if_splits intro!: good_add_runs)

lemma good_create_job_run:
  assumes "good d" and "create_job_run st now j t b u c d = Inr (r, d')"
  shows "good d'"
  using assms by (auto simp: create_job_run_def Let_def result_iff intro!: good_add_runs)

lemma good_add_log:
  assumes "good d" and "add_log st k level message stream d = Inr (l, d')"
  shows "good d'"
  using assms by (auto simp: add_log_def Let_def result_iff intro!: good_add_logs)

lemma good_clear:
  assumes "good d" and "clear_all_runs d = Inr (m, d')"
  shows "good d'"
  using assms by (auto simp: clear_all_runs_def result_iff good_def)

section \<open>Writes to jobs and users\<close>

lemma good_create_job:
  assumes g: "good d" and ok: "create_job cron now st p u d = Inr (j, d')"
  shows "good d'"
proof -
  obtain js where s: "sync_domain_logic cron now (job_from_create (st 0) p (u_id u)) = Inr j"
    and d': "d' = (add_job j d)\<lparr>db_deps := db_deps d @ dep_rows st 1 (j_id j) js\<rparr>" and v: "valid d'"
    using create_job_InrD [OF ok] by (rule create_job_service_InrD)
  show ?thesis using g v
    by (rule good_jobs) (use goodD(2) [OF g] sync_consistent [OF s] in \<open>auto simp: d'\<close>)
qed

lemma good_update_job:
  assumes g: "good d" and ok: "update_job cron now st k p cu d = Inr (j, d')"
  shows "good d'"
proof -
  from ok obtain j0 where s: "sync_domain_logic cron now (updated_job p j0) = Inr j" and v: "valid d'"
    and jobs: "db_jobs d' = row_upd j_id k (\<lambda>_. j) (db_jobs d)" and runs: "db_runs d' = db_runs d"
    by (rule update_job_InrD)
  show ?thesis using g v
    by (rule good_jobs) (use goodD(2) [OF g] sync_consistent [OF s] in \<open>auto simp: jobs runs set_row_upd\<close>)
qed

lemma good_set_enabled:
  assumes g: "good d" and ok: "set_job_enabled cron now k b cu d = Inr (j, d')"
  shows "good d'"
proof -
  from ok obtain j0 where s: "sync_domain_logic cron now
        (j0\<lparr>j_status := Some (if b then ''enabled'' else ''disabled'')\<rparr>) = Inr j"
    and d': "d' = put_job j d" and v: "valid d'" by (rule set_job_enabled_InrD)
  show ?thesis using g v
    by (rule good_jobs) (use goodD(2) [OF g] sync_consistent [OF s] in \<open>auto simp: d' set_row_upd\<close>)
qed

lemma good_delete_job:
  assumes g: "good d" and ok: "delete_job k cu d = Inr (m, d')"
  shows "good d'"
proof -
  obtain i where "d' = delete_rows i d" and v: "valid d'"
    using ok by (auto simp: delete_job_def result_iff)
  then have "set (db_jobs d') \<subseteq> set (db_jobs d)" "set (db_runs d') \<subseteq> set (db_runs d)"
    by (auto simp: delete_rows_def Let_def set_row_del)
  then show ?thesis using good_jobs [OF g v] goodD(2) [OF g] by auto
qed

lemma rescheduled_consistent:
  assumes c: "job_consistent j" and due: "job_due locked now j"
  shows "job_consistent (next_or_same cron now fired j)"
proof -
  have "j_next_run_at j \<noteq> None" "j_enabled j" using due by (auto simp: job_due_def split: option.splits)
  then show ?thesis using c by (auto simp: next_or_same_def job_consistent_def split: sum.split)
qed

lemma good_scan:
  assumes g: "good d" and ok: "scan_due_jobs cron locked now st d = Inr (rs, d')"
  shows "good d'"
proof -
  note S = scan_due_jobs_InrD [OF goodD(1) [OF g] ok]
  let ?fires = "scan_fires locked now d"
  have "job_consistent (next_or_same cron now ?fires j)" if j: "j \<in> set (db_jobs d)" for j
  proof (cases "j \<in> set ?fires")
    case True
    then have "job_due locked now j" by (simp add: scan_fires_def)
    then show ?thesis using rescheduled_consistent goodD(2) [OF g j] by blast
  next
    case False
    then show ?thesis using goodD(2) [OF g j] by (simp add: next_or_same_def)
  qed
  then have "\<forall>j \<in> set (db_jobs d'). job_consistent j" using S(2) by auto
  moreover have "\<forall>r \<in> set (db_runs d'). run_state_ok r"
    using goodD(3) [OF g] unfolding S(3) S(1) by (auto elim!: scan_runs_mem)
  ultimately show ?thesis using S(7) by (simp add: good_def list_all_iff)
qed

lemma good_register:
  assumes "good d" and "register_user lib salt st p d = Inr (u, d')"
  shows "good d'"
  using assms by (auto simp: register_user_def Let_def result_iff good_def add_user_def split: if_splits)

lemma good_change_password:
  assumes "good d" and "change_password lib salt u old new d = Inr (m, d')"
  shows "good d'"
  using assms by (auto simp: change_password_def result_iff good_def split: if_splits)

end
