(* ===== verification/System.thy ===== *)
theory System
  imports Invariant Samples
begin

text \<open>
  The system as a whole: every request, worker task and background turn that writes, served one
  after the other on one database, in any order, at any times and with any ids drawn. What
  each leaves is given by \<open>serve\<close>; an exception leaves the database as it was. The report of a
  failure that is retried commits twice; its two transactions are requests of their own, so that
  others may come between them, or the second never. The reachable
  databases are those that requests lead to from the empty one.
\<close>

section \<open>The contract of a request\<close>

definition after :: "db \<Rightarrow> ('a \<times> db) result \<Rightarrow> db" where
  "after d res = (case res of Inl e \<Rightarrow> d | Inr (x, d') \<Rightarrow> d')"

lemma after_simps [simp]: "after d (Inl e) = d" "after d (Inr (x, d')) = d'"
  by (simp_all add: after_def)

locale transaction =
  fixes act :: "datetime \<Rightarrow> stamps \<Rightarrow> db \<Rightarrow> ('a \<times> db) result"
  assumes keeps: "good d \<Longrightarrow> act now st d = Inr (x, d') \<Longrightarrow> good d'"
begin

lemma served: "good d \<Longrightarrow> good (after d (act now st d))"
  using keeps [of d now st] by (auto simp: after_def split: sum.split)

text \<open>However often it is repeated.\<close>

lemma series: "good d \<Longrightarrow> good (foldl (\<lambda>d (now, st). after d (act now st d)) d reqs)"
proof (induction reqs arbitrary: d)
  case Nil
  then show ?case by simp
next
  case (Cons req reqs)
  then show ?case using served by (simp add: split_beta)
qed

end

interpretation register: transaction "\<lambda>now st. register_user lib salt st p" for lib salt p
  by unfold_locales (rule good_register)

interpretation password: transaction "\<lambda>now st. change_password lib salt u old new" for lib salt u old new
  by unfold_locales (rule good_change_password)

interpretation create: transaction "\<lambda>now st. create_job cron now st p u" for cron p u
  by unfold_locales (rule good_create_job)

interpretation modify: transaction "\<lambda>now st. update_job cron now st k p cu" for cron k p cu
  by unfold_locales (rule good_update_job)

interpretation delete: transaction "\<lambda>now st. delete_job k cu" for k cu
  by unfold_locales (rule good_delete_job)

interpretation enable: transaction "\<lambda>now st. set_job_enabled cron now k b cu" for cron k b cu
  by unfold_locales (rule good_set_enabled)

interpretation trigger: transaction "\<lambda>now st. trigger_job st k cu t" for k cu t
  by unfold_locales (rule good_trigger)

interpretation scan: transaction "\<lambda>now st. scan_due_jobs cron locked now st" for cron locked
  by unfold_locales (rule good_scan)

interpretation dequeue: transaction "\<lambda>now st. dequeue_next_run locked secs w now st" for locked secs w
  by unfold_locales (rule good_dequeue)

interpretation legacy_dequeue: transaction "\<lambda>now st. dequeue_and_lock locked secs w now st" for locked secs w
  by unfold_locales (rule good_legacy_dequeue)

interpretation release_locks: transaction "\<lambda>now st. release_expired_locks now st"
  by unfold_locales (rule good_release)

interpretation legacy_release: transaction "\<lambda>now st. cleanup_expired_runs now st"
  by unfold_locales (rule good_cleanup)

interpretation beat: transaction "\<lambda>now st. worker_heartbeat now k" for k
  by unfold_locales (auto simp: worker_heartbeat_def none_if_missing_Inr dest: good_heartbeat)

interpretation finish: transaction "\<lambda>now st. finish_run st now k s err out se" for k s err out se
  by unfold_locales (rule good_finish_run)

interpretation status: transaction "\<lambda>now st. update_job_run_status st now k s out se err" for k s out se err
  by unfold_locales (auto simp: update_job_run_status_def result_iff dest: good_update_status)

interpretation first_half: transaction "\<lambda>now st. report_retry st now k s" for k s
  by unfold_locales (rule good_report_retry)

interpretation second_half: transaction "\<lambda>now st. report_output st k x out se err" for k x out se err
  by unfold_locales (rule good_report_output)

interpretation retry: transaction "\<lambda>now st. retry_job_run st k cu" for k cu
  by unfold_locales (auto simp: retry_job_run_def result_iff dest: good_retry)

interpretation cancel: transaction "\<lambda>now st. cancel_job_run st now k cu" for k cu
  by unfold_locales (auto simp: cancel_job_run_def result_iff dest: good_update_status)

interpretation log: transaction "\<lambda>now st. add_log st k level message stream" for k level message stream
  by unfold_locales (rule good_add_log)

interpretation saved_log: transaction "\<lambda>now st. save_job_log st k level message stream"
  for k level message stream
  by unfold_locales (auto simp: save_job_log_def Let_def result_iff intro!: good_add_logs)

interpretation new_run: transaction "\<lambda>now st. create_job_run st now j t b u c" for j t b u c
  by unfold_locales (rule good_create_job_run)

interpretation clear: transaction "\<lambda>now st. clear_all_runs"
  by unfold_locales (rule good_clear)

section \<open>Tasks and turns\<close>

lemma good_begin_task:
  assumes g: "good d"
  shows "good (snd (begin_task locked w now st d))"
proof (cases "worker_dequeue locked w now st d")
  case (Inl e)
  then show ?thesis using g by (simp add: begin_task_def)
next
  case (Inr p)
  obtain got d1 where p: "p = (got, d1)" by (cases p)
  have g1: "good d1"
    using good_dequeue [OF g] Inr by (simp add: p worker_dequeue_def lock_pending_job_def)
  show ?thesis
    using g1 Inr
    by (auto simp: begin_task_def p Let_def split: option.split sum.split dest: good_add_log)
qed

lemma good_on_exception:
  assumes "good d"
  shows "good (snd (on_exception st now k e d))"
  using assms by (auto simp: on_exception_def split: sum.split dest: good_finish_run)

lemma good_end_task:
  assumes "good d"
  shows "good (snd (end_task st now k res d))"
  using assms good_on_exception [OF assms]
  by (auto simp: end_task_def split: sum.split option.split dest: good_finish_run good_await)

fun next_db :: "poll_next \<Rightarrow> db" where
  "next_db (Go d) = d"
| "next_db (Stop d) = d"

lemma good_recorded: "good d \<Longrightarrow> (\<And>r d'. res = Inr (r, d') \<Longrightarrow> good d') \<Longrightarrow> good (next_db (recorded res d))"
  by (auto simp: recorded_def split: sum.split)

lemma good_poll_response:
  assumes g: "good d"
  shows "good (next_db (poll_response st now k resp d))"
proof -
  have "good (next_db (recorded (finish_run st now k s err out se d) d))" for s err out se
    using g good_finish_run [OF g] by (rule good_recorded)
  then show ?thesis using g
    by (auto simp: poll_response_def split: sum.split json.split option.split)
qed

lemma good_poll_run: "good d \<Longrightarrow> good (next_db (poll_run w st now k d))"
  using good_poll_response
  by (auto simp: poll_run_def Let_def split: option.split json.split sum.split)

lemma good_poll_loop: "good d \<Longrightarrow> good (poll_loop w st now i ks d)"
proof (induction ks arbitrary: i d)
  case (Cons k ks)
  have "good (next_db (poll_run w (st i) (now i) k d))" using Cons.prems by (rule good_poll_run)
  then show ?case using Cons.IH by (auto split: poll_next.split)
qed simp

lemma good_scheduler_tick: "good d \<Longrightarrow> good (scheduler_tick cron locked now st now' st' d)"
  by (auto simp: scheduler_tick_def split: sum.split dest: good_scan good_release)

section \<open>Requests\<close>

datatype request =
    Register auth_lib string register_request
  | ChangePassword auth_lib string user string string
  | CreateJob cron_lib job_create user
  | UpdateJob cron_lib string job_update "user option"
  | DeleteJob string "user option"
  | SetEnabled cron_lib string bool "user option"
  | TriggerJob string "user option" string
  | ScanDueJobs cron_lib "string list"
  | Dequeue "string list" int string
  | LegacyDequeue "string list" int string
  | ReleaseLocks
  | LegacyRelease
  | Heartbeat string
  | FinishRun string string "string option" "string option" "string option"
  | UpdateStatus string string "string option" "string option" "string option"
  | ReportRetry string string
  | ReportOutput string string "string option" "string option" "string option"
  | RetryRun string "user option"
  | CancelRun string "user option"
  | AddLog string string string string
  | SaveLog string string string string
  | CreateRun job string bool "string option" int
  | ClearRuns
  | BeginTask "string list" string
  | EndTask string "exec_result result"
  | PollRuns world "nat \<Rightarrow> stamps" "nat \<Rightarrow> datetime"
  | SchedulerTick cron_lib "string list" datetime stamps

fun serve :: "datetime \<Rightarrow> stamps \<Rightarrow> request \<Rightarrow> db \<Rightarrow> db" where
  "serve now st (Register lib salt p) d = after d (register_user lib salt st p d)"
| "serve now st (ChangePassword lib salt u old new) d = after d (change_password lib salt u old new d)"
| "serve now st (CreateJob cron p u) d = after d (create_job cron now st p u d)"
| "serve now st (UpdateJob cron k p cu) d = after d (update_job cron now st k p cu d)"
| "serve now st (DeleteJob k cu) d = after d (delete_job k cu d)"
| "serve now st (SetEnabled cron k b cu) d = after d (set_job_enabled cron now k b cu d)"
| "serve now st (TriggerJob k cu t) d = after d (trigger_job st k cu t d)"
| "serve now st (ScanDueJobs cron locked) d = after d (scan_due_jobs cron locked now st d)"
| "serve now st (Dequeue locked secs w) d = after d (dequeue_next_run locked secs w now st d)"
| "serve now st (LegacyDequeue locked secs w) d = after d (dequeue_and_lock locked secs w now st d)"
| "serve now st ReleaseLocks d = after d (release_expired_locks now st d)"
| "serve now st LegacyRelease d = after d (cleanup_expired_runs now st d)"
| "serve now st (Heartbeat k) d = after d (worker_heartbeat now k d)"
| "serve now st (FinishRun k s err out se) d = after d (finish_run st now k s err out se d)"
| "serve now st (UpdateStatus k s out se err) d = after d (update_job_run_status st now k s out se err d)"
| "serve now st (ReportRetry k s) d = after d (report_retry st now k s d)"
| "serve now st (ReportOutput k x out se err) d = after d (report_output st k x out se err d)"
| "serve now st (RetryRun k cu) d = after d (retry_job_run st k cu d)"
| "serve now st (CancelRun k cu) d = after d (cancel_job_run st now k cu d)"
| "serve now st (AddLog k level message stream) d = after d (add_log st k level message stream d)"
| "serve now st (SaveLog k level message stream) d = after d (save_job_log st k level message stream d)"
| "serve now st (CreateRun j t b u c) d = after d (create_job_run st now j t b u c d)"
| "serve now st ClearRuns d = after d (clear_all_runs d)"
| "serve now st (BeginTask locked w) d = snd (begin_task locked w now st d)"
| "serve now st (EndTask k res) d = snd (end_task st now k res d)"
| "serve now st (PollRuns w sts nows) d = poll_awaiting_runs w sts nows d"
| "serve now st (SchedulerTick cron locked now' st') d = scheduler_tick cron locked now st now' st' d"

text \<open>One request at a time, and the databases they lead to.\<close>

inductive step :: "db \<Rightarrow> db \<Rightarrow> bool" where
  request: "step d (serve now st req d)"

inductive reachable :: "db \<Rightarrow> bool" where
  start: "reachable empty_db"
| step: "reachable d \<Longrightarrow> step d d' \<Longrightarrow> reachable d'"

inductive_cases stepE: "step d d'"

text \<open>A list of timed requests, served in order.\<close>

fun serve_all :: "(datetime \<times> stamps \<times> request) list \<Rightarrow> db \<Rightarrow> db" where
  "serve_all [] d = d"
| "serve_all ((now, st, req) # reqs) d = serve_all reqs (serve now st req d)"

section \<open>The invariant is kept\<close>

lemma good_serve: "good d \<Longrightarrow> good (serve now st req d)"
proof (cases req)
  case (BeginTask locked w)
  assume "good d"
  then show ?thesis using BeginTask good_begin_task by simp
next
  case (EndTask k res)
  assume "good d"
  then show ?thesis using EndTask good_end_task by simp
next
  case (PollRuns w sts nows)
  assume "good d"
  then show ?thesis using PollRuns good_poll_loop by (simp add: poll_awaiting_runs_def)
next
  case (SchedulerTick cron locked now' st')
  assume "good d"
  then show ?thesis using SchedulerTick good_scheduler_tick by simp
qed (simp_all add: register.served password.served create.served modify.served delete.served
    enable.served trigger.served scan.served dequeue.served legacy_dequeue.served
    release_locks.served legacy_release.served beat.served finish.served status.served
    first_half.served second_half.served retry.served cancel.served log.served saved_log.served new_run.served clear.served)

lemma good_empty: "good empty_db"
  by (simp add: good_def empty_db_def) (use valid_empty in \<open>simp add: empty_db_def\<close>)

lemma good_step: "step d d' \<Longrightarrow> good d \<Longrightarrow> good d'"
  by (erule stepE) (simp add: good_serve)

lemma reachable_good_aux: "reachable d \<Longrightarrow> good d"
  by (induction rule: reachable.induct) (auto intro: good_empty good_step)

lemma reachable_serve_all: "reachable d \<Longrightarrow> reachable (serve_all reqs d)"
proof (induction reqs arbitrary: d)
  case (Cons req reqs)
  obtain now st r where req: "req = (now, st, r)" by (cases req)
  have "reachable (serve now st r d)" using Cons.prems step.request by (rule reachable.step)
  then show ?case using Cons.IH by (simp add: req)
qed simp

section \<open>Four requests\<close>

text \<open>A user registers, creates a job and triggers it, and a worker pulls the run.\<close>

definition demo_requests :: "(datetime \<times> stamps \<times> request) list" where
  "demo_requests =
     [(Aware 0, \<lambda>i. (''u7'', Aware 0), Register toy_lib ''s'' (RegisterRequest ''bob'' ''secret'')),
      (Aware 1, \<lambda>i. (''j7'', Aware 1), CreateJob no_cron (JobCreate ''report'') (alice\<lparr>u_id := ''u7''\<rparr>)),
      (Aware 2, \<lambda>i. (''r7'', Aware 2), TriggerJob ''j7'' None ''manual''),
      (Aware 3, \<lambda>i. (''l7'', Aware 3), Dequeue [] 60 ''w1'')]"

end
