(* ===== verification/Lifecycle.thy ===== *)
theory Lifecycle
  imports System
begin

text \<open>
  The life of a run as an abstract state machine, and that every request refines it: what any
  request, worker task, poll or scheduler turn does to a run is one of the moves allowed to
  this kind of request. The machine sees only the status; the lemmas below say what each
  operation of JobRunService and QueueService does to the status of every run.
\<close>

section \<open>The abstract machine\<close>

datatype phase = Absent | Pending | Running | AwaitingResult | Ended string

fun phase_of_status :: "string option \<Rightarrow> phase" where
  "phase_of_status None = Absent"
| "phase_of_status (Some s) =
     (if s = ''pending'' then Pending else if s = ''running'' then Running
      else if s = ''awaiting_result'' then AwaitingResult else Ended s)"

text \<open>Which requests may queue a new run, pull one, give one back, delete runs, and report a
  status of the run they name.\<close>

fun queues :: "request \<Rightarrow> bool" where
  "queues (TriggerJob j cu t) = True"
| "queues (RetryRun k cu) = True"
| "queues (ScanDueJobs cron locked) = True"
| "queues (SchedulerTick cron locked now' st') = True"
| "queues (FinishRun k s err out se) = (s \<in> {''failed'', ''timeout''})"
| "queues (UpdateStatus k s out se err) = (s \<in> {''failed'', ''timeout''})"
| "queues (ReportRetry k s) = True"
| "queues (EndTask k res) = True"
| "queues (PollRuns w sts nows) = True"
| "queues (CreateRun j t b u c) = b"
| "queues req = False"

fun pulls :: "request \<Rightarrow> bool" where
  "pulls (Dequeue locked secs w) = True"
| "pulls (LegacyDequeue locked secs w) = True"
| "pulls (BeginTask locked w) = True"
| "pulls req = False"

fun gives_back :: "request \<Rightarrow> bool" where
  "gives_back ReleaseLocks = True"
| "gives_back LegacyRelease = True"
| "gives_back (SchedulerTick cron locked now' st') = True"
| "gives_back req = False"

fun deletes :: "request \<Rightarrow> bool" where
  "deletes (DeleteJob j cu) = True"
| "deletes ClearRuns = True"
| "deletes req = False"

fun reports :: "request \<Rightarrow> string \<Rightarrow> string \<Rightarrow> bool" where
  "reports (FinishRun k s err out se) i t = (i = k \<and> t = s)"
| "reports (UpdateStatus k s out se err) i t = (i = k \<and> t = s)"
| "reports (ReportRetry k s) i t = (i = k \<and> t = s)"
| "reports (CancelRun k cu) i t = (i = k \<and> t = ''canceled'')"
| "reports (EndTask k res) i t = (i = k \<and> t \<in> {settled_status res, ''failed''})"
| "reports req i t = False"

fun polls :: "request \<Rightarrow> bool" where
  "polls (PollRuns w sts nows) = True"
| "polls req = False"

inductive life :: "request \<Rightarrow> string \<Rightarrow> phase \<Rightarrow> phase \<Rightarrow> bool" for req k where
  stays: "life req k p p"
| queued: "queues req \<Longrightarrow> life req k Absent Pending"
| opened: "req = CreateRun j t False u c \<Longrightarrow> life req k Absent Running"
| pulled: "pulls req \<Longrightarrow> life req k Pending Running"
| given_back: "gives_back req \<Longrightarrow> life req k Running Pending"
| reported: "reports req k s \<Longrightarrow> p \<noteq> Absent \<Longrightarrow> s \<noteq> ''pending'' \<Longrightarrow> life req k p (phase_of_status (Some s))"
| polled: "polls req \<Longrightarrow> s \<in> {''success'', ''failed''} \<Longrightarrow> life req k AwaitingResult (Ended s)"
| deleted: "deletes req \<Longrightarrow> life req k p Absent"

inductive_cases life_EndedE: "life req k (Ended s) p"

section \<open>The status of a run under each operation\<close>

definition status_of :: "db \<Rightarrow> string \<Rightarrow> string option" where
  "status_of d k = map_option r_status (get_run_row k d)"

definition phase_of :: "db \<Rightarrow> string \<Rightarrow> phase" where
  "phase_of d k = phase_of_status (status_of d k)"

text \<open>Nothing changes but that a run may be queued.\<close>

definition grows :: "db \<Rightarrow> db \<Rightarrow> string \<Rightarrow> bool" where
  "grows d d' k \<longleftrightarrow> status_of d' k = status_of d k
     \<or> status_of d k = None \<and> status_of d' k = Some ''pending''"

lemma grows_refl [simp]: "grows d d k"
  by (simp add: grows_def)

lemma grows_trans: "grows d d1 k \<Longrightarrow> grows d1 d2 k \<Longrightarrow> grows d d2 k"
  by (auto simp: grows_def)

lemma status_same: "db_runs d' = db_runs d \<Longrightarrow> status_of d' k = status_of d k"
  by (simp add: status_of_def get_run_row_def)

lemma status_add_logs [simp]: "status_of (add_logs ls d) k = status_of d k"
  by (rule status_same) simp

lemma status_put_run: "status_of (put_run r d) k =
    (if k = r_id r \<and> status_of d k \<noteq> None then Some (r_status r) else status_of d k)"
  by (cases "k = r_id r"; cases "get_run_row k d") (auto simp: status_of_def rows)

lemma status_upd_run:
  assumes "\<And>r. r_id (f r) = r_id r"
  shows "status_of (upd_run k f d) i = (if i = k then map_option (\<lambda>r. r_status (f r)) (get_run_row i d) else status_of d i)"
  using assms by (simp add: status_of_def rows option.map_comp comp_def)

lemma status_add_runs: "status_of (add_runs rs d) k =
    (case status_of d k of None \<Rightarrow> map_option r_status (row_get r_id k rs) | Some s \<Rightarrow> Some s)"
  by (simp add: status_of_def rows split: option.split)

lemma grows_add_runs:
  assumes "\<forall>r \<in> set rs. r_status r = ''pending''"
  shows "grows d (add_runs rs d) k"
proof (cases "row_get r_id k rs")
  case (Some r)
  then have "r_status r = ''pending''" using assms by (blast dest: row_get_SomeD)
  then show ?thesis using Some by (simp add: grows_def status_add_runs split: option.split)
qed (simp add: grows_def status_add_runs split: option.split)

lemma status_map_runs:
  assumes "\<And>r. r_id (f r) = r_id r"
  shows "status_of (d\<lparr>db_runs := map f (db_runs d)\<rparr>) k = map_option (\<lambda>r. r_status (f r)) (get_run_row k d)"
proof -
  have "row_get r_id k (map f rs) = map_option f (row_get r_id k rs)" for rs
    using assms by (induction rs) (simp_all add: row_get_Cons)
  then show ?thesis by (simp add: status_of_def get_run_row_def repo_get_def option.map_comp comp_def)
qed

section \<open>Outcomes\<close>

lemma grows_retry_run:
  assumes "retry_run st k u d = Inr (n, d')"
  shows "grows d d' i"
proof -
  obtain r where "d' = add_logs [JobLog (st 2) k ''info'' ''system'' (''Retry created: '' @ opt_str None)]
      (add_runs [retry_row (st 1) u r] d)"
    using assms by (auto simp: retry_run_def result_iff split: if_splits)
  moreover have "grows d (add_runs [retry_row (st 1) u r] d) i" by (rule grows_add_runs) simp
  ultimately show ?thesis by (simp add: grows_def)
qed

lemma grows_auto_retry: "auto_retry st k d = Inr d' \<Longrightarrow> grows d d' i"
  using grows_retry_run [of st k None d] by (fastforce simp: auto_retry_def grows_def result_iff split: sum.splits if_splits)

text \<open>Only a failure or a timeout queues a retry.\<close>

definition may_grow :: "string \<Rightarrow> db \<Rightarrow> db \<Rightarrow> string \<Rightarrow> bool" where
  "may_grow s d d' i \<longleftrightarrow> status_of d' i = status_of d i \<or> s \<in> {''failed'', ''timeout''} \<and> grows d d' i"

lemma may_grow_same: "status_of d' i = status_of d i \<Longrightarrow> may_grow s d d' i"
  by (simp add: may_grow_def)

lemma apply_status_terminal_status:
  assumes k: "r_id r = k" and st: "status_of d k = Some (r_status r)"
    and s: "s \<in> {''success'', ''failed'', ''timeout'', ''canceled''}" and ok: "apply_status st now s r d = Inr d'"
  shows "(i \<noteq> k \<longrightarrow> may_grow s d d' i) \<and> status_of d' k = Some s"
proof -
  let ?d1 = "finished_db st now s r d"
  have "s \<noteq> ''running''" using s by auto
  then have "d' = ?d1 \<or> s \<in> {''failed'', ''timeout''} \<and> auto_retry st (r_id r) ?d1 = Inr d'"
    using ok s
    by (simp only: apply_status_def complete_eq bind_result_simps finish_row_def [symmetric]
        finished_db_def [symmetric] Let_def if_False if_True)
       (auto simp: bind_result_Inr_iff split: if_splits)
  then have g: "d' = ?d1 \<or> s \<in> {''failed'', ''timeout''} \<and> (\<forall>i. grows ?d1 d' i)"
    using grows_auto_retry by blast
  have d1: "status_of ?d1 i = (if i = k then Some s else status_of d i)" for i
    using k st by (simp add: finished_db_def status_put_run)
  have g2: "status_of d' j = status_of ?d1 j \<or> s \<in> {''failed'', ''timeout''} \<and> grows ?d1 d' j" for j
    using g by blast
  have "status_of d' k = Some s" using g2 [of k] d1 [of k] by (auto simp: grows_def)
  moreover have "may_grow s d d' i" if "i \<noteq> k"
    using g2 [of i] d1 [of i] that by (auto simp: may_grow_def grows_def)
  ultimately show ?thesis by blast
qed

lemma apply_status_status:
  assumes r: "get_run_row k d = Some r" and ok: "apply_status st now s r d = Inr d'"
  shows "(i \<noteq> k \<longrightarrow> may_grow s d d' i) \<and> status_of d' k
      = Some (if s \<in> {''running'', ''success'', ''failed'', ''timeout'', ''canceled''} then s else r_status r)"
proof -
  have k: "r_id r = k" and st: "status_of d k = Some (r_status r)"
    using r by (auto simp: status_of_def dest: get_run_row_SomeD)
  consider (running) "s = ''running''" | (final) "s \<in> {''success'', ''failed'', ''timeout'', ''canceled''}"
    | (other) "s \<notin> {''success'', ''failed'', ''timeout'', ''canceled''}" "s \<noteq> ''running''" by blast
  then show ?thesis
  proof cases
    case running
    then have "d' = put_run (start (Some now) now r) d" using ok by (simp add: apply_status_def)
    then show ?thesis using running k st by (simp add: may_grow_def status_put_run)
  next
    case other
    then have "d' = d" using ok by (auto simp: apply_status_def)
    then show ?thesis using other st by (auto simp: may_grow_def)
  next
    case final
    then show ?thesis using apply_status_terminal_status [OF k st final ok] by auto
  qed
qed

text \<open>What a report on \<open>k\<close> does to the run \<open>i\<close>.\<close>

definition told :: "string \<Rightarrow> string \<Rightarrow> db \<Rightarrow> db \<Rightarrow> string \<Rightarrow> bool" where
  "told k s d d' i \<longleftrightarrow> may_grow s d d' i
     \<or> i = k \<and> status_of d k \<noteq> None \<and> s \<noteq> ''pending'' \<and> status_of d' k = Some s"

lemma told_refl [simp]: "told k s d d i"
  by (simp add: told_def may_grow_def)

lemma told_update_status:
  assumes "update_status st now k s out se err d = Inr (r', d')"
  shows "told k s d d' i"
proof -
  obtain r d1 where r: "get_run_row k d = Some r" and app: "apply_status st now s r d = Inr d1"
    and d': "d' = add_logs (output_logs st k out se err) (upd_run k (set_output out se err) d1)"
    using assms by (auto simp: update_status_def result_iff)
  have same: "status_of d' j = status_of d1 j" for j
    by (simp add: d' status_upd_run set_output_def status_of_def [of d1])
  have st: "status_of d k = Some (r_status r)" using r by (simp add: status_of_def)
  note A = apply_status_status [OF r app]
  show ?thesis
  proof (cases "i = k")
    case False
    then show ?thesis using A [of i] by (simp add: told_def may_grow_def grows_def same)
  next
    case True
    have "status_of d' k = Some s \<and> s \<noteq> ''pending'' \<or> status_of d' k = Some (r_status r)"
      using A [of k] same [of k] by auto
    then show ?thesis using True st by (auto simp: told_def may_grow_def)
  qed
qed

lemma told_report_retry:
  assumes v: "valid d" and ok: "report_retry st now k s d = Inr (got, d')"
  shows "told k s d d' i"
proof (cases got)
  case None
  then show ?thesis using ok by (auto simp: report_retry_def result_iff split: if_splits)
next
  case (Some n)
  from v ok [unfolded Some] obtain r where r: "get_run_row k d = Some r"
    and s: "s \<in> {''failed'', ''timeout''}"
    and app: "apply_status st now s r d
     = Inr (add_logs [JobLog (st 3) k ''info'' ''system'' (''Automatic retry triggered: '' @ r_id n)] d')"
    by (rule report_retry_InrD)
  have st: "status_of d k = Some (r_status r)" using r by (simp add: status_of_def)
  have ne: "s \<noteq> ''pending''" and f: "s \<in> {''running'', ''success'', ''failed'', ''timeout'', ''canceled''}"
    using s by auto
  have "(i \<noteq> k \<longrightarrow> may_grow s d d' i) \<and> status_of d' k = Some s"
    using apply_status_status [OF r app, of i] f
    by (simp only: may_grow_def grows_def status_add_logs if_True) blast
  then have A: "i \<noteq> k \<longrightarrow> may_grow s d d' i" "status_of d' k = Some s" by blast+
  show ?thesis
  proof (cases "i = k")
    case True
    then show ?thesis unfolding told_def using A(2) st ne by simp
  qed (use A(1) in \<open>simp add: told_def\<close>)
qed

lemma status_report_output:
  assumes "report_output st k x out se err d = Inr (r', d')"
  shows "status_of d' i = status_of d i"
proof -
  have "d' = output_db st k out se err
      (add_logs [JobLog (st 3) k ''info'' ''system'' (''Automatic retry triggered: '' @ x)] d)"
    using assms by (rule report_output_InrD)
  then show ?thesis
    by (simp add: output_db_def status_upd_run)
       (simp add: status_of_def rows option.map_comp comp_def)
qed

lemma told_finish_run: "finish_run st now k s err out se d = Inr (got, d') \<Longrightarrow> told k s d d' i"
  by (auto simp: finish_run_def none_if_missing_Inr dest: told_update_status)

lemma told_await:
  assumes "await_result k x out d = Inr d'"
  shows "told k ''awaiting_result'' d d' i"
proof -
  obtain r where r: "get_run_row k d = Some r" and d': "d' = upd_run k (await_row x out) d"
    using assms by (auto simp: await_result_def result_iff split: if_splits)
  have "status_of d' i = (if i = k then Some ''awaiting_result'' else status_of d i)"
    by (simp add: d' status_upd_run r)
  moreover have "status_of d k \<noteq> None" using r by (simp add: status_of_def)
  ultimately show ?thesis by (auto simp: told_def may_grow_def)
qed

lemma told_on_exception: "told k ''failed'' d (snd (on_exception st now k e d)) i"
  by (auto simp: on_exception_def dest: told_finish_run split: sum.split)

lemma told_end_task: "\<exists>t \<in> {settled_status res, ''failed''}. told k t d (snd (end_task st now k res d)) i"
proof (cases res)
  case (Inl e)
  then show ?thesis using told_on_exception by (simp add: end_task_def)
next
  case (Inr x)
  show ?thesis
  proof (cases "x_external_id x")
    case None
    then show ?thesis using told_on_exception Inr
      by (auto simp: end_task_def settled_status_Inr dest: told_finish_run split: sum.split)
  next
    case (Some ext)
    then show ?thesis using told_on_exception Inr
      by (auto simp: end_task_def settled_status_Inr dest: told_await split: sum.split)
  qed
qed

section \<open>Polling\<close>

text \<open>A poll of \<open>ks\<close> ends runs of \<open>ks\<close> and queues retries.\<close>

definition polled_to :: "string list \<Rightarrow> db \<Rightarrow> db \<Rightarrow> string \<Rightarrow> bool" where
  "polled_to ks d d' i \<longleftrightarrow> grows d d' i
     \<or> i \<in> set ks \<and> status_of d i \<noteq> None \<and> status_of d' i \<in> {Some ''success'', Some ''failed''}"

lemma polled_recorded:
  assumes "s \<in> {''success'', ''failed''}" and "k \<in> set ks"
  shows "polled_to ks d (next_db (recorded (finish_run st now k s err out se d) d)) i"
proof (cases "finish_run st now k s err out se d")
  case (Inl e)
  then show ?thesis by (simp add: recorded_def polled_to_def)
next
  case (Inr p)
  then have "told k s d (snd p) i" by (cases p) (auto dest: told_finish_run)
  then show ?thesis using assms Inr
    by (cases p) (auto simp: recorded_def polled_to_def told_def may_grow_def grows_def)
qed

lemma polled_poll_run:
  assumes "k \<in> set ks"
  shows "polled_to ks d (next_db (poll_run w st now k d)) i"
proof -
  have "polled_to ks d (next_db (poll_response st now k resp d)) i" for resp
    using polled_recorded [OF _ assms]
    by (auto simp: poll_response_def polled_to_def [of ks d d] split: sum.split json.split option.split)
  then show ?thesis
    by (auto simp: poll_run_def Let_def polled_to_def [of ks d d] split: option.split json.split sum.split)
qed

lemma polled_to_trans: "polled_to ks d d1 i \<Longrightarrow> polled_to ks d1 d2 i \<Longrightarrow> (status_of d i = None \<Longrightarrow> i \<notin> set ks)
    \<Longrightarrow> polled_to ks d d2 i"
  by (auto simp: polled_to_def grows_def)

lemma polled_poll_loop:
  "set js \<subseteq> set ks \<Longrightarrow> (status_of d i = None \<Longrightarrow> i \<notin> set ks) \<Longrightarrow> polled_to ks d (poll_loop w st now n js d) i"
proof (induction js arbitrary: n d)
  case Nil
  then show ?case by (simp add: polled_to_def)
next
  case (Cons k js)
  have p: "polled_to ks d (next_db (poll_run w (st n) (now n) k d)) i"
    using Cons.prems(1) by (intro polled_poll_run) simp
  show ?case
  proof (cases "poll_run w (st n) (now n) k d")
    case (Stop d')
    then show ?thesis using p by simp
  next
    case (Go d')
    then have "polled_to ks d d' i" using p by simp
    moreover have "polled_to ks d' (poll_loop w st now (Suc n) js d') i"
      using Cons.prems \<open>polled_to ks d d' i\<close> by (intro Cons.IH) (auto simp: polled_to_def grows_def)
    ultimately show ?thesis using Go Cons.prems(2) polled_to_trans by simp
  qed
qed

lemma poll_status:
  "grows d (poll_awaiting_runs w st now d) i
   \<or> status_of d i = Some ''awaiting_result'' \<and> status_of (poll_awaiting_runs w st now d) i \<in> {Some ''success'', Some ''failed''}"
  if "valid d"
proof -
  let ?ks = "map r_id (filter (\<lambda>r. r_status r = ''awaiting_result'') (db_runs d))"
  have ks: "i \<in> set ?ks \<Longrightarrow> status_of d i = Some ''awaiting_result''"
    using get_run_row_iff [OF that] by (fastforce simp: status_of_def)
  then have "polled_to ?ks d (poll_awaiting_runs w st now d) i"
    unfolding poll_awaiting_runs_def by (intro polled_poll_loop) auto
  then show ?thesis using ks by (auto simp: polled_to_def)
qed

section \<open>The queue\<close>

lemma status_in: "valid d \<Longrightarrow> r \<in> set (db_runs d) \<Longrightarrow> status_of d (r_id r) = Some (r_status r)"
  using get_run_row_iff [of d "r_id r" r] by (simp add: status_of_def)

definition pulled_to :: "db \<Rightarrow> db \<Rightarrow> string \<Rightarrow> bool" where
  "pulled_to d d' i \<longleftrightarrow> status_of d' i = status_of d i
     \<or> status_of d i = Some ''pending'' \<and> status_of d' i = Some ''running''"

lemma pulled_put_run:
  assumes "valid d" and "run \<in> set (db_runs d)" and "r_status run = ''pending''"
    and "r_id r = r_id run" and "r_status r = ''running''"
  shows "pulled_to d (add_logs ls (put_run r d)) i"
  using assms status_in [OF assms(1,2)] by (auto simp: pulled_to_def status_put_run)

lemma pulled_dequeue:
  assumes v: "valid d" and ok: "dequeue_next_run locked secs w now st d = Inr (got, d')"
  shows "pulled_to d d' i"
proof (cases got)
  case None
  then show ?thesis using ok v dequeue_next_run_None(1) by (fastforce simp: pulled_to_def)
next
  case (Some r)
  from ok [unfolded Some] obtain run where run: "dequeue_loop locked d [] = Some run"
    and r: "r = lock_run w (shift (secs * second_us) now) now run"
    and d': "d' = add_logs [JobLog (st 0) (r_id run) ''info'' ''system'' (''Locked by '' @ w)] (put_run r d)"
    by (rule dequeue_next_run_SomeD)
  have "run \<in> set (db_runs d)" "r_status run = ''pending''"
    using dequeue_loop_SomeD [OF run] by (auto simp: run_available_def)
  then show ?thesis unfolding d' using v by (intro pulled_put_run) (simp_all add: r lock_run_def)
qed

lemma pulled_legacy_dequeue:
  assumes v: "valid d" and ok: "dequeue_and_lock locked secs w now st d = Inr (got, d')"
  shows "pulled_to d d' i"
proof (cases got)
  case None
  then show ?thesis using ok v dequeue_and_lock_None by (fastforce simp: pulled_to_def)
next
  case (Some r)
  from ok [unfolded Some] v obtain run where
    run: "get_run_row (r_id run) d = Some run" "r_status run = ''pending''" "r_id r = r_id run" "r_status r = ''running''"
    and d': "d' = add_logs [JobLog (st 0) (r_id run) ''info'' ''system'' (''Locked by '' @ w)] (put_run r d)"
    by (rule dequeue_and_lock_SomeD)
  then show ?thesis unfolding d' using v by (intro pulled_put_run) (auto dest: get_run_row_SomeD)
qed

lemma pulled_begin_task:
  assumes v: "valid d"
  shows "pulled_to d (snd (begin_task locked w now st d)) i"
proof (cases "worker_dequeue locked w now st d")
  case (Inl e)
  then show ?thesis by (simp add: begin_task_def pulled_to_def)
next
  case (Inr p)
  obtain got d1 where p: "p = (got, d1)" by (cases p)
  have d1: "pulled_to d d1 i"
    using pulled_dequeue [OF v] Inr by (simp add: p worker_dequeue_def lock_pending_job_def)
  have "status_of (snd (begin_task locked w now st d)) i = status_of d1 i"
    using Inr by (auto simp: begin_task_def p Let_def add_log_def result_iff split: option.split sum.split)
  then show ?thesis using d1 by (simp add: pulled_to_def)
qed

definition given_back_to :: "db \<Rightarrow> db \<Rightarrow> string \<Rightarrow> bool" where
  "given_back_to d d' i \<longleftrightarrow> status_of d' i = status_of d i
     \<or> status_of d i = Some ''running'' \<and> status_of d' i = Some ''pending''"

lemma given_back_map:
  assumes "\<And>r. r_id (f r) = r_id r" and "\<And>r. r_status (f r) = ''pending''"
  shows "given_back_to d (add_logs ls (d\<lparr>db_runs := map (\<lambda>r. if run_expired now r then f r else r) (db_runs d)\<rparr>)) i"
proof -
  have "status_of (d\<lparr>db_runs := map (\<lambda>r. if run_expired now r then f r else r) (db_runs d)\<rparr>) i
      = map_option (\<lambda>r. r_status (if run_expired now r then f r else r)) (get_run_row i d)"
    using assms(1) by (intro status_map_runs) simp
  then show ?thesis using assms(2)
    by (cases "get_run_row i d") (auto simp: given_back_to_def status_of_def [of d] run_expired_def)
qed

lemma given_back_release: "release_expired_locks now st d = Inr (n, d') \<Longrightarrow> given_back_to d d' i"
  by (auto simp: release_expired_locks_def Let_def result_iff release_def intro!: given_back_map)

lemma given_back_cleanup: "cleanup_expired_runs now st d = Inr (n, d') \<Longrightarrow> given_back_to d d' i"
  by (auto simp: cleanup_expired_runs_def Let_def result_iff cleanup_release_def intro!: given_back_map)

section \<open>New and deleted runs\<close>

lemma grows_trigger: "trigger_job st k cu t d = Inr (r, d') \<Longrightarrow> grows d d' i"
  by (auto simp: trigger_job_def Let_def result_iff triggered_run_def split: if_splits intro!: grows_add_runs)

lemma grows_scan:
  assumes v: "valid d" and ok: "scan_due_jobs cron locked now st d = Inr (rs, d')"
  shows "grows d d' i"
proof -
  note S = scan_due_jobs_InrD [OF v ok]
  have "\<forall>r \<in> set rs. r_status r = ''pending''" unfolding S(1) by (auto elim!: scan_runs_mem)
  then have "grows d (add_runs rs d) i" by (rule grows_add_runs)
  moreover have "status_of d' i = status_of (add_runs rs d) i" by (rule status_same) (simp add: S(3))
  ultimately show ?thesis by (simp add: grows_def)
qed

lemma status_create_run:
  assumes "create_job_run st now j t b u c d = Inr (r, d')"
  shows "status_of d' i = status_of d i
     \<or> status_of d i = None \<and> status_of d' i = Some (if b then ''pending'' else ''running'')"
proof -
  have "d' = add_runs [new_job_run (st 0) now j t b u c] d"
    using assms by (auto simp: create_job_run_def Let_def result_iff)
  moreover have "r_status (new_job_run (st 0) now j t b u c) = (if b then ''pending'' else ''running'')"
    by (simp add: new_job_run_def Let_def start_def)
  ultimately show ?thesis by (auto simp: status_add_runs row_get_Cons split: option.split)
qed

lemma status_heartbeat: "heartbeat now k d = Inr (r', d') \<Longrightarrow> status_of d' i = status_of d i"
proof -
  assume "heartbeat now k d = Inr (r', d')"
  then obtain r where r: "get_run_row k d = Some r" and d': "d' = put_run (r\<lparr>r_heartbeat_at := Some now\<rparr>) d"
    by (auto simp: heartbeat_def result_iff)
  have "r_id r = k" "status_of d k = Some (r_status r)" using r by (auto simp: status_of_def dest: get_run_row_SomeD)
  then show ?thesis by (simp add: d' status_put_run)
qed

lemma status_delete_job:
  assumes v: "valid d" and ok: "delete_job k cu d = Inr (m, d')"
  shows "status_of d' i = status_of d i \<or> status_of d' i = None"
proof (cases "get_run_row i d'")
  case (Some r)
  obtain j where d': "d' = delete_rows j d" using ok by (auto simp: delete_job_def result_iff)
  have "r \<in> set (db_runs d')" "r_id r = i" using Some by (auto dest: get_run_row_SomeD)
  then have "r \<in> set (db_runs d)" by (auto simp: d' delete_rows_def Let_def set_row_del)
  then have "status_of d i = Some (r_status r)" using status_in [OF v] \<open>r_id r = i\<close> by blast
  then show ?thesis using Some by (simp add: status_of_def [of d'])
qed (simp add: status_of_def)

section \<open>The refinement\<close>

lemma life_same: "status_of d' k = status_of d k \<Longrightarrow> life req k (phase_of d k) (phase_of d' k)"
  by (simp add: phase_of_def life.stays)

lemma life_grows: "grows d d' k \<Longrightarrow> queues req \<Longrightarrow> life req k (phase_of d k) (phase_of d' k)"
  by (auto simp: grows_def phase_of_def intro: life.stays life.queued)

lemma life_pulled: "pulled_to d d' k \<Longrightarrow> pulls req \<Longrightarrow> life req k (phase_of d k) (phase_of d' k)"
  by (auto simp: pulled_to_def phase_of_def intro: life.stays life.pulled)

lemma life_given_back: "given_back_to d d' k \<Longrightarrow> gives_back req \<Longrightarrow> life req k (phase_of d k) (phase_of d' k)"
  by (auto simp: given_back_to_def phase_of_def intro: life.stays life.given_back)

lemma present_phase: "status_of d k \<noteq> None \<Longrightarrow> phase_of d k \<noteq> Absent"
  by (cases "status_of d k") (auto simp: phase_of_def)

lemma life_told:
  assumes "told i s d d' k" and "reports req i s" and "s \<in> {''failed'', ''timeout''} \<Longrightarrow> queues req"
  shows "life req k (phase_of d k) (phase_of d' k)"
proof (cases "may_grow s d d' k")
  case True
  then show ?thesis using assms(3) life_grows life_same by (auto simp: may_grow_def)
next
  case False
  then have t: "k = i" "status_of d k \<noteq> None" "s \<noteq> ''pending''" "status_of d' k = Some s"
    using assms(1) by (auto simp: told_def)
  then have "life req k (phase_of d k) (phase_of_status (Some s))"
    using assms(2) present_phase by (intro life.reported) auto
  then show ?thesis using t(4) by (simp only: phase_of_def)
qed

lemma life_after:
  assumes "\<And>x d'. res = Inr (x, d') \<Longrightarrow> life req k (phase_of d k) (phase_of d' k)"
  shows "life req k (phase_of d k) (phase_of (after d res) k)"
  using assms by (auto simp: after_def intro: life.stays split: sum.split)

lemma tick_life:
  assumes "valid d"
  shows "life (SchedulerTick cron locked now' st') k (phase_of d k)
     (phase_of (scheduler_tick cron locked now st now' st' d) k)"
proof (cases "scan_due_jobs cron locked now st d")
  case (Inl e)
  then show ?thesis by (simp add: scheduler_tick_def life.stays)
next
  case (Inr p)
  obtain rs d1 where p: "p = (rs, d1)" by (cases p)
  have g: "grows d d1 k" using grows_scan [OF assms] Inr by (simp add: p)
  show ?thesis
  proof (cases "release_expired_locks now' st' d1")
    case (Inl e)
    then show ?thesis using g Inr by (simp add: scheduler_tick_def p life_grows)
  next
    case (Inr q)
    obtain n d2 where q: "q = (n, d2)" by (cases q)
    have b: "given_back_to d1 d2 k" using given_back_release Inr by (simp add: q)
    have "life (SchedulerTick cron locked now' st') k (phase_of d k) (phase_of d2 k)"
    proof (cases "status_of d1 k = status_of d k")
      case True
      then have "given_back_to d d2 k" using b by (simp add: given_back_to_def)
      then show ?thesis by (rule life_given_back) simp
    next
      case False
      then have "grows d d2 k" using g b by (auto simp: grows_def given_back_to_def)
      then show ?thesis by (rule life_grows) simp
    qed
    then show ?thesis using \<open>scan_due_jobs cron locked now st d = Inr p\<close> Inr by (simp add: scheduler_tick_def p q)
  qed
qed

lemma poll_life:
  assumes "valid d"
  shows "life (PollRuns w sts nows) k (phase_of d k) (phase_of (poll_awaiting_runs w sts nows d) k)"
  using poll_status [OF assms, where w = w and st = sts and now = nows and i = k]
proof (elim disjE conjE)
  assume "grows d (poll_awaiting_runs w sts nows d) k"
  then show ?thesis by (rule life_grows) simp
next
  assume s: "status_of d k = Some ''awaiting_result''"
    and "status_of (poll_awaiting_runs w sts nows d) k \<in> {Some ''success'', Some ''failed''}"
  then obtain t where "t \<in> {''success'', ''failed''}" "status_of (poll_awaiting_runs w sts nows d) k = Some t" by blast
  then have "phase_of (poll_awaiting_runs w sts nows d) k = Ended t" by (auto simp: phase_of_def)
  moreover have "phase_of d k = AwaitingResult" using s by (simp add: phase_of_def)
  ultimately show ?thesis using \<open>t \<in> {''success'', ''failed''}\<close> by (simp add: life.polled)
qed

lemma end_task_life: "life (EndTask i res) k (phase_of d k) (phase_of (snd (end_task st now i res d)) k)"
proof -
  obtain t where t: "t \<in> {settled_status res, ''failed''}" and told: "told i t d (snd (end_task st now i res d)) k"
    using told_end_task [of res i d st now k] by blast
  show ?thesis by (rule life_told [OF told]) (use t in simp_all)
qed

lemma deleted_life: "life (DeleteJob j cu) k p Absent" "life ClearRuns k p Absent"
  by (rule life.deleted, simp)+

lemma delete_life:
  assumes "valid d" and "delete_job j cu d = Inr (m, d')"
  shows "life (DeleteJob j cu) k (phase_of d k) (phase_of d' k)"
  using status_delete_job [OF assms, of k]
  by (auto simp: phase_of_def intro: life.stays deleted_life)

lemma clear_life: "clear_all_runs d = Inr (m, d') \<Longrightarrow> life ClearRuns k (phase_of d k) (phase_of d' k)"
  by (auto simp: clear_all_runs_def result_iff phase_of_def [of "d\<lparr>db_logs := [], db_runs := []\<rparr>"]
      status_of_def get_run_row_def repo_get_def intro: deleted_life)

lemma create_run_life:
  assumes "create_job_run st now j t b u c d = Inr (r, d')"
  shows "life (CreateRun j t b u c) k (phase_of d k) (phase_of d' k)"
proof -
  have "b \<Longrightarrow> life (CreateRun j t b u c) k Absent Pending" by (rule life.queued) simp
  moreover have "\<not> b \<Longrightarrow> life (CreateRun j t b u c) k Absent Running" by (rule life.opened) simp
  ultimately show ?thesis using status_create_run [OF assms, of k]
    by (cases b) (auto simp: phase_of_def intro: life.stays)
qed

lemma log_status:
  "add_log st k level message stream d = Inr (l, d') \<Longrightarrow> status_of d' i = status_of d i"
  "save_job_log st k level message stream d = Inr (l, d') \<Longrightarrow> status_of d' i = status_of d i"
  by (auto simp: add_log_def save_job_log_def Let_def result_iff)

lemma job_write_status:
  "create_job cron now st p u d = Inr (j, d') \<Longrightarrow> status_of d' i = status_of d i"
  "update_job cron now st k q cu d = Inr (j, d') \<Longrightarrow> status_of d' i = status_of d i"
  "set_job_enabled cron now k b cu d = Inr (j, d') \<Longrightarrow> status_of d' i = status_of d i"
proof -
  assume "create_job cron now st p u d = Inr (j, d')"
  then have "db_runs d' = db_runs d" by (rule create_job_service_InrD [OF create_job_InrD]) simp
  then show "status_of d' i = status_of d i" by (rule status_same)
next
  assume "update_job cron now st k q cu d = Inr (j, d')"
  then have "db_runs d' = db_runs d" by (rule update_job_InrD)
  then show "status_of d' i = status_of d i" by (rule status_same)
next
  assume "set_job_enabled cron now k b cu d = Inr (j, d')"
  then have "db_runs d' = db_runs d" by (rule set_job_enabled_InrD) simp
  then show "status_of d' i = status_of d i" by (rule status_same)
qed

lemma user_write_status:
  "register_user lib salt st p d = Inr (u, d') \<Longrightarrow> status_of d' i = status_of d i"
  "change_password lib salt cu old new d = Inr (m, d') \<Longrightarrow> status_of d' i = status_of d i"
  by (auto simp: register_user_def change_password_def Let_def result_iff add_user_def split: if_splits
      intro!: status_same)

lemma serve_life:
  assumes v: "valid d"
  shows "life req k (phase_of d k) (phase_of (serve now st req d) k)"
proof (cases req)
  case (BeginTask locked w)
  then show ?thesis using life_pulled [OF pulled_begin_task [OF v]] by simp
next
  case (EndTask i res)
  then show ?thesis using end_task_life by simp
next
  case (PollRuns w sts nows)
  then show ?thesis using poll_life [OF v] by simp
next
  case (SchedulerTick cron locked now' st')
  then show ?thesis using tick_life [OF v] by simp
next
  case (FinishRun i s err out se)
  then show ?thesis by (auto intro!: life_after life_told dest: told_finish_run)
next
  case (UpdateStatus i s out se err)
  have "told i s d d' k" if "update_job_run_status st now i s out se err d = Inr (r, d')" for r d'
    using that by (auto simp: update_job_run_status_def result_iff dest: told_update_status)
  then show ?thesis using UpdateStatus by (auto intro!: life_after intro: life_told)
next
  case (ReportRetry i s)
  then show ?thesis by (auto intro!: life_after life_told dest: told_report_retry [OF v])
next
  case (ReportOutput i x out se err)
  have "status_of d' k = status_of d k" if "report_output st i x out se err d = Inr (r, d')" for r d'
    using that by (rule status_report_output)
  then show ?thesis using ReportOutput by (auto intro!: life_after intro: life_same)
next
  case (CancelRun i cu)
  have "told i ''canceled'' d d' k" if "cancel_job_run st now i cu d = Inr (r, d')" for r d'
    using that by (auto simp: cancel_job_run_def result_iff dest: told_update_status)
  then show ?thesis using CancelRun by (auto intro!: life_after intro: life_told)
next
  case (RetryRun i cu)
  have "grows d d' k" if "retry_job_run st i cu d = Inr (r, d')" for r d'
    using that by (auto simp: retry_job_run_def result_iff dest: grows_retry_run)
  then show ?thesis using RetryRun by (auto intro!: life_after intro: life_grows)
next
  case (Heartbeat i)
  have "status_of d' k = status_of d k" if "worker_heartbeat now i d = Inr (r, d')" for r d'
    using that by (auto simp: worker_heartbeat_def none_if_missing_Inr dest: status_heartbeat)
  then show ?thesis using Heartbeat by (auto intro!: life_after intro: life_same)
qed (auto intro!: life_after intro: life_same life_grows life_pulled life_given_back delete_life clear_life
    create_run_life dest: log_status job_write_status user_write_status grows_trigger grows_scan [OF v]
    pulled_dequeue [OF v] pulled_legacy_dequeue [OF v] given_back_release given_back_cleanup
    simp: v)

end
