(* ===== verification/LifecycleProperties.thy ===== *)
theory LifecycleProperties
  imports Lifecycle
begin

text \<open>
  The properties of a run's life: every request refines the abstract machine, and a run that has
  ended stays ended; with witnesses.
\<close>

text \<open>C4: every request, worker task, poll and scheduler turn refines the life cycle of runs: a run
  appears only by being queued (or opened by the controller), starts only by being pulled, goes
  back to the queue only from running and only by a release, ends or waits only by a report that
  names it (or a poll, from waiting), and disappears only by a deletion.\<close>

theorem run_lifecycle:
  assumes "reachable d"
  shows "life req k (phase_of d k) (phase_of (serve now st req d) k)"
  using serve_life goodD(1) [OF reachable_good_aux [OF assms]] by blast

definition queued_requests :: "(datetime \<times> stamps \<times> request) list" where
  "queued_requests = take 3 demo_requests"

theorem run_lifecycle_witness:
  "life (Dequeue [] 60 ''w1'') ''r7'' Pending Running
   \<and> phase_of (serve_all queued_requests empty_db) ''r7'' = Pending"
proof -
  let ?d = "serve_all queued_requests empty_db"
  have "reachable ?d" by (intro reachable_serve_all reachable.start)
  from run_lifecycle [OF this, of "Dequeue [] 60 ''w1''" "''r7''" "Aware 3" "\<lambda>i. (''l7'', Aware 3)"]
  have "life (Dequeue [] 60 ''w1'') ''r7'' (phase_of ?d ''r7'')
      (phase_of (serve (Aware 3) (\<lambda>i. (''l7'', Aware 3)) (Dequeue [] 60 ''w1'') ?d) ''r7'')" .
  moreover have "phase_of ?d ''r7'' = Pending"
    "phase_of (serve (Aware 3) (\<lambda>i. (''l7'', Aware 3)) (Dequeue [] 60 ''w1'') ?d) ''r7'' = Running"
    by code_simp+
  ultimately show ?thesis by simp
qed

text \<open>Requests that neither delete runs nor report a status of the run \<open>k\<close>.\<close>

definition leaves_alone :: "string \<Rightarrow> request \<Rightarrow> bool" where
  "leaves_alone k req \<longleftrightarrow> \<not> deletes req \<and> (\<forall>t. \<not> reports req k t)"

lemma ended_step:
  assumes "reachable d" and "phase_of d k = Ended s" and "leaves_alone k req"
  shows "phase_of (serve now st req d) k = Ended s"
proof -
  have "life req k (Ended s) (phase_of (serve now st req d) k)"
    using serve_life [OF goodD(1) [OF reachable_good_aux [OF assms(1)]]] assms(2) by metis
  then show ?thesis using assms(3) by (auto simp: leaves_alone_def elim: life_EndedE)
qed

lemma ended_series:
  assumes "reachable d" and "phase_of d k = Ended s"
    and "\<forall>(now, st, req) \<in> set reqs. leaves_alone k req"
  shows "phase_of (serve_all reqs d) k = Ended s"
  using assms
proof (induction reqs arbitrary: d)
  case Nil
  then show ?case by simp
next
  case (Cons x reqs)
  obtain now st req where x: "x = (now, st, req)" by (cases x)
  have "reachable (serve now st req d)" using Cons.prems(1) by (rule reachable.step [OF _ step.request])
  moreover have "phase_of (serve now st req d) k = Ended s"
    using Cons.prems by (intro ended_step) (auto simp: x)
  ultimately show ?case using Cons.IH Cons.prems(3) by (simp add: x)
qed

text \<open>C8: a run that has ended keeps its outcome: whatever is served afterwards (dequeues, releases,
  scans, scheduler turns, polls, retries, other workers' tasks), in whatever order, it is neither
  queued nor started again and its status stays, unless a request reports a status for it or
  deletes runs. In particular a retry is always another run.\<close>

theorem ended_run_final:
  assumes "reachable d" and "phase_of d k = Ended s"
    and "\<forall>(now, st, req) \<in> set reqs. leaves_alone k req"
  shows "phase_of (serve_all reqs d) k = Ended s"
  using assms by (rule ended_series)

definition ended_requests :: "(datetime \<times> stamps \<times> request) list" where
  "ended_requests = queued_requests @
     [(Aware 3, \<lambda>i. (''c'' @ replicate i (CHR ''x''), Aware 3), FinishRun ''r7'' ''failed'' None None None)]"

definition later_requests :: "(datetime \<times> stamps \<times> request) list" where
  "later_requests =
     [(Aware 4, \<lambda>i. (''l'' @ replicate i (CHR ''x''), Aware 4), Dequeue [] 60 ''w1''),
      (Aware 500000000, \<lambda>i. (''m'' @ replicate i (CHR ''x''), Aware 5), ReleaseLocks)]"

text \<open>The failed run has queued a retry, which is pulled and released; the run itself stays
  failed.\<close>

theorem ended_run_final_witness:
  "phase_of (serve_all later_requests (serve_all ended_requests empty_db)) ''r7'' = Ended ''failed''
   \<and> map r_status (db_runs (serve_all ended_requests empty_db)) = [''failed'', ''pending'']
   \<and> map r_heartbeat_at (db_runs (serve_all later_requests (serve_all ended_requests empty_db)))
       = [Some (Aware 3), Some (Aware 500000000)]"
proof -
  have 1: "phase_of (serve_all ended_requests empty_db) ''r7'' = Ended ''failed''"
    "map r_status (db_runs (serve_all ended_requests empty_db)) = [''failed'', ''pending'']"
    "map r_heartbeat_at (db_runs (serve_all later_requests (serve_all ended_requests empty_db)))
       = [Some (Aware 3), Some (Aware 500000000)]"
    by code_simp+
  have 2: "reachable (serve_all ended_requests empty_db)" by (intro reachable_serve_all reachable.start)
  have "\<forall>(now, st, req) \<in> set later_requests. leaves_alone ''r7'' req"
    by (simp add: later_requests_def leaves_alone_def)
  from ended_run_final [OF 2 1(1) this] 1 show ?thesis by simp
qed

end
