(* ===== verification/WorkerPool.thy ===== *)
theory WorkerPool
  imports System
begin

text \<open>
  The worker process (\<open>worker_main\<close>, \<open>event_listener\<close> and the frame of \<open>run_job_task\<close> in
  \<open>app/services/worker_loop.py\<close>): a main loop that creates tasks when it is woken, a semaphore
  that lets at most \<open>MAX_CONCURRENT_JOBS\<close> of them work, and a listener that wakes the loop. The
  database is shared with other processes, whose requests come between any two steps.

  asyncio as documented: a coroutine runs until it awaits; the tasks that a turn of the loop
  created start before the loop is resumed; leaving the semaphore admits a waiting task if
  there is one.
\<close>

section \<open>The state of a worker\<close>

text \<open>\<open>trigger_event\<close>, whether the listener is alive, the free places of the semaphore, the tasks that are created but not
  started, that wait for a place, that have entered and not yet pulled, and that execute a run.\<close>

record pool =
  p_event :: bool
  p_listening :: bool
  p_value :: nat
  p_created :: nat
  p_waiting :: nat
  p_entered :: nat
  p_active :: "job_task list"
  p_db :: db

definition worker_start :: "nat \<Rightarrow> db \<Rightarrow> pool" where
  "worker_start max_jobs d = \<lparr>p_event = True, p_listening = True, p_value = max_jobs, p_created = 0, p_waiting = 0,
     p_entered = 0, p_active = [], p_db = d\<rparr>"

definition semaphore_locked :: "pool \<Rightarrow> bool" where
  "semaphore_locked p \<longleftrightarrow> p_value p = 0 \<or> p_waiting p \<noteq> 0"

section \<open>Its steps\<close>

text \<open>\<open>for _ in range(MAX_CONCURRENT_JOBS): if semaphore.locked(): break; create_task(...)\<close>.\<close>

fun create_tasks :: "nat \<Rightarrow> pool \<Rightarrow> pool" where
  "create_tasks 0 p = p"
| "create_tasks (Suc k) p =
     (if semaphore_locked p then p else create_tasks k (p\<lparr>p_created := Suc (p_created p)\<rparr>))"

definition main_turn :: "nat \<Rightarrow> pool \<Rightarrow> pool" where
  "main_turn max_jobs p = create_tasks max_jobs (p\<lparr>p_event := False\<rparr>)"

text \<open>The listener drains the notifications of its connection.\<close>

fun listen :: "string list \<Rightarrow> pool \<Rightarrow> pool" where
  "listen [] p = p"
| "listen (x # notifies) p = listen notifies (p\<lparr>p_event := True\<rparr>)"

text \<open>An exception of the connection ends the listener for good; the main loop wakes up by its
  timeout from then on.\<close>

definition listener_crashed :: "pool \<Rightarrow> pool" where
  "listener_crashed p = p\<lparr>p_listening := False\<rparr>"

text \<open>\<open>async with semaphore\<close>: entering, and leaving.\<close>

definition start_task :: "pool \<Rightarrow> pool" where
  "start_task p =
     (let q = p\<lparr>p_created := p_created p - 1\<rparr> in
      if semaphore_locked p then q\<lparr>p_waiting := p_waiting p + 1\<rparr>
      else q\<lparr>p_value := p_value p - 1, p_entered := p_entered p + 1\<rparr>)"

definition leave :: "pool \<Rightarrow> pool" where
  "leave p =
     (if p_waiting p \<noteq> 0 then p\<lparr>p_waiting := p_waiting p - 1, p_entered := p_entered p + 1\<rparr>
      else p\<lparr>p_value := p_value p + 1\<rparr>)"

text \<open>A task that has entered pulls a run; without one, or after an exception, it leaves.\<close>

definition task_begins ::
  "string list \<Rightarrow> string \<Rightarrow> datetime \<Rightarrow> stamps \<Rightarrow> datetime \<Rightarrow> stamps \<Rightarrow> pool \<Rightarrow> pool" where
  "task_begins locked worker_id now st now' st' p =
     (let q = p\<lparr>p_entered := p_entered p - 1\<rparr> in
      case begin_task locked worker_id now st (p_db p) of
        (NoTask, d) \<Rightarrow> leave (q\<lparr>p_db := d\<rparr>)
      | (Work t, d) \<Rightarrow> q\<lparr>p_active := p_active p @ [t], p_db := d\<rparr>
      | (Broken k e, d) \<Rightarrow> leave (q\<lparr>p_db := snd (on_exception st' now' k e d)\<rparr>))"

definition task_ends :: "stamps \<Rightarrow> datetime \<Rightarrow> world \<Rightarrow> nat \<Rightarrow> pool \<Rightarrow> pool" where
  "task_ends st now wd i p =
     (let t = p_active p ! i in
      leave (p\<lparr>p_active := take i (p_active p) @ drop (Suc i) (p_active p),
               p_db := snd (end_task st now (tk_run_id t) (run_work wd t) (p_db p))\<rparr>))"

inductive pool_step :: "nat \<Rightarrow> string \<Rightarrow> pool \<Rightarrow> pool \<Rightarrow> bool" for max_jobs worker_id where
  turn: "p_created p = 0 \<Longrightarrow> pool_step max_jobs worker_id p (main_turn max_jobs p)"
| notified: "p_listening p \<Longrightarrow> pool_step max_jobs worker_id p (listen notifies p)"
| crashes: "p_listening p \<Longrightarrow> pool_step max_jobs worker_id p (listener_crashed p)"
| starts: "0 < p_created p \<Longrightarrow> pool_step max_jobs worker_id p (start_task p)"
| begins: "0 < p_entered p \<Longrightarrow>
    pool_step max_jobs worker_id p (task_begins locked worker_id now st now' st' p)"
| ends: "i < length (p_active p) \<Longrightarrow> pool_step max_jobs worker_id p (task_ends st now wd i p)"
| others: "pool_step max_jobs worker_id p (p\<lparr>p_db := serve now st req (p_db p)\<rparr>)"

inductive pool_reachable :: "nat \<Rightarrow> string \<Rightarrow> pool \<Rightarrow> bool" for max_jobs worker_id where
  start: "reachable d \<Longrightarrow> pool_reachable max_jobs worker_id (worker_start max_jobs d)"
| step: "pool_reachable max_jobs worker_id p \<Longrightarrow> pool_step max_jobs worker_id p q
    \<Longrightarrow> pool_reachable max_jobs worker_id q"

inductive_cases pool_stepE: "pool_step max_jobs worker_id p q"

section \<open>The invariant\<close>

definition live_tasks :: "pool \<Rightarrow> nat" where
  "live_tasks p = p_created p + p_waiting p + p_entered p + length (p_active p)"

text \<open>Every place is free or taken; tasks wait only while none is free; a turn that created
  tasks found a place free.\<close>

definition pool_ok :: "nat \<Rightarrow> pool \<Rightarrow> bool" where
  "pool_ok max_jobs p \<longleftrightarrow>
     p_value p + p_entered p + length (p_active p) = max_jobs
     \<and> (p_waiting p = 0 \<or> p_value p = 0)
     \<and> (p_created p + p_waiting p = 0 \<or> live_tasks p < 2 * max_jobs)"

lemma create_tasks_eq:
  "create_tasks k p = (if semaphore_locked p then p else p\<lparr>p_created := p_created p + k\<rparr>)"
  by (induction k arbitrary: p) (simp_all add: semaphore_locked_def)

lemma listen_eq: "listen xs p = (if xs = [] then p else p\<lparr>p_event := True\<rparr>)"
  by (induction xs arbitrary: p) auto

lemma pool_ok_turn:
  assumes "pool_ok n p" and "p_created p = 0"
  shows "pool_ok n (main_turn n p)"
  using assms by (auto simp: pool_ok_def main_turn_def create_tasks_eq semaphore_locked_def live_tasks_def)

lemma pool_ok_starts:
  assumes "pool_ok n p" and "0 < p_created p"
  shows "pool_ok n (start_task p)"
  using assms by (auto simp: pool_ok_def start_task_def Let_def semaphore_locked_def live_tasks_def)

text \<open>A task leaves from a state in which one place is taken by nobody else.\<close>

lemma pool_ok_leave:
  assumes "p_value p + p_entered p + length (p_active p) + 1 = n"
    and "p_waiting p = 0 \<or> p_value p = 0" and "p_created p + p_waiting p = 0 \<or> live_tasks p + 1 < 2 * n"
  shows "pool_ok n (leave p)"
  using assms by (auto simp: pool_ok_def leave_def live_tasks_def)

lemma pool_ok_begins:
  assumes "pool_ok n p" and "0 < p_entered p"
  shows "pool_ok n (task_begins locked w now st now' st' p)"
proof -
  have out: "pool_ok n (leave (p\<lparr>p_entered := p_entered p - 1\<rparr>\<lparr>p_db := d\<rparr>))" for d
    using assms by (intro pool_ok_leave) (auto simp: pool_ok_def live_tasks_def)
  have into: "pool_ok n (p\<lparr>p_entered := p_entered p - 1\<rparr>\<lparr>p_active := p_active p @ [t], p_db := d\<rparr>)" for t d
    using assms by (auto simp: pool_ok_def live_tasks_def)
  show ?thesis
    unfolding task_begins_def Let_def using out into by (simp split: prod.split task_begin.split)
qed

lemma pool_ok_ends:
  assumes "pool_ok n p" and "i < length (p_active p)"
  shows "pool_ok n (task_ends st now wd i p)"
  unfolding task_ends_def Let_def
  using assms by (intro pool_ok_leave) (auto simp: pool_ok_def live_tasks_def)

lemma pool_ok_step: "pool_step n w p q \<Longrightarrow> pool_ok n p \<Longrightarrow> pool_ok n q"
proof (induction rule: pool_step.induct)
  case (others p now st req)
  then show ?case by (simp add: pool_ok_def live_tasks_def)
next
  case (notified p notifies)
  then show ?case by (simp add: listen_eq pool_ok_def live_tasks_def)
next
  case (crashes p)
  then show ?case by (simp add: listener_crashed_def pool_ok_def live_tasks_def)
qed (simp_all add: pool_ok_turn pool_ok_starts pool_ok_begins pool_ok_ends)

section \<open>The database\<close>

lemma leave_db [simp]: "p_db (leave p) = p_db p"
  by (simp add: leave_def)

lemma reachable_serve: "reachable d \<Longrightarrow> reachable (serve now st req d)"
  by (rule reachable.step [OF _ step.request])

lemma pool_db_step:
  assumes "pool_step n w p q" and "reachable (p_db p)"
  shows "reachable (p_db q)"
  using assms
proof (induction rule: pool_step.induct)
  case (turn p)
  then show ?case by (simp add: main_turn_def create_tasks_eq)
next
  case (notified p notifies)
  then show ?case by (simp add: listen_eq)
next
  case (crashes p)
  then show ?case by (simp add: listener_crashed_def)
next
  case (starts p)
  then show ?case by (simp add: start_task_def Let_def)
next
  case (begins p locked now st now' st')
  let ?d = "snd (begin_task locked w now st (p_db p))"
  have 1: "reachable ?d" using reachable_serve [OF begins.prems, of now st "BeginTask locked w"] by simp
  have 2: "reachable (snd (on_exception st' now' k e ?d))" for k e
    using reachable_serve [OF 1, of now' st' "EndTask k (Inl e)"] by (simp add: end_task_def)
  show ?case
    using 1 2 by (cases "begin_task locked w now st (p_db p)")
      (auto simp: task_begins_def Let_def split: task_begin.split)
next
  case (ends i p st now wd)
  then show ?case
    using reachable_serve [OF ends.prems, of now st "EndTask (tk_run_id (p_active p ! i)) (run_work wd (p_active p ! i))"]
    by (simp add: task_ends_def Let_def)
next
  case (others p now st req)
  then show ?case by (simp add: reachable_serve)
qed

lemma pool_reachable_ok: "pool_reachable n w p \<Longrightarrow> pool_ok n p \<and> reachable (p_db p)"
proof (induction rule: pool_reachable.induct)
  case (start d)
  then show ?case by (simp add: worker_start_def pool_ok_def live_tasks_def)
next
  case (step p q)
  then show ?case using pool_ok_step pool_db_step by blast
qed

section \<open>The bounds\<close>

definition all_started :: "nat \<Rightarrow> pool \<Rightarrow> pool \<Rightarrow> bool" where
  "all_started k p q \<longleftrightarrow> p_created q = p_created p - k
     \<and> p_value q = (if p_waiting p = 0 then p_value p - k else p_value p)
     \<and> p_entered q = p_entered p + (if p_waiting p = 0 then min k (p_value p) else 0)
     \<and> p_waiting q = p_waiting p + (if p_waiting p = 0 then k - p_value p else k)"

lemma start_tasks: "all_started k p ((start_task ^^ k) p)"
proof (induction k)
  case 0
  then show ?case by (simp add: all_started_def)
next
  case (Suc k)
  let ?q = "(start_task ^^ k) p"
  have "semaphore_locked ?q \<Longrightarrow> p_created (start_task ?q) = p_created ?q - 1 \<and> p_value (start_task ?q) = p_value ?q
      \<and> p_entered (start_task ?q) = p_entered ?q \<and> p_waiting (start_task ?q) = p_waiting ?q + 1"
    "\<not> semaphore_locked ?q \<Longrightarrow> p_created (start_task ?q) = p_created ?q - 1 \<and> p_value (start_task ?q) = p_value ?q - 1
      \<and> p_entered (start_task ?q) = p_entered ?q + 1 \<and> p_waiting (start_task ?q) = p_waiting ?q"
    by (simp_all add: start_task_def Let_def)
  then show ?case using Suc
    by (cases "semaphore_locked ?q") (auto simp: all_started_def semaphore_locked_def split: if_splits)
qed

lemma starts_reachable:
  "pool_reachable n w p \<Longrightarrow> k \<le> p_created p \<Longrightarrow> pool_reachable n w ((start_task ^^ k) p)"
proof (induction k)
  case (Suc k)
  have "p_created ((start_task ^^ j) p) = p_created p - j" for j
    by (induction j) (simp_all add: start_task_def Let_def)
  then have "0 < p_created ((start_task ^^ k) p)" using Suc.prems by simp
  then show ?case using Suc by (auto intro: pool_reachable.step pool_step.starts)
qed simp

end
