(* ===== verification/PoolProperties.thy ===== *)
theory PoolProperties
  imports WorkerPool
begin

text \<open>
  The properties of the worker process, with witnesses at a worker of two places on a database
  with one queued run.
\<close>

text \<open>C17: however a worker is woken and whatever other processes do to the database meanwhile, at
  most \<open>MAX_CONCURRENT_JOBS\<close> of its tasks pull or execute at once, fewer than twice as many
  tasks exist, none waits while a place is free, and the shared database stays one that the
  request system can reach.\<close>

theorem worker_pool_bounded:
  assumes "pool_reachable max_jobs w p"
  shows "p_entered p + length (p_active p) \<le> max_jobs \<and> live_tasks p \<le> 2 * max_jobs - 1
     \<and> (p_waiting p = 0 \<or> p_value p = 0) \<and> reachable (p_db p)"
  using pool_reachable_ok [OF assms] by (auto simp: pool_ok_def live_tasks_def)

definition queued_db :: db where
  "queued_db = serve_all (take 3 demo_requests) empty_db"

definition busy_worker :: pool where
  "busy_worker = task_begins [] ''w1'' (Aware 3) (\<lambda>i. (replicate (Suc i) CHR ''l'', Aware 3)) (Aware 4)
     (\<lambda>i. (''x'', Aware 4)) ((start_task ^^ 2) (main_turn 2 (worker_start 2 queued_db)))"

lemma started_reachable: "pool_reachable 2 ''w1'' ((start_task ^^ 2) (main_turn 2 (worker_start 2 queued_db)))"
proof -
  have "reachable queued_db" unfolding queued_db_def by (intro reachable_serve_all reachable.start)
  then have "pool_reachable 2 ''w1'' (worker_start 2 queued_db)" by (rule pool_reachable.start)
  moreover have "p_created (worker_start 2 queued_db) = 0" by (simp add: worker_start_def)
  ultimately have "pool_reachable 2 ''w1'' (main_turn 2 (worker_start 2 queued_db))"
    by (rule pool_reachable.step [OF _ pool_step.turn])
  then show ?thesis
    by (rule starts_reachable) (simp add: main_turn_def create_tasks_eq semaphore_locked_def worker_start_def)
qed

theorem worker_pool_bounded_witness:
  "map tk_task_type (p_active busy_worker) = [Some ''api_call''] \<and> p_entered busy_worker = 1
   \<and> p_entered busy_worker + length (p_active busy_worker) \<le> 2 \<and> live_tasks busy_worker \<le> 3
   \<and> reachable (p_db busy_worker)"
proof -
  have 1: "map tk_task_type (p_active busy_worker) = [Some ''api_call'']" "p_entered busy_worker = 1"
    "0 < p_entered ((start_task ^^ 2) (main_turn 2 (worker_start 2 queued_db)))"
    by code_simp+
  have "pool_reachable 2 ''w1'' busy_worker"
    unfolding busy_worker_def by (rule pool_reachable.step [OF started_reachable pool_step.begins [OF 1(3)]])
  from worker_pool_bounded [OF this] 1 show ?thesis by simp
qed

text \<open>A worker that is woken while a place is free uses them all: once the tasks of the turn
  have started, no place is free, the free places are taken by new tasks that will pull, and
  exactly the tasks beyond them wait.\<close>

theorem woken_worker_fills:
  assumes "pool_reachable max_jobs w p" and "p_created p = 0" and "\<not> semaphore_locked p"
  shows "p_value ((start_task ^^ max_jobs) (main_turn max_jobs p)) = 0
     \<and> p_entered ((start_task ^^ max_jobs) (main_turn max_jobs p)) = p_entered p + p_value p
     \<and> p_waiting ((start_task ^^ max_jobs) (main_turn max_jobs p)) = max_jobs - p_value p
     \<and> pool_reachable max_jobs w ((start_task ^^ max_jobs) (main_turn max_jobs p))"
proof -
  let ?q = "main_turn max_jobs p"
  have q: "p_created ?q = max_jobs" "p_waiting ?q = 0" "p_value ?q = p_value p" "p_entered ?q = p_entered p"
    using assms(2,3) by (simp_all add: main_turn_def create_tasks_eq semaphore_locked_def)
  have "p_value p \<le> max_jobs" using pool_reachable_ok [OF assms(1)] by (simp add: pool_ok_def)
  moreover have "pool_reachable max_jobs w ?q" using assms(1,2) by (rule pool_reachable.step [OF _ pool_step.turn])
  ultimately show ?thesis
    using start_tasks [of max_jobs ?q] starts_reachable [of max_jobs w ?q max_jobs] q
    by (simp add: all_started_def min_absorb2)
qed

theorem woken_worker_fills_witness:
  "p_entered ((start_task ^^ 2) (main_turn 2 (worker_start 2 empty_db))) = 2
   \<and> p_value ((start_task ^^ 2) (main_turn 2 (worker_start 2 empty_db))) = 0"
  using woken_worker_fills [OF pool_reachable.start [OF reachable.start], of 2 "''w1''"]
  by (simp add: worker_start_def semaphore_locked_def)

end
