(* ===== verification/Api.thy ===== *)
theory Api
  imports Monitoring
begin

text \<open>
  The HTTP surface of the backend (\<open>app/presentation/api\<close>, \<open>app/main.py\<close>): for every
  router its routes with their parameters, what a route calls, how its result becomes the
  body the response model declares, and how exceptions become status codes. FastAPI resolves
  the dependency \<open>get_current_user\<close> before it looks at the other parameters; what it does
  with the declared constraints and response models is its documented behaviour: a request
  that violates them is a 422, a body that violates the response model a 500, as is every
  exception that is no \<open>HTTPException\<close>.
\<close>

section \<open>Replies\<close>

text \<open>The bodies, one constructor per response model or dict shape; constant answers carry
  their text only.\<close>

datatype body =
    UserBody user_response
  | TokenBody token_response
  | JobBody job_response
  | JobsBody "job_response list"
  | TriggerBody string string
  | RunBody run_response
  | RunsBody "run_response list"
  | LogsBody "job_log list"
  | ReportBody scan_report
  | WorkersBody "string list"
  | TaskBody "task option"
  | StatusBody string
  | DashboardBody dashboard
  | MetricsBody registry
  | Message string
  | Names "(string \<times> string) list"
  | NamesList "(string \<times> string) list list"
  | Detail string

type_synonym reply = "nat \<times> body"

definition server_error :: reply where
  "server_error = (500, Detail ''Internal Server Error'')"

definition unprocessable :: reply where
  "unprocessable = (422, Detail [])"

fun failure :: "error \<Rightarrow> reply" where
  "failure (HTTPException code detail) = (code, Detail detail)"
| "failure e = server_error"

text \<open>What the environment supplies to a request: the libraries, the salt, two readings of the
  clock (the first while the request is authenticated), the ids drawn, the rows other
  transactions hold, the files and the environment of the metrics and the registry as the request
  finds it, and whether the database answers.\<close>

record api_env =
  e_lib :: auth_lib
  e_salt :: string
  e_cron :: cron_lib
  e_now0 :: datetime
  e_now :: datetime
  e_stamps :: stamps
  e_locked :: "string list"
  e_files :: "string \<Rightarrow> string option"
  e_restarts :: "rat option"
  e_registry :: registry
  e_db_answers :: bool

text \<open>A route that writes: the response is built after the commit, from the new database.\<close>

definition written :: "('a \<Rightarrow> db \<Rightarrow> body result) \<Rightarrow> db \<Rightarrow> ('a \<times> db) result \<Rightarrow> reply \<times> db" where
  "written build d res =
     (case res of
        Inl e \<Rightarrow> (failure e, d)
      | Inr (x, d') \<Rightarrow>
          (case build x d' of Inl e \<Rightarrow> (failure e, d') | Inr b \<Rightarrow> ((200, b), d')))"

definition read_only :: "db \<Rightarrow> body result \<Rightarrow> reply \<times> db" where
  "read_only d res = (case res of Inl e \<Rightarrow> (failure e, d) | Inr b \<Rightarrow> ((200, b), d))"

text \<open>The dependency on the current user.\<close>

definition with_user ::
  "api_env \<Rightarrow> string option \<Rightarrow> db \<Rightarrow> (user \<Rightarrow> reply \<times> db) \<Rightarrow> reply \<times> db" where
  "with_user e credentials d f =
     (case get_current_user (e_lib e) (e_now0 e) credentials d of
        Inl x \<Rightarrow> (failure x, d)
      | Inr u \<Rightarrow> f u)"

section \<open>Response models\<close>

text \<open>The fields a response model declares without \<open>None\<close>; the others cannot be wrong.\<close>

definition JobResponse_ok :: "job_response \<Rightarrow> bool" where
  "JobResponse_ok r \<longleftrightarrow> jr_action_payload r \<noteq> None \<and> jr_status r \<noteq> None \<and> jr_max_retry r \<noteq> None
     \<and> jr_retry_limit r \<noteq> None \<and> jr_timeout_seconds r \<noteq> None \<and> None \<notin> set (jr_depends_on r)"

definition JobRunResponse_ok :: "run_response \<Rightarrow> bool" where
  "JobRunResponse_ok r \<longleftrightarrow> rr_task_name r \<noteq> None \<and> rr_action r \<noteq> None \<and> rr_action_type r \<noteq> None
     \<and> rr_timeout_seconds r \<noteq> None"

definition response_error :: error where
  "response_error = ValueError ''response validation''"

definition job_body :: "db \<Rightarrow> job \<Rightarrow> job_response result" where
  "job_body d j =
     bind_result (normalize_for_response d j) (\<lambda>r.
     if JobResponse_ok r then Inr r else Inl response_error)"

definition run_body :: "db \<Rightarrow> job_run \<Rightarrow> run_response result" where
  "run_body d r =
     (let x = JobRunResponse d r in if JobRunResponse_ok x then Inr x else Inl response_error)"

fun map_result :: "('a \<Rightarrow> 'b result) \<Rightarrow> 'a list \<Rightarrow> 'b list result" where
  "map_result f [] = Inr []"
| "map_result f (x # xs) =
     bind_result (f x) (\<lambda>y. bind_result (map_result f xs) (\<lambda>ys. Inr (y # ys)))"

abbreviation to_body :: "('a \<Rightarrow> body) \<Rightarrow> 'a result \<Rightarrow> body result" where
  "to_body f res \<equiv> bind_result res (\<lambda>x. Inr (f x))"

section \<open>Request constraints\<close>

text \<open>\<open>NAME_PATTERN\<close>: one or more letters, digits, underscores and hyphens.\<close>

definition name_char :: "char \<Rightarrow> bool" where
  "name_char c \<longleftrightarrow> (of_char c :: nat) \<in> {48..57} \<union> {65..90} \<union> {97..122} \<or> c = CHR ''_'' \<or> c = CHR ''-''"

definition name_ok :: "string \<Rightarrow> bool" where
  "name_ok s \<longleftrightarrow> s \<noteq> [] \<and> list_all name_char s"

definition job_update_ok :: "job_update \<Rightarrow> bool" where
  "job_update_ok p \<longleftrightarrow> (case value_of (p_task_name p) of None \<Rightarrow> True | Some n \<Rightarrow> name_ok n)"

definition page_ok :: "int \<Rightarrow> int \<Rightarrow> bool" where
  "page_ok limit offset \<longleftrightarrow> 1 \<le> limit \<and> limit \<le> 500 \<and> 0 \<le> offset"

section \<open>The routers\<close>

datatype auth_route =
    RegisterRoute register_request
  | LoginRoute login_request
  | LogoutRoute
  | MeRoute
  | PasswordRoute string string

definition auth_router :: "api_env \<Rightarrow> string option \<Rightarrow> auth_route \<Rightarrow> db \<Rightarrow> reply \<times> db" where
  "auth_router e credentials r d =
     (case r of
        RegisterRoute p \<Rightarrow>
          if \<not> register_request_ok p then (unprocessable, d)
          else written (\<lambda>u _. Inr (UserBody (UserResponse u))) d
                 (register_user (e_lib e) (e_salt e) (e_stamps e) p d)
      | LoginRoute p \<Rightarrow> read_only d (to_body TokenBody (login_user (e_lib e) (e_now e) p d))
      | LogoutRoute \<Rightarrow> ((200, Message ''logout success. client should remove token''), d)
      | MeRoute \<Rightarrow> with_user e credentials d (\<lambda>u. ((200, UserBody (UserResponse u)), d))
      | PasswordRoute old new \<Rightarrow>
          with_user e credentials d (\<lambda>u.
            if length new < 6 then (unprocessable, d)
            else written (\<lambda>m _. Inr (Message m)) d (change_password (e_lib e) (e_salt e) u old new d)))"

datatype job_route =
    CreateJobRoute job_create
  | ListJobsRoute "string option" "string option"
  | GetJobRoute string
  | UpdateJobRoute string job_update
  | DeleteJobRoute string
  | EnableJobRoute string
  | DisableJobRoute string
  | RunJobRoute string
  | TriggerJobRoute string

definition job_reply :: "db \<Rightarrow> (job \<times> db) result \<Rightarrow> reply \<times> db" where
  "job_reply d res = written (\<lambda>j d'. to_body JobBody (job_body d' j)) d res"

definition trigger_job_response :: "api_env \<Rightarrow> string \<Rightarrow> user \<Rightarrow> db \<Rightarrow> reply \<times> db" where
  "trigger_job_response e job_id u d =
     written (\<lambda>run _. Inr (TriggerBody (r_id run) (r_status run))) d
       (trigger_job (e_stamps e) job_id (Some u) ''manual'' d)"

definition job_router :: "api_env \<Rightarrow> string option \<Rightarrow> job_route \<Rightarrow> db \<Rightarrow> reply \<times> db" where
  "job_router e credentials r d = with_user e credentials d (\<lambda>u.
     case r of
       CreateJobRoute p \<Rightarrow>
         if \<not> name_ok (c_task_name p) then (unprocessable, d)
         else job_reply d (create_job (e_cron e) (e_now e) (e_stamps e) p u d)
     | ListJobsRoute status keyword \<Rightarrow>
         read_only d (to_body JobsBody (map_result (job_body d) (list_jobs (Some u) status keyword d)))
     | GetJobRoute k \<Rightarrow>
         read_only d (bind_result (get_job_or_404 k (Some u) d) (\<lambda>j. to_body JobBody (job_body d j)))
     | UpdateJobRoute k p \<Rightarrow>
         if \<not> job_update_ok p then (unprocessable, d)
         else job_reply d (update_job (e_cron e) (e_now e) (e_stamps e) k p (Some u) d)
     | DeleteJobRoute k \<Rightarrow> written (\<lambda>m _. Inr (Message m)) d (delete_job k (Some u) d)
     | EnableJobRoute k \<Rightarrow> job_reply d (set_job_enabled (e_cron e) (e_now e) k True (Some u) d)
     | DisableJobRoute k \<Rightarrow> job_reply d (set_job_enabled (e_cron e) (e_now e) k False (Some u) d)
     | RunJobRoute k \<Rightarrow> trigger_job_response e k u d
     | TriggerJobRoute k \<Rightarrow> trigger_job_response e k u d)"

record log_query =
  q_task_name :: "string option"
  q_status :: "string option"
  q_user_id :: "string option"
  q_log_level :: "string option"
  q_start_from :: "datetime option"
  q_start_to :: "datetime option"

datatype run_route =
    ListRunsRoute "string option" "string option" "string option" int int
  | SearchLogsRoute log_query int int
  | ClearRunsRoute
  | GetRunRoute string
  | GetLogsRoute string
  | RetryRunRoute string
  | CancelRunRoute string

definition run_reply :: "db \<Rightarrow> (job_run \<times> db) result \<Rightarrow> reply \<times> db" where
  "run_reply d res = written (\<lambda>r d'. to_body RunBody (run_body d' r)) d res"

definition job_run_router :: "api_env \<Rightarrow> string option \<Rightarrow> run_route \<Rightarrow> db \<Rightarrow> reply \<times> db" where
  "job_run_router e credentials r d = with_user e credentials d (\<lambda>u.
     case r of
       ListRunsRoute status job_id user_id limit offset \<Rightarrow>
         if \<not> page_ok limit offset then (unprocessable, d)
         else read_only d (to_body RunsBody (map_result (run_body d)
                (list_job_runs status user_id job_id (nat limit) (nat offset) (Some u) d)))
     | SearchLogsRoute q limit offset \<Rightarrow>
         if \<not> page_ok limit offset then (unprocessable, d)
         else ((200, LogsBody (search_job_logs (q_task_name q) (q_status q) (q_user_id q) (q_log_level q)
                (q_start_from q) (q_start_to q) (nat limit) (nat offset) (Some u) d)), d)
     | ClearRunsRoute \<Rightarrow> written (\<lambda>m _. Inr (Message m)) d (clear_all_runs d)
     | GetRunRoute k \<Rightarrow>
         read_only d (bind_result (get_job_run k (Some u) d) (\<lambda>r. to_body RunBody (run_body d r)))
     | GetLogsRoute k \<Rightarrow> read_only d (to_body LogsBody (get_job_run_logs k (Some u) d))
     | RetryRunRoute k \<Rightarrow> run_reply d (retry_job_run (e_stamps e) k (Some u) d)
     | CancelRunRoute k \<Rightarrow> run_reply d (cancel_job_run (e_stamps e) (e_now e) k (Some u) d))"

datatype worker_route =
    ListWorkersRoute
  | PullRoute string
  | HeartbeatRoute string
  | FinishRoute string "status_update option" "string option" "string option" "string option" "string option"

definition worker_router :: "api_env \<Rightarrow> string option \<Rightarrow> worker_route \<Rightarrow> db \<Rightarrow> reply \<times> db" where
  "worker_router e credentials r d = with_user e credentials d (\<lambda>_.
     case r of
       ListWorkersRoute \<Rightarrow> ((200, WorkersBody (list_workers d)), d)
     | PullRoute w \<Rightarrow>
         written (\<lambda>t _. Inr (TaskBody t)) d (pull_task (e_locked e) w (e_now e) (e_stamps e) d)
     | HeartbeatRoute k \<Rightarrow> written (\<lambda>s _. Inr (StatusBody s)) d (run_heartbeat (e_now e) k d)
     | FinishRoute k payload status out err msg \<Rightarrow>
         written (\<lambda>s _. Inr (StatusBody s)) d
           (run_finish (e_stamps e) (e_now e) k payload status out err msg d))"

datatype scheduler_route = ScanRoute | SchedulerStatusRoute | LeaderRoute

definition scheduler_status :: "(string \<times> string) list" where
  "scheduler_status = [(''status'', ''running''), (''mode'', ''db-lock''),
     (''leader'', ''single-active-by-db-lock'')]"

definition scheduler_router :: "api_env \<Rightarrow> string option \<Rightarrow> scheduler_route \<Rightarrow> db \<Rightarrow> reply \<times> db" where
  "scheduler_router e credentials r d = with_user e credentials d (\<lambda>_.
     case r of
       ScanRoute \<Rightarrow>
         written (\<lambda>x _. Inr (ReportBody x)) d
           (scan_endpoint (e_cron e) (e_locked e) (e_now0 e) (e_now e) (e_stamps e) d)
     | SchedulerStatusRoute \<Rightarrow> ((200, Names scheduler_status), d)
     | LeaderRoute \<Rightarrow>
         ((200, Names [(''leader'', ''db-lock-active''),
            (''strategy'', ''SELECT FOR UPDATE SKIP LOCKED'')]), d))"

datatype system_route = HealthRoute | NodesRoute | PodsRoute | VersionRoute

definition system_nodes :: "(string \<times> string) list list" where
  "system_nodes = map (\<lambda>n. [(''name'', n), (''role'', ''control-plane''), (''status'', ''Ready'')])
     [''proxmox-vm-1'', ''proxmox-vm-2'', ''proxmox-vm-3'']"

definition system_pods :: "(string \<times> string) list list" where
  "system_pods = map (\<lambda>n. [(''name'', n), (''status'', ''Running'')])
     [''api'', ''scheduler'', ''worker'', ''postgresql'']"

definition system_router :: "api_env \<Rightarrow> string option \<Rightarrow> system_route \<Rightarrow> db \<Rightarrow> reply \<times> db" where
  "system_router e credentials r d =
     (case r of
        HealthRoute \<Rightarrow> ((200, Names (health_check (e_db_answers e))), d)
      | NodesRoute \<Rightarrow> with_user e credentials d (\<lambda>_. ((200, NamesList system_nodes), d))
      | PodsRoute \<Rightarrow> with_user e credentials d (\<lambda>_. ((200, NamesList system_pods), d))
      | VersionRoute \<Rightarrow>
          ((200, Names [(''version'', ''0.1.0''), (''service'', ''distributed-job-scheduler'')]), d))"

definition dashboard_router :: "api_env \<Rightarrow> string option \<Rightarrow> db \<Rightarrow> reply \<times> db" where
  "dashboard_router e credentials d =
     with_user e credentials d (\<lambda>_. ((200, DashboardBody (dashboard_summary (e_now e) d)), d))"

definition metrics_router :: "api_env \<Rightarrow> db \<Rightarrow> reply \<times> db" where
  "metrics_router e d =
     (case fst (scrape (e_files e) (e_restarts e) d (e_registry e)) of
        Inl x \<Rightarrow> (server_error, d)
      | Inr reg \<Rightarrow> ((200, MetricsBody reg), d))"

text \<open>The application: all routers, the root and the health alias.\<close>

datatype route =
    AuthRoute auth_route
  | JobRoute job_route
  | RunRoute run_route
  | WorkerRoute worker_route
  | SchedulerRoute scheduler_route
  | SystemRoute system_route
  | DashboardRoute
  | MetricsRoute
  | RootRoute
  | HealthAliasRoute

definition app :: "api_env \<Rightarrow> string option \<Rightarrow> route \<Rightarrow> db \<Rightarrow> reply \<times> db" where
  "app e credentials r d =
     (case r of
        AuthRoute x \<Rightarrow> auth_router e credentials x d
      | JobRoute x \<Rightarrow> job_router e credentials x d
      | RunRoute x \<Rightarrow> job_run_router e credentials x d
      | WorkerRoute x \<Rightarrow> worker_router e credentials x d
      | SchedulerRoute x \<Rightarrow> scheduler_router e credentials x d
      | SystemRoute x \<Rightarrow> system_router e credentials x d
      | DashboardRoute \<Rightarrow> dashboard_router e credentials d
      | MetricsRoute \<Rightarrow> metrics_router e d
      | RootRoute \<Rightarrow>
          ((200, Names [(''service'', ''Distributed Asynchronous Job Scheduler''), (''docs'', ''/docs'')]), d)
      | HealthAliasRoute \<Rightarrow> ((200, Names (health_check (e_db_answers e))), d))"

end
