(* ===== verification/ApiCorrect.thy ===== *)
theory ApiCorrect
  imports Api System
begin

text \<open>
  Correctness of the HTTP surface: whatever a route does to the database is one of the
  requests of System, so the reachable databases are closed under every HTTP request; and the
  responses of a committed database satisfy their response models, except where a stored
  interval rule cannot be read back.
\<close>

section \<open>What a route leaves behind\<close>

lemma snd_written [simp]: "snd (written build d res) = after d res"
  by (auto simp: written_def after_def split: sum.split)

lemma snd_read_only [simp]: "snd (read_only d res) = d"
  by (simp add: read_only_def split: sum.split)

lemma snd_with_user:
  "snd (with_user e c d f) =
     (case get_current_user (e_lib e) (e_now0 e) c d of Inl x \<Rightarrow> d | Inr u \<Rightarrow> snd (f u))"
  by (simp add: with_user_def split: sum.split)

lemma after_bind:
  assumes "\<And>x. \<exists>y. f x = Inr (y, snd x)"
  shows "after d (bind_result res f) = after d res"
proof (cases res)
  case (Inr x)
  obtain y where "f x = Inr (y, snd x)" using assms by blast
  then show ?thesis using Inr by (cases x) simp
qed simp

lemma after_pull: "after d (pull_task locked w now st d) = after d (dequeue_next_run locked 3600 w now st d)"
  unfolding pull_task_def worker_dequeue_def lock_pending_job_def by (rule after_bind) auto

lemma after_scan_endpoint: "after d (scan_endpoint cron locked now0 now st d) = after d (scan_due_jobs cron locked now st d)"
  unfolding scan_endpoint_def by (rule after_bind) auto

lemma after_run_heartbeat: "after d (run_heartbeat now k d) = after d (worker_heartbeat now k d)"
  unfolding run_heartbeat_def by (rule after_bind) auto

lemma after_run_finish:
  "\<exists>s err out se. after d (run_finish st now k p status stdout stderr msg d) \<in> {d, after d (finish_run st now k s err out se d)}"
proof -
  have "after d (bind_result (finish_run st now k s err out se d) (\<lambda>(run, d'). Inr (status_or_not_found run, d')))
      = after d (finish_run st now k s err out se d)" for s err out se
    by (rule after_bind) auto
  then show ?thesis unfolding run_finish_def Let_def by (simp split: if_split) blast
qed

text \<open>A step, or nothing.\<close>

definition stays :: "db \<Rightarrow> db \<Rightarrow> bool" where
  "stays d d' \<longleftrightarrow> d' = d \<or> step d d'"

lemma stays_refl [intro, simp]: "stays d d"
  by (simp add: stays_def)

lemma stays_serve: "stays d (serve now st req d)"
  by (simp add: stays_def step.request)

lemma stays_with_user: "(\<And>u. stays d (snd (f u))) \<Longrightarrow> stays d (snd (with_user e c d f))"
  by (simp add: snd_with_user split: sum.split)

lemma auth_router_stays: "stays d (snd (auth_router e c r d))"
proof (cases r)
  case (RegisterRoute p)
  have "stays d (after d (register_user (e_lib e) (e_salt e) (e_stamps e) p d))"
    using stays_serve [of d "e_now e" "e_stamps e" "Register (e_lib e) (e_salt e) p"] by simp
  then show ?thesis using RegisterRoute by (simp add: auth_router_def)
next
  case (PasswordRoute old new)
  have "stays d (after d (change_password (e_lib e) (e_salt e) u old new d))" for u
    using stays_serve [of d "e_now e" "e_stamps e" "ChangePassword (e_lib e) (e_salt e) u old new"] by simp
  then show ?thesis using PasswordRoute by (auto simp: auth_router_def intro!: stays_with_user)
next
  case MeRoute
  then show ?thesis by (auto simp: auth_router_def intro!: stays_with_user)
qed (simp_all add: auth_router_def)

lemma job_router_stays: "stays d (snd (job_router e c r d))"
  unfolding job_router_def
proof (rule stays_with_user)
  fix u
  note s = stays_serve [of d "e_now e" "e_stamps e"]
  show "stays d (snd (case r of
       CreateJobRoute p \<Rightarrow>
         if \<not> name_ok (c_task_name p) then (unprocessable, d)
         else job_reply d (create_job (e_cron e) (e_now e) (e_stamps e) p u d)
     | ListJobsRoute status keyword \<Rightarrow>
         read_only d (to_body JobsBody (map_result (job_body d) (list_jobs (Some u) status keyword d)))
     | GetJobRoute k \<Rightarrow>
         read_only d (bind_result (get_job_or_404 k (Some u) d) (\<lambda>j. to_body JobBody (job_body d j)))
     | UpdateJobRoute k p \<Rightarrow>
         if \<not> job_update_ok p then (unprocessable, d)
         else job_reply d (update_job (e_cron e) (e_now e) (e_stamps e) k p (Some u) d)
     | DeleteJobRoute k \<Rightarrow> written (\<lambda>m _. Inr (Message m)) d (delete_job k (Some u) d)
     | EnableJobRoute k \<Rightarrow> job_reply d (set_job_enabled (e_cron e) (e_now e) k True (Some u) d)
     | DisableJobRoute k \<Rightarrow> job_reply d (set_job_enabled (e_cron e) (e_now e) k False (Some u) d)
     | RunJobRoute k \<Rightarrow> trigger_job_response e k u d
     | TriggerJobRoute k \<Rightarrow> trigger_job_response e k u d))"
  proof (cases r)
    case (CreateJobRoute p)
    then show ?thesis using s [of "CreateJob (e_cron e) p u"] by (simp add: job_reply_def)
  next
    case (UpdateJobRoute k p)
    then show ?thesis using s [of "UpdateJob (e_cron e) k p (Some u)"] by (simp add: job_reply_def)
  next
    case (DeleteJobRoute k)
    then show ?thesis using s [of "DeleteJob k (Some u)"] by simp
  next
    case (EnableJobRoute k)
    then show ?thesis using s [of "SetEnabled (e_cron e) k True (Some u)"] by (simp add: job_reply_def)
  next
    case (DisableJobRoute k)
    then show ?thesis using s [of "SetEnabled (e_cron e) k False (Some u)"] by (simp add: job_reply_def)
  next
    case (RunJobRoute k)
    then show ?thesis using s [of "TriggerJob k (Some u) ''manual''"] by (simp add: trigger_job_response_def)
  next
    case (TriggerJobRoute k)
    then show ?thesis using s [of "TriggerJob k (Some u) ''manual''"] by (simp add: trigger_job_response_def)
  qed simp_all
qed

lemma job_run_router_stays: "stays d (snd (job_run_router e c r d))"
proof -
  note s = stays_serve [of d "e_now e" "e_stamps e"]
  have 1: "stays d (after d (clear_all_runs d))" using s [of ClearRuns] by simp
  have 2: "stays d (after d (retry_job_run (e_stamps e) k (Some u) d))" for k u
    using s [of "RetryRun k (Some u)"] by simp
  have 3: "stays d (after d (cancel_job_run (e_stamps e) (e_now e) k (Some u) d))" for k u
    using s [of "CancelRun k (Some u)"] by simp
  show ?thesis unfolding job_run_router_def
    by (rule stays_with_user) (cases r; simp add: run_reply_def 1 2 3)
qed

lemma worker_router_stays: "stays d (snd (worker_router e c r d))"
proof -
  note s = stays_serve [of d "e_now e" "e_stamps e"]
  have 1: "stays d (after d (dequeue_next_run (e_locked e) 3600 w (e_now e) (e_stamps e) d))" for w
    using s [of "Dequeue (e_locked e) 3600 w"] by simp
  have 2: "stays d (after d (worker_heartbeat (e_now e) k d))" for k using s [of "Heartbeat k"] by simp
  have 3: "stays d (after d (run_finish (e_stamps e) (e_now e) k p status stdout stderr msg d))"
    for k p status stdout stderr msg
  proof -
    obtain x y z w where "after d (run_finish (e_stamps e) (e_now e) k p status stdout stderr msg d)
        \<in> {d, after d (finish_run (e_stamps e) (e_now e) k x y z w d)}"
      using after_run_finish by blast
    then show ?thesis using s [of "FinishRun k x y z w"] by auto
  qed
  show ?thesis unfolding worker_router_def
    by (rule stays_with_user) (cases r; simp add: after_pull after_run_heartbeat 1 2 3)
qed

lemma scheduler_router_stays: "stays d (snd (scheduler_router e c r d))"
proof -
  have "stays d (after d (scan_due_jobs (e_cron e) (e_locked e) (e_now e) (e_stamps e) d))"
    using stays_serve [of d "e_now e" "e_stamps e" "ScanDueJobs (e_cron e) (e_locked e)"] by simp
  then show ?thesis unfolding scheduler_router_def
    by (intro stays_with_user) (cases r; simp add: after_scan_endpoint)
qed

lemma app_stays: "stays d (snd (app e c r d))"
proof (cases r)
  case (SystemRoute x)
  then show ?thesis by (cases x) (auto simp: app_def system_router_def intro!: stays_with_user)
next
  case DashboardRoute
  then show ?thesis by (auto simp: app_def dashboard_router_def intro!: stays_with_user)
qed (simp_all add: app_def auth_router_stays job_router_stays job_run_router_stays worker_router_stays
    scheduler_router_stays metrics_router_def split: sum.split)

lemma app_reachable: "reachable d \<Longrightarrow> reachable (snd (app e c r d))"
  using app_stays [of d e c r] by (auto simp: stays_def intro: reachable.step)

section \<open>Response models\<close>

text \<open>What cannot be read back is only an interval rule.\<close>

definition readable :: "job \<Rightarrow> bool" where
  "readable j \<longleftrightarrow> (case job_interval_seconds j of Inl e \<Rightarrow> False | Inr n \<Rightarrow> True)"

lemma int_or_raise_Inl: "int_or_raise s = Inl e \<Longrightarrow> \<exists>m. e = ValueError m"
  by (auto simp: int_or_raise_def split: option.splits)

lemma interval_seconds_Inl: "interval_seconds rule = Inl e \<Longrightarrow> \<exists>m. e = ValueError m"
  by (auto simp: interval_seconds_def Let_def bind_result_Inl_iff dest: int_or_raise_Inl split: if_splits)

lemma job_body_Inl: "job_body d j = Inl e \<Longrightarrow> \<exists>m. e = ValueError m"
  by (auto simp: job_body_def normalize_for_response_def job_interval_seconds_def response_error_def
      bind_result_Inl_iff dest: interval_seconds_Inl split: if_splits)

lemma job_body_unreadable: "\<not> readable j \<Longrightarrow> \<exists>e. job_body d j = Inl e"
  by (auto simp: readable_def job_body_def normalize_for_response_def split: sum.splits)

lemma job_body_readable:
  assumes v: "valid d" and j: "j \<in> set (db_jobs d)" and c: "job_consistent j" and r: "readable j"
  shows "\<exists>x. job_body d j = Inr x"
proof -
  obtain n where n: "job_interval_seconds j = Inr n" using r by (auto simp: readable_def split: sum.splits)
  have ok: "job_ok j" using valid_job [OF v j] by simp
  have "None \<notin> set (depends_on_names d j)"
  proof
    assume "None \<in> set (depends_on_names d j)"
    then obtain i where "i \<in> set (db_jobs d)" "j_task_name i = None" by (auto simp: depends_on_names_def)
    then show False using valid_job [OF v, of i] by (simp add: job_ok_def)
  qed
  then show ?thesis using ok c
    by (simp add: job_body_def normalize_for_response_def n JobResponse_ok_def job_ok_def required_iff
        job_consistent_def) auto
qed

lemma run_body_ok:
  assumes v: "valid d" and r: "r \<in> set (db_runs d)"
  shows "run_body d r = Inr (JobRunResponse d r)"
proof -
  have ok: "run_ok r" using valid_run [OF v r] by (simp add: run_valid_def)
  have "run_task_name d r \<noteq> None"
    using valid_job [OF v] get_job_row_SomeD
    by (auto simp: run_task_name_def run_job_def job_ok_def split: option.splits)
  then show ?thesis using ok by (auto simp: run_body_def Let_def JobRunResponse_def JobRunResponse_ok_def run_ok_def required_iff)
qed

lemma map_result_ok:
  "(\<And>x. x \<in> set xs \<Longrightarrow> \<exists>y. f x = Inr y) \<Longrightarrow> \<exists>ys. map_result f xs = Inr ys \<and> length ys = length xs"
proof (induction xs)
  case (Cons x xs)
  obtain y where "f x = Inr y" using Cons.prems by auto
  moreover obtain ys where "map_result f xs = Inr ys" "length ys = length xs" using Cons by auto
  ultimately show ?case by simp
qed simp

lemma map_result_fails:
  assumes "x \<in> set xs" and "f x = Inl e" and "\<And>y e. f y = Inl e \<Longrightarrow> P e"
  shows "\<exists>e. map_result f xs = Inl e \<and> P e"
  using assms
proof (induction xs)
  case (Cons y ys)
  show ?case
  proof (cases "f y")
    case (Inl a)
    then show ?thesis using Cons.prems(3) by simp
  next
    case (Inr b)
    then have "x \<in> set ys" using Cons.prems(1,2) by auto
    then show ?thesis using Cons.IH Cons.prems(2,3) Inr by fastforce
  qed
qed simp

lemma failure_ValueError [simp]: "failure (ValueError m) = server_error"
  by (simp add: server_error_def)

text \<open>The rows the read routes serve are rows of the tables.\<close>

lemma list_jobs_subset: "set (list_jobs u s k d) \<subseteq> set (db_jobs d)"
  by (auto simp: list_jobs_def)

lemma list_job_runs_subset: "set (list_job_runs s u j l off cu d) \<subseteq> set (db_runs d)"
  by (auto simp: list_job_runs_def repo_list_def dest!: in_set_takeD in_set_dropD)

end
