(* ===== verification/ApiClient.thy ===== *)
theory ApiClient
  imports PyValues
begin

text \<open>
  The frontend's client of the backend (\<open>ui/api_client.py\<close>): the request each method sends,
  with its headers, and what becomes of the answer. The requests library is the parameter
  \<open>requests_lib\<close>; what it answers may depend on the calls made before. Texts that are not
  ASCII are their UTF-8 bytes.
\<close>

section \<open>Calls and answers\<close>

record api_call =
  call_method :: string
  call_url :: string
  call_headers :: "(string \<times> string) list"
  call_json :: "json option"

text \<open>\<open>ans_json\<close> is \<open>None\<close> where \<open>response.json()\<close> raises (a \<open>ValueError\<close>).\<close>

record api_answer =
  ans_status :: nat
  ans_text :: string
  ans_json :: "json option"

text \<open>\<open>Inl\<close> is a \<open>RequestException\<close> with its text.\<close>

type_synonym requests_lib = "api_call list \<Rightarrow> api_call \<Rightarrow> string + api_answer"

text \<open>A \<open>BackendAPIError\<close> is its argument: a text, or whatever JSON value the backend gave as
  detail.\<close>

type_synonym 'a api_result = "json + 'a"

record api_client =
  base_url :: string
  client_token :: "string option"

definition rstrip_slash :: "string \<Rightarrow> string" where
  "rstrip_slash s = rev (dropWhile (\<lambda>c. c = CHR ''/'') (rev s))"

definition BackendAPIClient :: "string \<Rightarrow> string option \<Rightarrow> api_client" where
  "BackendAPIClient url token = \<lparr>base_url = rstrip_slash url, client_token = token\<rparr>"

definition auth_headers :: "api_client \<Rightarrow> (string \<times> string) list" where
  "auth_headers c =
     (''Accept'', ''application/json'')
     # (case client_token c of
          None \<Rightarrow> []
        | Some t \<Rightarrow> if t = [] then [] else [(''Authorization'', ''Bearer '' @ t)])"

section \<open>One request\<close>

definition system_error :: "nat \<Rightarrow> string" where
  "system_error code =
     [CHR 0xE7, CHR 0xB3, CHR 0xBB, CHR 0xE7, CHR 0xB5, CHR 0xB1, CHR 0xE9, CHR 0x8C, CHR
     0xAF, CHR 0xE8, CHR 0xAA, CHR 0xA4]
     @ '' ('' @ nat_str code @ '')''"

definition auth_failed :: string where
  "auth_failed =
     [CHR 0xE9, CHR 0xA9, CHR 0x97, CHR 0xE8, CHR 0xAD, CHR 0x89, CHR 0xE5, CHR 0xA4, CHR
     0xB1, CHR 0xE6, CHR 0x95, CHR 0x97, CHR 0xEF, CHR 0xBC, CHR 0x88, CHR 0xE5, CHR 0xB8,
     CHR 0xB3, CHR 0xE8, CHR 0x99, CHR 0x9F, CHR 0xE6, CHR 0x88, CHR 0x96, CHR 0xE5, CHR
     0xAF, CHR 0x86, CHR 0xE7, CHR 0xA2, CHR 0xBC, CHR 0xE9, CHR 0x8C, CHR 0xAF, CHR 0xE8,
     CHR 0xAA, CHR 0xA4, CHR 0xEF, CHR 0xBC, CHR 0x89, CHR 0xE3, CHR 0x80, CHR 0x82]"

definition resource_missing :: string where
  "resource_missing =
     [CHR 0xE6, CHR 0x89, CHR 0xBE, CHR 0xE4, CHR 0xB8, CHR 0x8D, CHR 0xE5, CHR 0x88, CHR
     0xB0, CHR 0xE8, CHR 0xA6, CHR 0x81, CHR 0xE6, CHR 0xB1, CHR 0x82, CHR 0xE7, CHR 0x9A,
     CHR 0x84, CHR 0xE8, CHR 0xB3, CHR 0x87, CHR 0xE6, CHR 0xBA, CHR 0x90, CHR 0xE3, CHR
     0x80, CHR 0x82]"

definition cannot_connect :: "string \<Rightarrow> string" where
  "cannot_connect exc = ''Cannot connect backend API: '' @ exc"

text \<open>The detail of an error answer, if its body is a dict that has one.\<close>

definition error_detail :: "api_answer \<Rightarrow> json" where
  "error_detail a =
     (case ans_json a of
        Some (JObj data) \<Rightarrow>
          (case dict_get data ''detail'' of None \<Rightarrow> JStr (system_error (ans_status a)) | Some v \<Rightarrow> v)
      | _ \<Rightarrow> JStr (system_error (ans_status a)))"

definition error_message :: "api_answer \<Rightarrow> json" where
  "error_message a =
     (let msg = error_detail a; plain = (msg = JStr (system_error (ans_status a))) in
      if ans_status a = 401 then (if plain then JStr auth_failed else msg)
      else if ans_status a = 404 then (if plain then JStr resource_missing else msg)
      else msg)"

definition read_answer :: "string + api_answer \<Rightarrow> json api_result" where
  "read_answer res =
     (case res of
        Inl exc \<Rightarrow> Inl (JStr (cannot_connect exc))
      | Inr a \<Rightarrow>
          if 400 \<le> ans_status a then Inl (error_message a)
          else if ans_status a = 204 \<or> ans_text a = [] then Inr (JObj [])
          else (case ans_json a of
                  Some v \<Rightarrow> Inr v
                | None \<Rightarrow> Inr (JObj [(''raw'', JStr (ans_text a))])))"

definition make_call :: "api_client \<Rightarrow> string \<Rightarrow> string \<Rightarrow> json option \<Rightarrow> api_call" where
  "make_call c method path body =
     \<lparr>call_method = method, call_url = base_url c @ path,
      call_headers = auth_headers c
        @ (case body of None \<Rightarrow> [] | Some v \<Rightarrow> [(''Content-Type'', ''application/json'')]),
      call_json = body\<rparr>"

section \<open>The methods\<close>

definition api_register :: "api_client \<Rightarrow> json \<Rightarrow> api_call" where
  "api_register c payload = make_call c ''POST'' ''/auth/register'' (Some payload)"

definition api_login :: "api_client \<Rightarrow> json \<Rightarrow> api_call" where
  "api_login c payload = make_call c ''POST'' ''/auth/login'' (Some payload)"

definition api_me :: "api_client \<Rightarrow> api_call" where
  "api_me c = make_call c ''GET'' ''/auth/me'' None"

definition api_list_jobs :: "api_client \<Rightarrow> api_call" where
  "api_list_jobs c = make_call c ''GET'' ''/jobs'' None"

definition api_get_job :: "api_client \<Rightarrow> string \<Rightarrow> api_call" where
  "api_get_job c job_id = make_call c ''GET'' (''/jobs/'' @ job_id) None"

definition api_create_job :: "api_client \<Rightarrow> json \<Rightarrow> api_call" where
  "api_create_job c payload = make_call c ''POST'' ''/jobs'' (Some payload)"

definition api_update_job :: "api_client \<Rightarrow> string \<Rightarrow> json \<Rightarrow> api_call" where
  "api_update_job c job_id payload = make_call c ''PUT'' (''/jobs/'' @ job_id) (Some payload)"

definition api_delete_job :: "api_client \<Rightarrow> string \<Rightarrow> api_call" where
  "api_delete_job c job_id = make_call c ''DELETE'' (''/jobs/'' @ job_id) None"

definition api_run_job :: "api_client \<Rightarrow> string \<Rightarrow> api_call" where
  "api_run_job c job_id = make_call c ''POST'' (''/jobs/'' @ job_id @ ''/run'') None"

definition api_list_job_runs :: "api_client \<Rightarrow> api_call" where
  "api_list_job_runs c = make_call c ''GET'' ''/job-runs'' None"

definition api_get_run_logs :: "api_client \<Rightarrow> string \<Rightarrow> api_call" where
  "api_get_run_logs c run_id = make_call c ''GET'' (''/job-runs/'' @ run_id @ ''/logs'') None"

definition api_retry_run :: "api_client \<Rightarrow> string \<Rightarrow> api_call" where
  "api_retry_run c run_id = make_call c ''POST'' (''/job-runs/'' @ run_id @ ''/retry'') None"

definition api_clear_all_runs :: "api_client \<Rightarrow> api_call" where
  "api_clear_all_runs c = make_call c ''POST'' ''/job-runs/clear'' None"

definition api_health :: "api_client \<Rightarrow> api_call" where
  "api_health c = make_call c ''GET'' ''/health'' None"

lemmas api_calls = api_register_def api_login_def api_me_def api_list_jobs_def api_get_job_def
  api_create_job_def api_update_job_def api_delete_job_def api_run_job_def api_list_job_runs_def
  api_get_run_logs_def api_retry_run_def api_clear_all_runs_def api_health_def

section \<open>The token travels with every call\<close>

definition carries_token :: "string \<Rightarrow> api_call \<Rightarrow> bool" where
  "carries_token t c \<longleftrightarrow> map_of (call_headers c) ''Authorization'' = Some (''Bearer '' @ t)"

lemma make_call_carries:
  "t \<noteq> [] \<Longrightarrow> carries_token t (make_call (BackendAPIClient url (Some t)) method path body)"
  by (simp add: carries_token_def make_call_def auth_headers_def BackendAPIClient_def)

lemma make_call_anonymous:
  "map_of (call_headers (make_call (BackendAPIClient url None) method path body)) ''Authorization'' = None"
  by (simp add: make_call_def auth_headers_def BackendAPIClient_def split: option.split)

end
