(* ===== verification/ApiRouting.thy ===== *)
theory ApiRouting
  imports Api ApiClient "HOL-Library.Sublist"
begin

text \<open>
  From a URL to a route: the paths of the routers, in the order in which \<open>app/main.py\<close> includes
  them, and the dispatch of a request by method and path. Starlette as documented: the first
  route whose method and path match is taken; a path parameter is one non-empty segment; if only
  paths match the answer is 405, otherwise 404 (its redirect for a missing or added slash at the
  end is left out).
\<close>

section \<open>Paths\<close>

datatype seg = Lit string | Param

fun match_path :: "seg list \<Rightarrow> string list \<Rightarrow> string list option" where
  "match_path [] [] = Some []"
| "match_path (Lit s # ss) (x # xs) = (if x = s then match_path ss xs else None)"
| "match_path (Param # ss) (x # xs) = (if x = [] then None else map_option ((#) x) (match_path ss xs))"
| "match_path _ _ = None"

text \<open>What a request without query string is for: a route that path and body-less method
  determine, or one that waits for its body, or for a required query parameter.\<close>

datatype shape =
    Plain route
  | RegisterBody
  | LoginBody
  | PasswordBody
  | CreateBody
  | UpdateBody string
  | QueryRequired

type_synonym entry = "string \<times> seg list \<times> (string list \<Rightarrow> shape)"

definition under :: "string \<Rightarrow> string \<Rightarrow> seg list \<Rightarrow> (string list \<Rightarrow> shape) \<Rightarrow> entry" where
  "under prefix_name meth path f = (meth, Lit ''api'' # Lit prefix_name # path, f)"

section \<open>The routers' paths\<close>

definition auth_paths :: "entry list" where
  "auth_paths =
     [under ''auth'' ''POST'' [Lit ''register''] (\<lambda>_. RegisterBody),
      under ''auth'' ''POST'' [Lit ''login''] (\<lambda>_. LoginBody),
      under ''auth'' ''POST'' [Lit ''logout''] (\<lambda>_. Plain (AuthRoute LogoutRoute)),
      under ''auth'' ''GET'' [Lit ''me''] (\<lambda>_. Plain (AuthRoute MeRoute)),
      under ''auth'' ''PUT'' [Lit ''password''] (\<lambda>_. PasswordBody)]"

definition job_paths :: "entry list" where
  "job_paths =
     [under ''jobs'' ''POST'' [] (\<lambda>_. CreateBody),
      under ''jobs'' ''GET'' [] (\<lambda>_. Plain (JobRoute (ListJobsRoute None None))),
      under ''jobs'' ''GET'' [Param] (\<lambda>ps. Plain (JobRoute (GetJobRoute (hd ps)))),
      under ''jobs'' ''PUT'' [Param] (\<lambda>ps. UpdateBody (hd ps)),
      under ''jobs'' ''DELETE'' [Param] (\<lambda>ps. Plain (JobRoute (DeleteJobRoute (hd ps)))),
      under ''jobs'' ''PATCH'' [Param, Lit ''enable''] (\<lambda>ps. Plain (JobRoute (EnableJobRoute (hd ps)))),
      under ''jobs'' ''PATCH'' [Param, Lit ''disable''] (\<lambda>ps. Plain (JobRoute (DisableJobRoute (hd ps)))),
      under ''jobs'' ''POST'' [Param, Lit ''run''] (\<lambda>ps. Plain (JobRoute (RunJobRoute (hd ps)))),
      under ''jobs'' ''POST'' [Param, Lit ''trigger''] (\<lambda>ps. Plain (JobRoute (TriggerJobRoute (hd ps))))]"

text \<open>Without a query string the listings have the defaults of their parameters.\<close>

definition any_log :: log_query where
  "any_log = \<lparr>q_task_name = None, q_status = None, q_user_id = None, q_log_level = None,
     q_start_from = None, q_start_to = None\<rparr>"

definition job_run_paths :: "entry list" where
  "job_run_paths =
     [under ''job-runs'' ''GET'' [] (\<lambda>_. Plain (RunRoute (ListRunsRoute None None None 100 0))),
      under ''job-runs'' ''GET'' [Lit ''logs'', Lit ''search''] (\<lambda>_. Plain (RunRoute (SearchLogsRoute any_log 100 0))),
      under ''job-runs'' ''POST'' [Lit ''clear''] (\<lambda>_. Plain (RunRoute ClearRunsRoute)),
      under ''job-runs'' ''GET'' [Param] (\<lambda>ps. Plain (RunRoute (GetRunRoute (hd ps)))),
      under ''job-runs'' ''GET'' [Param, Lit ''logs''] (\<lambda>ps. Plain (RunRoute (GetLogsRoute (hd ps)))),
      under ''job-runs'' ''POST'' [Param, Lit ''retry''] (\<lambda>ps. Plain (RunRoute (RetryRunRoute (hd ps)))),
      under ''job-runs'' ''POST'' [Param, Lit ''cancel''] (\<lambda>ps. Plain (RunRoute (CancelRunRoute (hd ps))))]"

definition scheduler_paths :: "entry list" where
  "scheduler_paths =
     [under ''scheduler'' ''POST'' [Lit ''scan''] (\<lambda>_. Plain (SchedulerRoute ScanRoute)),
      under ''scheduler'' ''GET'' [Lit ''status''] (\<lambda>_. Plain (SchedulerRoute SchedulerStatusRoute)),
      under ''scheduler'' ''GET'' [Lit ''leader''] (\<lambda>_. Plain (SchedulerRoute LeaderRoute))]"

definition worker_paths :: "entry list" where
  "worker_paths =
     [under ''workers'' ''GET'' [] (\<lambda>_. Plain (WorkerRoute ListWorkersRoute)),
      under ''workers'' ''POST'' [Lit ''pull''] (\<lambda>_. QueryRequired),
      under ''workers'' ''POST'' [Param, Lit ''heartbeat''] (\<lambda>ps. Plain (WorkerRoute (HeartbeatRoute (hd ps)))),
      under ''workers'' ''POST'' [Param, Lit ''finish'']
        (\<lambda>ps. Plain (WorkerRoute (FinishRoute (hd ps) None None None None None)))]"

definition system_paths :: "entry list" where
  "system_paths =
     [under ''system'' ''GET'' [Lit ''health''] (\<lambda>_. Plain (SystemRoute HealthRoute)),
      under ''system'' ''GET'' [Lit ''nodes''] (\<lambda>_. Plain (SystemRoute NodesRoute)),
      under ''system'' ''GET'' [Lit ''pods''] (\<lambda>_. Plain (SystemRoute PodsRoute)),
      under ''system'' ''GET'' [Lit ''version''] (\<lambda>_. Plain (SystemRoute VersionRoute))]"

text \<open>The application: its own two routes, then the routers in the order of their inclusion.\<close>

definition route_table :: "entry list" where
  "route_table =
     [(''GET'', [Lit []], \<lambda>_. Plain RootRoute),
      (''GET'', [Lit ''api'', Lit ''health''], \<lambda>_. Plain HealthAliasRoute)]
     @ auth_paths @ job_paths @ job_run_paths @ scheduler_paths @ worker_paths
     @ [under ''dashboard'' ''GET'' [Lit ''summary''] (\<lambda>_. Plain DashboardRoute)]
     @ system_paths
     @ [(''GET'', [Lit ''api'', Lit ''metrics''], \<lambda>_. Plain MetricsRoute)]"

section \<open>Dispatch\<close>

datatype dispatched = Found shape | MethodNotAllowed405 | NotFound404

definition entry_matches :: "string \<Rightarrow> string list \<Rightarrow> entry \<Rightarrow> bool" where
  "entry_matches meth path x = (fst x = meth \<and> match_path (fst (snd x)) path \<noteq> None)"

definition dispatch :: "string \<Rightarrow> string list \<Rightarrow> dispatched" where
  "dispatch meth path =
     (case find (entry_matches meth path) route_table of
        Some x \<Rightarrow> Found (snd (snd x) (the (match_path (fst (snd x)) path)))
      | None \<Rightarrow>
          if list_ex (\<lambda>x. match_path (fst (snd x)) path \<noteq> None) route_table
          then MethodNotAllowed405 else NotFound404)"

text \<open>The segments of a URL behind the host.\<close>

definition segments_of :: "string \<Rightarrow> string \<Rightarrow> string list" where
  "segments_of host url = tl (split_on (CHR ''/'') (drop (length host) url))"

definition dispatch_call :: "string \<Rightarrow> api_call \<Rightarrow> dispatched" where
  "dispatch_call host call = dispatch (call_method call) (segments_of host (call_url call))"

section \<open>Two patterns that match the same path\<close>

fun overlap :: "seg list \<Rightarrow> seg list \<Rightarrow> bool" where
  "overlap [] [] = True"
| "overlap (Lit s # ss) (Lit t # ts) = (s = t \<and> overlap ss ts)"
| "overlap (Lit s # ss) (Param # ts) = (s \<noteq> [] \<and> overlap ss ts)"
| "overlap (Param # ss) (Lit t # ts) = (t \<noteq> [] \<and> overlap ss ts)"
| "overlap (Param # ss) (Param # ts) = overlap ss ts"
| "overlap _ _ = False"

lemma match_overlap: "match_path ss p \<noteq> None \<Longrightarrow> match_path ts p \<noteq> None \<Longrightarrow> overlap ss ts"
proof (induction ss ts arbitrary: p rule: overlap.induct)
  case (1)
  then show ?case by simp
qed (case_tac p; auto split: if_splits)+

lemma sorted_wrt_filter_le_1:
  assumes "sorted_wrt R xs" and "\<And>x y. R x y \<Longrightarrow> \<not> (P x \<and> P y)"
  shows "length (filter P xs) \<le> 1"
  using assms(1)
proof (induction xs)
  case (Cons x xs)
  show ?case
  proof (cases "P x")
    case True
    then have "\<forall>y \<in> set xs. \<not> P y" using Cons.prems assms(2) by auto
    then have "filter P xs = []" by (simp add: filter_empty_conv)
    then show ?thesis by simp
  qed (use Cons in simp)
qed simp

section \<open>Segments\<close>

lemma split_on_none: "c \<notin> set s \<Longrightarrow> split_on c s = [s]"
  by (induction s) auto

lemma split_on_append: "c \<notin> set s \<Longrightarrow> split_on c (s @ c # t) = s # split_on c t"
  by (induction s) auto

lemma split_on_nonempty: "split_on c s \<noteq> []"
  by (induction s) (auto split: list.split)

lemma name_ok_plain: "name_ok k \<Longrightarrow> k \<noteq> [] \<and> CHR ''/'' \<notin> set k"
  by (auto simp: name_ok_def list_all_iff name_char_def)

lemma segments_simps:
  "segments_of host (host @ CHR ''/'' # p) = split_on (CHR ''/'') p"
  by (simp add: segments_of_def)

lemma base_of_host: "base_url (BackendAPIClient (host @ ''/api'') tok) = host @ ''/api''"
  by (simp add: BackendAPIClient_def rstrip_slash_def)

lemma split_id:
  assumes "name_ok k"
  shows "split_on (CHR ''/'') k = [k]" and "split_on (CHR ''/'') (k @ CHR ''/'' # t) = k # split_on (CHR ''/'') t"
    and "k \<noteq> []"
  using name_ok_plain [OF assms] by (simp_all add: split_on_none split_on_append)

lemmas path_defs = route_table_def auth_paths_def job_paths_def job_run_paths_def scheduler_paths_def
  worker_paths_def system_paths_def under_def

section \<open>The properties\<close>

text \<open>No request matches two routes: whatever its method and path, at most one entry of the
  table matches, so the order in which routes and routers are declared does not matter.\<close>

theorem routes_unambiguous: "length (filter (entry_matches meth path) route_table) \<le> 1"
proof (rule sorted_wrt_filter_le_1)
  show "sorted_wrt (\<lambda>x y. fst x \<noteq> fst y \<or> \<not> overlap (fst (snd x)) (fst (snd y))) route_table"
    by code_simp
  show "\<not> (entry_matches meth path x \<and> entry_matches meth path y)"
    if "fst x \<noteq> fst y \<or> \<not> overlap (fst (snd x)) (fst (snd y))" for x y :: entry
    using that match_overlap unfolding entry_matches_def by metis
qed

lemma client_routes:
  assumes "name_ok k" and "c = BackendAPIClient (host @ ''/api'') tok"
  shows "dispatch_call host (api_register c v) = Found RegisterBody
     \<and> dispatch_call host (api_login c v) = Found LoginBody
     \<and> dispatch_call host (api_me c) = Found (Plain (AuthRoute MeRoute))
     \<and> dispatch_call host (api_list_jobs c) = Found (Plain (JobRoute (ListJobsRoute None None)))
     \<and> dispatch_call host (api_get_job c k) = Found (Plain (JobRoute (GetJobRoute k)))
     \<and> dispatch_call host (api_create_job c v) = Found CreateBody
     \<and> dispatch_call host (api_update_job c k v) = Found (UpdateBody k)
     \<and> dispatch_call host (api_delete_job c k) = Found (Plain (JobRoute (DeleteJobRoute k)))
     \<and> dispatch_call host (api_run_job c k) = Found (Plain (JobRoute (RunJobRoute k)))
     \<and> dispatch_call host (api_list_job_runs c) = Found (Plain (RunRoute (ListRunsRoute None None None 100 0)))
     \<and> dispatch_call host (api_get_run_logs c k) = Found (Plain (RunRoute (GetLogsRoute k)))
     \<and> dispatch_call host (api_retry_run c k) = Found (Plain (RunRoute (RetryRunRoute k)))
     \<and> dispatch_call host (api_clear_all_runs c) = Found (Plain (RunRoute ClearRunsRoute))
     \<and> dispatch_call host (api_health c) = Found (Plain HealthAliasRoute)"
  using split_id [OF assms(1)] unfolding assms(2)
  by (intro conjI)
    (simp add: dispatch_call_def api_calls make_call_def base_of_host segments_simps dispatch_def
      path_defs entry_matches_def)+

text \<open>Every method of the frontend's client reaches the route it is meant for, with its id, for
  every base URL that ends in \<open>/api\<close> and every id of letters, digits, underscores and
  hyphens.\<close>

theorem client_calls_reach_routes:
  assumes "name_ok k" and "c = BackendAPIClient (host @ ''/api'') tok"
  shows "dispatch_call host (api_register c v) = Found RegisterBody
     \<and> dispatch_call host (api_login c v) = Found LoginBody
     \<and> dispatch_call host (api_me c) = Found (Plain (AuthRoute MeRoute))
     \<and> dispatch_call host (api_list_jobs c) = Found (Plain (JobRoute (ListJobsRoute None None)))
     \<and> dispatch_call host (api_get_job c k) = Found (Plain (JobRoute (GetJobRoute k)))
     \<and> dispatch_call host (api_create_job c v) = Found CreateBody
     \<and> dispatch_call host (api_update_job c k v) = Found (UpdateBody k)
     \<and> dispatch_call host (api_delete_job c k) = Found (Plain (JobRoute (DeleteJobRoute k)))
     \<and> dispatch_call host (api_run_job c k) = Found (Plain (JobRoute (RunJobRoute k)))
     \<and> dispatch_call host (api_list_job_runs c) = Found (Plain (RunRoute (ListRunsRoute None None None 100 0)))
     \<and> dispatch_call host (api_get_run_logs c k) = Found (Plain (RunRoute (GetLogsRoute k)))
     \<and> dispatch_call host (api_retry_run c k) = Found (Plain (RunRoute (RetryRunRoute k)))
     \<and> dispatch_call host (api_clear_all_runs c) = Found (Plain (RunRoute ClearRunsRoute))
     \<and> dispatch_call host (api_health c) = Found (Plain HealthAliasRoute)"
  using assms by (rule client_routes)

theorem client_calls_reach_routes_witness:
  "dispatch_call ''http://backend:8000'' (api_run_job (BackendAPIClient ''http://backend:8000/api'' None) ''a-1'')
   = Found (Plain (JobRoute (RunJobRoute ''a-1'')))"
proof -
  have "name_ok ''a-1''" by (simp add: name_ok_def name_char_def)
  moreover have "BackendAPIClient ''http://backend:8000/api'' None = BackendAPIClient (''http://backend:8000'' @ ''/api'') None"
    by simp
  ultimately show ?thesis by (rule client_calls_reach_routes [THEN conjunct2, THEN conjunct2, THEN conjunct2,
      THEN conjunct2, THEN conjunct2, THEN conjunct2, THEN conjunct2, THEN conjunct2, THEN conjunct1])
qed

end
