(* ===== verification/DemoStore.thy ===== *)
theory DemoStore
  imports Schedule
begin

text \<open>
  The demo store of the frontend (\<open>ui/demo_store.py\<close>): with \<open>DEMO_MODE\<close> on, jobs, runs and
  logs live in the browser session and running a job is simulated. The session's keys are
  options (absent or there); the dicts of the lists are records, turned back into dicts
  (\<open>job_dict\<close>, \<open>run_dict\<close>, \<open>log_dict\<close>) where the views read them. What is drawn (ids and
  readings of the clock) is the argument \<open>draws\<close>, numbered by the place in the code that draws.
\<close>

section \<open>The session\<close>

record demo_job =
  dj_id :: string
  dj_task_name :: json
  dj_status :: json
  dj_user :: string
  dj_schedule_type :: json
  dj_cron_expression :: json
  dj_interval_seconds :: json
  dj_action :: json
  dj_timeout_seconds :: json
  dj_retry_limit :: json
  dj_created_at :: string
  dj_updated_at :: string

record demo_run =
  dr_id :: string
  dr_job_id :: string
  dr_task_name :: json
  dr_status :: string
  dr_user :: string
  dr_start_time :: string
  dr_duration :: rat
  dr_action :: json
  dr_triggered_by :: string
  dr_retry_count :: int

record demo_log =
  dl_log_level :: string
  dl_message :: string
  dl_created_at :: string

record session =
  s_token :: "string option"
  s_username :: "string option"
  s_demo_users :: "(string \<times> pydict) list option"
  s_demo_jobs :: "demo_job list option"
  s_demo_runs :: "demo_run list option"
  s_demo_logs :: "(string \<times> demo_log list) list option"

definition empty_session :: session where
  "empty_session = \<lparr>s_token = None, s_username = None, s_demo_users = None, s_demo_jobs = None,
     s_demo_runs = None, s_demo_logs = None\<rparr>"

record draws =
  uuid :: "nat \<Rightarrow> string"
  now_iso :: "nat \<Rightarrow> string"

definition job_dict :: "demo_job \<Rightarrow> pydict" where
  "job_dict j =
     [(''id'', JStr (dj_id j)), (''task_name'', dj_task_name j), (''status'', dj_status j),
      (''user'', JStr (dj_user j)), (''schedule_type'', dj_schedule_type j),
      (''cron_expression'', dj_cron_expression j), (''interval_seconds'', dj_interval_seconds j),
      (''action'', dj_action j), (''timeout_seconds'', dj_timeout_seconds j),
      (''retry_limit'', dj_retry_limit j), (''created_at'', JStr (dj_created_at j)),
      (''updated_at'', JStr (dj_updated_at j))]"

definition run_dict :: "demo_run \<Rightarrow> pydict" where
  "run_dict r =
     [(''id'', JStr (dr_id r)), (''job_id'', JStr (dr_job_id r)), (''task_name'', dr_task_name r),
      (''status'', JStr (dr_status r)), (''user'', JStr (dr_user r)),
      (''start_time'', JStr (dr_start_time r)), (''duration'', JFloat (dr_duration r)),
      (''action'', dr_action r), (''triggered_by'', JStr (dr_triggered_by r)),
      (''retry_count'', JInt (dr_retry_count r))]"

definition log_dict :: "demo_log \<Rightarrow> pydict" where
  "log_dict l = [(''log_level'', JStr (dl_log_level l)), (''message'', JStr (dl_message l)),
     (''created_at'', JStr (dl_created_at l))]"

section \<open>The operations\<close>

definition ensure_demo_data :: "draws \<Rightarrow> session \<Rightarrow> session" where
  "ensure_demo_data dw s0 =
     (let s = (if s_demo_users s0 = None then s0\<lparr>s_demo_users := Some []\<rparr> else s0) in
      if s_demo_jobs s = None then
        (let job_id = uuid dw 0; run_id = uuid dw 1;
             job = \<lparr>dj_id = job_id, dj_task_name = JStr ''Daily Report Demo'', dj_status = JStr ''enabled'',
                    dj_user = ''demo'', dj_schedule_type = JStr ''cron'',
                    dj_cron_expression = JStr ''0 2 * * *'', dj_interval_seconds = JStr [],
                    dj_action = JStr ''report'', dj_timeout_seconds = JInt 300, dj_retry_limit = JInt 3,
                    dj_created_at = now_iso dw 0, dj_updated_at = now_iso dw 1\<rparr>;
             run = \<lparr>dr_id = run_id, dr_job_id = job_id, dr_task_name = JStr ''Daily Report Demo'',
                    dr_status = ''success'', dr_user = ''demo'', dr_start_time = now_iso dw 2,
                    dr_duration = 24 / 10, dr_action = JStr ''report'', dr_triggered_by = ''manual'',
                    dr_retry_count = 0\<rparr>;
             logs = [\<lparr>dl_log_level = ''info'', dl_message = ''Start generating daily report'',
                      dl_created_at = now_iso dw 3\<rparr>,
                     \<lparr>dl_log_level = ''info'', dl_message = ''Report generated successfully'',
                      dl_created_at = now_iso dw 4\<rparr>] in
         s\<lparr>s_demo_jobs := Some [job], s_demo_runs := Some [run], s_demo_logs := Some [(run_id, logs)]\<rparr>)
      else s)"

definition demo_login :: "draws \<Rightarrow> string \<Rightarrow> session \<Rightarrow> session" where
  "demo_login dw username s =
     ensure_demo_data dw (s\<lparr>s_token := Some (''demo-'' @ uuid dw 2), s_username := Some username\<rparr>)"

text \<open>Reading a key that is not there raises.\<close>

definition demo_key :: "string \<Rightarrow> 'a option \<Rightarrow> 'a result" where
  "demo_key k x = (case x of None \<Rightarrow> Inl (KeyError k) | Some v \<Rightarrow> Inr v)"

definition list_demo_jobs :: "draws \<Rightarrow> session \<Rightarrow> (demo_job list \<times> session) result" where
  "list_demo_jobs dw s0 =
     (let s = ensure_demo_data dw s0 in
      bind_result (demo_key ''demo_jobs'' (s_demo_jobs s)) (\<lambda>js. Inr (js, s)))"

definition get_demo_job :: "draws \<Rightarrow> string \<Rightarrow> session \<Rightarrow> (demo_job option \<times> session) result" where
  "get_demo_job dw job_id s0 =
     bind_result (list_demo_jobs dw s0) (\<lambda>(js, s). Inr (find (\<lambda>j. dj_id j = job_id) js, s))"

text \<open>\<open>int(value)\<close>: a string is parsed, a float truncated; a list, a dict and \<open>None\<close> are no
  numbers.\<close>

definition int_of_json :: "json \<Rightarrow> int result" where
  "int_of_json v =
     (case v of
        JInt i \<Rightarrow> Inr i
      | JBool b \<Rightarrow> Inr (if b then 1 else 0)
      | JFloat q \<Rightarrow> Inr (if 0 \<le> q then \<lfloor>q\<rfloor> else \<lceil>q\<rceil>)
      | JStr t \<Rightarrow> int_or_raise t
      | _ \<Rightarrow> Inl TypeError)"

definition get_default :: "pydict \<Rightarrow> string \<Rightarrow> json \<Rightarrow> json" where
  "get_default d k v = (case dict_get d k of None \<Rightarrow> v | Some x \<Rightarrow> x)"

definition session_user :: "session \<Rightarrow> string" where
  "session_user s = (case s_username s of None \<Rightarrow> ''demo'' | Some u \<Rightarrow> u)"

definition create_demo_job :: "draws \<Rightarrow> pydict \<Rightarrow> session \<Rightarrow> (demo_job \<times> session) result" where
  "create_demo_job dw data s0 =
     (let s = ensure_demo_data dw s0 in
      bind_result (int_of_json (json_or (get_or_null data ''timeout_seconds'') (JInt 300))) (\<lambda>timeout.
      bind_result (int_of_json (json_or (get_or_null data ''retry_limit'') (JInt 3))) (\<lambda>limit.
      let job = \<lparr>dj_id = uuid dw 2, dj_task_name = get_default data ''task_name'' (JStr []),
                 dj_status = get_default data ''status'' (JStr ''enabled''), dj_user = session_user s,
                 dj_schedule_type = get_default data ''schedule_type'' (JStr ''manual''),
                 dj_cron_expression = get_default data ''cron_expression'' (JStr []),
                 dj_interval_seconds = get_default data ''interval_seconds'' (JStr []),
                 dj_action = get_default data ''action'' (JStr ''report''),
                 dj_timeout_seconds = JInt timeout, dj_retry_limit = JInt limit,
                 dj_created_at = now_iso dw 5, dj_updated_at = now_iso dw 6\<rparr> in
      bind_result (demo_key ''demo_jobs'' (s_demo_jobs s)) (\<lambda>js.
      Inr (job, s\<lparr>s_demo_jobs := Some (js @ [job])\<rparr>)))))"

text \<open>\<open>if key in data: job[key] = data[key]\<close> for each of the eight keys.\<close>

definition edited :: "pydict \<Rightarrow> string \<Rightarrow> demo_job \<Rightarrow> demo_job" where
  "edited data now j =
     j\<lparr>dj_task_name := get_default data ''task_name'' (dj_task_name j),
       dj_status := get_default data ''status'' (dj_status j),
       dj_schedule_type := get_default data ''schedule_type'' (dj_schedule_type j),
       dj_cron_expression := get_default data ''cron_expression'' (dj_cron_expression j),
       dj_interval_seconds := get_default data ''interval_seconds'' (dj_interval_seconds j),
       dj_action := get_default data ''action'' (dj_action j),
       dj_timeout_seconds := get_default data ''timeout_seconds'' (dj_timeout_seconds j),
       dj_retry_limit := get_default data ''retry_limit'' (dj_retry_limit j),
       dj_updated_at := now\<rparr>"

text \<open>The first job with the id is edited in place.\<close>

fun upd_first :: "('a \<Rightarrow> bool) \<Rightarrow> ('a \<Rightarrow> 'a) \<Rightarrow> 'a list \<Rightarrow> 'a list" where
  "upd_first P f [] = []"
| "upd_first P f (x # xs) = (if P x then f x # xs else x # upd_first P f xs)"

definition update_demo_job ::
  "draws \<Rightarrow> string \<Rightarrow> pydict \<Rightarrow> session \<Rightarrow> (demo_job option \<times> session) result" where
  "update_demo_job dw job_id data s0 =
     (let s = ensure_demo_data dw s0 in
      bind_result (demo_key ''demo_jobs'' (s_demo_jobs s)) (\<lambda>js.
      let f = edited data (now_iso dw 5) in
      Inr (map_option f (find (\<lambda>j. dj_id j = job_id) js),
           s\<lparr>s_demo_jobs := Some (upd_first (\<lambda>j. dj_id j = job_id) f js)\<rparr>)))"

definition delete_demo_job :: "draws \<Rightarrow> string \<Rightarrow> session \<Rightarrow> (unit \<times> session) result" where
  "delete_demo_job dw job_id s0 =
     (let s = ensure_demo_data dw s0 in
      bind_result (demo_key ''demo_jobs'' (s_demo_jobs s)) (\<lambda>js.
      Inr ((), s\<lparr>s_demo_jobs := Some (filter (\<lambda>j. dj_id j \<noteq> job_id) js)\<rparr>)))"

text \<open>\<open>fmt\<close> is how an f-string prints a value.\<close>

definition run_demo_job ::
  "(json \<Rightarrow> string) \<Rightarrow> draws \<Rightarrow> string \<Rightarrow> string \<Rightarrow> session \<Rightarrow> (demo_run option \<times> session) result" where
  "run_demo_job fmt dw job_id triggered_by s0 =
     bind_result (get_demo_job dw job_id s0) (\<lambda>(found, s).
     case found of
       None \<Rightarrow> Inr (None, s)
     | Some j \<Rightarrow>
         (let status = (if dj_action j = JStr ''fail-test'' then ''failed'' else ''success'');
              run = \<lparr>dr_id = uuid dw 2, dr_job_id = dj_id j, dr_task_name = dj_task_name j,
                     dr_status = status, dr_user = session_user s, dr_start_time = now_iso dw 5,
                     dr_duration = (if status = ''success'' then 12 / 10 else 7 / 10),
                     dr_action = dj_action j, dr_triggered_by = triggered_by,
                     dr_retry_count = (if triggered_by \<noteq> ''retry'' then 0 else 1)\<rparr>;
              logs = [\<lparr>dl_log_level = ''info'', dl_message = ''Start action: '' @ fmt (dj_action j),
                       dl_created_at = now_iso dw 6\<rparr>,
                      \<lparr>dl_log_level = (if status = ''failed'' then ''error'' else ''info''),
                       dl_message = (if status = ''failed'' then ''Task failed by demo container''
                                     else ''Task finished successfully''),
                       dl_created_at = now_iso dw 7\<rparr>] in
          bind_result (demo_key ''demo_runs'' (s_demo_runs s)) (\<lambda>rs.
          bind_result (demo_key ''demo_logs'' (s_demo_logs s)) (\<lambda>ls.
          Inr (Some run, s\<lparr>s_demo_runs := Some (run # rs),
                            s_demo_logs := Some (AList.update (dr_id run) logs ls)\<rparr>)))))"

definition list_demo_runs :: "draws \<Rightarrow> session \<Rightarrow> (demo_run list \<times> session) result" where
  "list_demo_runs dw s0 =
     (let s = ensure_demo_data dw s0 in
      bind_result (demo_key ''demo_runs'' (s_demo_runs s)) (\<lambda>rs. Inr (rs, s)))"

definition get_demo_logs :: "draws \<Rightarrow> string \<Rightarrow> session \<Rightarrow> (demo_log list \<times> session) result" where
  "get_demo_logs dw run_id s0 =
     (let s = ensure_demo_data dw s0 in
      bind_result (demo_key ''demo_logs'' (s_demo_logs s)) (\<lambda>ls.
      Inr (case map_of ls run_id of None \<Rightarrow> [] | Some l \<Rightarrow> l, s)))"

definition retry_demo_run ::
  "(json \<Rightarrow> string) \<Rightarrow> draws \<Rightarrow> string \<Rightarrow> session \<Rightarrow> (demo_run option \<times> session) result" where
  "retry_demo_run fmt dw run_id s0 =
     (let s = ensure_demo_data dw s0 in
      bind_result (demo_key ''demo_runs'' (s_demo_runs s)) (\<lambda>rs.
      case find (\<lambda>r. dr_id r = run_id) rs of
        None \<Rightarrow> Inr (None, s)
      | Some r \<Rightarrow> run_demo_job fmt dw (dr_job_id r) ''retry'' s))"

end
