(* ===== verification/Views.thy ===== *)
theory Views
  imports ApiClient DemoStore Executor
begin

text \<open>
  The pages of the frontend (\<open>ui/views.py\<close>, \<open>ui/urls.py\<close>). A view is a function of the
  browser's session, the notices queued for the next page and the calls made to the backend so
  far; it gives a page or an exception (an uncaught one is a server error). Django's form
  validation is a parameter: from the submitted data (and the offered choices) to
  \<open>cleaned_data\<close>, if valid. The Chinese texts of the notices are their constructors; templates
  are the constructors of \<open>page\<close>.
\<close>

section \<open>Views as state transformers\<close>

datatype notice =
    LoginFirst
  | DemoLoggedIn
  | LoggedIn
  | LoginFailed
  | DemoRegistered
  | Registered
  | RegisterFailed json
  | LoggedOut
  | BackendTrouble json
  | JobCreated
  | JobMissing
  | JobUpdated
  | JobDeleted
  | JobTriggered
  | RunsCleared
  | ClearFailed json
  | RetrySent

datatype form_state = Blank | Initial pydict "json list" | Posted pydict "json list"

record dashboard_stats =
  stat_total_jobs :: nat
  stat_enabled_jobs :: nat
  stat_success_runs :: nat
  stat_failed_runs :: nat
  stat_running_runs :: nat

datatype page =
    Redirect string "string list"
  | EmptyPage
  | MethodNotAllowed
  | LoginPage form_state
  | RegisterPage form_state
  | DashboardPage dashboard_stats json json
  | JobListPage json
  | JobTable json
  | JobFormPage form_state string "json option"
  | JobDetailPage json
  | JobRunsPage json
  | RunTable json
  | LogsPage json string
  | HealthPage json

datatype http_method = Get | Post pydict | OtherMethod

record ui_env =
  demo_mode :: bool
  backend_url :: string
  backend :: requests_lib
  fmt :: "json \<Rightarrow> string"
  ui_draws :: draws
  login_form :: "pydict \<Rightarrow> pydict option"
  register_form :: "pydict \<Rightarrow> pydict option"
  job_form :: "json list \<Rightarrow> pydict \<Rightarrow> pydict option"

record web =
  w_session :: session
  w_notices :: "notice list"
  w_calls :: "api_call list"

text \<open>A \<open>BackendAPIError\<close>, which views catch, or any other exception.\<close>

datatype exc = Api json | Py error

type_synonym 'a view = "web \<Rightarrow> (exc + 'a) \<times> web"

definition return :: "'a \<Rightarrow> 'a view" where
  "return a w = (Inr a, w)"

definition andthen :: "'a view \<Rightarrow> ('a \<Rightarrow> 'b view) \<Rightarrow> 'b view" where
  "andthen m f w = (case m w of (Inl x, w') \<Rightarrow> (Inl x, w') | (Inr a, w') \<Rightarrow> f a w')"

definition raising :: "exc \<Rightarrow> 'a view" where
  "raising x w = (Inl x, w)"

definition lift :: "'a result \<Rightarrow> 'a view" where
  "lift r w = ((case r of Inl e \<Rightarrow> Inl (Py e) | Inr a \<Rightarrow> Inr a), w)"

definition catching :: "'a view \<Rightarrow> (json \<Rightarrow> 'a view) \<Rightarrow> 'a view" where
  "catching m h w = (case m w of (Inl (Api v), w') \<Rightarrow> h v w' | r \<Rightarrow> r)"

definition notify :: "notice \<Rightarrow> unit view" where
  "notify n w = (Inr (), w\<lparr>w_notices := w_notices w @ [n]\<rparr>)"

definition in_session :: "(session \<Rightarrow> ('a \<times> session) result) \<Rightarrow> 'a view" where
  "in_session f w =
     (case f (w_session w) of
        Inl e \<Rightarrow> (Inl (Py e), w)
      | Inr (a, s) \<Rightarrow> (Inr a, w\<lparr>w_session := s\<rparr>))"

definition send :: "ui_env \<Rightarrow> api_call \<Rightarrow> json view" where
  "send e c w =
     ((case read_answer (backend e (w_calls w) c) of Inl v \<Rightarrow> Inl (Api v) | Inr v \<Rightarrow> Inr v),
      w\<lparr>w_calls := w_calls w @ [c]\<rparr>)"

text \<open>\<open>_client(request)\<close> carries the session's token.\<close>

definition send_as_user :: "ui_env \<Rightarrow> (api_client \<Rightarrow> api_call) \<Rightarrow> json view" where
  "send_as_user e f w = send e (f (BackendAPIClient (backend_url e) (s_token (w_session w)))) w"

definition is_logged_in :: "session \<Rightarrow> bool" where
  "is_logged_in s = truthy_str (s_token s)"

definition require_login :: "page \<Rightarrow> page view \<Rightarrow> page view" where
  "require_login out body w =
     (if is_logged_in (w_session w) then body w else andthen (notify LoginFirst) (\<lambda>_. return out) w)"

definition to_login :: page where
  "to_login = Redirect ''login'' []"

section \<open>Reading what the backend or the demo store gives\<close>

text \<open>\<open>jobs if isinstance(jobs, list) else jobs.get('items', [])\<close>.\<close>

definition items_of :: "json \<Rightarrow> json result" where
  "items_of v =
     (case v of
        JList xs \<Rightarrow> Inr v
      | JObj d \<Rightarrow> Inr (get_default d ''items'' (JList []))
      | _ \<Rightarrow> Inl (no_attribute (type_name v) ''get''))"

definition dict_list :: "('a \<Rightarrow> pydict) \<Rightarrow> 'a list \<Rightarrow> json" where
  "dict_list f xs = JList (map (\<lambda>x. JObj (f x)) xs)"

definition fetch_jobs :: "ui_env \<Rightarrow> json view" where
  "fetch_jobs e =
     (if demo_mode e
      then andthen (in_session (list_demo_jobs (ui_draws e))) (\<lambda>js. return (dict_list job_dict js))
      else andthen (send_as_user e api_list_jobs) (\<lambda>v. lift (items_of v)))"

definition fetch_runs :: "ui_env \<Rightarrow> json view" where
  "fetch_runs e =
     (if demo_mode e
      then andthen (in_session (list_demo_runs (ui_draws e))) (\<lambda>rs. return (dict_list run_dict rs))
      else andthen (send_as_user e api_list_job_runs) (\<lambda>v. lift (items_of v)))"

definition fetch_job :: "ui_env \<Rightarrow> string \<Rightarrow> json view" where
  "fetch_job e job_id =
     (if demo_mode e
      then andthen (in_session (get_demo_job (ui_draws e) job_id))
             (\<lambda>j. return (case j of None \<Rightarrow> JNull | Some j \<Rightarrow> JObj (job_dict j)))
      else send_as_user e (\<lambda>c. api_get_job c job_id))"

definition item :: "pydict \<Rightarrow> string \<Rightarrow> json result" where
  "item d k = (case dict_get d k of None \<Rightarrow> Inl (KeyError k) | Some v \<Rightarrow> Inr v)"

definition subscript :: "json \<Rightarrow> string \<Rightarrow> json result" where
  "subscript v k = (case v of JObj d \<Rightarrow> item d k | _ \<Rightarrow> Inl TypeError)"

definition get_method :: "json \<Rightarrow> string \<Rightarrow> json result" where
  "get_method v k =
     (case v of JObj d \<Rightarrow> Inr (get_or_null d k) | _ \<Rightarrow> Inl (no_attribute (type_name v) ''get''))"

text \<open>\<open>len([r for r in rows if r.get('status') in statuses])\<close>.\<close>

fun count_status :: "string list \<Rightarrow> json list \<Rightarrow> nat result" where
  "count_status ss [] = Inr 0"
| "count_status ss (x # xs) =
     bind_result (get_method x ''status'') (\<lambda>v.
     bind_result (count_status ss xs) (\<lambda>n. Inr (if v \<in> JStr ` set ss then Suc n else n)))"

definition first_five :: "json \<Rightarrow> json result" where
  "first_five v =
     (case v of JList xs \<Rightarrow> Inr (JList (take 5 xs)) | JStr s \<Rightarrow> Inr (JStr (take 5 s)) | _ \<Rightarrow> Inl TypeError)"

definition dashboard_of :: "json \<Rightarrow> json \<Rightarrow> page result" where
  "dashboard_of jobs runs =
     bind_result (iterate jobs) (\<lambda>js.
     bind_result (count_status [''enabled''] js) (\<lambda>enabled.
     bind_result (iterate runs) (\<lambda>rs.
     bind_result (count_status [''success''] rs) (\<lambda>success.
     bind_result (count_status [''failed'', ''timeout''] rs) (\<lambda>failed.
     bind_result (count_status [''running''] rs) (\<lambda>running.
     bind_result (first_five jobs) (\<lambda>js5.
     bind_result (first_five runs) (\<lambda>rs5.
     Inr (DashboardPage
       \<lparr>stat_total_jobs = length js, stat_enabled_jobs = enabled, stat_success_runs = success,
        stat_failed_runs = failed, stat_running_runs = running\<rparr> js5 rs5)))))))))"

section \<open>Payloads and initial data of the job form\<close>

definition prepare_job_payload :: "pydict \<Rightarrow> pydict result" where
  "prepare_job_payload data =
     (let depends_on = (if truthy (get_or_null data ''clear_dependencies'') then JList []
                        else get_default data ''depends_on'' (JList [])) in
      bind_result (item data ''task_name'') (\<lambda>task_name.
      bind_result (item data ''status'') (\<lambda>status.
      bind_result (item data ''action'') (\<lambda>action.
      bind_result (item data ''schedule_type'') (\<lambda>schedule_type.
      bind_result (item data ''timeout_seconds'') (\<lambda>timeout_seconds.
      bind_result (item data ''retry_limit'') (\<lambda>retry_limit.
      Inr [(''task_name'', task_name), (''description'', get_or_null data ''description''),
           (''status'', status), (''action'', action),
           (''api_method'', get_or_null data ''api_method''), (''api_url'', get_or_null data ''api_url''),
           (''working_dir'', get_or_null data ''working_dir''),
           (''shell_script'', get_or_null data ''shell_script''),
           (''script_content'', get_or_null data ''script_content''),
           (''schedule_type'', schedule_type),
           (''cron_expression'', get_or_null data ''cron_expression''),
           (''interval_seconds'', get_or_null data ''interval_seconds''),
           (''timeout_seconds'', timeout_seconds), (''retry_limit'', retry_limit),
           (''depends_on'', depends_on)])))))))"

definition initial_fields :: "pydict \<Rightarrow> pydict" where
  "initial_fields d =
     [(''task_name'', get_or_null d ''task_name''), (''description'', get_or_null d ''description''),
      (''status'', get_or_null d ''status''), (''timeout_seconds'', get_or_null d ''timeout_seconds''),
      (''retry_limit'', get_or_null d ''retry_limit''),
      (''schedule_type'', get_or_null d ''schedule_type''),
      (''cron_expression'', get_or_null d ''cron_expression''),
      (''interval_seconds'', get_or_null d ''interval_seconds''),
      (''action'', get_or_null d ''action''), (''clear_dependencies'', JBool False),
      (''depends_on'', get_default d ''depends_on'' (JList []))]"

text \<open>The action payload's entries, for the flat fields of the form.\<close>

definition payload_fields :: "json \<Rightarrow> json \<Rightarrow> pydict result" where
  "payload_fields atype payload =
     (if atype = JStr ''api_call'' then
        bind_result (get_method payload ''method'') (\<lambda>m.
        bind_result (get_method payload ''url'') (\<lambda>u.
        Inr [(''api_method'', m), (''api_url'', u)]))
      else if atype \<in> {JStr ''shell'', JStr ''python'', JStr ''python_script''} then
        bind_result (get_method payload ''script'') (\<lambda>s.
        bind_result (get_method payload ''content'') (\<lambda>c.
        bind_result (get_method payload ''working_dir'') (\<lambda>wd.
        Inr [(''shell_script'', s), (''script_content'', c), (''working_dir'', wd)])))
      else Inr [])"

definition prepare_initial_data :: "json \<Rightarrow> pydict result" where
  "prepare_initial_data job =
     (case job of
        JObj d \<Rightarrow>
          bind_result (payload_fields (get_or_null d ''action'') (get_default d ''action_payload'' (JObj [])))
            (\<lambda>flat. Inr (initial_fields d @ flat))
      | _ \<Rightarrow> Inl (no_attribute (type_name job) ''get''))"

text \<open>The jobs offered as dependencies: all, or all but the job itself.\<close>

fun job_choices :: "string option \<Rightarrow> json list \<Rightarrow> json list result" where
  "job_choices self [] = Inr []"
| "job_choices self (j # js) =
     bind_result (case self of None \<Rightarrow> Inr True
                  | Some k \<Rightarrow> bind_result (subscript j ''id'') (\<lambda>v. Inr (v \<noteq> JStr k))) (\<lambda>keep.
     bind_result (if keep then bind_result (subscript j ''task_name'') (\<lambda>v. Inr [v]) else Inr []) (\<lambda>c.
     bind_result (job_choices self js) (\<lambda>cs. Inr (c @ cs))))"

section \<open>Accounts\<close>

definition extract_token :: "json \<Rightarrow> json" where
  "extract_token v =
     (case v of
        JObj d \<Rightarrow> json_or (json_or (get_or_null d ''access_token'') (get_or_null d ''token'')) (get_or_null d ''jwt'')
      | _ \<Rightarrow> JNull)"

text \<open>A session value that is only ever tested and printed.\<close>

definition text_of :: "ui_env \<Rightarrow> json \<Rightarrow> string" where
  "text_of e v = (case v of JStr s \<Rightarrow> s | _ \<Rightarrow> fmt e v)"

definition store_login :: "ui_env \<Rightarrow> json \<Rightarrow> json \<Rightarrow> unit view" where
  "store_login e token username =
     in_session (\<lambda>s. Inr ((), s\<lparr>s_token := Some (text_of e token), s_username := Some (text_of e username)\<rparr>))"

definition login_view :: "ui_env \<Rightarrow> http_method \<Rightarrow> page view" where
  "login_view e method =
     (case method of
        OtherMethod \<Rightarrow> return MethodNotAllowed
      | Get \<Rightarrow> return (LoginPage Blank)
      | Post post \<Rightarrow>
          (case login_form e post of
             None \<Rightarrow> return (LoginPage (Posted post []))
           | Some data \<Rightarrow>
               andthen (lift (item data ''username'')) (\<lambda>username.
               andthen (lift (item data ''password'')) (\<lambda>password.
               if demo_mode e then
                 andthen (in_session (\<lambda>s. Inr ((), demo_login (ui_draws e) (text_of e username) s))) (\<lambda>_.
                 andthen (notify DemoLoggedIn) (\<lambda>_. return (Redirect ''dashboard'' [])))
               else
                 catching
                   (andthen (send e (api_login (BackendAPIClient (backend_url e) None)
                       (JObj [(''username'', username), (''password'', password)]))) (\<lambda>res.
                    let token = extract_token res in
                    if \<not> truthy token then raising (Api (JStr ''no token''))
                    else andthen (store_login e token username) (\<lambda>_.
                         andthen (notify LoggedIn) (\<lambda>_. return (Redirect ''dashboard'' [])))))
                   (\<lambda>_. andthen (notify LoginFailed) (\<lambda>_. return (LoginPage (Posted post []))))))))"

definition register_demo_user :: "string \<Rightarrow> pydict \<Rightarrow> session \<Rightarrow> session" where
  "register_demo_user name payload s =
     s\<lparr>s_demo_users := Some (AList.update name payload
         (case s_demo_users s of None \<Rightarrow> [] | Some us \<Rightarrow> us))\<rparr>"

definition register_view :: "ui_env \<Rightarrow> http_method \<Rightarrow> page view" where
  "register_view e method =
     (case method of
        OtherMethod \<Rightarrow> return MethodNotAllowed
      | Get \<Rightarrow> return (RegisterPage Blank)
      | Post post \<Rightarrow>
          (case register_form e post of
             None \<Rightarrow> return (RegisterPage (Posted post []))
           | Some payload \<Rightarrow>
               if demo_mode e then
                 andthen (lift (item payload ''username'')) (\<lambda>name.
                 andthen (in_session (\<lambda>s. Inr ((), register_demo_user (text_of e name) payload s))) (\<lambda>_.
                 andthen (notify DemoRegistered) (\<lambda>_. return to_login)))
               else
                 catching
                   (andthen (send e (api_register (BackendAPIClient (backend_url e) None) (JObj payload))) (\<lambda>_.
                    andthen (notify Registered) (\<lambda>_. return to_login)))
                   (\<lambda>x. andthen (notify (RegisterFailed x)) (\<lambda>_. return (RegisterPage (Posted post []))))))"

definition logout_view :: "page view" where
  "logout_view =
     andthen (in_session (\<lambda>_. Inr ((), empty_session))) (\<lambda>_.
     andthen (notify LoggedOut) (\<lambda>_. return to_login))"

section \<open>Lists and details\<close>

definition dashboard_view :: "ui_env \<Rightarrow> page view" where
  "dashboard_view e =
     require_login to_login
       (andthen
         (catching
           (andthen (fetch_jobs e) (\<lambda>jobs. andthen (fetch_runs e) (\<lambda>runs. return (jobs, runs))))
           (\<lambda>x. andthen (notify (BackendTrouble x)) (\<lambda>_. return (JList [], JList []))))
         (\<lambda>(jobs, runs). lift (dashboard_of jobs runs)))"

definition job_list_view :: "ui_env \<Rightarrow> page view" where
  "job_list_view e =
     require_login to_login
       (andthen
         (catching (fetch_jobs e) (\<lambda>x. andthen (notify (BackendTrouble x)) (\<lambda>_. return (JList []))))
         (\<lambda>jobs. return (JobListPage jobs)))"

definition job_list_partial_view :: "ui_env \<Rightarrow> page view" where
  "job_list_partial_view e =
     require_login EmptyPage
       (andthen (catching (fetch_jobs e) (\<lambda>_. return (JList []))) (\<lambda>jobs. return (JobTable jobs)))"

text \<open>\<open>try: ... except BackendAPIError: messages.error(...); return redirect('job_list')\<close>: what
  was fetched, or the page to leave for.\<close>

definition or_job_list :: "'a view \<Rightarrow> (page + 'a) view" where
  "or_job_list m =
     catching (andthen m (\<lambda>x. return (Inr x)))
       (\<lambda>x. andthen (notify (BackendTrouble x)) (\<lambda>_. return (Inl (Redirect ''job_list'' []))))"

definition job_missing :: "page view" where
  "job_missing = andthen (notify JobMissing) (\<lambda>_. return (Redirect ''job_list'' []))"

definition job_detail_view :: "ui_env \<Rightarrow> string \<Rightarrow> page view" where
  "job_detail_view e job_id =
     require_login to_login
       (andthen (or_job_list (fetch_job e job_id)) (\<lambda>fetched.
        case fetched of
          Inl out \<Rightarrow> return out
        | Inr job \<Rightarrow> if \<not> truthy job then job_missing else return (JobDetailPage job)))"

section \<open>Creating and editing jobs\<close>

definition job_create_view :: "ui_env \<Rightarrow> http_method \<Rightarrow> page view" where
  "job_create_view e method =
     (if method = OtherMethod then return MethodNotAllowed
      else require_login to_login
       (andthen
         (catching
           (andthen (fetch_jobs e) (\<lambda>jobs. lift (bind_result (iterate jobs) (job_choices None))))
           (\<lambda>_. return []))
         (\<lambda>choices.
          case method of
            Post post \<Rightarrow>
              (case job_form e choices post of
                 None \<Rightarrow> return (JobFormPage (Posted post choices) ''create'' None)
               | Some data \<Rightarrow>
                   andthen (lift (prepare_job_payload data)) (\<lambda>payload.
                   let saved = andthen (notify JobCreated) (\<lambda>_. return (Redirect ''job_list'' [])) in
                   if demo_mode e
                   then andthen (in_session (create_demo_job (ui_draws e) payload)) (\<lambda>_. saved)
                   else catching
                     (andthen (send_as_user e (\<lambda>c. api_create_job c (JObj payload))) (\<lambda>_. saved))
                     (\<lambda>x. andthen (notify (BackendTrouble x)) (\<lambda>_.
                          return (JobFormPage (Posted post choices) ''create'' None)))))
          | _ \<Rightarrow>
              return (JobFormPage
                (Initial [(''status'', JStr ''enabled''), (''schedule_type'', JStr ''manual''),
                          (''action'', JStr ''api_call'')] choices) ''create'' None))))"

definition fetch_edited :: "ui_env \<Rightarrow> string \<Rightarrow> (json \<times> json list) view" where
  "fetch_edited e job_id =
     andthen (fetch_job e job_id) (\<lambda>job.
     andthen (fetch_jobs e) (\<lambda>jobs.
     andthen (lift (bind_result (iterate jobs) (job_choices (Some job_id)))) (\<lambda>choices.
     return (job, choices))))"

definition save_edited :: "ui_env \<Rightarrow> string \<Rightarrow> pydict \<Rightarrow> json \<Rightarrow> json list \<Rightarrow> pydict \<Rightarrow> page view" where
  "save_edited e job_id post job choices data =
     andthen (lift (prepare_job_payload data)) (\<lambda>payload.
     let saved = andthen (notify JobUpdated) (\<lambda>_. return (Redirect ''job_detail'' [job_id])) in
     if demo_mode e
     then andthen (in_session (update_demo_job (ui_draws e) job_id payload)) (\<lambda>_. saved)
     else catching
       (andthen (send_as_user e (\<lambda>c. api_update_job c job_id (JObj payload))) (\<lambda>_. saved))
       (\<lambda>x. andthen (notify (BackendTrouble x)) (\<lambda>_.
            return (JobFormPage (Posted post choices) ''edit'' (Some job)))))"

definition job_edit_view :: "ui_env \<Rightarrow> http_method \<Rightarrow> string \<Rightarrow> page view" where
  "job_edit_view e method job_id =
     (if method = OtherMethod then return MethodNotAllowed
      else require_login to_login
       (andthen (or_job_list (fetch_edited e job_id)) (\<lambda>fetched.
        case fetched of
          Inl out \<Rightarrow> return out
        | Inr (job, choices) \<Rightarrow>
            if \<not> truthy job then job_missing
            else (case method of
              Post post \<Rightarrow>
                (case job_form e choices post of
                   None \<Rightarrow> return (JobFormPage (Posted post choices) ''edit'' (Some job))
                 | Some data \<Rightarrow> save_edited e job_id post job choices data)
            | _ \<Rightarrow>
                andthen (lift (prepare_initial_data job)) (\<lambda>initial.
                return (JobFormPage (Initial initial choices) ''edit'' (Some job)))))))"

section \<open>Actions\<close>

text \<open>A POST that calls the store or the backend, says so, and redirects.\<close>

definition action_view ::
  "http_method \<Rightarrow> unit view \<Rightarrow> notice \<Rightarrow> (json \<Rightarrow> notice) \<Rightarrow> string \<Rightarrow> page view" where
  "action_view method act done_notice failed_notice target =
     (case method of
        Post _ \<Rightarrow>
          require_login to_login
            (andthen
              (catching (andthen act (\<lambda>_. notify done_notice)) (\<lambda>x. notify (failed_notice x)))
              (\<lambda>_. return (Redirect target [])))
      | _ \<Rightarrow> return MethodNotAllowed)"

definition ignoring :: "'a view \<Rightarrow> unit view" where
  "ignoring m = andthen m (\<lambda>_. return ())"

definition job_delete_view :: "ui_env \<Rightarrow> http_method \<Rightarrow> string \<Rightarrow> page view" where
  "job_delete_view e method job_id =
     action_view method
       (if demo_mode e then in_session (delete_demo_job (ui_draws e) job_id)
        else ignoring (send_as_user e (\<lambda>c. api_delete_job c job_id)))
       JobDeleted BackendTrouble ''job_list''"

definition job_run_view :: "ui_env \<Rightarrow> http_method \<Rightarrow> string \<Rightarrow> page view" where
  "job_run_view e method job_id =
     action_view method
       (if demo_mode e then ignoring (in_session (run_demo_job (fmt e) (ui_draws e) job_id ''manual''))
        else ignoring (send_as_user e (\<lambda>c. api_run_job c job_id)))
       JobTriggered BackendTrouble ''job_runs''"

definition job_runs_clear_view :: "ui_env \<Rightarrow> http_method \<Rightarrow> page view" where
  "job_runs_clear_view e method =
     action_view method
       (if demo_mode e then return () else ignoring (send_as_user e api_clear_all_runs))
       RunsCleared ClearFailed ''job_runs''"

definition job_retry_view :: "ui_env \<Rightarrow> http_method \<Rightarrow> string \<Rightarrow> page view" where
  "job_retry_view e method run_id =
     action_view method
       (if demo_mode e then ignoring (in_session (retry_demo_run (fmt e) (ui_draws e) run_id))
        else ignoring (send_as_user e (\<lambda>c. api_retry_run c run_id)))
       RetrySent BackendTrouble ''job_runs''"

section \<open>Runs, logs and health\<close>

definition job_runs_view :: "ui_env \<Rightarrow> page view" where
  "job_runs_view e =
     require_login to_login
       (andthen
         (catching (fetch_runs e) (\<lambda>x. andthen (notify (BackendTrouble x)) (\<lambda>_. return (JList []))))
         (\<lambda>runs. return (JobRunsPage runs)))"

definition job_runs_partial_view :: "ui_env \<Rightarrow> page view" where
  "job_runs_partial_view e =
     require_login EmptyPage
       (andthen (catching (fetch_runs e) (\<lambda>_. return (JList []))) (\<lambda>runs. return (RunTable runs)))"

definition fetch_logs :: "ui_env \<Rightarrow> string \<Rightarrow> json view" where
  "fetch_logs e run_id =
     (if demo_mode e
      then andthen (in_session (get_demo_logs (ui_draws e) run_id)) (\<lambda>ls. return (dict_list log_dict ls))
      else andthen (send_as_user e (\<lambda>c. api_get_run_logs c run_id)) (\<lambda>v. lift (items_of v)))"

definition job_run_logs_view :: "ui_env \<Rightarrow> string \<Rightarrow> page view" where
  "job_run_logs_view e run_id =
     require_login to_login
       (andthen
         (catching (fetch_logs e run_id) (\<lambda>x. andthen (notify (BackendTrouble x)) (\<lambda>_. return (JList []))))
         (\<lambda>logs. return (LogsPage logs run_id)))"

definition health_view :: "ui_env \<Rightarrow> page view" where
  "health_view e =
     require_login to_login
       (if demo_mode e then return (HealthPage (JObj [(''api'', JStr ''demo-ok''), (''mode'', JStr ''demo'')]))
        else catching
          (andthen (send_as_user e api_health) (\<lambda>v. return (HealthPage v)))
          (\<lambda>x. return (HealthPage (JObj [(''api'', JStr ''error''), (''message'', JStr (text_of e x))]))))"

section \<open>The site\<close>

datatype url =
    Root
  | LoginUrl
  | RegisterUrl
  | LogoutUrl
  | DashboardUrl
  | JobListUrl
  | JobListPartialUrl
  | JobCreateUrl
  | JobDetailUrl string
  | JobEditUrl string
  | JobDeleteUrl string
  | JobRunUrl string
  | JobRunsUrl
  | JobRunsPartialUrl
  | JobRunsClearUrl
  | JobRunLogsUrl string
  | JobRetryUrl string
  | HealthUrl

fun site :: "ui_env \<Rightarrow> url \<Rightarrow> http_method \<Rightarrow> page view" where
  "site e Root m = return (Redirect ''dashboard'' [])"
| "site e LoginUrl m = login_view e m"
| "site e RegisterUrl m = register_view e m"
| "site e LogoutUrl m = logout_view"
| "site e DashboardUrl m = dashboard_view e"
| "site e JobListUrl m = job_list_view e"
| "site e JobListPartialUrl m = job_list_partial_view e"
| "site e JobCreateUrl m = job_create_view e m"
| "site e (JobDetailUrl k) m = job_detail_view e k"
| "site e (JobEditUrl k) m = job_edit_view e m k"
| "site e (JobDeleteUrl k) m = job_delete_view e m k"
| "site e (JobRunUrl k) m = job_run_view e m k"
| "site e JobRunsUrl m = job_runs_view e"
| "site e JobRunsPartialUrl m = job_runs_partial_view e"
| "site e JobRunsClearUrl m = job_runs_clear_view e m"
| "site e (JobRunLogsUrl k) m = job_run_logs_view e k"
| "site e (JobRetryUrl k) m = job_retry_view e m k"
| "site e HealthUrl m = health_view e"

end
