(* ===== verification/JobForms.thy ===== *)
theory JobForms
  imports Views JobSchema
begin

text \<open>
  The job form from end to end: the JSON of a job response, what pydantic reads from a payload
  (documented behaviour of a library, stated as relations between the dict and the model), and
  what Django's validation guarantees of \<open>cleaned_data\<close>; then what survives from the form to
  the job and back to the form.
\<close>

section \<open>The JSON between frontend and backend\<close>

definition str_json :: "string option \<Rightarrow> json" where
  "str_json v = (case v of None \<Rightarrow> JNull | Some s \<Rightarrow> JStr s)"

definition int_json :: "int option \<Rightarrow> json" where
  "int_json v = (case v of None \<Rightarrow> JNull | Some i \<Rightarrow> JInt i)"

text \<open>\<open>isoformat\<close> prints a datetime.\<close>

definition response_json :: "(datetime \<Rightarrow> string) \<Rightarrow> job_response \<Rightarrow> pydict" where
  "response_json isoformat r =
     [(''id'', JStr (jr_id r)), (''user'', JStr (jr_user r)), (''created_by'', JStr (jr_created_by r)),
      (''name'', str_json (jr_name r)), (''task_name'', str_json (jr_task_name r)),
      (''task_type'', str_json (jr_task_type r)), (''action'', str_json (jr_action r)),
      (''action_type'', str_json (jr_action_type r)),
      (''action_payload'', (case jr_action_payload r of None \<Rightarrow> JNull | Some p \<Rightarrow> JObj p)),
      (''status'', str_json (jr_status r)), (''enabled'', JBool (jr_enabled r)),
      (''description'', str_json (jr_description r)), (''schedule_rule'', JStr (jr_schedule_rule r)),
      (''schedule_type'', JStr (jr_schedule_type r)),
      (''cron_expression'', str_json (jr_cron_expression r)),
      (''interval_seconds'', int_json (jr_interval_seconds r)),
      (''max_retry'', int_json (jr_max_retry r)), (''retry_limit'', int_json (jr_retry_limit r)),
      (''timeout_seconds'', int_json (jr_timeout_seconds r)),
      (''next_run_at'', str_json (map_option isoformat (jr_next_run_at r))),
      (''last_run_at'', str_json (map_option isoformat (jr_last_run_at r))),
      (''created_at'', JStr (isoformat (jr_created_at r))),
      (''depends_on'', JList (map str_json (jr_depends_on r)))]"

definition str_field :: "pydict \<Rightarrow> string \<Rightarrow> string option" where
  "str_field d k = (case dict_get d k of Some (JStr s) \<Rightarrow> Some s | _ \<Rightarrow> None)"

definition int_field :: "pydict \<Rightarrow> string \<Rightarrow> int option" where
  "int_field d k = (case dict_get d k of Some (JInt i) \<Rightarrow> Some i | _ \<Rightarrow> None)"

definition str_value :: "json \<Rightarrow> string" where
  "str_value v = (case v of JStr s \<Rightarrow> s | _ \<Rightarrow> [])"

definition names_field :: "pydict \<Rightarrow> string \<Rightarrow> string list option" where
  "names_field d k = (case dict_get d k of Some (JList xs) \<Rightarrow> Some (map str_value xs) | _ \<Rightarrow> None)"

text \<open>The model a request with these keys (and no others) is read into: absent fields have their
  defaults.\<close>

definition reads_create :: "pydict \<Rightarrow> job_create \<Rightarrow> bool" where
  "reads_create d p \<longleftrightarrow>
     Some (c_task_name p) = str_field d ''task_name'' \<and> c_name p = str_field d ''name''
     \<and> c_description p = str_field d ''description'' \<and> Some (c_status p) = str_field d ''status''
     \<and> Some (c_schedule_type p) = str_field d ''schedule_type''
     \<and> c_cron_expression p = str_field d ''cron_expression''
     \<and> c_interval_seconds p = int_field d ''interval_seconds''
     \<and> Some (c_action p) = str_field d ''action'' \<and> c_task_type p = str_field d ''task_type''
     \<and> Some (c_api_method p) = str_field d ''api_method'' \<and> c_api_url p = str_field d ''api_url''
     \<and> c_working_dir p = str_field d ''working_dir'' \<and> c_shell_script p = str_field d ''shell_script''
     \<and> c_script_content p = str_field d ''script_content'' \<and> c_script p = str_field d ''script''
     \<and> (dict_get d ''action_payload'' = None \<longrightarrow> c_action_payload p = [])
     \<and> Some (c_timeout_seconds p) = int_field d ''timeout_seconds''
     \<and> Some (c_retry_limit p) = int_field d ''retry_limit''
     \<and> c_depends_on p = names_field d ''depends_on''"

text \<open>For an update a field is set exactly when its key is there.\<close>

definition set_field :: "(pydict \<Rightarrow> string \<Rightarrow> 'a option) \<Rightarrow> pydict \<Rightarrow> string \<Rightarrow> 'a option option" where
  "set_field f d k = (if dict_has d k then Some (f d k) else None)"

definition reads_update :: "pydict \<Rightarrow> job_update \<Rightarrow> bool" where
  "reads_update d p \<longleftrightarrow>
     p_task_name p = set_field str_field d ''task_name'' \<and> p_description p = set_field str_field d ''description''
     \<and> p_status p = set_field str_field d ''status''
     \<and> p_schedule_type p = set_field str_field d ''schedule_type''
     \<and> p_cron_expression p = set_field str_field d ''cron_expression''
     \<and> p_interval_seconds p = set_field int_field d ''interval_seconds''
     \<and> p_action p = set_field str_field d ''action'' \<and> p_task_type p = set_field str_field d ''task_type''
     \<and> p_api_method p = set_field str_field d ''api_method'' \<and> p_api_url p = set_field str_field d ''api_url''
     \<and> p_working_dir p = set_field str_field d ''working_dir''
     \<and> p_shell_script p = set_field str_field d ''shell_script''
     \<and> p_script_content p = set_field str_field d ''script_content''
     \<and> p_script p = set_field str_field d ''script''
     \<and> (p_action_payload p = None \<longleftrightarrow> dict_get d ''action_payload'' = None)
     \<and> p_timeout_seconds p = set_field int_field d ''timeout_seconds''
     \<and> p_retry_limit p = set_field int_field d ''retry_limit''
     \<and> p_depends_on p = set_field names_field d ''depends_on''"

section \<open>The form\<close>

text \<open>The fields of \<open>JobForm\<close> that must not be empty and the kinds of the values in
  \<open>cleaned_data\<close>.\<close>

definition SCHEDULE_CHOICES :: "string list" where
  "SCHEDULE_CHOICES = [''manual'', ''cron'', ''interval'']"

definition ACTION_CHOICES :: "string list" where
  "ACTION_CHOICES = [''shell'', ''python'', ''api_call'']"

definition STATUS_CHOICES :: "string list" where
  "STATUS_CHOICES = [''enabled'', ''disabled'']"

definition METHOD_CHOICES :: "string list" where
  "METHOD_CHOICES = [''GET'', ''POST'', ''PUT'', ''DELETE'']"

definition form_text :: "pydict \<Rightarrow> string \<Rightarrow> bool" where
  "form_text d k \<longleftrightarrow> str_field d k \<noteq> None"

definition form_choice :: "string list \<Rightarrow> pydict \<Rightarrow> string \<Rightarrow> bool" where
  "form_choice cs d k \<longleftrightarrow> (case str_field d k of None \<Rightarrow> False | Some s \<Rightarrow> s \<in> set cs)"

definition form_int :: "int \<Rightarrow> pydict \<Rightarrow> string \<Rightarrow> bool" where
  "form_int lo d k \<longleftrightarrow> (case int_field d k of None \<Rightarrow> False | Some i \<Rightarrow> lo \<le> i)"

definition cleaned :: "pydict \<Rightarrow> bool" where
  "cleaned d \<longleftrightarrow>
     (case str_field d ''task_name'' of None \<Rightarrow> False | Some s \<Rightarrow> s \<noteq> [] \<and> length s \<le> 200)
     \<and> form_text d ''description'' \<and> form_choice STATUS_CHOICES d ''status''
     \<and> form_choice SCHEDULE_CHOICES d ''schedule_type'' \<and> form_text d ''cron_expression''
     \<and> (form_int 1 d ''interval_seconds'' \<or> dict_get d ''interval_seconds'' = Some JNull)
     \<and> form_choice ACTION_CHOICES d ''action'' \<and> form_choice ([] # METHOD_CHOICES) d ''api_method''
     \<and> form_text d ''api_url'' \<and> form_text d ''working_dir'' \<and> form_text d ''shell_script''
     \<and> form_text d ''script_content'' \<and> form_int 1 d ''timeout_seconds'' \<and> form_int 0 d ''retry_limit''
     \<and> (case dict_get d ''clear_dependencies'' of Some (JBool b) \<Rightarrow> True | _ \<Rightarrow> False)
     \<and> names_field d ''depends_on'' \<noteq> None"

end
