(* ===== verification/FormCorrect.thy ===== *)
theory FormCorrect
  imports JobForms JobCorrect WorkerLoop
begin

text \<open>
  From the form to the job: what a payload holds, how the update endpoint turns it into the
  job's action payload, and what a run of the job hands to the executor.
\<close>

section \<open>Payloads\<close>

lemma prepare_job_payload_InrD:
  assumes "prepare_job_payload data = Inr payload"
  shows "dict_get payload ''task_name'' = dict_get data ''task_name''"
    "dict_get payload ''status'' = dict_get data ''status''"
    "dict_get payload ''action'' = dict_get data ''action''"
    "dict_get payload ''schedule_type'' = dict_get data ''schedule_type''"
    "dict_get payload ''timeout_seconds'' = dict_get data ''timeout_seconds''"
    "dict_get payload ''retry_limit'' = dict_get data ''retry_limit''"
    "dict_get payload ''description'' = Some (get_or_null data ''description'')"
    "dict_get payload ''api_method'' = Some (get_or_null data ''api_method'')"
    "dict_get payload ''api_url'' = Some (get_or_null data ''api_url'')"
    "dict_get payload ''working_dir'' = Some (get_or_null data ''working_dir'')"
    "dict_get payload ''shell_script'' = Some (get_or_null data ''shell_script'')"
    "dict_get payload ''script_content'' = Some (get_or_null data ''script_content'')"
    "dict_get payload ''cron_expression'' = Some (get_or_null data ''cron_expression'')"
    "dict_get payload ''interval_seconds'' = Some (get_or_null data ''interval_seconds'')"
    "dict_get payload ''depends_on'' = Some (if truthy (get_or_null data ''clear_dependencies'') then JList []
       else get_default data ''depends_on'' (JList []))"
    "dict_get payload ''script'' = None" "dict_get payload ''task_type'' = None"
    "dict_get payload ''name'' = None" "dict_get payload ''action_type'' = None"
    "dict_get payload ''max_retry'' = None" "dict_get payload ''action_payload'' = None"
    "dict_get payload ''schedule_rule'' = None"
proof -
  let ?g = "get_or_null data"
  obtain name status act sched timeout retries where items: "item data ''task_name'' = Inr name"
    "item data ''status'' = Inr status" "item data ''action'' = Inr act" "item data ''schedule_type'' = Inr sched"
    "item data ''timeout_seconds'' = Inr timeout" "item data ''retry_limit'' = Inr retries"
    and payload: "payload = [(''task_name'', name), (''description'', ?g ''description''), (''status'', status),
      (''action'', act), (''api_method'', ?g ''api_method''), (''api_url'', ?g ''api_url''),
      (''working_dir'', ?g ''working_dir''), (''shell_script'', ?g ''shell_script''),
      (''script_content'', ?g ''script_content''), (''schedule_type'', sched), (''cron_expression'', ?g ''cron_expression''),
      (''interval_seconds'', ?g ''interval_seconds''), (''timeout_seconds'', timeout), (''retry_limit'', retries),
      (''depends_on'', if truthy (?g ''clear_dependencies'') then JList [] else get_default data ''depends_on'' (JList []))]"
    using assms by (clarsimp simp only: prepare_job_payload_def Let_def bind_result_Inr_iff sum.inject)
  have get: "dict_get data k = Some v" if "item data k = Inr v" for k v
    using that by (simp add: item_def split: option.splits)
  note got = items [THEN get]
  show "dict_get payload ''task_name'' = dict_get data ''task_name''"
    "dict_get payload ''status'' = dict_get data ''status''"
    "dict_get payload ''action'' = dict_get data ''action''"
    "dict_get payload ''schedule_type'' = dict_get data ''schedule_type''"
    "dict_get payload ''timeout_seconds'' = dict_get data ''timeout_seconds''"
    "dict_get payload ''retry_limit'' = dict_get data ''retry_limit''"
    "dict_get payload ''description'' = Some (get_or_null data ''description'')"
    "dict_get payload ''api_method'' = Some (get_or_null data ''api_method'')"
    "dict_get payload ''api_url'' = Some (get_or_null data ''api_url'')"
    "dict_get payload ''working_dir'' = Some (get_or_null data ''working_dir'')"
    "dict_get payload ''shell_script'' = Some (get_or_null data ''shell_script'')"
    "dict_get payload ''script_content'' = Some (get_or_null data ''script_content'')"
    "dict_get payload ''cron_expression'' = Some (get_or_null data ''cron_expression'')"
    "dict_get payload ''interval_seconds'' = Some (get_or_null data ''interval_seconds'')"
    "dict_get payload ''depends_on'' = Some (if truthy (get_or_null data ''clear_dependencies'') then JList []
       else get_default data ''depends_on'' (JList []))"
    "dict_get payload ''script'' = None" "dict_get payload ''task_type'' = None"
    "dict_get payload ''name'' = None" "dict_get payload ''action_type'' = None"
    "dict_get payload ''max_retry'' = None" "dict_get payload ''action_payload'' = None"
    "dict_get payload ''schedule_rule'' = None"
    by (simp_all only: got payload) simp_all
qed

lemma initial_fields_some:
  "k \<in> {''task_name'', ''description'', ''status'', ''timeout_seconds'', ''retry_limit'', ''schedule_type'',
      ''cron_expression'', ''interval_seconds'', ''action''} \<Longrightarrow>
     dict_get (initial_fields d) k = Some (get_or_null d k)"
  by (elim insertE emptyE; simp add: initial_fields_def)

lemma initial_fields_none:
  "k \<in> {''api_method'', ''api_url'', ''shell_script'', ''script_content'', ''working_dir''} \<Longrightarrow>
     dict_get (initial_fields d) k = None"
  by (elim insertE emptyE; simp add: initial_fields_def)

text \<open>The flat fields and the others do not overlap.\<close>

lemma initial_fields_get:
  assumes "init = initial_fields d @ flat"
    and "k \<in> {''task_name'', ''description'', ''status'', ''timeout_seconds'', ''retry_limit'', ''schedule_type'',
      ''cron_expression'', ''interval_seconds'', ''action''}"
  shows "dict_get init k = Some (get_or_null d k)"
  using initial_fields_some [OF assms(2), of d] by (simp add: assms(1) map_add_def)

lemma initial_fields_flat:
  assumes "init = initial_fields d @ flat"
    and "k \<in> {''api_method'', ''api_url'', ''shell_script'', ''script_content'', ''working_dir''}"
  shows "dict_get init k = dict_get flat k"
  using initial_fields_none [OF assms(2), of d] by (simp add: assms(1) map_add_def split: option.split)

lemma prepare_initial_InrD:
  assumes "prepare_initial_data (JObj d) = Inr init"
  obtains flat where "init = initial_fields d @ flat"
    "payload_fields (get_or_null d ''action'') (get_default d ''action_payload'' (JObj [])) = Inr flat"
  using assms by (auto simp: prepare_initial_data_def result_iff)

lemma payload_fields_script:
  "a \<in> {''shell'', ''python''} \<Longrightarrow> payload_fields (JStr a) (JObj ap) = Inr
     [(''shell_script'', get_or_null ap ''script''), (''script_content'', get_or_null ap ''content''),
      (''working_dir'', get_or_null ap ''working_dir'')]"
  by (auto simp: payload_fields_def get_method_def)

lemma payload_fields_call:
  "payload_fields (JStr ''api_call'') (JObj ap) = Inr
     [(''api_method'', get_or_null ap ''method''), (''api_url'', get_or_null ap ''url'')]"
  by (simp add: payload_fields_def get_method_def)

text \<open>The edit form of a job that calls or runs a script.\<close>

lemma response_json_action:
  assumes "jr_action r = Some a" and "jr_action_payload r = Some ap"
  shows "get_or_null (response_json isoformat r) ''action'' = JStr a"
    "get_default (response_json isoformat r) ''action_payload'' (JObj []) = JObj ap"
  by (simp_all add: get_or_null_def get_default_def response_json_def assms str_json_def)

lemma initial_script_fields:
  assumes "normalize_for_response d j = Inr r" and "prepare_initial_data (JObj (response_json isoformat r)) = Inr init"
    and "j_action_type j = Some a" and "a \<in> {''shell'', ''python''}" and "j_action_payload j = Some ap"
  shows "dict_get init ''shell_script'' = Some (get_or_null ap ''script'')"
    "dict_get init ''script_content'' = Some (get_or_null ap ''content'')"
    "dict_get init ''working_dir'' = Some (get_or_null ap ''working_dir'')"
    "dict_get init ''action'' = Some (JStr a)"
proof -
  have r: "jr_action r = Some a" "jr_action_payload r = Some ap"
    using assms(1,3,5) by (auto simp: normalize_for_response_def result_iff)
  note g = response_json_action [OF r, of isoformat]
  obtain flat where f: "init = initial_fields (response_json isoformat r) @ flat"
    "payload_fields (JStr a) (JObj ap) = Inr flat"
    using assms(2) by (rule prepare_initial_InrD) (simp add: g)
  show "dict_get init ''shell_script'' = Some (get_or_null ap ''script'')"
    "dict_get init ''script_content'' = Some (get_or_null ap ''content'')"
    "dict_get init ''working_dir'' = Some (get_or_null ap ''working_dir'')"
    "dict_get init ''action'' = Some (JStr a)"
    using f(2) payload_fields_script [OF assms(4), of ap] g(1)
    by (auto simp: initial_fields_flat [OF f(1)] initial_fields_get [OF f(1)])
qed

section \<open>Saving an edited script\<close>

lemma sync_payload:
  "sync_domain_logic cron now j = Inr j' \<Longrightarrow> j_action_payload j = Some ap \<Longrightarrow> j_action_payload j' = Some ap"
  by (auto simp: sync_Inr_iff)

text \<open>The update prefers the script field to the content field, and writes it to both.\<close>

lemma updated_job_script:
  assumes "p_action p = Some (Some a)" and "a \<in> {''shell'', ''python''}" and "p_action_payload p = None"
    and "value_of (p_script p) = None" and "p_shell_script p = Some (Some s)" and "s \<noteq> []"
  shows "\<exists>ap. j_action_payload (updated_job p j) = Some ap
     \<and> dict_get ap ''content'' = Some (JStr s) \<and> dict_get ap ''script'' = Some (JStr s)"
proof -
  have n: "payload_needs_rebuild p" using assms(5) by (simp add: payload_needs_rebuild_def)
  have o: "or_str (or_str (value_of (p_script p)) (value_of (p_shell_script p))) (value_of (p_script_content p)) = Some s"
    using assms(4-6) by simp
  show ?thesis using assms(1-3,6)
    by (auto simp: updated_job_def sync_action_payload_def n rebuild_action_payload_def o put_script_def
        apply_direct_fields_def apply_field_aliases_def set_if_def Let_def split: option.split)
qed

lemma reads_update_fields:
  assumes "prepare_job_payload data = Inr payload" and "reads_update payload p"
  shows "p_action p = set_field str_field data ''action''"
    "p_shell_script p = Some (case get_or_null data ''shell_script'' of JStr s \<Rightarrow> Some s | _ \<Rightarrow> None)"
    "p_script p = None" "p_task_type p = None" "p_action_payload p = None"
  using assms(2) prepare_job_payload_InrD(3,11,16,17,21) [OF assms(1)]
  by (simp_all add: reads_update_def set_field_def dict_has_def str_field_def)

lemma prepare_payload_content:
  assumes "r_action_payload run = Some ap" and "dict_get ap ''content'' = Some (JStr s)" and "s \<noteq> []"
  shows "script_of (prepare_payload run j) = JStr s"
  using assms by (simp add: script_of_def prepare_payload_def Let_def json_or_def get_or_null_def split: option.split)

lemma triggered_run_payload:
  "r_action_payload (triggered_run st uid tt j) = j_action_payload j"
  "r_task_type (triggered_run st uid tt j) = or_str (j_task_type j) (j_action_type j)"
  by (simp_all add: triggered_run_def)

lemma edited_script_kept:
  assumes job: "get_job_or_404 k cu d = Inr j" "j_action_type j = Some a" "a \<in> {''shell'', ''python''}"
      "j_action_payload j = Some ap" "dict_get ap ''script'' = Some (JStr s)" "s \<noteq> []"
    and page: "normalize_for_response d j = Inr r" "prepare_initial_data (JObj (response_json isoformat r)) = Inr init"
    and same: "dict_get data ''shell_script'' = dict_get init ''shell_script''"
      "dict_get data ''action'' = dict_get init ''action''"
    and sent: "prepare_job_payload data = Inr payload" "reads_update payload p"
    and upd: "update_job cron now st k p cu d = Inr (j2, d2)"
  shows "script_of (prepare_payload (triggered_run st2 uid tt j2) j2) = JStr s"
proof -
  note init = initial_script_fields [OF page job(2-4)]
  note f = reads_update_fields [OF sent]
  have a: "p_action p = Some (Some a)"
    using f(1) same(2) init(4) by (simp add: set_field_def dict_has_def str_field_def)
  have s: "p_shell_script p = Some (Some s)"
    using f(2) same(1) init(1) job(5) by (simp add: get_or_null_def)
  obtain ap2 where ap2: "j_action_payload (updated_job p j) = Some ap2" "dict_get ap2 ''content'' = Some (JStr s)"
    using updated_job_script [OF a job(3) f(5) _ s job(6)] f(3) by auto
  obtain j0 where "get_job_or_404 k cu d = Inr j0" "sync_domain_logic cron now (updated_job p j0) = Inr j2"
    using upd by (rule update_job_InrD)
  then have "j_action_payload j2 = Some ap2" using job(1) ap2(1) sync_payload by auto
  then show ?thesis using ap2(2) job(6) triggered_run_payload(1) by (intro prepare_payload_content) auto
qed

lemma edited_action_kept:
  assumes "get_job_or_404 k cu d = Inr j" and "j_task_type j = Some old" and "old \<noteq> []"
    and "prepare_job_payload data = Inr payload" and "reads_update payload p"
    and "update_job cron now st k p cu d = Inr (j2, d2)"
  shows "j_action_type j2 = if_set (set_field str_field data ''action'') (j_action_type j)
     \<and> r_task_type (triggered_run st2 uid tt j2) = Some old"
proof -
  note f = reads_update_fields [OF assms(4,5)]
  obtain j0 where "get_job_or_404 k cu d = Inr j0" "sync_domain_logic cron now (updated_job p j0) = Inr j2"
    using assms(6) by (rule update_job_InrD)
  then have s: "sync_domain_logic cron now (updated_job p j) = Inr j2" using assms(1) by simp
  have u: "j_task_type (updated_job p j) = j_task_type j"
    "j_action_type (updated_job p j) = if_set (p_action p) (j_action_type j)"
    using f(4) by (auto simp: updated_job_def sync_action_payload_def apply_direct_fields_def
        apply_field_aliases_def apply_schedule_def split: option.split)
  show ?thesis using sync_frame(5,6) [OF s] u f(1) assms(2,3) triggered_run_payload(2) by simp
qed

section \<open>From the form to a new job and back\<close>

lemma copy_missing_absent: "dict_get d old = None \<Longrightarrow> copy_missing old new d = d"
  by (simp add: copy_missing_def dict_has_def)

lemma rename_value_other: "get_or_null d k \<noteq> old \<Longrightarrow> rename_value k old new d = d"
  by (simp add: rename_value_def)

lemma sync_legacy_payload:
  assumes "prepare_job_payload data = Inr payload" and "dict_get data ''action'' \<noteq> Some (JStr ''python_script'')"
  shows "sync_legacy_fields payload = Inr (dict_set ''script'' (get_or_null data ''script_content'') payload)"
proof -
  note g = prepare_job_payload_InrD [OF assms(1)]
  have a: "get_or_null payload ''action'' \<noteq> JStr ''python_script''" "get_or_null payload ''task_type'' \<noteq> JStr ''python_script''"
    using assms(2) g(3,17) by (auto simp: get_or_null_def split: option.splits)
  have c: "copy_missing ''script_content'' ''script'' payload = dict_set ''script'' (get_or_null data ''script_content'') payload"
    using g(12,16) by (simp add: copy_missing_def dict_has_def get_or_null_def)
  show ?thesis
    unfolding sync_legacy_fields_def Let_def
    by (simp only: copy_missing_absent [OF g(18)] copy_missing_absent [OF g(19)] copy_missing_absent [OF g(17)]
        rename_value_other [OF a(1)] rename_value_other [OF a(2)] copy_missing_absent [OF g(20)] c)
       (simp add: copy_missing_def sync_schedule_rule_def g(22))
qed

text \<open>What the create model holds of the form's data.\<close>

lemma cleanedD:
  assumes "cleaned data"
  obtains a sched status name desc cron meth url dir content t n where
    "dict_get data ''action'' = Some (JStr a)" "a \<in> set ACTION_CHOICES"
    "dict_get data ''schedule_type'' = Some (JStr sched)" "sched \<in> set SCHEDULE_CHOICES"
    "dict_get data ''status'' = Some (JStr status)" "status \<in> set STATUS_CHOICES"
    "dict_get data ''task_name'' = Some (JStr name)" "dict_get data ''description'' = Some (JStr desc)"
    "dict_get data ''cron_expression'' = Some (JStr cron)" "dict_get data ''api_method'' = Some (JStr meth)"
    "dict_get data ''api_url'' = Some (JStr url)" "dict_get data ''working_dir'' = Some (JStr dir)"
    "dict_get data ''script_content'' = Some (JStr content)"
    "dict_get data ''timeout_seconds'' = Some (JInt t)" "dict_get data ''retry_limit'' = Some (JInt n)"
proof -
  have t: "\<exists>s. dict_get data k = Some (JStr s)" if "str_field data k \<noteq> None" for k
    using that by (auto simp: str_field_def split: option.splits json.splits)
  have i: "\<exists>n. dict_get data k = Some (JInt n)" if "form_int lo data k" for k lo
    using that by (auto simp: form_int_def int_field_def split: option.splits json.splits)
  have ch: "\<exists>s. dict_get data k = Some (JStr s) \<and> s \<in> set cs" if "form_choice cs data k" for k cs
    using that by (auto simp: form_choice_def str_field_def split: option.splits json.splits)
  have ne: "str_field data ''task_name'' \<noteq> None" "str_field data ''description'' \<noteq> None"
    "str_field data ''cron_expression'' \<noteq> None" "str_field data ''api_url'' \<noteq> None"
    "str_field data ''working_dir'' \<noteq> None" "str_field data ''script_content'' \<noteq> None"
    using assms by (auto simp: cleaned_def form_text_def split: option.splits)
  have c: "form_choice ACTION_CHOICES data ''action''" "form_choice SCHEDULE_CHOICES data ''schedule_type''"
    "form_choice STATUS_CHOICES data ''status''" "form_choice ([] # METHOD_CHOICES) data ''api_method''"
    "form_int 1 data ''timeout_seconds''" "form_int 0 data ''retry_limit''"
    using assms by (simp_all add: cleaned_def)
  show ?thesis
    using that t [OF ne(1)] t [OF ne(2)] t [OF ne(3)] t [OF ne(4)] t [OF ne(5)] t [OF ne(6)]
      ch [OF c(1)] ch [OF c(2)] ch [OF c(3)] ch [OF c(4)] i [OF c(5)] i [OF c(6)] by blast
qed

lemma script_update_get: "k \<noteq> ''script'' \<Longrightarrow> str_field (dict_set ''script'' v d) k = str_field d k"
  "k \<noteq> ''script'' \<Longrightarrow> int_field (dict_set ''script'' v d) k = int_field d k"
  "str_field (dict_set ''script'' (JStr x) d) ''script'' = Some x"
  by (simp_all add: str_field_def int_field_def)

lemma form_creates:
  assumes "prepare_job_payload data = Inr payload" and "sync_legacy_fields payload = Inr normal"
    and "reads_create normal p" and "dict_get data ''action'' = Some (JStr a)" and "a \<in> set ACTION_CHOICES"
  shows "Some (c_task_name p) = str_field data ''task_name''"
    "c_description p = (case get_or_null data ''description'' of JStr s \<Rightarrow> Some s | _ \<Rightarrow> None)"
    "Some (c_status p) = str_field data ''status''" "Some (c_schedule_type p) = str_field data ''schedule_type''"
    "c_cron_expression p = (case get_or_null data ''cron_expression'' of JStr s \<Rightarrow> Some s | _ \<Rightarrow> None)"
    "c_interval_seconds p = (case get_or_null data ''interval_seconds'' of JInt i \<Rightarrow> Some i | _ \<Rightarrow> None)"
    "c_action p = a" "c_task_type p = None"
    "Some (c_api_method p) = (case get_or_null data ''api_method'' of JStr s \<Rightarrow> Some s | _ \<Rightarrow> None)"
    "c_api_url p = (case get_or_null data ''api_url'' of JStr s \<Rightarrow> Some s | _ \<Rightarrow> None)"
    "c_working_dir p = (case get_or_null data ''working_dir'' of JStr s \<Rightarrow> Some s | _ \<Rightarrow> None)"
    "c_script p = (case get_or_null data ''script_content'' of JStr s \<Rightarrow> Some s | _ \<Rightarrow> None)"
    "c_action_payload p = []"
    "Some (c_timeout_seconds p) = int_field data ''timeout_seconds''"
    "Some (c_retry_limit p) = int_field data ''retry_limit''"
proof -
  have "dict_get data ''action'' \<noteq> Some (JStr ''python_script'')"
    using assms(4,5) by (auto simp: ACTION_CHOICES_def)
  then have n: "normal = dict_set ''script'' (get_or_null data ''script_content'') payload"
    using sync_legacy_payload [OF assms(1)] assms(2) by simp
  note g = prepare_job_payload_InrD [OF assms(1)]
  show "Some (c_task_name p) = str_field data ''task_name''"
    "c_description p = (case get_or_null data ''description'' of JStr s \<Rightarrow> Some s | _ \<Rightarrow> None)"
    "Some (c_status p) = str_field data ''status''" "Some (c_schedule_type p) = str_field data ''schedule_type''"
    "c_cron_expression p = (case get_or_null data ''cron_expression'' of JStr s \<Rightarrow> Some s | _ \<Rightarrow> None)"
    "c_interval_seconds p = (case get_or_null data ''interval_seconds'' of JInt i \<Rightarrow> Some i | _ \<Rightarrow> None)"
    "c_action p = a" "c_task_type p = None"
    "Some (c_api_method p) = (case get_or_null data ''api_method'' of JStr s \<Rightarrow> Some s | _ \<Rightarrow> None)"
    "c_api_url p = (case get_or_null data ''api_url'' of JStr s \<Rightarrow> Some s | _ \<Rightarrow> None)"
    "c_working_dir p = (case get_or_null data ''working_dir'' of JStr s \<Rightarrow> Some s | _ \<Rightarrow> None)"
    "c_script p = (case get_or_null data ''script_content'' of JStr s \<Rightarrow> Some s | _ \<Rightarrow> None)"
    "c_action_payload p = []"
    "Some (c_timeout_seconds p) = int_field data ''timeout_seconds''"
    "Some (c_retry_limit p) = int_field data ''retry_limit''"
    using assms(3) [unfolded reads_create_def n str_field_def int_field_def, simplified g assms(4) dict_get_set, simplified]
    by (simp_all add: str_field_def int_field_def)
qed

text \<open>A schedule that can be read back: a cron expression that is none of the other kinds of
  rule, an interval with its seconds.\<close>

definition schedule_entered :: "pydict \<Rightarrow> bool" where
  "schedule_entered data \<longleftrightarrow>
     (case str_field data ''schedule_type'' of
        None \<Rightarrow> False
      | Some sched \<Rightarrow>
          if sched = ''cron'' then
            (case str_field data ''cron_expression'' of None \<Rightarrow> False
             | Some e \<Rightarrow> e \<noteq> [] \<and> schedule_type e = ''cron'')
          else if sched = ''interval'' then
            (case int_field data ''interval_seconds'' of None \<Rightarrow> False
             | Some n \<Rightarrow> n < 10 ^ int_max_str_digits)
          else True)"

lemma schedule_shown:
  assumes "c_schedule_type p = sched" and "sched \<in> set SCHEDULE_CHOICES"
    and "rule = resolve_schedule_rule (Some (c_schedule_type p)) (c_cron_expression p) (c_interval_seconds p) None"
    and "sched = ''cron'' \<Longrightarrow> \<exists>e. c_cron_expression p = Some e \<and> e \<noteq> [] \<and> schedule_type e = ''cron''"
    and "sched = ''interval'' \<Longrightarrow> \<exists>n. c_interval_seconds p = Some n \<and> \<bar>n\<bar> < 10 ^ int_max_str_digits"
  shows "schedule_type rule = sched \<and> (sched = ''cron'' \<longrightarrow> cron_expression rule = c_cron_expression p)
     \<and> (sched = ''interval'' \<longrightarrow> interval_seconds rule = Inr (c_interval_seconds p))"
proof -
  consider "sched = ''manual''" | "sched = ''cron''" | "sched = ''interval''"
    using assms(2) by (auto simp: SCHEDULE_CHOICES_def)
  then show ?thesis
  proof cases
    case 1
    then show ?thesis using assms(1,3) by (simp add: resolve_schedule_rule_def schedule_type_def)
  next
    case 2
    then show ?thesis using assms(1,3,4) by (auto simp: resolve_schedule_rule_def cron_expression_def)
  next
    case 3
    then obtain n where n: "c_interval_seconds p = Some n" "\<bar>n\<bar> < 10 ^ int_max_str_digits"
      using assms(5) by blast
    then have r: "rule = ''every:'' @ int_str n @ ''s''" using assms(1,3) 3 resolve_interval by metis
    show ?thesis unfolding r using 3 n interval_rule_type interval_seconds_every_int by (auto simp del: append_Cons)
  qed
qed

text \<open>The action payload a new job gets.\<close>

lemma created_payload:
  assumes "c_action_payload p = []"
  shows "a = ''api_call'' \<Longrightarrow> dict_get (build_action_payload (Some a) p) ''method''
      = (if c_api_method p = [] then None else Some (JStr (c_api_method p)))"
    "a = ''api_call'' \<Longrightarrow> dict_get (build_action_payload (Some a) p) ''url''
      = (if truthy_str (c_api_url p) then Some (JStr (the (c_api_url p))) else None)"
    "a \<in> {''shell'', ''python''} \<Longrightarrow> c_script p = Some content \<Longrightarrow> content \<noteq> [] \<Longrightarrow>
      dict_get (build_action_payload (Some a) p) ''content'' = Some (JStr content)"
    "a \<in> {''shell'', ''python''} \<Longrightarrow> truthy_str (c_working_dir p) \<Longrightarrow>
      dict_get (build_action_payload (Some a) p) ''working_dir'' = Some (JStr (the (c_working_dir p)))"
  using assms
  by (auto simp: build_action_payload_def Let_def set_missing_def put_script_def script_value_def dict_has_def
      split: if_splits)

section \<open>From the form to the edit form\<close>

text \<open>A form's data as the response of the created job has it: the schedule's entry as far as the
  kind of schedule has one, the action's fields where they are not empty.\<close>

definition entered :: "pydict \<Rightarrow> string \<Rightarrow> json \<Rightarrow> bool" where
  "entered data k v \<longleftrightarrow> dict_get data k = Some v \<or> dict_get data k = Some (JStr [])"

definition stored_action :: "pydict \<Rightarrow> string option \<Rightarrow> pydict \<Rightarrow> bool" where
  "stored_action data a ap \<longleftrightarrow>
     a = Some ''api_call'' \<and> entered data ''api_method'' (get_or_null ap ''method'')
       \<and> entered data ''api_url'' (get_or_null ap ''url'')
     \<or> a \<in> {Some ''shell'', Some ''python''} \<and> entered data ''script_content'' (get_or_null ap ''content'')
       \<and> entered data ''working_dir'' (get_or_null ap ''working_dir'')"

definition stored :: "pydict \<Rightarrow> job_response \<Rightarrow> bool" where
  "stored data r \<longleftrightarrow>
     dict_get data ''task_name'' = Some (str_json (jr_task_name r))
     \<and> dict_get data ''description'' = Some (str_json (jr_description r))
     \<and> dict_get data ''status'' = Some (str_json (jr_status r))
     \<and> dict_get data ''action'' = Some (str_json (jr_action r))
     \<and> dict_get data ''schedule_type'' = Some (JStr (jr_schedule_type r))
     \<and> dict_get data ''timeout_seconds'' = Some (int_json (jr_timeout_seconds r))
     \<and> dict_get data ''retry_limit'' = Some (int_json (jr_retry_limit r))
     \<and> (jr_schedule_type r = ''cron'' \<longrightarrow> dict_get data ''cron_expression'' = Some (str_json (jr_cron_expression r)))
     \<and> (jr_schedule_type r = ''interval'' \<longrightarrow> dict_get data ''interval_seconds'' = Some (int_json (jr_interval_seconds r)))
     \<and> (case jr_action_payload r of None \<Rightarrow> False | Some ap \<Rightarrow> stored_action data (jr_action r) ap)"

lemma created_schedule:
  assumes "cleaned data" and "schedule_entered data" and "prepare_job_payload data = Inr payload"
    and "sync_legacy_fields payload = Inr normal" and "reads_create normal p"
    and "rule = resolve_schedule_rule (Some (c_schedule_type p)) (c_cron_expression p) (c_interval_seconds p) None"
  shows "dict_get data ''schedule_type'' = Some (JStr (schedule_type rule))
     \<and> (schedule_type rule = ''cron'' \<longrightarrow> dict_get data ''cron_expression'' = Some (str_json (cron_expression rule)))
     \<and> (schedule_type rule = ''interval'' \<longrightarrow> interval_seconds rule = Inr (c_interval_seconds p)
          \<and> dict_get data ''interval_seconds'' = Some (int_json (c_interval_seconds p)))"
proof -
  obtain a sched cron_e where c: "dict_get data ''action'' = Some (JStr a)" "a \<in> set ACTION_CHOICES"
    "dict_get data ''schedule_type'' = Some (JStr sched)" "sched \<in> set SCHEDULE_CHOICES"
    "dict_get data ''cron_expression'' = Some (JStr cron_e)"
    using assms(1) by (rule cleanedD)
  note p = form_creates [OF assms(3-5) c(1,2)]
  have p': "c_schedule_type p = sched" "c_cron_expression p = Some cron_e"
    using p(4,5) c(3,5) by (simp_all add: get_or_null_def str_field_def)
  have i: "sched = ''interval'' \<Longrightarrow> \<exists>i. c_interval_seconds p = Some i \<and> \<bar>i\<bar> < 10 ^ int_max_str_digits
      \<and> dict_get data ''interval_seconds'' = Some (JInt i)"
  proof -
    assume s: "sched = ''interval''"
    have "str_field data ''schedule_type'' = Some ''interval''" using c(3) s by (simp add: str_field_def)
    then obtain n where n: "int_field data ''interval_seconds'' = Some n" "n < 10 ^ int_max_str_digits"
      using assms(2) by (simp add: schedule_entered_def split: option.splits)
    have g: "dict_get data ''interval_seconds'' = Some (JInt n)"
      using n(1) by (simp add: int_field_def split: option.splits json.splits)
    have "form_int 1 data ''interval_seconds''" using assms(1) g by (simp add: cleaned_def)
    then have "1 \<le> n" using n(1) by (simp add: form_int_def)
    then show ?thesis using n(2) g p(6) by (simp add: get_or_null_def)
  qed
  have cr: "sched = ''cron'' \<Longrightarrow> \<exists>e. c_cron_expression p = Some e \<and> e \<noteq> [] \<and> schedule_type e = ''cron''"
    using assms(2) c(3,5) p'(2) by (simp add: schedule_entered_def str_field_def)
  have i2: "sched = ''interval'' \<Longrightarrow> \<exists>i. c_interval_seconds p = Some i \<and> \<bar>i\<bar> < 10 ^ int_max_str_digits"
    using i by blast
  have "sched = ''interval'' \<longrightarrow> dict_get data ''interval_seconds'' = Some (int_json (c_interval_seconds p))"
    using i by (auto simp: int_json_def)
  then show ?thesis using schedule_shown [OF p'(1) c(4) assms(6) cr i2] c(3,5) p'(2) by (auto simp: str_json_def)
qed

lemma created_action:
  assumes "cleaned data" and "prepare_job_payload data = Inr payload"
    and "sync_legacy_fields payload = Inr normal" and "reads_create normal p"
  shows "stored_action data (Some (c_action p)) (build_action_payload (Some (c_action p)) p)"
proof -
  obtain a meth url dir content where c: "dict_get data ''action'' = Some (JStr a)" "a \<in> set ACTION_CHOICES"
    "dict_get data ''api_method'' = Some (JStr meth)" "dict_get data ''api_url'' = Some (JStr url)"
    "dict_get data ''working_dir'' = Some (JStr dir)" "dict_get data ''script_content'' = Some (JStr content)"
    using assms(1) by (rule cleanedD)
  note p = form_creates [OF assms(2-4) c(1,2)]
  have p': "c_action p = a" "c_api_method p = meth" "c_api_url p = Some url" "c_working_dir p = Some dir" "c_script p = Some content"
    using p c by (simp_all add: get_or_null_def)
  note ap = created_payload [OF p(13)]
  consider "a = ''api_call''" | "a \<in> {''shell'', ''python''}" using c(2) by (auto simp: ACTION_CHOICES_def)
  then show ?thesis
  proof cases
    case 1
    then show ?thesis using ap(1,2) [OF 1] p' c
      by (auto simp: stored_action_def entered_def get_or_null_def)
  next
    case 2
    then show ?thesis using ap(3,4) [OF 2] p' c
      by (auto simp: stored_action_def entered_def get_or_null_def)
  qed
qed

lemma created_stored:
  assumes "cleaned data" and "schedule_entered data"
    and "prepare_job_payload data = Inr payload" and "sync_legacy_fields payload = Inr normal"
    and "reads_create normal p" and "create_job cron now st p u d = Inr (j, d')"
    and "normalize_for_response d' j = Inr r"
  shows "stored data r"
proof -
  obtain a status name desc t n where c: "dict_get data ''action'' = Some (JStr a)" "a \<in> set ACTION_CHOICES"
    "dict_get data ''status'' = Some (JStr status)" "status \<in> set STATUS_CHOICES"
    "dict_get data ''task_name'' = Some (JStr name)" "dict_get data ''description'' = Some (JStr desc)"
    "dict_get data ''timeout_seconds'' = Some (JInt t)" "dict_get data ''retry_limit'' = Some (JInt n)"
    using assms(1) by (rule cleanedD)
  note p = form_creates [OF assms(3-5) c(1,2)]
  have p': "c_task_name p = name" "c_description p = Some desc" "c_status p = status" "c_action p = a"
    "c_timeout_seconds p = t" "c_retry_limit p = n"
    using p c by (simp_all add: get_or_null_def str_field_def int_field_def)
  have s: "sync_domain_logic cron now (job_from_create (st 0) p (u_id u)) = Inr j"
    using create_job_InrD [OF assms(6)] by (rule create_job_service_InrD)
  have ne: "a \<noteq> []" "status \<noteq> []" using c(2,4) by (auto simp: ACTION_CHOICES_def STATUS_CHOICES_def)
  have j: "j_task_name j = Some name" "j_description j = Some desc" "j_status j = Some status"
    "j_action_type j = Some a" "j_timeout_seconds j = Some t" "j_max_retry j = Some n"
    "j_schedule_rule j = resolve_schedule_rule (Some (c_schedule_type p)) (c_cron_expression p) (c_interval_seconds p) None"
    using sync_frame [OF s] p' ne p(8) by (simp_all add: job_from_create_def Let_def normal_status_Some)
  have ap: "j_action_payload j = Some (build_action_payload (Some a) p)"
    using sync_payload [OF s] p' ne p(8) by (simp add: job_from_create_def Let_def)
  note sh = created_schedule [OF assms(1-5) j(7)] and act = created_action [OF assms(1,3-5)]
  obtain k where k: "job_interval_seconds j = Inr k" "jr_interval_seconds r = k"
    and r: "jr_task_name r = Some name" "jr_description r = Some desc" "jr_status r = Some status"
    "jr_action r = Some a" "jr_timeout_seconds r = Some t" "jr_retry_limit r = Some n"
    "jr_schedule_type r = schedule_type (j_schedule_rule j)" "jr_cron_expression r = cron_expression (j_schedule_rule j)"
    "jr_action_payload r = Some (build_action_payload (Some a) p)"
    using assms(7) j ap by (auto simp: normalize_for_response_def result_iff job_schedule_type_def job_cron_expression_def)
  show ?thesis unfolding stored_def using sh act c p'(4) k(1)
    by (simp add: r k(2) str_json_def int_json_def job_interval_seconds_def)
qed

lemma stored_initial:
  assumes "stored data r" and "prepare_initial_data (JObj (response_json isoformat r)) = Inr init"
    and "k \<in> {''task_name'', ''description'', ''status'', ''timeout_seconds'', ''retry_limit'', ''schedule_type'', ''action''}
      \<or> k = ''cron_expression'' \<and> jr_schedule_type r = ''cron''
      \<or> k = ''interval_seconds'' \<and> jr_schedule_type r = ''interval''"
  shows "dict_get init k = dict_get data k"
proof -
  obtain flat where f: "init = initial_fields (response_json isoformat r) @ flat"
    using assms(2) by (rule prepare_initial_InrD)
  note st = assms(1) [unfolded stored_def]
  show ?thesis using assms(3)
    by (elim disjE conjE insertE emptyE; hypsubst)
      (use st in \<open>simp add: initial_fields_get [OF f] response_json_def get_or_null_def\<close>)+
qed

lemma stored_initial_action:
  assumes "stored data r" and "prepare_initial_data (JObj (response_json isoformat r)) = Inr init"
    and "dict_get data ''action'' = Some (JStr a)"
  shows "a = ''api_call'' \<Longrightarrow> k \<in> {''api_method'', ''api_url''} \<Longrightarrow> dict_get data k \<noteq> Some (JStr [])
      \<Longrightarrow> dict_get init k = dict_get data k"
    and "a \<noteq> ''api_call'' \<Longrightarrow> k \<in> {''script_content'', ''working_dir''} \<Longrightarrow> dict_get data k \<noteq> Some (JStr [])
      \<Longrightarrow> dict_get init k = dict_get data k"
proof -
  have "str_json (jr_action r) = JStr a" using assms(1,3) by (simp add: stored_def)
  then have a: "jr_action r = Some a" by (cases "jr_action r") (simp_all add: str_json_def)
  obtain ap where ap: "jr_action_payload r = Some ap" "stored_action data (jr_action r) ap"
    using assms(1) by (cases "jr_action_payload r") (simp_all add: stored_def)
  obtain flat where f: "init = initial_fields (response_json isoformat r) @ flat"
    "payload_fields (JStr a) (JObj ap) = Inr flat"
    using assms(2) by (rule prepare_initial_InrD) (simp add: response_json_action [OF a ap(1)])
  have flat: "dict_get init k = dict_get flat k"
    if "k \<in> {''api_method'', ''api_url'', ''shell_script'', ''script_content'', ''working_dir''}" for k
    using f(1) that by (rule initial_fields_flat)
  have kept: "dict_get init k = dict_get data k"
    if "entered data k v" "dict_get data k \<noteq> Some (JStr [])" "dict_get init k = Some v" for k v
    using that by (simp add: entered_def)
  have st: "a = ''api_call'' \<and> entered data ''api_method'' (get_or_null ap ''method'') \<and> entered data ''api_url'' (get_or_null ap ''url'')
      \<or> a \<in> {''shell'', ''python''} \<and> entered data ''script_content'' (get_or_null ap ''content'')
        \<and> entered data ''working_dir'' (get_or_null ap ''working_dir'')"
    using ap(2) by (simp only: stored_action_def a option.inject insert_iff empty_iff)
  show "dict_get init k = dict_get data k"
    if call: "a = ''api_call''" and k: "k \<in> {''api_method'', ''api_url''}" and ne: "dict_get data k \<noteq> Some (JStr [])"
  proof -
    have fl: "flat = [(''api_method'', get_or_null ap ''method''), (''api_url'', get_or_null ap ''url'')]"
      using f(2) by (simp only: call payload_fields_call sum.inject)
    have e: "entered data ''api_method'' (get_or_null ap ''method'')" "entered data ''api_url'' (get_or_null ap ''url'')"
      using st call by auto
    have g: "dict_get init ''api_method'' = Some (get_or_null ap ''method'')"
      "dict_get init ''api_url'' = Some (get_or_null ap ''url'')"
      using fl flat by simp_all
    show ?thesis using k ne kept [OF e(1) _ g(1)] kept [OF e(2) _ g(2)] by blast
  qed
  show "dict_get init k = dict_get data k"
    if script: "a \<noteq> ''api_call''" and k: "k \<in> {''script_content'', ''working_dir''}" and ne: "dict_get data k \<noteq> Some (JStr [])"
  proof -
    have sh: "a \<in> {''shell'', ''python''}" and e: "entered data ''script_content'' (get_or_null ap ''content'')"
      "entered data ''working_dir'' (get_or_null ap ''working_dir'')"
      using st script by blast+
    have fl: "flat = [(''shell_script'', get_or_null ap ''script''), (''script_content'', get_or_null ap ''content''),
        (''working_dir'', get_or_null ap ''working_dir'')]"
      using f(2) by (simp only: payload_fields_script [OF sh] sum.inject)
    have g: "dict_get init ''script_content'' = Some (get_or_null ap ''content'')"
      "dict_get init ''working_dir'' = Some (get_or_null ap ''working_dir'')"
      using fl flat by simp_all
    show ?thesis using k ne kept [OF e(1) _ g(1)] kept [OF e(2) _ g(2)] by blast
  qed
qed

end
