(* ===== verification/ViewsCorrect.thy ===== *)
theory ViewsCorrect
  imports Views
begin

text \<open>
  A small logic of views: \<open>stays_in e t m\<close> says that, run in a session whose token is \<open>t\<close>, the
  view \<open>m\<close> keeps that token and only adds backend calls that carry it, none at all in demo
  mode. It is closed under the ways views are put together, so it holds of every page behind
  the login. The contract of the demo store is the locale \<open>demo_operation\<close>.
\<close>

section \<open>Calls made on behalf of a session\<close>

definition kept :: "ui_env \<Rightarrow> string \<Rightarrow> web \<Rightarrow> web \<Rightarrow> bool" where
  "kept e t w w' \<longleftrightarrow>
     s_token (w_session w') = Some t
     \<and> (\<exists>cs. w_calls w' = w_calls w @ cs \<and> (\<forall>c \<in> set cs. carries_token t c) \<and> (demo_mode e \<longrightarrow> cs = []))"

definition stays_in :: "ui_env \<Rightarrow> string \<Rightarrow> 'a view \<Rightarrow> bool" where
  "stays_in e t m \<longleftrightarrow> (\<forall>w. s_token (w_session w) = Some t \<longrightarrow> kept e t w (snd (m w)))"

named_theorems stays_in_intro

lemma keptD: "kept e t w w' \<Longrightarrow> s_token (w_session w') = Some t"
  by (simp add: kept_def)

lemma kept_trans:
  assumes "kept e t w w'" and "kept e t w' w''"
  shows "kept e t w w''"
proof -
  obtain cs where "w_calls w' = w_calls w @ cs" "\<forall>c \<in> set cs. carries_token t c" "demo_mode e \<longrightarrow> cs = []"
    using assms(1) by (auto simp: kept_def)
  moreover obtain ds where "w_calls w'' = w_calls w' @ ds" "\<forall>c \<in> set ds. carries_token t c"
    "demo_mode e \<longrightarrow> ds = []"
    using assms(2) by (auto simp: kept_def)
  ultimately show ?thesis using keptD [OF assms(2)] unfolding kept_def
    by (intro conjI exI [of _ "cs @ ds"]) auto
qed

lemma kept_same: "s_token (w_session w') = Some t \<Longrightarrow> w_calls w' = w_calls w \<Longrightarrow> kept e t w w'"
  by (simp add: kept_def)

lemma stays_inI:
  assumes "\<And>w. s_token (w_session w) = Some t \<Longrightarrow> kept e t w (snd (m w))"
  shows "stays_in e t m"
  using assms by (simp add: stays_in_def)

lemma stays_inD: "stays_in e t m \<Longrightarrow> s_token (w_session w) = Some t \<Longrightarrow> kept e t w (snd (m w))"
  by (simp add: stays_in_def)

lemma stays_in_return [stays_in_intro]: "stays_in e t (return a)"
  by (rule stays_inI) (simp add: return_def kept_same)

lemma stays_in_raising [stays_in_intro]: "stays_in e t (raising x)"
  by (rule stays_inI) (simp add: raising_def kept_same)

lemma stays_in_lift [stays_in_intro]: "stays_in e t (lift r)"
  by (rule stays_inI) (simp add: lift_def kept_same)

lemma stays_in_notify [stays_in_intro]: "stays_in e t (notify n)"
  by (rule stays_inI) (simp add: notify_def kept_same)

lemma stays_in_andthen [stays_in_intro]:
  assumes m: "stays_in e t m" and f: "\<And>a. stays_in e t (f a)"
  shows "stays_in e t (andthen m f)"
proof (rule stays_inI)
  fix w :: web assume t: "s_token (w_session w) = Some t"
  obtain x w' where mw: "m w = (x, w')" by (cases "m w")
  then have k: "kept e t w w'" using stays_inD [OF m t] by simp
  show "kept e t w (snd (andthen m f w))"
  proof (cases x)
    case (Inl y)
    then show ?thesis using k mw by (simp add: andthen_def)
  next
    case (Inr a)
    then have "snd (andthen m f w) = snd (f a w')" using mw by (simp add: andthen_def)
    then show ?thesis using kept_trans [OF k stays_inD [OF f keptD [OF k]]] by simp
  qed
qed

lemma stays_in_catching [stays_in_intro]:
  assumes m: "stays_in e t m" and h: "\<And>v. stays_in e t (h v)"
  shows "stays_in e t (catching m h)"
proof (rule stays_inI)
  fix w :: web assume t: "s_token (w_session w) = Some t"
  obtain x w' where mw: "m w = (x, w')" by (cases "m w")
  then have k: "kept e t w w'" using stays_inD [OF m t] by simp
  have "snd (catching m h w) = w' \<or> (\<exists>v. snd (catching m h w) = snd (h v w'))"
    using mw by (cases x rule: sum.exhaust; simp add: catching_def split: exc.split) blast
  then show "kept e t w (snd (catching m h w))"
    using k kept_trans [OF k stays_inD [OF h keptD [OF k]]] by auto
qed

lemma stays_in_session [stays_in_intro]:
  assumes "\<And>s a s'. f s = Inr (a, s') \<Longrightarrow> s_token s' = s_token s"
  shows "stays_in e t (in_session f)"
proof (rule stays_inI)
  fix w :: web assume t: "s_token (w_session w) = Some t"
  show "kept e t w (snd (in_session f w))"
  proof (cases "f (w_session w)")
    case (Inl x)
    then show ?thesis using t by (simp add: in_session_def kept_same)
  next
    case (Inr p)
    then show ?thesis using t assms [of "w_session w" "fst p" "snd p"]
      by (cases p) (simp add: in_session_def kept_same)
  qed
qed

lemma stays_in_send_as_user:
  assumes "\<not> demo_mode e" and "t \<noteq> []" and "\<And>c. \<exists>m p b. f c = make_call c m p b"
  shows "stays_in e t (send_as_user e f)"
proof (rule stays_inI)
  fix w :: web assume t: "s_token (w_session w) = Some t"
  obtain m p b where f: "f (BackendAPIClient (backend_url e) (Some t)) = make_call (BackendAPIClient (backend_url e) (Some t)) m p b"
    using assms(3) by blast
  have "carries_token t (f (BackendAPIClient (backend_url e) (Some t)))"
    unfolding f using assms(2) by (rule make_call_carries)
  then show "kept e t w (snd (send_as_user e f w))"
    using t assms(1) by (simp add: send_as_user_def send_def kept_def)
qed

lemma stays_in_require_login [stays_in_intro]:
  assumes "stays_in e t body"
  shows "stays_in e t (require_login out body)"
proof (rule stays_inI)
  fix w :: web assume t: "s_token (w_session w) = Some t"
  have "stays_in e t (andthen (notify LoginFirst) (\<lambda>_. return out))" by (intro stays_in_intro)
  from stays_inD [OF this t] stays_inD [OF assms t] show "kept e t w (snd (require_login out body w))"
    by (simp add: require_login_def)
qed

section \<open>The demo store does not touch the login\<close>

lemma ensure_token [simp]: "s_token (ensure_demo_data dw s) = s_token s"
  by (simp add: ensure_demo_data_def Let_def)

lemma list_demo_jobs_token: "list_demo_jobs dw s = Inr (js, s') \<Longrightarrow> s_token s' = s_token s"
  by (auto simp: list_demo_jobs_def Let_def result_iff)

lemma get_demo_job_token: "get_demo_job dw k s = Inr (j, s') \<Longrightarrow> s_token s' = s_token s"
  by (auto simp: get_demo_job_def result_iff dest: list_demo_jobs_token)

lemma run_demo_job_token: "run_demo_job g dw k b s = Inr (r, s') \<Longrightarrow> s_token s' = s_token s"
  by (auto simp: run_demo_job_def Let_def result_iff dest!: get_demo_job_token split: option.splits)

lemma demo_tokens:
  "create_demo_job dw data s = Inr (j, s') \<Longrightarrow> s_token s' = s_token s"
  "update_demo_job dw k data s = Inr (jo, s') \<Longrightarrow> s_token s' = s_token s"
  "delete_demo_job dw k s = Inr (u, s') \<Longrightarrow> s_token s' = s_token s"
  "list_demo_runs dw s = Inr (rs, s') \<Longrightarrow> s_token s' = s_token s"
  "get_demo_logs dw k s = Inr (ls, s') \<Longrightarrow> s_token s' = s_token s"
  by (auto simp: create_demo_job_def update_demo_job_def delete_demo_job_def list_demo_runs_def
      get_demo_logs_def Let_def result_iff)

lemma retry_demo_run_token: "retry_demo_run g dw k s = Inr (r, s') \<Longrightarrow> s_token s' = s_token s"
  by (auto simp: retry_demo_run_def Let_def result_iff dest!: run_demo_job_token split: option.splits)

lemmas demo_session_tokens = list_demo_jobs_token get_demo_job_token run_demo_job_token demo_tokens
  retry_demo_run_token

lemma stays_in_demo [stays_in_intro]:
  "stays_in e t (in_session (list_demo_jobs dw))" "stays_in e t (in_session (get_demo_job dw k))"
  "stays_in e t (in_session (run_demo_job g dw k b))" "stays_in e t (in_session (create_demo_job dw data))"
  "stays_in e t (in_session (update_demo_job dw k data))" "stays_in e t (in_session (delete_demo_job dw k))"
  "stays_in e t (in_session (list_demo_runs dw))" "stays_in e t (in_session (get_demo_logs dw k))"
  "stays_in e t (in_session (retry_demo_run g dw k))"
  by (intro stays_in_session; erule demo_session_tokens)+

section \<open>Every page behind the login\<close>

definition make_calls :: "(api_client \<Rightarrow> api_call) \<Rightarrow> bool" where
  "make_calls f \<longleftrightarrow> (\<forall>c. \<exists>m p b. f c = make_call c m p b)"

lemma make_calls_api:
  "make_calls api_list_jobs" "make_calls api_list_job_runs" "make_calls (\<lambda>c. api_get_job c k)"
  "make_calls (\<lambda>c. api_create_job c v)" "make_calls (\<lambda>c. api_update_job c k v)"
  "make_calls (\<lambda>c. api_delete_job c k)" "make_calls (\<lambda>c. api_run_job c k)" "make_calls api_clear_all_runs"
  "make_calls (\<lambda>c. api_retry_run c k)" "make_calls (\<lambda>c. api_get_run_logs c k)" "make_calls api_health"
  by (auto simp: make_calls_def api_calls)

lemma stays_in_api:
  "\<not> demo_mode e \<Longrightarrow> t \<noteq> [] \<Longrightarrow> make_calls f \<Longrightarrow> stays_in e t (send_as_user e f)"
  by (rule stays_in_send_as_user) (auto simp: make_calls_def)

lemma stays_in_fetch [stays_in_intro]:
  assumes "t \<noteq> []"
  shows "stays_in e t (fetch_jobs e)" "stays_in e t (fetch_runs e)" "stays_in e t (fetch_job e k)"
    "stays_in e t (fetch_logs e k)"
  using stays_in_api [OF _ assms make_calls_api(1)] stays_in_api [OF _ assms make_calls_api(2)]
    stays_in_api [OF _ assms make_calls_api(3)] stays_in_api [OF _ assms make_calls_api(10)]
  by (auto simp: fetch_jobs_def fetch_runs_def fetch_job_def fetch_logs_def intro!: stays_in_intro)

lemma stays_in_or_job_list [stays_in_intro]: "stays_in e t m \<Longrightarrow> stays_in e t (or_job_list m)"
  unfolding or_job_list_def by (intro stays_in_intro)

lemma stays_in_job_missing [stays_in_intro]: "stays_in e t job_missing"
  unfolding job_missing_def by (intro stays_in_intro)

lemma stays_in_action:
  assumes "stays_in e t act"
  shows "stays_in e t (action_view m act n f target)"
  unfolding action_view_def using assms by (cases m) (auto intro!: stays_in_intro)

lemma stays_in_save_edited [stays_in_intro]:
  assumes "t \<noteq> []"
  shows "stays_in e t (save_edited e k post job choices data)"
  unfolding save_edited_def Let_def
  using stays_in_api [OF _ assms make_calls_api(5)] by (auto intro!: stays_in_intro)

lemma stays_in_site:
  assumes "t \<noteq> []" and "u \<notin> {LoginUrl, RegisterUrl, LogoutUrl}"
  shows "stays_in e t (site e u m)"
proof -
  note api = stays_in_api [OF _ assms(1)]
  note fetch = stays_in_fetch [OF assms(1)] stays_in_save_edited [OF assms(1)]
  show ?thesis
  proof (cases u)
    case JobCreateUrl
    then show ?thesis using api [OF _ make_calls_api(4)]
      by (auto simp: job_create_view_def Let_def intro!: stays_in_intro fetch split: http_method.split option.split)
  next
    case (JobEditUrl k)
    then show ?thesis
      by (auto simp: job_edit_view_def fetch_edited_def intro!: stays_in_intro fetch
          split: http_method.split option.split sum.split)
  next
    case (JobDeleteUrl k)
    then show ?thesis using api [OF _ make_calls_api(6)]
      by (auto simp: job_delete_view_def ignoring_def intro!: stays_in_action stays_in_intro)
  next
    case (JobRunUrl k)
    then show ?thesis using api [OF _ make_calls_api(7)]
      by (auto simp: job_run_view_def ignoring_def intro!: stays_in_action stays_in_intro)
  next
    case JobRunsClearUrl
    then show ?thesis using api [OF _ make_calls_api(8)]
      by (auto simp: job_runs_clear_view_def ignoring_def intro!: stays_in_action stays_in_intro)
  next
    case (JobRetryUrl k)
    then show ?thesis using api [OF _ make_calls_api(9)]
      by (auto simp: job_retry_view_def ignoring_def intro!: stays_in_action stays_in_intro)
  next
    case HealthUrl
    then show ?thesis using api [OF _ make_calls_api(11)]
      by (auto simp: health_view_def intro!: stays_in_intro)
  qed (use assms(2) in \<open>auto simp: dashboard_view_def job_list_view_def job_list_partial_view_def
        job_detail_view_def job_runs_view_def job_runs_partial_view_def job_run_logs_view_def
        intro!: stays_in_intro fetch split: sum.split\<close>)
qed

end
