(* ===== verification/FrontendProperties.thy ===== *)
theory FrontendProperties
  imports FormCorrect ViewsCorrect Samples
begin

text \<open>
  The properties of the job form: from its input to the edit page, and what editing a script or
  an action does not do; with witnesses.
\<close>

section \<open>The job form\<close>





text \<open>C29: saving the edit form of a script job with a new content and everything else as shown
  changes nothing that runs: the form repeats the old script in its script field, the update
  prefers that field, and the next run executes the old script. Changing the action is no better:
  the job's action type changes, but its runs carry the old task type, which the worker executes.\<close>

theorem edits_do_not_run:
  assumes "get_job_or_404 k cu d = Inr j" and "j_action_type j = Some a" and "a \<in> {''shell'', ''python''}"
    and "j_action_payload j = Some ap" and "dict_get ap ''script'' = Some (JStr s)" and "s \<noteq> []"
    and "j_task_type j = Some old" and "old \<noteq> []"
    and "normalize_for_response d j = Inr r" and "prepare_initial_data (JObj (response_json isoformat r)) = Inr init"
    and "dict_get data ''shell_script'' = dict_get init ''shell_script''"
    and "prepare_job_payload data = Inr payload" and "reads_update payload p"
    and "update_job cron now st k p cu d = Inr (j2, d2)"
  shows "(dict_get data ''action'' = dict_get init ''action'' \<longrightarrow>
            script_of (prepare_payload (triggered_run st2 uid tt j2) j2) = JStr s)
     \<and> (\<forall>b. dict_get data ''action'' = Some (JStr b) \<longrightarrow>
            j_action_type j2 = Some b \<and> r_task_type (triggered_run st2 uid tt j2) = Some old)"
  using edited_script_kept [OF assms(1-6) assms(9-11) _ assms(12-14)]
    edited_action_kept [OF assms(1,7,8) assms(12-14)]
  by (auto simp: set_field_def dict_has_def str_field_def)

text \<open>The edited job: the sample's extraction job with its script in the payload; its script
  becomes \<open>cat\<close> and, for the second half, its action \<open>api_call\<close>.\<close>

definition script_job :: job where
  "script_job = extract_job\<lparr>j_action_payload := Some [(''script'', JStr ''ls''), (''content'', JStr ''ls'')]\<rparr>"

definition script_db :: db where
  "script_db = sample_db\<lparr>db_jobs := [script_job, load_job]\<rparr>"

definition edit_form :: "string \<Rightarrow> pydict" where
  "edit_form action =
     [(''task_name'', JStr ''extract''), (''description'', JStr []), (''status'', JStr ''enabled''),
      (''schedule_type'', JStr ''manual''), (''action'', JStr action), (''shell_script'', JStr ''ls''),
      (''script_content'', JStr ''cat''), (''timeout_seconds'', JInt 300), (''retry_limit'', JInt 3)]"

definition edit_update :: "string \<Rightarrow> job_update" where
  "edit_update action = JobUpdate\<lparr>p_task_name := Some (Some ''extract''), p_description := Some (Some []),
     p_status := Some (Some ''enabled''), p_schedule_type := Some (Some ''manual''),
     p_cron_expression := Some None, p_interval_seconds := Some None, p_action := Some (Some action),
     p_api_method := Some None, p_api_url := Some None, p_working_dir := Some None,
     p_shell_script := Some (Some ''ls''), p_script_content := Some (Some ''cat''),
     p_timeout_seconds := Some (Some 300), p_retry_limit := Some (Some 3), p_depends_on := Some (Some [])\<rparr>"

lemma sample_edit:
  assumes "act = ''shell'' \<or> act = ''api_call''"
  shows "\<exists>r init payload j2 d2. get_job_or_404 ''j1'' (Some alice) script_db = Inr script_job
     \<and> normalize_for_response script_db script_job = Inr r
     \<and> prepare_initial_data (JObj (response_json (\<lambda>_. ''t'') r)) = Inr init
     \<and> dict_get (edit_form act) ''shell_script'' = dict_get init ''shell_script''
     \<and> dict_get init ''action'' = Some (JStr ''shell'')
     \<and> prepare_job_payload (edit_form act) = Inr payload \<and> reads_update payload (edit_update act)
     \<and> update_job no_cron (Aware 0) sample_stamps ''j1'' (edit_update act) (Some alice) script_db = Inr (j2, d2)"
proof -
  have 1: "get_job_or_404 ''j1'' (Some alice) script_db = Inr script_job" by code_simp
  have 2: "case normalize_for_response script_db script_job of Inl e \<Rightarrow> False
      | Inr r \<Rightarrow> (case prepare_initial_data (JObj (response_json (\<lambda>_. ''t'') r)) of Inl e \<Rightarrow> False
          | Inr i \<Rightarrow> dict_get i ''shell_script'' = Some (JStr ''ls'') \<and> dict_get i ''action'' = Some (JStr ''shell''))"
    by code_simp
  have 3: "case prepare_job_payload (edit_form a) of Inl e \<Rightarrow> False
      | Inr p \<Rightarrow> reads_update p (edit_update a)
          \<and> (case update_job no_cron (Aware 0) sample_stamps ''j1'' (edit_update a) (Some alice) script_db of
              Inl e \<Rightarrow> False | Inr x \<Rightarrow> True)" if "a = ''shell'' \<or> a = ''api_call''" for a
    using that by (elim disjE; hypsubst; code_simp)
  have 4: "dict_get (edit_form act) ''shell_script'' = Some (JStr ''ls'')" by (simp add: edit_form_def)
  show ?thesis using 1 2 3 [OF assms] 4 by (auto split: sum.splits)
qed

theorem edits_do_not_run_witness:
  "(\<exists>j2 d2. update_job no_cron (Aware 0) sample_stamps ''j1'' (edit_update ''shell'') (Some alice) script_db = Inr (j2, d2)
      \<and> script_of (prepare_payload (triggered_run (sample_stamps 1) None ''manual'' j2) j2) = JStr ''ls'')
   \<and> (\<exists>j2 d2. update_job no_cron (Aware 0) sample_stamps ''j1'' (edit_update ''api_call'') (Some alice) script_db = Inr (j2, d2)
      \<and> j_action_type j2 = Some ''api_call''
      \<and> r_task_type (triggered_run (sample_stamps 1) None ''manual'' j2) = Some ''shell'')"
proof -
  have job: "j_action_type script_job = Some ''shell''"
    "j_action_payload script_job = Some [(''script'', JStr ''ls''), (''content'', JStr ''ls'')]"
    "j_task_type script_job = Some ''shell''"
    by (simp_all add: script_job_def extract_job_def)
  have script: "dict_get [(''script'', JStr ''ls''), (''content'', JStr ''ls'')] ''script'' = Some (JStr ''ls'')" by simp
  have form: "dict_get (edit_form b) ''action'' = Some (JStr b)" for b by (simp add: edit_form_def)
  have runs: "\<exists>j2 d2. update_job no_cron (Aware 0) sample_stamps ''j1'' (edit_update b) (Some alice) script_db = Inr (j2, d2)
      \<and> (b = ''shell'' \<longrightarrow> script_of (prepare_payload (triggered_run (sample_stamps 1) None ''manual'' j2) j2) = JStr ''ls'')
      \<and> j_action_type j2 = Some b \<and> r_task_type (triggered_run (sample_stamps 1) None ''manual'' j2) = Some ''shell''"
    if b: "b = ''shell'' \<or> b = ''api_call''" for b
  proof -
    obtain r init payload j2 d2 where e: "get_job_or_404 ''j1'' (Some alice) script_db = Inr script_job"
      "normalize_for_response script_db script_job = Inr r"
      "prepare_initial_data (JObj (response_json (\<lambda>_. ''t'') r)) = Inr init"
      "dict_get (edit_form b) ''shell_script'' = dict_get init ''shell_script''"
      "dict_get init ''action'' = Some (JStr ''shell'')"
      "prepare_job_payload (edit_form b) = Inr payload" "reads_update payload (edit_update b)"
      "update_job no_cron (Aware 0) sample_stamps ''j1'' (edit_update b) (Some alice) script_db = Inr (j2, d2)"
      using sample_edit [OF b] by blast
    have "''shell'' \<in> {''shell'', ''python''}" "''ls'' \<noteq> []" "''shell'' \<noteq> []" by simp_all
    note x = edits_do_not_run [OF e(1) job(1) this(1) job(2) script this(2) job(3) this(3) e(2-4) e(6-8),
        of "sample_stamps 1" None "''manual''"]
    show ?thesis using x e(5,8) form [of b] by auto
  qed
  show ?thesis using runs [of "''shell''"] runs [of "''api_call''"] by blast
qed

end
