(* ===== verification/DemoCorrect.thy ===== *)
theory DemoCorrect
  imports DemoStore
begin

text \<open>
  Correctness of the demo store: the sessions it produces are consistent (its three lists are
  there together, ids are unique, every run has its logs), as the contract \<open>demo_operation\<close>
  that every operation keeps; no operation ever misses a key of the session.
\<close>

section \<open>Consistent sessions\<close>

definition demo_ok :: "session \<Rightarrow> bool" where
  "demo_ok s \<longleftrightarrow>
     (case s_demo_jobs s of
        None \<Rightarrow> True
      | Some js \<Rightarrow>
          (case (s_demo_runs s, s_demo_logs s) of
             (Some rs, Some ls) \<Rightarrow>
               distinct (map dj_id js) \<and> distinct (map dr_id rs)
               \<and> list_all (\<lambda>r. map_of ls (dr_id r) \<noteq> None) rs
           | _ \<Rightarrow> False))"

text \<open>The ids drawn are new and different.\<close>

definition demo_ids :: "session \<Rightarrow> string list" where
  "demo_ids s =
     (case s_demo_jobs s of None \<Rightarrow> [] | Some js \<Rightarrow> map dj_id js)
     @ (case s_demo_runs s of None \<Rightarrow> [] | Some rs \<Rightarrow> map dr_id rs)"

definition fresh_draws :: "draws \<Rightarrow> session \<Rightarrow> bool" where
  "fresh_draws dw s \<longleftrightarrow> distinct [uuid dw 0, uuid dw 1, uuid dw 2]
     \<and> list_all (\<lambda>i. uuid dw i \<notin> set (demo_ids s)) [0, 1, 2]"

text \<open>A session with its data, whose ids do not include the one an operation draws.\<close>

definition demo_full :: "draws \<Rightarrow> session \<Rightarrow> demo_job list \<Rightarrow> demo_run list \<Rightarrow> (string \<times> demo_log list) list \<Rightarrow> bool" where
  "demo_full dw s js rs ls \<longleftrightarrow>
     s_demo_jobs s = Some js \<and> s_demo_runs s = Some rs \<and> s_demo_logs s = Some ls
     \<and> distinct (map dj_id js) \<and> distinct (map dr_id rs) \<and> (\<forall>r \<in> set rs. map_of ls (dr_id r) \<noteq> None)
     \<and> uuid dw 2 \<notin> set (map dj_id js) \<and> uuid dw 2 \<notin> set (map dr_id rs)"

lemma ensure_new:
  assumes "s_demo_jobs s = None"
  shows "\<exists>j r l. s_demo_jobs (ensure_demo_data dw s) = Some [j] \<and> dj_id j = uuid dw 0
     \<and> s_demo_runs (ensure_demo_data dw s) = Some [r] \<and> dr_id r = uuid dw 1
     \<and> s_demo_logs (ensure_demo_data dw s) = Some [(uuid dw 1, l)]"
  using assms by (simp add: ensure_demo_data_def Let_def)

lemma ensure_old:
  assumes "s_demo_jobs s = Some js"
  shows "s_demo_jobs (ensure_demo_data dw s) = Some js" "s_demo_runs (ensure_demo_data dw s) = s_demo_runs s"
    "s_demo_logs (ensure_demo_data dw s) = s_demo_logs s"
  using assms by (simp_all add: ensure_demo_data_def Let_def)

lemma ensure_full:
  assumes "demo_ok s" and "fresh_draws dw s"
  obtains js rs ls where "demo_full dw (ensure_demo_data dw s) js rs ls"
proof (cases "s_demo_jobs s")
  case None
  then obtain j r l where "s_demo_jobs (ensure_demo_data dw s) = Some [j]" "dj_id j = uuid dw 0"
    "s_demo_runs (ensure_demo_data dw s) = Some [r]" "dr_id r = uuid dw 1"
    "s_demo_logs (ensure_demo_data dw s) = Some [(uuid dw 1, l)]"
    using ensure_new by blast
  then have "demo_full dw (ensure_demo_data dw s) [j] [r] [(uuid dw 1, l)]"
    using assms(2) by (auto simp: demo_full_def fresh_draws_def)
  then show ?thesis by (rule that)
next
  case (Some js)
  then obtain rs ls where r: "s_demo_runs s = Some rs" "s_demo_logs s = Some ls"
    "distinct (map dj_id js)" "distinct (map dr_id rs)" "\<forall>r \<in> set rs. map_of ls (dr_id r) \<noteq> None"
    using assms(1) by (auto simp: demo_ok_def list_all_iff split: option.splits)
  then have "demo_full dw (ensure_demo_data dw s) js rs ls"
    using Some assms(2) by (simp add: demo_full_def ensure_old fresh_draws_def demo_ids_def)
  then show ?thesis by (rule that)
qed

lemma demo_full_ok: "demo_full dw s js rs ls \<Longrightarrow> demo_ok s"
  by (simp add: demo_full_def demo_ok_def list_all_iff)

lemma demo_full_D:
  assumes "demo_full dw s js rs ls"
  shows "s_demo_jobs s = Some js" "s_demo_runs s = Some rs" "s_demo_logs s = Some ls"
    "distinct (map dj_id js)" "distinct (map dr_id rs)" "\<forall>r \<in> set rs. map_of ls (dr_id r) \<noteq> None"
    "uuid dw 2 \<notin> set (map dj_id js)" "uuid dw 2 \<notin> set (map dr_id rs)"
  using assms by (simp_all add: demo_full_def)

lemma ensure_idem: "s_demo_jobs s \<noteq> None \<Longrightarrow> s_demo_users s \<noteq> None \<Longrightarrow> ensure_demo_data dw s = s"
  by (auto simp: ensure_demo_data_def Let_def)

lemma ensure_users: "s_demo_users (ensure_demo_data dw s) \<noteq> None"
  by (simp add: ensure_demo_data_def Let_def)

lemma demo_key_Some [simp]: "demo_key k (Some v) = Inr v"
  by (simp add: demo_key_def)

section \<open>The contract of an operation\<close>

locale demo_operation =
  fixes act :: "draws \<Rightarrow> session \<Rightarrow> ('a \<times> session) result"
  assumes safe: "demo_ok s \<Longrightarrow> fresh_draws dw s \<Longrightarrow>
    (case act dw s of Inl e \<Rightarrow> (\<forall>k. e \<noteq> KeyError k) | Inr (x, s') \<Rightarrow> demo_ok s')"
begin

lemma keeps: "demo_ok s \<Longrightarrow> fresh_draws dw s \<Longrightarrow> act dw s = Inr (x, s') \<Longrightarrow> demo_ok s'"
  using safe [of s dw] by simp

lemma no_key_error: "demo_ok s \<Longrightarrow> fresh_draws dw s \<Longrightarrow> act dw s \<noteq> Inl (KeyError k)"
  using safe [of s dw] by auto

text \<open>What the session is after a request: an exception loses its changes.\<close>

definition settled :: "draws \<Rightarrow> session \<Rightarrow> session" where
  "settled dw s = (case act dw s of Inl e \<Rightarrow> s | Inr (x, s') \<Rightarrow> s')"

lemma settled_ok: "demo_ok s \<Longrightarrow> fresh_draws dw s \<Longrightarrow> demo_ok (settled dw s)"
  using keeps [of s dw] by (auto simp: settled_def split: sum.split)

end

lemma list_jobs_safe:
  assumes "demo_ok s" and "fresh_draws dw s"
  obtains js rs ls where "list_demo_jobs dw s = Inr (js, ensure_demo_data dw s)"
    "demo_full dw (ensure_demo_data dw s) js rs ls"
proof -
  obtain js rs ls where f: "demo_full dw (ensure_demo_data dw s) js rs ls" using assms by (rule ensure_full)
  then show ?thesis using that demo_full_D(1) [OF f] by (simp add: list_demo_jobs_def Let_def)
qed

lemma upd_first_ids: "(\<And>j. dj_id (f j) = dj_id j) \<Longrightarrow> map dj_id (upd_first P f js) = map dj_id js"
  by (induction js) auto

lemma edited_id [simp]: "dj_id (edited data now j) = dj_id j"
  by (simp add: edited_def)

lemma int_of_json_Inl: "int_of_json v = Inl e \<Longrightarrow> e \<noteq> KeyError k"
  by (auto simp: int_of_json_def int_or_raise_def split: json.splits option.splits)

lemma map_of_update_other: "map_of ls k \<noteq> None \<Longrightarrow> map_of (AList.update k' v ls) k \<noteq> None"
  by (simp add: update_conv')

lemma run_demo_job_full:
  assumes full: "demo_full dw s js rs ls" and users: "s_demo_users s \<noteq> None"
  shows "case run_demo_job g dw k b s of Inl e \<Rightarrow> False | Inr (x, s') \<Rightarrow> demo_ok s'"
proof -
  note d = demo_full_D [OF full]
  have e: "ensure_demo_data dw s = s" using ensure_idem users d(1) by simp
  have ls: "map_of (AList.update (uuid dw 2) v ls) (dr_id r) \<noteq> None" if "r \<in> set rs" for r v
    using d(6) that by (simp add: update_conv')
  show ?thesis
  proof (cases "find (\<lambda>j. dj_id j = k) js")
    case None
    then show ?thesis using demo_full_ok [OF full] d(1)
      by (simp add: run_demo_job_def get_demo_job_def list_demo_jobs_def e Let_def)
  next
    case (Some j)
    then show ?thesis using d ls
      by (simp add: run_demo_job_def get_demo_job_def list_demo_jobs_def e Let_def demo_ok_def list_all_iff
          update_conv')
  qed
qed

lemma run_demo_job_ensures:
  "run_demo_job g dw k b (ensure_demo_data dw s) = run_demo_job g dw k b s"
proof -
  have "ensure_demo_data dw (ensure_demo_data dw s) = ensure_demo_data dw s"
    by (rule ensure_idem) (simp_all add: ensure_demo_data_def Let_def)
  then show ?thesis by (simp add: run_demo_job_def get_demo_job_def list_demo_jobs_def Let_def)
qed

section \<open>Every operation keeps the contract\<close>

lemma create_safe:
  assumes "demo_ok s" and "fresh_draws dw s"
  shows "case create_demo_job dw data s of Inl e \<Rightarrow> (\<forall>k. e \<noteq> KeyError k) | Inr (x, s') \<Rightarrow> demo_ok s'"
proof -
  obtain js rs ls where f: "demo_full dw (ensure_demo_data dw s) js rs ls" using assms by (rule ensure_full)
  note d = demo_full_D [OF f]
  show ?thesis
  proof (cases "int_of_json (json_or (get_or_null data ''timeout_seconds'') (JInt 300))")
    case (Inl e)
    then show ?thesis using int_of_json_Inl by (auto simp: create_demo_job_def Let_def)
  next
    case t: (Inr t)
    show ?thesis
    proof (cases "int_of_json (json_or (get_or_null data ''retry_limit'') (JInt 3))")
      case (Inl e)
      then show ?thesis using t int_of_json_Inl by (auto simp: create_demo_job_def Let_def)
    next
      case (Inr n)
      then show ?thesis using t d by (simp add: create_demo_job_def Let_def demo_ok_def list_all_iff)
    qed
  qed
qed

interpretation create_op: demo_operation "\<lambda>dw. create_demo_job dw data" for data
  by unfold_locales (rule create_safe)

interpretation list_op: demo_operation list_demo_jobs
proof unfold_locales
  fix s dw assume "demo_ok s" "fresh_draws dw s"
  then obtain js rs ls where "list_demo_jobs dw s = Inr (js, ensure_demo_data dw s)"
    "demo_full dw (ensure_demo_data dw s) js rs ls" by (rule list_jobs_safe)
  then show "case list_demo_jobs dw s of Inl e \<Rightarrow> \<forall>k. e \<noteq> KeyError k | Inr (x, s') \<Rightarrow> demo_ok s'"
    by (simp add: demo_full_ok)
qed

interpretation get_op: demo_operation "\<lambda>dw. get_demo_job dw k" for k
proof unfold_locales
  fix s dw assume "demo_ok s" "fresh_draws dw s"
  then obtain js rs ls where "list_demo_jobs dw s = Inr (js, ensure_demo_data dw s)"
    "demo_full dw (ensure_demo_data dw s) js rs ls" by (rule list_jobs_safe)
  then show "case get_demo_job dw k s of Inl e \<Rightarrow> \<forall>k. e \<noteq> KeyError k | Inr (x, s') \<Rightarrow> demo_ok s'"
    by (simp add: get_demo_job_def demo_full_ok)
qed

interpretation update_op: demo_operation "\<lambda>dw. update_demo_job dw k data" for k data
proof unfold_locales
  fix s dw assume "demo_ok s" "fresh_draws dw s"
  then obtain js rs ls where "demo_full dw (ensure_demo_data dw s) js rs ls" by (rule ensure_full)
  from demo_full_D [OF this]
  show "case update_demo_job dw k data s of Inl e \<Rightarrow> \<forall>k. e \<noteq> KeyError k | Inr (x, s') \<Rightarrow> demo_ok s'"
    by (simp add: update_demo_job_def Let_def demo_ok_def list_all_iff upd_first_ids)
qed

interpretation delete_op: demo_operation "\<lambda>dw. delete_demo_job dw k" for k
proof unfold_locales
  fix s dw assume "demo_ok s" "fresh_draws dw s"
  then obtain js rs ls where "demo_full dw (ensure_demo_data dw s) js rs ls" by (rule ensure_full)
  from demo_full_D [OF this]
  show "case delete_demo_job dw k s of Inl e \<Rightarrow> \<forall>k. e \<noteq> KeyError k | Inr (x, s') \<Rightarrow> demo_ok s'"
    by (simp add: delete_demo_job_def Let_def demo_ok_def list_all_iff distinct_map_filter)
qed

interpretation run_op: demo_operation "\<lambda>dw. run_demo_job g dw k b" for g k b
proof unfold_locales
  fix s dw assume "demo_ok s" "fresh_draws dw s"
  then obtain js rs ls where "demo_full dw (ensure_demo_data dw s) js rs ls" by (rule ensure_full)
  from run_demo_job_full [OF this ensure_users, of g k b]
  show "case run_demo_job g dw k b s of Inl e \<Rightarrow> \<forall>k. e \<noteq> KeyError k | Inr (x, s') \<Rightarrow> demo_ok s'"
    unfolding run_demo_job_ensures by (auto split: sum.splits)
qed

interpretation runs_op: demo_operation list_demo_runs
proof unfold_locales
  fix s dw assume "demo_ok s" "fresh_draws dw s"
  then obtain js rs ls where f: "demo_full dw (ensure_demo_data dw s) js rs ls" by (rule ensure_full)
  then show "case list_demo_runs dw s of Inl e \<Rightarrow> \<forall>k. e \<noteq> KeyError k | Inr (x, s') \<Rightarrow> demo_ok s'"
    using demo_full_D(2) [OF f] demo_full_ok by (simp add: list_demo_runs_def Let_def)
qed

interpretation logs_op: demo_operation "\<lambda>dw. get_demo_logs dw k" for k
proof unfold_locales
  fix s dw assume "demo_ok s" "fresh_draws dw s"
  then obtain js rs ls where f: "demo_full dw (ensure_demo_data dw s) js rs ls" by (rule ensure_full)
  then show "case get_demo_logs dw k s of Inl e \<Rightarrow> \<forall>k. e \<noteq> KeyError k | Inr (x, s') \<Rightarrow> demo_ok s'"
    using demo_full_D(3) [OF f] demo_full_ok by (simp add: get_demo_logs_def Let_def)
qed

interpretation retry_op: demo_operation "\<lambda>dw. retry_demo_run g dw k" for g k
proof unfold_locales
  fix s dw assume "demo_ok s" "fresh_draws dw s"
  then obtain js rs ls where f: "demo_full dw (ensure_demo_data dw s) js rs ls" by (rule ensure_full)
  note r = demo_full_D(2) [OF f]
  show "case retry_demo_run g dw k s of Inl e \<Rightarrow> \<forall>k. e \<noteq> KeyError k | Inr (x, s') \<Rightarrow> demo_ok s'"
  proof (cases "find (\<lambda>r. dr_id r = k) rs")
    case None
    then show ?thesis using r demo_full_ok [OF f] by (simp add: retry_demo_run_def Let_def)
  next
    case (Some x)
    then show ?thesis using r run_demo_job_full [OF f ensure_users, of g "dr_job_id x" "''retry''"]
      by (auto simp: retry_demo_run_def Let_def split: sum.splits)
  qed
qed

end
