(* ===== verification/SiteProperties.thy ===== *)
theory SiteProperties
  imports ViewsCorrect DemoCorrect
begin

text \<open>
  The properties of the site as a whole: the pages behind the login, and the demo store over any
  sequence of requests; with witnesses.
\<close>

section \<open>Pages behind the login\<close>

lemma require_login_out:
  "\<not> is_logged_in (w_session w) \<Longrightarrow> require_login out body w = (Inr out, w\<lparr>w_notices := w_notices w @ [LoginFirst]\<rparr>)"
  by (simp add: require_login_def andthen_def notify_def return_def)

lemma site_out:
  assumes "u \<notin> {Root, LoginUrl, RegisterUrl, LogoutUrl}" and "\<not> is_logged_in (w_session w)"
  shows "(\<exists>p \<in> {to_login, EmptyPage}. site e u m w = (Inr p, w\<lparr>w_notices := w_notices w @ [LoginFirst]\<rparr>))
     \<or> site e u m w = (Inr MethodNotAllowed, w)"
  using assms
  by (cases u)
    (auto simp: dashboard_view_def job_list_view_def job_list_partial_view_def job_create_view_def
      job_detail_view_def job_edit_view_def job_delete_view_def job_run_view_def job_runs_view_def
      job_runs_partial_view_def job_runs_clear_view_def job_run_logs_view_def job_retry_view_def
      health_view_def action_view_def require_login_out return_def split: http_method.split)

text \<open>C30: without a token in the session, every page but the root, login, registration and logout
  sends the browser to the login (or is empty, or refuses the method), touches neither the
  session nor the backend; with a token, every call a page makes to the backend carries exactly
  this token, the token stays, and in demo mode there are no calls at all.\<close>

theorem pages_guarded:
  assumes "u \<notin> {Root, LoginUrl, RegisterUrl, LogoutUrl}"
  shows "(\<not> is_logged_in (w_session w) \<longrightarrow>
        fst (site e u m w) \<in> {Inr to_login, Inr EmptyPage, Inr MethodNotAllowed}
        \<and> w_session (snd (site e u m w)) = w_session w \<and> w_calls (snd (site e u m w)) = w_calls w)
     \<and> (\<forall>t. s_token (w_session w) = Some t \<and> t \<noteq> [] \<longrightarrow>
        s_token (w_session (snd (site e u m w))) = Some t
        \<and> (\<exists>cs. w_calls (snd (site e u m w)) = w_calls w @ cs
               \<and> (\<forall>c \<in> set cs. map_of (call_headers c) ''Authorization'' = Some (''Bearer '' @ t))
               \<and> (demo_mode e \<longrightarrow> cs = [])))"
proof (rule conjI)
  show "\<not> is_logged_in (w_session w) \<longrightarrow>
        fst (site e u m w) \<in> {Inr to_login, Inr EmptyPage, Inr MethodNotAllowed}
        \<and> w_session (snd (site e u m w)) = w_session w \<and> w_calls (snd (site e u m w)) = w_calls w"
    using site_out [OF assms, of w e m] by auto
  have "kept e t w (snd (site e u m w))" if "s_token (w_session w) = Some t" "t \<noteq> []" for t
    using stays_in_site [OF that(2), of u e m] assms that(1) by (auto intro: stays_inD)
  then show "\<forall>t. s_token (w_session w) = Some t \<and> t \<noteq> [] \<longrightarrow>
        s_token (w_session (snd (site e u m w))) = Some t
        \<and> (\<exists>cs. w_calls (snd (site e u m w)) = w_calls w @ cs
               \<and> (\<forall>c \<in> set cs. map_of (call_headers c) ''Authorization'' = Some (''Bearer '' @ t))
               \<and> (demo_mode e \<longrightarrow> cs = []))"
    by (simp add: kept_def carries_token_def)
qed

text \<open>A site whose backend answers every call with an empty list.\<close>

definition toy_draws :: draws where
  "toy_draws = \<lparr>uuid = (\<lambda>i. replicate i (CHR ''x'')), now_iso = (\<lambda>i. ''t'')\<rparr>"

definition toy_site :: ui_env where
  "toy_site = \<lparr>demo_mode = False, backend_url = ''http://b/api/'',
     backend = (\<lambda>cs c. Inr \<lparr>ans_status = 200, ans_text = ''[]'', ans_json = Some (JList [])\<rparr>),
     fmt = (\<lambda>v. ''?''), ui_draws = toy_draws, login_form = Some, register_form = Some,
     job_form = (\<lambda>cs. Some)\<rparr>"

definition toy_web :: "string option \<Rightarrow> web" where
  "toy_web t = \<lparr>w_session = empty_session\<lparr>s_token := t\<rparr>, w_notices = [], w_calls = []\<rparr>"

theorem pages_guarded_witness:
  "fst (site toy_site (JobDeleteUrl ''j'') (Post []) (toy_web None)) = Inr to_login
   \<and> w_calls (snd (site toy_site (JobDeleteUrl ''j'') (Post []) (toy_web None))) = []
   \<and> list_all (\<lambda>c. map_of (call_headers c) ''Authorization'' = Some ''Bearer tok'')
        (w_calls (snd (site toy_site DashboardUrl Get (toy_web (Some ''tok'')))))
   \<and> length (w_calls (snd (site toy_site DashboardUrl Get (toy_web (Some ''tok''))))) = 2"
proof -
  have 1: "fst (site toy_site (JobDeleteUrl ''j'') (Post []) (toy_web None)) = Inr to_login"
    "length (w_calls (snd (site toy_site DashboardUrl Get (toy_web (Some ''tok''))))) = 2" by code_simp+
  have 2: "\<not> is_logged_in (w_session (toy_web None))" "w_calls (toy_web t) = []"
    "s_token (w_session (toy_web (Some ''tok''))) = Some ''tok''" for t
    by (simp_all add: toy_web_def is_logged_in_def empty_session_def)
  have 3: "w_calls (snd (site toy_site (JobDeleteUrl ''j'') (Post []) (toy_web None))) = []"
    using pages_guarded [of "JobDeleteUrl ''j''" "toy_web None" toy_site "Post []"] 2 by simp
  obtain cs where "w_calls (snd (site toy_site DashboardUrl Get (toy_web (Some ''tok'')))) = cs"
    "\<forall>c \<in> set cs. map_of (call_headers c) ''Authorization'' = Some (''Bearer '' @ ''tok'')"
    using pages_guarded [of DashboardUrl "toy_web (Some ''tok'')" toy_site Get] 2 by auto
  then show ?thesis using 1 3 by (simp add: list_all_iff)
qed

section \<open>The demo store over time\<close>

datatype demo_request =
    DemoLogin string
  | DemoJobs
  | DemoJob string
  | DemoCreate pydict
  | DemoUpdate string pydict
  | DemoDelete string
  | DemoRun string
  | DemoRuns
  | DemoLogs string
  | DemoRetry string

fun demo_serve :: "(json \<Rightarrow> string) \<Rightarrow> draws \<Rightarrow> demo_request \<Rightarrow> session \<Rightarrow> session" where
  "demo_serve g dw (DemoLogin u) s = demo_login dw u s"
| "demo_serve g dw DemoJobs s = list_op.settled dw s"
| "demo_serve g dw (DemoJob k) s = get_op.settled k dw s"
| "demo_serve g dw (DemoCreate data) s = create_op.settled data dw s"
| "demo_serve g dw (DemoUpdate k data) s = update_op.settled k data dw s"
| "demo_serve g dw (DemoDelete k) s = delete_op.settled k dw s"
| "demo_serve g dw (DemoRun k) s = run_op.settled g k ''manual'' dw s"
| "demo_serve g dw DemoRuns s = runs_op.settled dw s"
| "demo_serve g dw (DemoLogs k) s = logs_op.settled k dw s"
| "demo_serve g dw (DemoRetry k) s = retry_op.settled g k dw s"

inductive demo_reachable :: "session \<Rightarrow> bool" where
  fresh: "demo_reachable empty_session"
| served: "demo_reachable s \<Longrightarrow> fresh_draws dw s \<Longrightarrow> demo_reachable (demo_serve g dw req s)"

lemma login_ok:
  assumes "demo_ok s" and "fresh_draws dw s"
  shows "demo_ok (demo_login dw u s)"
proof -
  let ?s = "s\<lparr>s_token := Some (''demo-'' @ uuid dw 2), s_username := Some u\<rparr>"
  have same: "s_demo_jobs ?s = s_demo_jobs s" "s_demo_runs ?s = s_demo_runs s" "s_demo_logs ?s = s_demo_logs s"
    by simp_all
  have "demo_ok ?s" using assms(1) unfolding demo_ok_def same .
  moreover have "fresh_draws dw ?s" using assms(2) unfolding fresh_draws_def demo_ids_def same .
  ultimately
  obtain js rs ls where "demo_full dw (ensure_demo_data dw ?s) js rs ls" by (rule ensure_full)
  then show ?thesis unfolding demo_login_def by (rule demo_full_ok)
qed

lemma demo_serve_ok: "demo_ok s \<Longrightarrow> fresh_draws dw s \<Longrightarrow> demo_ok (demo_serve g dw req s)"
  by (cases req) (simp_all add: login_ok list_op.settled_ok get_op.settled_ok create_op.settled_ok
      update_op.settled_ok delete_op.settled_ok run_op.settled_ok runs_op.settled_ok logs_op.settled_ok
      retry_op.settled_ok)

lemma demo_reachable_ok: "demo_reachable s \<Longrightarrow> demo_ok s"
proof (induction rule: demo_reachable.induct)
  case fresh
  show ?case by (simp add: demo_ok_def empty_session_def)
qed (rule demo_serve_ok)

text \<open>C31: whatever is done in demo mode, the session stays consistent: jobs, runs and logs are
  there together, no id occurs twice, every run has its logs; and no operation misses a key of
  the session.\<close>

theorem demo_store_consistent:
  assumes "demo_reachable s" and "fresh_draws dw s"
  shows "demo_ok s \<and> list_demo_jobs dw s \<noteq> Inl (KeyError k) \<and> list_demo_runs dw s \<noteq> Inl (KeyError k)
     \<and> get_demo_logs dw i s \<noteq> Inl (KeyError k) \<and> create_demo_job dw data s \<noteq> Inl (KeyError k)
     \<and> update_demo_job dw i data s \<noteq> Inl (KeyError k) \<and> delete_demo_job dw i s \<noteq> Inl (KeyError k)
     \<and> run_demo_job g dw i b s \<noteq> Inl (KeyError k) \<and> retry_demo_run g dw i s \<noteq> Inl (KeyError k)"
proof -
  have ok: "demo_ok s" using assms(1) by (rule demo_reachable_ok)
  show ?thesis using ok assms(2)
    by (simp add: list_op.no_key_error runs_op.no_key_error logs_op.no_key_error create_op.no_key_error
        update_op.no_key_error delete_op.no_key_error run_op.no_key_error retry_op.no_key_error)
qed

theorem demo_store_consistent_witness:
  "demo_ok (demo_serve (\<lambda>_. ''?'') toy_draws (DemoLogin ''ann'') empty_session)
   \<and> list_demo_runs (toy_draws\<lparr>uuid := (\<lambda>i. CHR ''y'' # uuid toy_draws i)\<rparr>)
       (demo_serve (\<lambda>_. ''?'') toy_draws (DemoLogin ''ann'') empty_session) \<noteq> Inl (KeyError ''demo_runs'')"
proof -
  let ?s = "demo_serve (\<lambda>_. ''?'') toy_draws (DemoLogin ''ann'') empty_session"
  have f: "fresh_draws toy_draws empty_session"
    "fresh_draws (toy_draws\<lparr>uuid := (\<lambda>i. CHR ''y'' # uuid toy_draws i)\<rparr>) ?s" by code_simp+
  have "demo_reachable ?s" by (intro demo_reachable.intros f)
  from demo_store_consistent [OF this f(2)] show ?thesis by blast
qed

end
