(* ===== verification/Daemons.thy ===== *)
theory Daemons
  imports WorkerPool Monitoring "HOL-Library.Stream"
begin

text \<open>
  The two endless loops: \<open>main\<close> of \<open>app/services/scheduler_loop.py\<close> and of
  \<open>app/services/status_poller.py\<close>. A run of a loop is a stream with one element for each turn;
  what the environment gives to a turn (clock, ids, the requests that others have served while
  it works and while it sleeps) is a stream too.
\<close>

section \<open>The scheduler\<close>

text \<open>The lines a turn logs.\<close>

datatype log_line = CreatedRuns "string list" | ReleasedLocks nat | TurnError error

record turn =
  tn_cron :: cron_lib
  tn_locked :: "string list"
  tn_now :: datetime
  tn_stamps :: stamps
  tn_between :: "(datetime \<times> stamps \<times> request) list"
  tn_now' :: datetime
  tn_stamps' :: stamps
  tn_sleep :: "(datetime \<times> stamps \<times> request) list"

text \<open>Scan and release are two transactions in one \<open>try\<close>: an exception skips the rest.\<close>

definition scheduler_turn :: "turn \<Rightarrow> db \<Rightarrow> log_line list \<times> db" where
  "scheduler_turn t d =
     (case scan_endpoint (tn_cron t) (tn_locked t) (tn_now t) (tn_now t) (tn_stamps t) d of
        Inl e \<Rightarrow> ([TurnError e], d)
      | Inr (result, d1) \<Rightarrow>
          (let created = (if created_runs result = 0 then [] else [CreatedRuns (run_ids result)]);
               d2 = serve_all (tn_between t) d1 in
           case release_expired_locks (tn_now' t) (tn_stamps' t) d2 of
             Inl e \<Rightarrow> (created @ [TurnError e], d2)
           | Inr (released, d3) \<Rightarrow>
               (created @ (if released = 0 then [] else [ReleasedLocks released]), d3)))"

section \<open>The poller\<close>

record poll =
  pl_world :: world
  pl_stamps :: "nat \<Rightarrow> stamps"
  pl_now :: "nat \<Rightarrow> datetime"
  pl_sleep :: "(datetime \<times> stamps \<times> request) list"

definition poller_turn :: "poll \<Rightarrow> db \<Rightarrow> unit \<times> db" where
  "poller_turn p d = ((), poll_awaiting_runs (pl_world p) (pl_stamps p) (pl_now p) d)"

section \<open>For ever\<close>

text \<open>\<open>while True\<close>: the body, whose exceptions are caught, and the sleep.\<close>

primcorec forever ::
  "('t \<Rightarrow> db \<Rightarrow> 'o \<times> db) \<Rightarrow> ('t \<Rightarrow> (datetime \<times> stamps \<times> request) list) \<Rightarrow> 't stream \<Rightarrow> db \<Rightarrow> ('o \<times> db) stream" where
  "shd (forever body sleep ts d) = body (shd ts) d"
| "stl (forever body sleep ts d) =
     forever body sleep (stl ts) (serve_all (sleep (shd ts)) (snd (body (shd ts) d)))"

definition scheduler_main :: "turn stream \<Rightarrow> db \<Rightarrow> (log_line list \<times> db) stream" where
  "scheduler_main = forever scheduler_turn tn_sleep"

definition poller_main :: "poll stream \<Rightarrow> db \<Rightarrow> (unit \<times> db) stream" where
  "poller_main = forever poller_turn pl_sleep"

text \<open>The database that turn \<open>n\<close> finds.\<close>

fun found :: "('t \<Rightarrow> db \<Rightarrow> 'o \<times> db) \<Rightarrow> ('t \<Rightarrow> (datetime \<times> stamps \<times> request) list) \<Rightarrow> 't stream \<Rightarrow> nat \<Rightarrow> db \<Rightarrow> db" where
  "found body sleep ts 0 d = d"
| "found body sleep ts (Suc n) d =
     found body sleep (stl ts) n (serve_all (sleep (shd ts)) (snd (body (shd ts) d)))"

lemma forever_nth: "forever body sleep ts d !! n = body (ts !! n) (found body sleep ts n d)"
  by (induction n arbitrary: ts d) simp_all

locale daemon =
  fixes body :: "'t \<Rightarrow> db \<Rightarrow> 'o \<times> db" and sleep :: "'t \<Rightarrow> (datetime \<times> stamps \<times> request) list"
  assumes body_reachable: "reachable d \<Longrightarrow> reachable (snd (body t d))"
begin

lemma found_reachable: "reachable d \<Longrightarrow> reachable (found body sleep ts n d)"
  by (induction n arbitrary: ts d) (simp_all add: body_reachable reachable_serve_all)

lemma turns_reachable: "reachable d \<Longrightarrow> reachable (snd (forever body sleep ts d !! n))"
  by (simp add: forever_nth body_reachable found_reachable)

end

lemma scan_endpoint_serve:
  "scan_endpoint cron locked now0 now st d = Inr (x, d') \<Longrightarrow> d' = serve now st (ScanDueJobs cron locked) d"
  by (auto simp: scan_endpoint_def result_iff split_beta)

lemma scheduler_turn_reachable:
  assumes r: "reachable d"
  shows "reachable (snd (scheduler_turn t d))"
proof (cases "scan_endpoint (tn_cron t) (tn_locked t) (tn_now t) (tn_now t) (tn_stamps t) d")
  case (Inl e)
  then show ?thesis using r by (simp add: scheduler_turn_def)
next
  case (Inr p)
  obtain x d1 where p: "p = (x, d1)" by (cases p)
  let ?d2 = "serve_all (tn_between t) d1"
  have "reachable d1" using reachable_serve [OF r] scan_endpoint_serve Inr p by metis
  then have r2: "reachable ?d2" by (rule reachable_serve_all)
  have "reachable (serve (tn_now' t) (tn_stamps' t) ReleaseLocks ?d2)" using r2 by (rule reachable_serve)
  then have "release_expired_locks (tn_now' t) (tn_stamps' t) ?d2 = Inr (n, d3) \<Longrightarrow> reachable d3" for n d3
    by simp
  then show ?thesis using r2 Inr by (auto simp: scheduler_turn_def p Let_def split: sum.split)
qed

interpretation scheduler: daemon scheduler_turn tn_sleep
  by unfold_locales (rule scheduler_turn_reachable)

interpretation poller: daemon poller_turn pl_sleep
proof
  fix d :: db and t :: poll
  assume "reachable d"
  then show "reachable (snd (poller_turn t d))"
    using reachable_serve [of d "Aware 0" "\<lambda>i. ([], Aware 0)" "PollRuns (pl_world t) (pl_stamps t) (pl_now t)"]
    by (simp add: poller_turn_def)
qed

end
