(* ===== verification/ReportProperties.thy ===== *)
theory ReportProperties
  imports LifecycleProperties
begin

text \<open>
  Reports that meet other requests: one that is interrupted between its two commits, and a second
  one for the same run; with witnesses.
\<close>

section \<open>Between the two commits\<close>

lemma pending_retry:
  assumes "valid d" and "report_retry st now k s d = Inr (Some n, d1)"
  shows "pending_in d1 (r_id n)"
proof -
  obtain r where n: "n = retry_row (st 1) None r" and v: "valid d1"
    and d1: "d1 = retried_db st None (finish_row now s r) (finished_db st now s r d)"
    using assms by (rule report_retry_InrD)
  have "n \<in> set (db_runs d1)" by (simp add: n d1 retried_db_def)
  then have "get_run_row (r_id n) d1 = Some n" using get_run_row_iff [OF v, of "r_id n" n] by simp
  then show ?thesis using n by (simp add: pending_in_def)
qed

lemma ended_reported:
  assumes "valid d" and "report_retry st now k s d = Inr (Some n, d1)"
  shows "phase_of d1 k = Ended s"
proof -
  obtain r where r: "get_run_row k d = Some r" and s: "s \<in> {''failed'', ''timeout''}"
    and d1: "d1 = retried_db st None (finish_row now s r) (finished_db st now s r d)"
    using assms by (rule report_retry_InrD)
  have "get_run_row k d1 = Some (finish_row now s r)"
    using get_finished_db [OF r] by (simp add: d1 retried_db_def rows)
  then show ?thesis using s by (auto simp: phase_of_def status_of_def)
qed

lemma ended_row: "phase_of d k = Ended s \<Longrightarrow> \<exists>r. get_run_row k d = Some r \<and> r_status r = s"
  by (cases "get_run_row k d") (auto simp: phase_of_def status_of_def split: if_splits)

text \<open>C6: a report of a failure that is retried commits twice, and nothing is lost or repeated when
  other requests come in between. After the first commit the run has ended with the reported
  status and its retry is in the queue, also if the process dies there. Whatever is served before
  the second commit, the run stays ended; then the output is added to the run, whose status
  stays, and no other run is touched. Without interruption the two are \<open>update_status\<close>.\<close>

theorem interrupted_report:
  assumes "reachable d" and "report_retry st now k s d = Inr (Some n, d1)"
    and "\<forall>(now, st, req) \<in> set reqs. leaves_alone k req"
    and "fresh_stamps 7 st' (serve_all reqs d1)"
  shows "update_status st now k s out se err d = report_output st k (r_id n) out se err d1
     \<and> pending_in d1 (r_id n) \<and> phase_of d1 k = Ended s \<and> reachable d1
     \<and> (\<exists>r d3. get_run_row k (serve_all reqs d1) = Some r
          \<and> report_output st' k (r_id n) out se err (serve_all reqs d1) = Inr (set_output out se err r, d3)
          \<and> phase_of d3 k = Ended s
          \<and> (\<forall>i. i \<noteq> k \<longrightarrow> get_run_row i d3 = get_run_row i (serve_all reqs d1)))"
proof -
  let ?d2 = "serve_all reqs d1"
  have v: "valid d" using goodD(1) [OF reachable_good_aux [OF assms(1)]] .
  have r1: "reachable d1"
    using reachable.step [OF assms(1) step.request, of now st "ReportRetry k s"] assms(2) by simp
  have v2: "valid ?d2" using goodD(1) [OF reachable_good_aux [OF reachable_serve_all [OF r1]]] .
  have e1: "phase_of d1 k = Ended s" using v assms(2) by (rule ended_reported)
  have e2: "phase_of ?d2 k = Ended s" using r1 e1 assms(3) by (rule ended_series)
  then obtain r where r: "get_run_row k ?d2 = Some r" using ended_row by blast
  note out = report_output_succeeds [OF v2 r assms(4), of "r_id n" out se err]
  let ?d3 = "output_db st' k out se err (add_logs [JobLog (st' 3) k ''info'' ''system''
     (''Automatic retry triggered: '' @ r_id n)] ?d2)"
  have "phase_of ?d3 k = Ended s" using status_report_output [OF out, of k] e2 by (simp add: phase_of_def)
  moreover have "get_run_row i ?d3 = get_run_row i ?d2" if "i \<noteq> k" for i
    using that by (simp add: output_db_def rows)
  ultimately show ?thesis
    using update_status_split [OF v assms(2)] pending_retry [OF v assms(2)] e1 r1 r out by blast
qed

text \<open>Between the two commits another worker pulls the retry; then the output arrives.\<close>

definition numbered :: "char \<Rightarrow> stamps" where
  "numbered c i = (c # replicate i (CHR ''x''), Aware 9)"

definition between_requests :: "(datetime \<times> stamps \<times> request) list" where
  "between_requests =
     [(Aware 5, numbered (CHR ''p''), Dequeue [] 60 ''w2'')]"

theorem interrupted_report_witness:
  "\<exists>n d1 r d3. report_retry (numbered (CHR ''a'')) (Aware 4) ''r7'' ''failed'' (serve_all queued_requests empty_db)
       = Inr (Some n, d1)
     \<and> phase_of (serve_all between_requests d1) ''ax'' = Running
     \<and> report_output (numbered (CHR ''b'')) ''r7'' (r_id n) (Some ''out'') None None
         (serve_all between_requests d1) = Inr (set_output (Some ''out'') None None r, d3)
     \<and> phase_of d3 ''r7'' = Ended ''failed''"
proof -
  let ?d = "serve_all queued_requests empty_db"
  have "case report_retry (numbered (CHR ''a'')) (Aware 4) ''r7'' ''failed'' ?d of
      Inl e \<Rightarrow> False
    | Inr p \<Rightarrow> fst p \<noteq> None \<and> fresh_stamps 7 (numbered (CHR ''b'')) (serve_all between_requests (snd p))
        \<and> phase_of (serve_all between_requests (snd p)) ''ax'' = Running"
    by code_simp
  then obtain n d1 where ok: "report_retry (numbered (CHR ''a'')) (Aware 4) ''r7'' ''failed'' ?d = Inr (Some n, d1)"
    and fr: "fresh_stamps 7 (numbered (CHR ''b'')) (serve_all between_requests d1)"
    and ph: "phase_of (serve_all between_requests d1) ''ax'' = Running"
    by (auto split: sum.splits)
  have "reachable ?d" by (intro reachable_serve_all reachable.start)
  moreover have "\<forall>(now, st, req) \<in> set between_requests. leaves_alone ''r7'' req"
    by (simp add: between_requests_def leaves_alone_def)
  ultimately show ?thesis using interrupted_report [OF _ ok _ fr, of "Some ''out''" None None] ok ph by blast
qed

section \<open>A second report\<close>

lemma may_retry_cong:
  assumes "db_jobs d' = db_jobs d" and "r_job_id r' = r_job_id r" and "r_retry_count r' = r_retry_count r"
  shows "may_retry d' r' = may_retry d r"
  using assms by (simp add: may_retry_def run_job_def get_job_row_def split: option.split)

lemma retry_row_set_output [simp]: "retry_row st u (set_output a b c r) = retry_row st u r"
  by (simp add: retry_row_def set_output_def)

text \<open>C10: reports are recorded whoever sends them: neither the lock nor the status of the run is
  looked at. When a worker whose lock has expired reports a failure and the worker that took the
  run over reports one too, the second outcome replaces the first, and the one run has two retries
  in the queue, each counted as the same attempt.\<close>

theorem second_report_retries_again:
  assumes "valid d" and "get_run_row k d = Some r" and "may_retry d r"
    and "s \<in> {''failed'', ''timeout''}" and "s' \<in> {''failed'', ''timeout''}"
    and "duration_fits now r" and "duration_fits now' r" and "fresh_stamps 7 st d"
    and "finish_run st now k s err out se d = Inr (Some r1, d1)" and "fresh_stamps 7 st' d1"
  shows "\<exists>r2 d2. finish_run st' now' k s' err' out' se' d1 = Inr (Some r2, d2)
     \<and> r1 = set_output out se err (finish_row now s r) \<and> r2 = set_output out' se' err' (finish_row now' s' r1)
     \<and> db_runs d2 = row_upd r_id k (\<lambda>_. r2) (db_runs d) @ [retry_row (st 1) None r, retry_row (st' 1) None r]"
proof -
  have k: "r_id r = k" using get_run_row_SomeD [OF assms(2)] by simp
  have f: "final_status s" "final_status s'" using assms(4,5) by (auto simp: final_status_def)
  let ?r1 = "set_output out se err (finish_row now s r)"
  obtain d1' where up: "update_status st now k s out se err d = Inr (?r1, d1')" and v1: "valid d1'"
    and j1: "db_jobs d1' = db_jobs d"
    and "db_runs d1' = row_upd r_id k (\<lambda>_. ?r1) (db_runs d)
      @ (if s \<in> {''failed'', ''timeout''} \<and> may_retry d r then [retry_row (st 1) None r] else [])"
    using assms(1,2) f(1) assms(6,8) by (rule update_status_finishes)
  then have runs1: "db_runs d1' = row_upd r_id k (\<lambda>_. ?r1) (db_runs d) @ [retry_row (st 1) None r]"
    by (simp only: assms(3,4) simp_thms if_True)
  have eq: "d1' = d1" "r1 = ?r1" using assms(9) up by (simp_all add: finish_run_def none_if_missing_Inr)
  have "?r1 \<in> set (row_upd r_id k (\<lambda>_. ?r1) (db_runs d))"
    using get_run_row_SomeD [OF assms(2)] k by (auto simp: set_row_upd)
  then have "?r1 \<in> set (db_runs d1)" using runs1 by (simp add: eq)
  then have get1: "get_run_row k d1 = Some ?r1" using get_run_row_iff [of d1 k ?r1] v1 k by (simp add: eq)
  have may1: "may_retry d1 ?r1" using assms(3) j1 by (simp add: eq cong: may_retry_cong)
  have fits1: "duration_fits now' ?r1" using assms(7) by (simp add: duration_fits_def)
  let ?r2 = "set_output out' se' err' (finish_row now' s' ?r1)"
  obtain d2 where up2: "update_status st' now' k s' out' se' err' d1 = Inr (?r2, d2)"
    and "db_runs d2 = row_upd r_id k (\<lambda>_. ?r2) (db_runs d1)
      @ (if s' \<in> {''failed'', ''timeout''} \<and> may_retry d1 ?r1 then [retry_row (st' 1) None ?r1] else [])"
    using v1 [unfolded eq] get1 f(2) fits1 assms(10) by (rule update_status_finishes)
  then have runs2: "db_runs d2 = row_upd r_id k (\<lambda>_. ?r2) (db_runs d1) @ [retry_row (st' 1) None ?r1]"
    by (simp only: may1 assms(5) simp_thms if_True)
  have fresh: "r_id (retry_row (st 1) None r) \<noteq> k"
    using fresh_stampsD(3) [OF assms(8), of 1] get_run_row_SomeD [OF assms(2)] by auto
  have "db_runs d2 = row_upd r_id k (\<lambda>_. ?r2) (db_runs d) @ [retry_row (st 1) None r, retry_row (st' 1) None r]"
    using runs2 runs1 fresh k by (simp add: eq row_upd_def)
  then show ?thesis using up2 by (simp add: finish_run_def eq(2))
qed

text \<open>The run is locked by \<open>w2\<close> when the report of \<open>w0\<close> arrives; its job allows one retry and gets two.\<close>

definition late_db :: db where
  "late_db = sample_db\<lparr>db_runs := [stale_run\<lparr>r_start_time := None, r_locked_by := Some ''w2''\<rparr>]\<rparr>"

theorem second_report_retries_again_witness:
  "\<exists>r1 d1 r2 d2. finish_run (numbered (CHR ''a'')) (Aware 700) ''r3'' ''failed'' None None None late_db = Inr (Some r1, d1)
     \<and> finish_run (numbered (CHR ''b'')) (Aware 900) ''r3'' ''timeout'' None None None d1 = Inr (Some r2, d2)
     \<and> map r_trigger_type (db_runs d2) = [''schedule'', ''retry'', ''retry'']
     \<and> map r_job_id (db_runs d2) = [''j2'', ''j2'', ''j2''] \<and> map j_max_retry (db_jobs late_db) = [Some 3, Some 1]"
proof -
  let ?r = "stale_run\<lparr>r_start_time := None, r_locked_by := Some ''w2''\<rparr>"
  have 1: "valid late_db" "get_run_row ''r3'' late_db = Some ?r" "may_retry late_db ?r"
    "duration_fits (Aware 700) ?r" "duration_fits (Aware 900) ?r"
    "fresh_stamps 7 (numbered (CHR ''a'')) late_db" "map j_max_retry (db_jobs late_db) = [Some 3, Some 1]"
    by code_simp+
  have "case finish_run (numbered (CHR ''a'')) (Aware 700) ''r3'' ''failed'' None None None late_db of
      Inl e \<Rightarrow> False
    | Inr p \<Rightarrow> fst p \<noteq> None \<and> fresh_stamps 7 (numbered (CHR ''b'')) (snd p)"
    by code_simp
  then obtain r1 d1 where ok: "finish_run (numbered (CHR ''a'')) (Aware 700) ''r3'' ''failed'' None None None late_db
      = Inr (Some r1, d1)" and fr: "fresh_stamps 7 (numbered (CHR ''b'')) d1"
    by (auto split: sum.splits)
  have s: "''failed'' \<in> {''failed'', ''timeout''}" "''timeout'' \<in> {''failed'', ''timeout''}" by simp_all
  have "row_upd r_id ''r3'' (\<lambda>_. x) (db_runs late_db) = [x]" for x
    by (simp add: late_db_def stale_run_def row_upd_def)
  then obtain r2 d2 where 2: "finish_run (numbered (CHR ''b'')) (Aware 900) ''r3'' ''timeout'' None None None d1
      = Inr (Some r2, d2)" and r2: "r1 = set_output None None None (finish_row (Aware 700) ''failed'' ?r)"
      "r2 = set_output None None None (finish_row (Aware 900) ''timeout'' r1)"
    and runs: "db_runs d2 = [r2, retry_row (numbered (CHR ''a'') 1) None ?r,
      retry_row (numbered (CHR ''b'') 1) None ?r]"
    using second_report_retries_again [OF 1(1-3) s 1(4-6) ok fr, of None None None] by auto
  have "r_trigger_type r2 = ''schedule'' \<and> r_job_id r2 = ''j2''"
    unfolding r2 by (simp add: set_output_def finish_row_def stale_run_def)
  then show ?thesis using ok 2 runs 1(7) by (simp add: stale_run_def)
qed

end
