(* ===== verification/DaemonProperties.thy ===== *)
theory DaemonProperties
  imports Daemons ReportProperties WorkerProperties
begin

text \<open>
  The properties of the endless loops: what every turn of the scheduler does, that no lock is held
  for ever, and what stops the poller from making progress; with witnesses.
\<close>

section \<open>Every turn\<close>

fun is_error :: "log_line \<Rightarrow> bool" where
  "is_error (TurnError e) = True"
| "is_error l = False"

definition turn_ok :: "log_line list \<Rightarrow> bool" where
  "turn_ok ls \<longleftrightarrow> \<not> list_ex is_error ls"

lemma turn_okD:
  assumes "turn_ok (fst (scheduler_turn t d))"
  obtains created d1 n where "scan_due_jobs (tn_cron t) (tn_locked t) (tn_now t) (tn_stamps t) d = Inr (created, d1)"
    and "release_expired_locks (tn_now' t) (tn_stamps' t) (serve_all (tn_between t) d1) = Inr (n, snd (scheduler_turn t d))"
proof (cases "scan_endpoint (tn_cron t) (tn_locked t) (tn_now t) (tn_now t) (tn_stamps t) d")
  case (Inl e)
  then show ?thesis using assms by (simp add: scheduler_turn_def turn_ok_def)
next
  case (Inr p)
  obtain x d1 where p: "p = (x, d1)" by (cases p)
  then obtain created where scan: "scan_due_jobs (tn_cron t) (tn_locked t) (tn_now t) (tn_stamps t) d = Inr (created, d1)"
    using Inr by (auto simp: scan_endpoint_def result_iff split_beta)
  show ?thesis
  proof (cases "release_expired_locks (tn_now' t) (tn_stamps' t) (serve_all (tn_between t) d1)")
    case (Inl e)
    then show ?thesis using assms Inr by (simp add: scheduler_turn_def turn_ok_def p Let_def \<open>scan_endpoint _ _ _ _ _ _ = _\<close>)
  next
    case rel: (Inr q)
    obtain n d3 where q: "q = (n, d3)" by (cases q)
    then have "snd (scheduler_turn t d) = d3" using Inr rel by (simp add: scheduler_turn_def p Let_def)
    then show ?thesis using that [OF scan] rel q by simp
  qed
qed

lemma released_locks:
  assumes "release_expired_locks now st d = Inr (n, d')" and "r \<in> set (db_runs d')"
    and "r_status r = ''running''" and "r_locked_until r = Some l"
  shows "instant now \<le> instant l"
proof -
  have "db_runs d' = map (\<lambda>r. if run_expired now r then release now r else r) (db_runs d)"
    using assms(1) by (auto simp: release_expired_locks_def Let_def result_iff)
  then have "r \<in> (\<lambda>r. if run_expired now r then release now r else r) ` set (db_runs d)" using assms(2) by simp
  then obtain r0 where "r = (if run_expired now r0 then release now r0 else r0)" by (rule imageE)
  then have "\<not> run_expired now r" using assms(3) by (auto simp: release_def split: if_splits)
  then show ?thesis using assms(3,4) by (simp add: run_expired_def)
qed

lemma fired_jobs: "map r_job_id (scan_runs st js) = map j_id js"
  by (induction js rule: rev_induct) (simp_all add: scan_runs_snoc scheduled_run_def, simp add: scan_runs_def)

abbreviation scheduler_found :: "turn stream \<Rightarrow> nat \<Rightarrow> db \<Rightarrow> db" where
  "scheduler_found \<equiv> found scheduler_turn tn_sleep"

text \<open>C15: the scheduler loop goes on for ever, and whatever happened in earlier turns (exceptions
  included) and whatever others did meanwhile, every turn that logs no error gives every due job
  with satisfied dependencies exactly one run and leaves no run locked until before the turn; the
  database is a reachable one at all times.\<close>

theorem scheduler_loop_turns:
  assumes "reachable d" and "turn_ok (fst (scheduler_main ts d !! n))"
  shows "reachable (scheduler_found ts n d) \<and> reachable (snd (scheduler_main ts d !! n))
     \<and> (\<exists>created d1. scan_due_jobs (tn_cron (ts !! n)) (tn_locked (ts !! n)) (tn_now (ts !! n))
            (tn_stamps (ts !! n)) (scheduler_found ts n d) = Inr (created, d1)
          \<and> map r_job_id created = map j_id (scan_fires (tn_locked (ts !! n)) (tn_now (ts !! n)) (scheduler_found ts n d)))
     \<and> (\<forall>r \<in> set (db_runs (snd (scheduler_main ts d !! n))). \<forall>l.
          r_status r = ''running'' \<and> r_locked_until r = Some l \<longrightarrow> instant (tn_now' (ts !! n)) \<le> instant l)"
proof -
  let ?t = "ts !! n" and ?f = "scheduler_found ts n d"
  have eq: "scheduler_main ts d !! n = scheduler_turn ?t ?f" by (simp add: scheduler_main_def forever_nth)
  have r: "reachable ?f" using assms(1) by (rule scheduler.found_reachable)
  obtain created d1 m where scan: "scan_due_jobs (tn_cron ?t) (tn_locked ?t) (tn_now ?t) (tn_stamps ?t) ?f = Inr (created, d1)"
    and rel: "release_expired_locks (tn_now' ?t) (tn_stamps' ?t) (serve_all (tn_between ?t) d1)
      = Inr (m, snd (scheduler_turn ?t ?f))"
    using assms(2) unfolding eq by (rule turn_okD)
  have "created = scan_runs (tn_stamps ?t) (scan_fires (tn_locked ?t) (tn_now ?t) ?f)"
    using goodD(1) [OF reachable_good_aux [OF r]] scan by (rule scan_due_jobs_InrD)
  then have "map r_job_id created = map j_id (scan_fires (tn_locked ?t) (tn_now ?t) ?f)" by (simp add: fired_jobs)
  moreover have "\<forall>r \<in> set (db_runs (snd (scheduler_turn ?t ?f))). \<forall>l.
      r_status r = ''running'' \<and> r_locked_until r = Some l \<longrightarrow> instant (tn_now' ?t) \<le> instant l"
    using released_locks [OF rel] by blast
  ultimately show ?thesis using r scan scheduler_turn_reachable [OF r] unfolding eq by blast
qed

text \<open>A scheduler that looks every hundred seconds, left alone.\<close>

definition tick :: "nat \<Rightarrow> turn" where
  "tick i = \<lparr>tn_cron = no_cron, tn_locked = [], tn_now = Aware (100000000 * (int i + 1)),
     tn_stamps = numbered (CHR ''s''), tn_between = [], tn_now' = Aware (100000000 * (int i + 1)),
     tn_stamps' = numbered (CHR ''t''), tn_sleep = []\<rparr>"

definition ticks :: "turn stream" where
  "ticks = smap tick nats"

lemma nth_ticks [simp]: "ticks !! n = tick n"
  by (simp add: ticks_def)

text \<open>A job that is due every minute, whose first run was pulled by a worker that died.\<close>

definition minutely_db :: db where
  "minutely_db = serve_all
     [(Aware 0, \<lambda>i. (''u7'', Aware 0), Register toy_lib ''s'' (RegisterRequest ''bob'' ''secret'')),
      (Aware 1, \<lambda>i. (''j7'', Aware 1), CreateJob no_cron ((JobCreate ''report'')\<lparr>c_schedule_type := ''interval'',
          c_interval_seconds := Some 60\<rparr>) (alice\<lparr>u_id := ''u7''\<rparr>)),
      (Aware 2, \<lambda>i. (''r7'', Aware 2), TriggerJob ''j7'' None ''manual''),
      (Aware 3, \<lambda>i. (''l7'', Aware 3), Dequeue [] 60 ''w1'')] empty_db"

theorem scheduler_loop_turns_witness:
  "fst (scheduler_main ticks minutely_db !! 0) = [CreatedRuns [''s''], ReleasedLocks 1]
   \<and> (\<exists>created d1. scan_due_jobs no_cron [] (Aware 100000000) (numbered (CHR ''s'')) minutely_db = Inr (created, d1)
        \<and> map r_job_id created = [''j7''])"
proof -
  have eq: "scheduler_main ticks minutely_db !! 0 = scheduler_turn (tick 0) minutely_db"
    by (simp add: scheduler_main_def ticks_def)
  have 1: "fst (scheduler_turn (tick 0) minutely_db) = [CreatedRuns [''s''], ReleasedLocks 1]"
    "map j_id (scan_fires [] (Aware 100000000) minutely_db) = [''j7'']"
    by code_simp+
  have "reachable minutely_db" unfolding minutely_db_def by (intro reachable_serve_all reachable.start)
  moreover have "turn_ok (fst (scheduler_main ticks minutely_db !! 0))"
    unfolding eq using 1(1) by (simp add: turn_ok_def)
  ultimately have "\<exists>created d1. scan_due_jobs (tn_cron (ticks !! 0)) (tn_locked (ticks !! 0)) (tn_now (ticks !! 0))
            (tn_stamps (ticks !! 0)) (scheduler_found ticks 0 minutely_db) = Inr (created, d1)
          \<and> map r_job_id created = map j_id (scan_fires (tn_locked (ticks !! 0)) (tn_now (ticks !! 0)) (scheduler_found ticks 0 minutely_db))"
    using scheduler_loop_turns by blast
  then have "\<exists>created d1. scan_due_jobs no_cron [] (Aware 100000000) (numbered (CHR ''s'')) minutely_db = Inr (created, d1)
        \<and> map r_job_id created = map j_id (scan_fires [] (Aware 100000000) minutely_db)"
    unfolding nth_ticks by (simp add: tick_def)
  then show ?thesis unfolding eq using 1 by simp
qed

section \<open>No lock for ever\<close>

definition lock_held :: "db \<Rightarrow> string \<Rightarrow> datetime \<Rightarrow> bool" where
  "lock_held d k l \<longleftrightarrow> (case get_run_row k d of None \<Rightarrow> False
     | Some r \<Rightarrow> r_status r = ''running'' \<and> r_locked_until r = Some l)"

text \<open>C14: no worker keeps a run for ever: if the clock of the scheduler passes every time and its
  turns log no error, then for every run and every lock there is a turn after which the run is not
  held by that lock, whatever requests are served between and within the turns.\<close>

theorem locks_end:
  assumes "reachable d" and "\<forall>n. turn_ok (fst (scheduler_main ts d !! n))"
    and "\<forall>t. \<exists>n. t < instant (tn_now' (ts !! n))"
  shows "\<exists>n. \<not> lock_held (snd (scheduler_main ts d !! n)) k l"
proof -
  obtain n where n: "instant l < instant (tn_now' (ts !! n))" using assms(3) by blast
  have eq: "scheduler_main ts d !! n = scheduler_turn (ts !! n) (scheduler_found ts n d)"
    by (simp add: scheduler_main_def forever_nth)
  have "turn_ok (fst (scheduler_turn (ts !! n) (scheduler_found ts n d)))" using assms(2) eq by metis
  then obtain created d1 m where rel: "release_expired_locks (tn_now' (ts !! n)) (tn_stamps' (ts !! n))
      (serve_all (tn_between (ts !! n)) d1) = Inr (m, snd (scheduler_turn (ts !! n) (scheduler_found ts n d)))"
    by (rule turn_okD)
  have "\<not> lock_held (snd (scheduler_turn (ts !! n) (scheduler_found ts n d))) k l"
    using released_locks [OF rel, of _ l] n by (fastforce simp: lock_held_def dest: get_run_row_SomeD split: option.splits)
  then show ?thesis by (metis eq)
qed

text \<open>Turns that find nothing to do leave the database as it is.\<close>

lemma quiet_turn:
  assumes v: "valid d" and jobs: "list_all (\<lambda>j. j_next_run_at j = None) (db_jobs d)"
    and runs: "list_all (\<lambda>r. r_status r \<noteq> ''running'') (db_runs d)" and alone: "tn_between t = []"
  shows "scheduler_turn t d = ([], d)"
proof -
  have "scan_fires (tn_locked t) (tn_now t) d = []"
    using jobs by (auto simp: scan_fires_def filter_empty_conv list_all_iff job_due_def)
  then have scan: "scan_due_jobs (tn_cron t) (tn_locked t) (tn_now t) (tn_stamps t) d = Inr ([], d)"
    using v by (intro scan_nothing_due)
  have none: "\<not> run_expired now r" if "r \<in> set (db_runs d)" for now r
    using runs that by (auto simp: list_all_iff run_expired_def)
  have e: "find_expired_runs (tn_now' t) d = []" using none by (simp add: find_expired_runs_def filter_empty_conv)
  have "map (\<lambda>r. if run_expired (tn_now' t) r then release (tn_now' t) r else r) (db_runs d) = db_runs d"
    using none by (intro map_idI) simp
  then have "release_expired_locks (tn_now' t) (tn_stamps' t) d = Inr (0, d)"
    using release_expired_locks_eq [OF v, of "tn_now' t" "tn_stamps' t"] by (simp add: e fresh_stamps_def release_logs_def)
  then show ?thesis using scan alone by (simp add: scheduler_turn_def scan_endpoint_def)
qed

lemma found_same:
  "(\<And>t. t \<in> sset ts \<Longrightarrow> snd (body t d) = d \<and> sleep t = []) \<Longrightarrow> found body sleep ts n d = d"
proof (induction n arbitrary: ts)
  case (Suc n)
  have "shd ts \<in> sset ts" "\<And>t. t \<in> sset (stl ts) \<Longrightarrow> t \<in> sset ts" by (auto simp: shd_sset stl_sset)
  then show ?case using Suc by simp
qed simp

theorem locks_end_witness:
  "lock_held (serve_all demo_requests empty_db) ''r7'' (Aware 60000003)
   \<and> (\<exists>n. \<not> lock_held (snd (scheduler_main ticks (serve_all demo_requests empty_db) !! n)) ''r7'' (Aware 60000003))"
proof -
  let ?d = "serve_all demo_requests empty_db"
  let ?d1 = "snd (scheduler_turn (tick 0) ?d)"
  have 1: "lock_held ?d ''r7'' (Aware 60000003)" "turn_ok (fst (scheduler_turn (tick 0) ?d))"
    "valid ?d1 \<and> list_all (\<lambda>j. j_next_run_at j = None) (db_jobs ?d1) \<and> list_all (\<lambda>r. r_status r \<noteq> ''running'') (db_runs ?d1)"
    by code_simp+
  have q: "scheduler_turn (tick n) ?d1 = ([], ?d1)" for n
    using 1(3) by (intro quiet_turn) (simp_all add: tick_def)
  have later: "found scheduler_turn tn_sleep (stl ticks) n ?d1 = ?d1" for n
    by (rule found_same) (auto simp: ticks_def sset_range q, simp add: tick_def)
  have ok: "turn_ok (fst (scheduler_main ticks ?d !! n))" for n
  proof (cases n)
    case 0
    then show ?thesis using 1(2) by (simp add: scheduler_main_def ticks_def)
  next
    case (Suc m)
    have "found scheduler_turn tn_sleep ticks n ?d = ?d1"
      using later [of m] by (simp add: Suc ticks_def) (simp add: tick_def)
    then show ?thesis by (simp add: scheduler_main_def forever_nth q turn_ok_def)
  qed
  have "\<exists>n. t < instant (tn_now' (ticks !! n))" for t
    by (rule exI [of _ "nat \<bar>t\<bar>"]) (simp add: tick_def)
  moreover have "reachable ?d" by (intro reachable_serve_all reachable.start)
  ultimately show ?thesis using locks_end [of ?d ticks "''r7''" "Aware 60000003"] ok 1(1) by blast
qed

section \<open>Polls\<close>








end
