(* ===== verification/CompletionProperties.thy ===== *)
theory CompletionProperties
  imports WorkerProperties QueueProperties
begin

text \<open>
  The way of a run from the trigger to its outcome, through the queue, the worker's task and the
  report, and what a retry of it executes; with witnesses at the sample database.
\<close>

section \<open>From trigger to worker\<close>

lemma latest_run_add_other:
  assumes "\<forall>r \<in> set rs. r_job_id r \<noteq> k"
  shows "latest_run (add_runs rs d) k = latest_run d k"
proof -
  have "filter (\<lambda>r. r_job_id r = k) rs = []" using assms by (simp add: filter_empty_conv)
  then show ?thesis by (simp add: latest_run_def)
qed

lemma satisfied_add_own_runs:
  assumes v: "valid d" and rs: "\<forall>r \<in> set rs. r_job_id r = j_id j"
  shows "are_dependencies_satisfied (add_runs rs d) j = are_dependencies_satisfied d j"
proof -
  have "latest_run (add_runs rs d) (d_depends_on_job_id x) = latest_run d (d_depends_on_job_id x)"
    if "x \<in> set (db_deps d)" "d_job_id x = j_id j" for x
  proof (rule latest_run_add_other)
    have "d_job_id x \<noteq> d_depends_on_job_id x" using v that(1) by (simp add: valid_unfold dep_ok_def)
    then show "\<forall>r \<in> set rs. r_job_id r \<noteq> d_depends_on_job_id x" using rs that(2) by simp
  qed
  then show ?thesis unfolding satisfied_iff by simp
qed

lemma run_available_add_runs:
  "run_available locked skipped (add_runs rs d) r = run_available locked skipped d r"
  by (simp add: run_available_def rows)

text \<open>A run triggered for an enabled job with satisfied dependencies, when nothing else is
  available, is what the next worker gets.\<close>

theorem triggered_run_dequeued:
  assumes "valid d" and "trigger_job st k cu t d = Inr (run, d')"
    and "get_job_row k d = Some j" and "j_enabled j" and "active_status (j_status j)"
    and "are_dependencies_satisfied d j"
    and "\<forall>r \<in> set (db_runs d). \<not> run_available [] [] d r"
    and "varchar 80 w" and "fresh_stamps 1 st' d'" and "add_timedelta now (secs * second_us) = Inr until"
  shows "\<exists>d2. dequeue_next_run [] secs w now st' d' = Inr (Some (lock_run w until now run), d2)"
proof -
  have run: "r_status run = ''pending''" "r_job_id run = k" and d': "d' = add_runs [run] d" and v: "valid d'"
    using assms(2,3) by (auto simp: trigger_job_def Let_def result_iff dest: get_job_row_SomeD split: if_splits)
  have jid: "j_id j = k" using get_job_row_SomeD [OF assms(3)] by simp
  have av: "run_available [] [] d run"
    using run assms(3-5) by (simp add: run_available_def run_job_def)
  have "filter (run_available [] [] d') (db_runs d') = [run]"
    using assms(7) av by (simp add: d' run_available_add_runs filter_empty_conv)
  then have q: "queue_order [] d' = [run]" by (simp add: queue_order_def)
  have "are_dependencies_satisfied d' j"
    using assms(6) satisfied_add_own_runs [OF assms(1), of "[run]" j] run(2) jid by (simp add: d')
  then have "runnable d' run"
    using assms(3) run(2) by (simp add: runnable_def run_job_def d' rows)
  moreover have "keys_ok d'" using v by (simp add: valid_def db_ok_def)
  ultimately have "dequeue_loop [] d' [] = Some run" by (simp add: dequeue_loop_find q)
  then show ?thesis using dequeue_next_run_succeeds [OF v _ assms(8-10)] by blast
qed

section \<open>To the end\<close>

text \<open>A task that finds a run in the queue begins to work on it.\<close>

lemma begin_task_works:
  assumes deq: "dequeue_next_run locked 3600 w now st d = Inr (Some run, d1)" and v: "valid d"
    and st: "fresh_stamps 2 st d" and j: "run_job d1 run = Some j"
    and secs: "or_int (r_timeout_seconds run) (j_timeout_seconds j) = Some secs"
  shows "\<exists>d2. begin_task locked w now st d
      = (Work \<lparr>tk_run_id = r_id run, tk_task_type = or_str (r_task_type run) (r_action_type run),
               tk_payload = prepare_payload run j, tk_timeout = secs\<rparr>, d2)
     \<and> valid d2 \<and> db_runs d2 = db_runs d1"
proof -
  obtain r0 :: job_run where d1: "d1 = add_logs [JobLog (st 0) (r_id r0) ''info'' ''system'' (''Locked by '' @ w)] (put_run run d)"
    using deq by (rule dequeue_next_run_SomeD) blast
  have v1: "valid d1" and get: "get_run_row (r_id run) d1 = Some run"
    using dequeue_next_run_contract [OF v deq] by simp_all
  let ?msg = "begin_message j (or_str (r_task_type run) (r_action_type run))"
  let ?d2 = "add_logs [JobLog (st 1) (r_id run) ''info'' ''system'' ?msg] d1"
  have "fst (st 1) \<notin> l_id ` set (db_logs d1)" "varchar 36 (fst (st 1))"
    using fresh_stampsD(4,6) [OF st, of 1] fresh_stamps_inj [OF st, of 1 0] by (simp_all add: d1 JobLog_def)
  moreover have "in_table r_id (db_runs d1) (r_id run)" using get_run_row_SomeD [OF get] by (auto simp: in_table_def)
  ultimately have v2: "valid ?d2" using v1 by (intro valid_add_log) (simp_all add: one_of_def LOG_LEVELS_def LOG_STREAMS_def)
  have level: "normalized_level ''INFO'' = ''info''" by code_simp
  have "add_log (\<lambda>i. st (Suc i)) (r_id run) ''INFO'' ?msg ''system'' d1
      = Inr (JobLog (st 1) (r_id run) ''info'' ''system'' ?msg, ?d2)"
    using v2 by (simp add: add_log_def level Let_def)
  then show ?thesis
    using deq j secs v2 by (simp add: begin_task_def worker_dequeue_def lock_pending_job_def Let_def)
qed

text \<open>C12: a triggered run runs to its end. A run triggered for an enabled job with satisfied
  dependencies, when nothing else is available, is what the next task of a worker begins: with the
  job's task type (or action), the run's script, directory and payload and the job's timeout.
  Whatever the execution gives, unless it lasts 24 days, the report settles the run accordingly.\<close>

theorem triggered_run_completes:
  assumes "valid d" and "trigger_job st k cu ty d = Inr (run, d')"
    and "get_job_row k d = Some j" and "j_enabled j" and "active_status (j_status j)"
    and "are_dependencies_satisfied d j" and "j_timeout_seconds j = Some secs"
    and "\<forall>r \<in> set (db_runs d). \<not> run_available [] [] d r"
    and "varchar 80 w" and "fresh_stamps 2 st1 d'" and "add_timedelta now (3600 * second_us) = Inr until"
    and "t = \<lparr>tk_run_id = r_id run, tk_task_type = or_str (j_task_type j) (j_action_type j),
               tk_payload = prepare_payload run j, tk_timeout = secs\<rparr>"
    and "\<And>e. run_work wd t = Inl e \<Longrightarrow> \<not> database_error e"
    and "instant now' - instant now \<le> 2147483000000"
    and "fresh_stamps 7 st2 (snd (begin_task [] w now st1 d'))"
  shows "\<exists>d2 r d3. begin_task [] w now st1 d' = (Work t, d2)
     \<and> end_task st2 now' (r_id run) (run_work wd t) d2
       = (if \<exists>x. run_work wd t = Inr x \<and> x_external_id x \<noteq> None then Awaiting else Finished, d3)
     \<and> get_run_row (r_id run) d3 = Some r \<and> r_status r = settled_status (run_work wd t) \<and> valid d3"
proof -
  have jid: "j_id j = k" using get_job_row_SomeD [OF assms(3)] by simp
  have d': "d' = add_runs [run] d" and v': "valid d'" and run: "r_job_id run = k"
    "r_task_type run = or_str (j_task_type j) (j_action_type j)" "r_action_type run = j_action_type j"
    "r_timeout_seconds run = Some secs" "r_start_time run = None"
    using assms(2,3,7) jid
    by (auto simp: trigger_job_def Let_def result_iff JobRun_def triggered_run_def split: if_splits)
  let ?r = "lock_run w until now run"
  have "fresh_stamps 1 st1 d'" using assms(10) by (rule fresh_stamps_mono) simp
  from triggered_run_dequeued [OF assms(1-6,8,9) this assms(11)]
  obtain d1 where deq: "dequeue_next_run [] 3600 w now st1 d' = Inr (Some ?r, d1)" by blast
  note c = dequeue_next_run_contract [OF v' deq]
  have "db_jobs d1 = db_jobs d" using deq by (rule dequeue_next_run_SomeD) (simp add: d')
  then have job: "run_job d1 ?r = Some j" using assms(3) run(1) by (simp add: run_job_def get_job_row_def)
  have timeout: "or_int (r_timeout_seconds ?r) (j_timeout_seconds j) = Some secs"
    using run(4) assms(7) by (simp add: or_int_def)
  have work: "or_str (r_task_type ?r) (r_action_type ?r) = or_str (j_task_type j) (j_action_type j)"
    "prepare_payload ?r j = prepare_payload run j" "r_id ?r = r_id run"
    using run(2,3) by (simp_all add: or_str_def prepare_payload_def)
  obtain d2 where begins: "begin_task [] w now st1 d' = (Work t, d2)" and v2: "valid d2"
    and runs: "db_runs d2 = db_runs d1"
    using begin_task_works [OF deq v' assms(10) job timeout] unfolding work assms(12) by blast
  have get: "get_run_row (r_id run) d2 = Some ?r" using c(2) runs by (simp add: get_run_row_def)
  have fits: "duration_fits now' ?r" using assms(14) run(5) by (simp add: duration_fits_def lock_run_def start_def Let_def)
  have st2: "fresh_stamps 7 st2 d2" using assms(15) by (simp add: begins)
  obtain r3 d3 where "end_task st2 now' (r_id run) (run_work wd t) d2
      = (if \<exists>x. run_work wd t = Inr x \<and> x_external_id x \<noteq> None then Awaiting else Finished, d3)"
    "valid d3" "get_run_row (r_id run) d3 = Some r3" "r_status r3 = settled_status (run_work wd t)"
    using v2 get fits st2 assms(13) by (rule end_task_settles)
  then show ?thesis using begins by blast
qed

theorem triggered_run_completes_witness:
  "\<exists>run d' d2 d3 r. trigger_job sample_stamps ''j1'' None ''manual'' (sample_db\<lparr>db_runs := [failed_run]\<rparr>) = Inr (run, d')
     \<and> begin_task [] ''w1'' (Aware 5000) (\<lambda>i. sample_stamps (Suc i)) d' = (Work \<lparr>tk_run_id = r_id run,
           tk_task_type = or_str (j_task_type extract_job) (j_action_type extract_job),
           tk_payload = prepare_payload run extract_job, tk_timeout = 300\<rparr>, d2)
     \<and> get_run_row (r_id run) d3 = Some r \<and> r_status r = ''success''"
proof -
  let ?d = "sample_db\<lparr>db_runs := [failed_run]\<rparr>" and ?st = "\<lambda>i. sample_stamps (Suc i)"
  let ?t = "\<lambda>run. \<lparr>tk_run_id = r_id run, tk_task_type = or_str (j_task_type extract_job) (j_action_type extract_job),
           tk_payload = prepare_payload run extract_job, tk_timeout = 300\<rparr>"
  have 1: "valid ?d" "get_job_row ''j1'' ?d = Some extract_job" "j_enabled extract_job"
    "active_status (j_status extract_job)" "are_dependencies_satisfied ?d extract_job" "j_timeout_seconds extract_job = Some 300"
    "\<forall>r \<in> set (db_runs ?d). \<not> run_available [] [] ?d r" "varchar 80 ''w1''"
    "add_timedelta (Aware 5000) (3600 * second_us) = Inr (Aware 3600005000)"
    "instant (Aware 9000) - instant (Aware 5000) \<le> 2147483000000"
    by code_simp+
  have "case trigger_job sample_stamps ''j1'' None ''manual'' ?d of Inl e \<Rightarrow> False
      | Inr p \<Rightarrow> fresh_stamps 2 ?st (snd p)
          \<and> fresh_stamps 7 (\<lambda>i. sample_stamps (3 + i)) (snd (begin_task [] ''w1'' (Aware 5000) ?st (snd p)))
          \<and> settled_status (run_work toy_world (?t (fst p))) = ''success''" by code_simp
  then obtain run d' where ok: "trigger_job sample_stamps ''j1'' None ''manual'' ?d = Inr (run, d')"
    and fr: "fresh_stamps 2 ?st d'" "fresh_stamps 7 (\<lambda>i. sample_stamps (3 + i)) (snd (begin_task [] ''w1'' (Aware 5000) ?st d'))"
    and s: "settled_status (run_work toy_world (?t run)) = ''success''"
    by (auto split: sum.splits)
  have "\<not> database_error e" if "run_work toy_world (?t run) = Inl e" for e
    using s that by (simp add: settled_status_def)
  from triggered_run_completes [OF 1(1) ok 1(2-8) fr(1) 1(9) refl this 1(10) fr(2)]
  obtain d2 r d3 where "begin_task [] ''w1'' (Aware 5000) ?st d' = (Work (?t run), d2)"
    "get_run_row (r_id run) d3 = Some r" "r_status r = settled_status (run_work toy_world (?t run))" by blast
  then show ?thesis using ok unfolding s by blast
qed

section \<open>What a retry executes\<close>

text \<open>Two runs of a job are the same work when they execute the same type of task with the same
  payload, the retry count apart, and timeout.\<close>

definition same_work :: "job_run \<Rightarrow> job_run \<Rightarrow> job \<Rightarrow> bool" where
  "same_work r s j \<longleftrightarrow>
     or_str (r_task_type r) (r_action_type r) = or_str (r_task_type s) (r_action_type s)
     \<and> (\<forall>k. k \<noteq> ''retry_count'' \<longrightarrow> dict_get (prepare_payload r j) k = dict_get (prepare_payload s j) k)
     \<and> or_int (r_timeout_seconds r) (j_timeout_seconds j) = or_int (r_timeout_seconds s) (j_timeout_seconds j)"

definition base_payload :: "job_run \<Rightarrow> job \<Rightarrow> pydict" where
  "base_payload r j = (case r_action_payload r of Some p \<Rightarrow> p
     | None \<Rightarrow> (case j_action_payload j of Some p \<Rightarrow> p | None \<Rightarrow> []))"

lemma prepare_payload_get:
  "dict_get (prepare_payload r j) k =
     (if k = ''retry_count'' then Some (JInt (r_retry_count r))
      else if k = ''working_dir'' \<and> r_working_dir r \<noteq> None then map_option JStr (r_working_dir r)
      else if k = ''script'' \<and> r_script r \<noteq> None then map_option JStr (r_script r)
      else dict_get (base_payload r j) k)"
  unfolding prepare_payload_def Let_def base_payload_def [symmetric] by (auto split: option.split)

lemma retry_row_fields:
  "r_task_type (retry_row st u r) = None" "r_script (retry_row st u r) = None" "r_working_dir (retry_row st u r) = None"
  "r_action_type (retry_row st u r) = r_action_type r" "r_timeout_seconds (retry_row st u r) = r_timeout_seconds r"
  "base_payload (retry_row st u r) j = base_payload r j"
  by (simp_all add: retry_row_def JobRun_def base_payload_def)

text \<open>C13: a retry is the same work as the run it retries exactly when the run's task type, if it has
  one, is its action type, and its script and working directory, if it has them, are also those of
  its payload. (The retry copies neither of the three.)\<close>

theorem retry_same_work_iff:
  "same_work r (retry_row st u r) j \<longleftrightarrow>
     (truthy_str (r_task_type r) \<longrightarrow> r_task_type r = r_action_type r)
     \<and> (r_script r \<noteq> None \<longrightarrow> dict_get (base_payload r j) ''script'' = map_option JStr (r_script r))
     \<and> (r_working_dir r \<noteq> None \<longrightarrow> dict_get (base_payload r j) ''working_dir'' = map_option JStr (r_working_dir r))"
proof -
  have task: "or_str (r_task_type r) (r_action_type r) = or_str None (r_action_type r)
      \<longleftrightarrow> (truthy_str (r_task_type r) \<longrightarrow> r_task_type r = r_action_type r)"
    by (auto simp: or_str_def truthy_str_iff)
  have payload: "(\<forall>k. k \<noteq> ''retry_count'' \<longrightarrow>
        dict_get (prepare_payload r j) k = dict_get (prepare_payload (retry_row st u r) j) k)
      \<longleftrightarrow> (\<forall>k. k = ''working_dir'' \<and> r_working_dir r \<noteq> None \<longrightarrow> map_option JStr (r_working_dir r) = dict_get (base_payload r j) k)
        \<and> (\<forall>k. k = ''script'' \<and> r_script r \<noteq> None \<longrightarrow> map_option JStr (r_script r) = dict_get (base_payload r j) k)"
    unfolding prepare_payload_get retry_row_fields by (auto split: if_splits)
  show ?thesis unfolding same_work_def payload unfolding retry_row_fields task by auto
qed

text \<open>The task type that is there to test retries: its retry is an API call without a URL.\<close>

theorem retry_same_work_iff_witness:
  "\<exists>j d' run d2. create_job no_cron (Aware 0) sample_stamps ((JobCreate ''t'')\<lparr>c_task_type := Some ''fail-test''\<rparr>) alice sample_db
       = Inr (j, d')
     \<and> trigger_job (\<lambda>i. sample_stamps (5 + i)) (j_id j) (Some alice) ''manual'' d' = Inr (run, d2)
     \<and> \<not> same_work run (retry_row (sample_stamps 9) None run) j"
proof -
  let ?p = "(JobCreate ''t'')\<lparr>c_task_type := Some ''fail-test''\<rparr>"
  have "case create_job no_cron (Aware 0) sample_stamps ?p alice sample_db of Inl e \<Rightarrow> False
      | Inr x \<Rightarrow> (case trigger_job (\<lambda>i. sample_stamps (5 + i)) (j_id (fst x)) (Some alice) ''manual'' (snd x) of Inl e \<Rightarrow> False
          | Inr y \<Rightarrow> truthy_str (r_task_type (fst y)) \<and> r_task_type (fst y) \<noteq> r_action_type (fst y))" by code_simp
  then obtain j d' run d2 where 1: "create_job no_cron (Aware 0) sample_stamps ?p alice sample_db = Inr (j, d')"
    "trigger_job (\<lambda>i. sample_stamps (5 + i)) (j_id j) (Some alice) ''manual'' d' = Inr (run, d2)"
    "truthy_str (r_task_type run)" "r_task_type run \<noteq> r_action_type run"
    by (auto split: sum.splits)
  then have "\<not> same_work run (retry_row (sample_stamps 9) None run) j" using retry_same_work_iff by blast
  then show ?thesis using 1(1,2) by blast
qed

end
