(* ===== verification/AuthForms.thy ===== *)
theory AuthForms
  imports Views Api
begin

text \<open>
  The account forms of the site and the account requests of the API: what Django's validation of
  \<open>LoginForm\<close> and \<open>RegisterForm\<close> (\<open>frontend/ui/forms.py\<close>) guarantees of \<open>cleaned_data\<close>, and what
  pydantic reads the models of \<open>presentation/dtos/auth_schema.py\<close> from. As documented, a
  \<open>CharField\<close> is stripped and, when required, not empty; a field of type \<open>str\<close> takes a JSON string and
  nothing else, and keys that are no field are ignored.
\<close>

section \<open>The forms\<close>

definition char_field :: "nat option \<Rightarrow> json option \<Rightarrow> bool" where
  "char_field max_length v \<longleftrightarrow>
     (case v of
        Some (JStr s) \<Rightarrow> s \<noteq> [] \<and> strip s = s \<and> (case max_length of None \<Rightarrow> True | Some n \<Rightarrow> length s \<le> n)
      | _ \<Rightarrow> False)"

definition login_cleaned :: "pydict \<Rightarrow> bool" where
  "login_cleaned data \<longleftrightarrow> map fst data = [''username'', ''password'']
     \<and> char_field (Some 150) (dict_get data ''username'') \<and> char_field None (dict_get data ''password'')"

definition register_cleaned :: "pydict \<Rightarrow> bool" where
  "register_cleaned data \<longleftrightarrow> map fst data = [''username'', ''email'', ''password'']
     \<and> char_field (Some 150) (dict_get data ''username'') \<and> char_field None (dict_get data ''email'')
     \<and> char_field None (dict_get data ''password'')"

section \<open>The requests\<close>

definition required_str :: "pydict \<Rightarrow> string \<Rightarrow> string option" where
  "required_str d k = (case dict_get d k of Some (JStr s) \<Rightarrow> Some s | _ \<Rightarrow> None)"

text \<open>\<open>str | None = None\<close>, and \<open>str\<close> with another default; the outer \<open>None\<close> is an error.\<close>

definition optional_str :: "pydict \<Rightarrow> string \<Rightarrow> string option option" where
  "optional_str d k =
     (case dict_get d k of
        None \<Rightarrow> Some None
      | Some JNull \<Rightarrow> Some None
      | Some (JStr s) \<Rightarrow> Some (Some s)
      | _ \<Rightarrow> None)"

definition default_str :: "pydict \<Rightarrow> string \<Rightarrow> string \<Rightarrow> string option" where
  "default_str d k otherwise = (case dict_get d k of None \<Rightarrow> Some otherwise | Some (JStr s) \<Rightarrow> Some s | _ \<Rightarrow> None)"

text \<open>The types; the bounds on the lengths are checked by the route.\<close>

definition read_register :: "json \<Rightarrow> register_request option" where
  "read_register v =
     (case v of
        JObj d \<Rightarrow>
          (case (required_str d ''username'', optional_str d ''email'', required_str d ''password'',
                 default_str d ''role'' ''operator'') of
             (Some name, Some email, Some pw, Some role) \<Rightarrow>
               Some \<lparr>reg_username = name, reg_email = email, reg_password = pw, reg_role = role\<rparr>
           | _ \<Rightarrow> None)
      | _ \<Rightarrow> None)"

definition read_login :: "json \<Rightarrow> login_request option" where
  "read_login v =
     (case v of
        JObj d \<Rightarrow>
          (case (required_str d ''username'', required_str d ''password'') of
             (Some name, Some pw) \<Rightarrow> Some \<lparr>login_username = name, login_password = pw\<rparr>
           | _ \<Rightarrow> None)
      | _ \<Rightarrow> None)"

definition read_password_change :: "json \<Rightarrow> (string \<times> string) option" where
  "read_password_change v =
     (case v of
        JObj d \<Rightarrow>
          (case (required_str d ''old_password'', required_str d ''new_password'') of
             (Some old, Some new) \<Rightarrow> Some (old, new)
           | _ \<Rightarrow> None)
      | _ \<Rightarrow> None)"

definition read_status_update :: "json \<Rightarrow> status_update option" where
  "read_status_update v =
     (case v of
        JObj d \<Rightarrow>
          (case (required_str d ''status'', optional_str d ''stdout'', optional_str d ''stderr'',
                 optional_str d ''error_message'') of
             (Some s, Some out, Some err, Some m) \<Rightarrow>
               Some \<lparr>su_status = s, su_stdout = out, su_stderr = err, su_error_message = m\<rparr>
           | _ \<Rightarrow> None)
      | _ \<Rightarrow> None)"

section \<open>From the form to the request\<close>

lemma char_fieldD: "char_field n v \<Longrightarrow> \<exists>s. v = Some (JStr s) \<and> s \<noteq> []"
  by (auto simp: char_field_def split: option.splits json.splits)

lemma read_login_fields:
  "read_login (JObj [(''username'', JStr a), (''password'', JStr b)]) = Some \<lparr>login_username = a, login_password = b\<rparr>"
  by (simp add: read_login_def required_str_def)

lemma read_register_fields:
  "read_register (JObj [(''username'', JStr a), (''email'', JStr m), (''password'', JStr b)])
     = Some \<lparr>reg_username = a, reg_email = Some m, reg_password = b, reg_role = ''operator''\<rparr>"
  by (simp add: read_register_def required_str_def optional_str_def default_str_def)

lemma three_fields:
  assumes "map fst data = [a, b, c]"
  obtains x y z where "data = [(a, x), (b, y), (c, z)]"
  using assms by (auto simp: map_eq_Cons_conv)

lemma register_cleanedE:
  assumes "register_cleaned data"
  obtains name email pw where "data = [(''username'', JStr name), (''email'', JStr email), (''password'', JStr pw)]"
    and "name \<noteq> []" and "email \<noteq> []" and "pw \<noteq> []"
proof -
  obtain x y z where d: "data = [(''username'', x), (''email'', y), (''password'', z)]"
    using assms by (auto simp: register_cleaned_def elim: three_fields)
  have "char_field (Some 150) (Some x)" "char_field None (Some y)" "char_field None (Some z)"
    using assms by (simp_all add: register_cleaned_def d)
  then show ?thesis using that d by (auto dest!: char_fieldD)
qed

text \<open>Whatever the form accepts is read as a request of the default role.\<close>

lemma register_form_read:
  assumes "register_cleaned data"
  shows "\<exists>p. read_register (JObj data) = Some p \<and> reg_role p = ''operator'' \<and> reg_email p \<noteq> None
     \<and> dict_get data ''username'' = Some (JStr (reg_username p)) \<and> dict_get data ''password'' = Some (JStr (reg_password p))"
  using assms by (rule register_cleanedE) (simp add: read_register_fields)

end
