(* ===== verification/Deployment.thy ===== *)
theory Deployment
  imports ApiRouting ApiCorrect JobForms AuthForms
begin

text \<open>
  Frontend and backend together: a call of the frontend's client is dispatched by its method and
  URL, read, served by the application on the database, and answered with the JSON of the
  response model. The network may lose a call or its answer. What pydantic reads a job from, how
  a datetime is printed and the JSON of answers the frontend never asks for are parameters.
\<close>

section \<open>The JSON of an answer\<close>

definition user_json :: "user_response \<Rightarrow> json" where
  "user_json u = JObj [(''id'', JStr (ur_id u)), (''username'', JStr (ur_username u)),
     (''email'', str_json (ur_email u)), (''role'', JStr (ur_role u))]"

definition token_json :: "token_response \<Rightarrow> json" where
  "token_json t = JObj [(''access_token'', JStr (access_token t)), (''token_type'', JStr (token_type t)),
     (''user'', user_json (token_user t))]"

definition number_json :: "py_number option \<Rightarrow> json" where
  "number_json n = (case n of None \<Rightarrow> JNull | Some (PyInt i) \<Rightarrow> JInt i | Some (PyFloat q) \<Rightarrow> JFloat q)"

text \<open>Without \<open>updated_at\<close>.\<close>

definition run_json :: "(datetime \<Rightarrow> string) \<Rightarrow> run_response \<Rightarrow> json" where
  "run_json isoformat r = JObj
     [(''id'', JStr (rr_id r)), (''job_id'', JStr (rr_job_id r)), (''status'', JStr (rr_status r)),
      (''triggered_by'', str_json (rr_triggered_by r)), (''trigger_type'', JStr (rr_trigger_type r)),
      (''worker_id'', str_json (rr_worker_id r)), (''locked_by'', str_json (rr_locked_by r)),
      (''locked_until'', str_json (map_option isoformat (rr_locked_until r))),
      (''start_time'', str_json (map_option isoformat (rr_start_time r))),
      (''end_time'', str_json (map_option isoformat (rr_end_time r))),
      (''heartbeat_at'', str_json (map_option isoformat (rr_heartbeat_at r))),
      (''duration_seconds'', int_json (rr_duration_seconds r)),
      (''duration_seconds_decimal'', number_json (map_option PyFloat (rr_duration_seconds_decimal r))),
      (''duration_ms'', int_json (rr_duration_ms r)), (''duration'', number_json (rr_duration r)),
      (''retry_count'', JInt (rr_retry_count r)), (''task_type'', str_json (rr_task_type r)),
      (''script'', str_json (rr_script r)), (''working_dir'', str_json (rr_working_dir r)),
      (''task_name'', str_json (rr_task_name r)), (''action'', str_json (rr_action r)),
      (''user'', JStr (rr_user r)), (''action_type'', str_json (rr_action_type r)),
      (''action_payload'', (case rr_action_payload r of None \<Rightarrow> JNull | Some p \<Rightarrow> JObj p)),
      (''timeout_seconds'', int_json (rr_timeout_seconds r)), (''stdout'', str_json (rr_stdout r)),
      (''stderr'', str_json (rr_stderr r)), (''error_message'', str_json (rr_error_message r)),
      (''created_at'', JStr (isoformat (rr_created_at r)))]"

definition log_json :: "(datetime \<Rightarrow> string) \<Rightarrow> job_log \<Rightarrow> json" where
  "log_json isoformat l = JObj
     [(''id'', JStr (l_id l)), (''job_run_id'', JStr (l_job_run_id l)), (''log_level'', JStr (l_log_level l)),
      (''stream'', JStr (l_stream l)), (''message'', JStr (l_message l)), (''created_at'', JStr (isoformat (l_created_at l)))]"

fun body_json :: "(datetime \<Rightarrow> string) \<Rightarrow> (body \<Rightarrow> json) \<Rightarrow> body \<Rightarrow> json" where
  "body_json isoformat other (UserBody u) = user_json u"
| "body_json isoformat other (TokenBody t) = token_json t"
| "body_json isoformat other (JobBody r) = JObj (JobForms.response_json isoformat r)"
| "body_json isoformat other (JobsBody rs) = JList (map (\<lambda>r. JObj (JobForms.response_json isoformat r)) rs)"
| "body_json isoformat other (TriggerBody k s) = JObj [(''run_id'', JStr k), (''status'', JStr s)]"
| "body_json isoformat other (RunBody r) = run_json isoformat r"
| "body_json isoformat other (RunsBody rs) = JList (map (run_json isoformat) rs)"
| "body_json isoformat other (LogsBody ls) = JList (map (log_json isoformat) ls)"
| "body_json isoformat other (Message m) = JObj [(''message'', JStr m)]"
| "body_json isoformat other (Names xs) = JObj (map (\<lambda>(k, v). (k, JStr v)) xs)"
| "body_json isoformat other (Detail s) = JObj [(''detail'', JStr s)]"
| "body_json isoformat other b = other b"

section \<open>Serving a call\<close>

datatype fault = NotSent string | NoAnswer string

text \<open>By the number of the call: the environment of its request, the requests that others have
  served before it, and whether it or its answer is lost.\<close>

record deployment =
  dp_host :: string
  dp_env :: "nat \<Rightarrow> api_env"
  dp_between :: "nat \<Rightarrow> (datetime \<times> stamps \<times> request) list"
  dp_fault :: "nat \<Rightarrow> fault option"
  dp_create :: "pydict \<Rightarrow> job_create option"
  dp_update :: "json \<Rightarrow> job_update option"
  dp_iso :: "datetime \<Rightarrow> string"
  dp_other :: "body \<Rightarrow> json"
  dp_text :: "json \<Rightarrow> string"

text \<open>\<open>HTTPBearer(auto_error=False)\<close>: the scheme is what precedes the first space, in any
  capitalisation; without scheme or token there are no credentials.\<close>

definition bearer_token :: "(string \<times> string) list \<Rightarrow> string option" where
  "bearer_token headers =
     (case map_of headers ''Authorization'' of
        None \<Rightarrow> None
      | Some v \<Rightarrow>
          (let scheme = takeWhile (\<lambda>c. c \<noteq> CHR '' '') v;
               token = drop (Suc (length scheme)) v in
           if lower scheme = ''bearer'' \<and> token \<noteq> [] then Some token else None))"

text \<open>A body that cannot be read is a 422. Dependencies are resolved before the body is read, so
  protected routes ask for the user first.\<close>

definition refused :: "api_env \<Rightarrow> string option \<Rightarrow> reply \<Rightarrow> db \<Rightarrow> reply \<times> db" where
  "refused e credentials answer d = with_user e credentials d (\<lambda>_. (answer, d))"

definition read_body :: "('a \<Rightarrow> reply \<times> db) \<Rightarrow> reply \<times> db \<Rightarrow> 'a option \<Rightarrow> reply \<times> db" where
  "read_body f unreadable x = (case x of None \<Rightarrow> unreadable | Some p \<Rightarrow> f p)"

text \<open>The validator of the legacy fields runs first; its \<open>ValueError\<close> is a 422, any other
  exception a server error.\<close>

definition create_reply :: "deployment \<Rightarrow> api_env \<Rightarrow> string option \<Rightarrow> json \<Rightarrow> db \<Rightarrow> reply \<times> db" where
  "create_reply dep e credentials v d =
     (case v of
        JObj data \<Rightarrow>
          (case sync_legacy_fields data of
             Inr normalized \<Rightarrow>
               read_body (\<lambda>p. app e credentials (JobRoute (CreateJobRoute p)) d)
                 (refused e credentials unprocessable d) (dp_create dep normalized)
           | Inl (ValueError m) \<Rightarrow> refused e credentials unprocessable d
           | Inl x \<Rightarrow> refused e credentials server_error d)
      | _ \<Rightarrow> refused e credentials unprocessable d)"

definition shape_reply :: "deployment \<Rightarrow> api_env \<Rightarrow> string option \<Rightarrow> shape \<Rightarrow> json \<Rightarrow> db \<Rightarrow> reply \<times> db" where
  "shape_reply dep e credentials s v d =
     (case s of
        Plain r \<Rightarrow> app e credentials r d
      | RegisterBody \<Rightarrow>
          read_body (\<lambda>p. app e credentials (AuthRoute (RegisterRoute p)) d) (unprocessable, d) (read_register v)
      | LoginBody \<Rightarrow>
          read_body (\<lambda>p. app e credentials (AuthRoute (LoginRoute p)) d) (unprocessable, d) (read_login v)
      | PasswordBody \<Rightarrow>
          read_body (\<lambda>(old, new). app e credentials (AuthRoute (PasswordRoute old new)) d)
            (refused e credentials unprocessable d) (read_password_change v)
      | CreateBody \<Rightarrow> create_reply dep e credentials v d
      | UpdateBody k \<Rightarrow>
          read_body (\<lambda>p. app e credentials (JobRoute (UpdateJobRoute k p)) d)
            (refused e credentials unprocessable d) (dp_update dep v)
      | QueryRequired \<Rightarrow> refused e credentials unprocessable d)"

definition serve_call :: "deployment \<Rightarrow> api_env \<Rightarrow> api_call \<Rightarrow> db \<Rightarrow> reply \<times> db" where
  "serve_call dep e c d =
     (case dispatch_call (dp_host dep) c of
        Found s \<Rightarrow>
          shape_reply dep e (bearer_token (call_headers c)) s
            (case call_json c of None \<Rightarrow> JNull | Some v \<Rightarrow> v) d
      | MethodNotAllowed405 \<Rightarrow> ((405, Detail ''Method Not Allowed''), d)
      | NotFound404 \<Rightarrow> ((404, Detail ''Not Found''), d))"

definition answer_of :: "deployment \<Rightarrow> reply \<Rightarrow> api_answer" where
  "answer_of dep r =
     (let v = body_json (dp_iso dep) (dp_other dep) (snd r) in
      \<lparr>ans_status = fst r, ans_text = dp_text dep v, ans_json = Some v\<rparr>)"

definition deliver :: "deployment \<Rightarrow> nat \<Rightarrow> api_call \<Rightarrow> db \<Rightarrow> (string + api_answer) \<times> db" where
  "deliver dep n c d =
     (let d1 = serve_all (dp_between dep n) d; (r, d2) = serve_call dep (dp_env dep n) c d1 in
      case dp_fault dep n of
        None \<Rightarrow> (Inr (answer_of dep r), d2)
      | Some (NotSent x) \<Rightarrow> (Inl x, d1)
      | Some (NoAnswer x) \<Rightarrow> (Inl x, d2))"

section \<open>The backend behind the requests library\<close>

fun run_calls :: "deployment \<Rightarrow> nat \<Rightarrow> api_call list \<Rightarrow> db \<Rightarrow> db" where
  "run_calls dep n [] d = d"
| "run_calls dep n (c # cs) d = run_calls dep (Suc n) cs (snd (deliver dep n c d))"

definition backend_of :: "deployment \<Rightarrow> db \<Rightarrow> requests_lib" where
  "backend_of dep d0 cs c = fst (deliver dep (length cs) c (run_calls dep 0 cs d0))"

text \<open>The site in front of this backend, and the database it has led to.\<close>

definition deployed :: "deployment \<Rightarrow> db \<Rightarrow> ui_env \<Rightarrow> ui_env" where
  "deployed dep d0 e = e\<lparr>demo_mode := False, backend_url := dp_host dep @ ''/api'', backend := backend_of dep d0\<rparr>"

definition current_db :: "deployment \<Rightarrow> db \<Rightarrow> web \<Rightarrow> db" where
  "current_db dep d0 w = run_calls dep 0 (w_calls w) d0"

fun browse :: "ui_env \<Rightarrow> (url \<times> http_method) list \<Rightarrow> web \<Rightarrow> web" where
  "browse e [] w = w"
| "browse e ((u, m) # visits) w = browse e visits (snd (site e u m w))"

section \<open>Its databases are reachable\<close>

lemma with_user_same: "snd (with_user e c d (\<lambda>_. (x, d))) = d"
  by (simp add: with_user_def split: sum.split)

lemma refused_same [simp]: "snd (refused e c x d) = d"
  by (simp add: refused_def with_user_same)

lemma read_body_reachable:
  "(\<And>p. x = Some p \<Longrightarrow> reachable (snd (f p))) \<Longrightarrow> reachable (snd y) \<Longrightarrow> reachable (snd (read_body f y x))"
  by (simp add: read_body_def split: option.split)

lemma shape_reply_reachable: "reachable d \<Longrightarrow> reachable (snd (shape_reply dep e c s v d))"
  by (cases s; cases v)
    (auto simp: shape_reply_def create_reply_def app_reachable intro!: read_body_reachable
      split: sum.split error.split)

lemma serve_call_reachable: "reachable d \<Longrightarrow> reachable (snd (serve_call dep e c d))"
  by (simp add: serve_call_def shape_reply_reachable split: dispatched.split)

lemma deliver_reachable:
  assumes "reachable d"
  shows "reachable (snd (deliver dep n c d))"
  using reachable_serve_all [OF assms] serve_call_reachable
  by (auto simp: deliver_def Let_def split_beta split: option.split fault.split)

lemma run_calls_reachable: "reachable d \<Longrightarrow> reachable (run_calls dep n cs d)"
  by (induction cs arbitrary: n d) (simp_all add: deliver_reachable)

lemma run_calls_append:
  "run_calls dep n (cs @ [c]) d = snd (deliver dep (n + length cs) c (run_calls dep n cs d))"
  by (induction cs arbitrary: n d) simp_all

section \<open>One call of a view\<close>

lemma send_deployed:
  "fst (send (deployed dep d0 e) c w)
     = (case read_answer (fst (deliver dep (length (w_calls w)) c (current_db dep d0 w))) of
          Inl v \<Rightarrow> Inl (Api v) | Inr v \<Rightarrow> Inr v)"
  "current_db dep d0 (snd (send (deployed dep d0 e) c w))
     = snd (deliver dep (length (w_calls w)) c (current_db dep d0 w))"
  by (simp_all add: send_def deployed_def backend_of_def current_db_def run_calls_append)

text \<open>The client takes an answer for a success only if the call was served and its status is below
  400.\<close>

lemma deliver_success:
  assumes "read_answer (fst (deliver dep n c d)) = Inr v"
  obtains r d1 d2 where "d1 = serve_all (dp_between dep n) d" "serve_call dep (dp_env dep n) c d1 = (r, d2)"
    "fst r < 400" "snd (deliver dep n c d) = d2" "fst (deliver dep n c d) = Inr (answer_of dep r)"
proof -
  obtain r d2 where s: "serve_call dep (dp_env dep n) c (serve_all (dp_between dep n) d) = (r, d2)"
    by (cases "serve_call dep (dp_env dep n) c (serve_all (dp_between dep n) d)")
  have ok: "fst (deliver dep n c d) \<noteq> Inl x" for x using assms by (auto simp: read_answer_def)
  have f: "dp_fault dep n = None"
  proof (cases "dp_fault dep n")
    case (Some g)
    have "\<exists>x. fst (deliver dep n c d) = Inl x" using Some s by (cases g) (simp_all add: deliver_def Let_def)
    then show ?thesis using ok by blast
  qed simp
  then have 1: "deliver dep n c d = (Inr (answer_of dep r), d2)" using s by (simp add: deliver_def Let_def)
  then have "fst r < 400" using assms by (auto simp: read_answer_def answer_of_def Let_def split: if_splits)
  then show ?thesis using that [OF refl s] 1 by simp
qed

text \<open>The bearer header of the client is read back as its token.\<close>

lemma bearer_auth_headers:
  assumes "t \<noteq> []"
  shows "bearer_token (call_headers (make_call (BackendAPIClient url (Some t)) m p b)) = Some t"
proof -
  have 1: "map_of (call_headers (make_call (BackendAPIClient url (Some t)) m p b)) ''Authorization'' = Some (''Bearer '' @ t)"
    using make_call_carries [OF assms] by (simp only: carries_token_def)
  have 2: "takeWhile (\<lambda>c. c \<noteq> CHR '' '') (''Bearer '' @ t) = ''Bearer''" by simp
  have 3: "lower ''Bearer'' = ''bearer''" by code_simp
  show ?thesis using assms by (simp only: bearer_token_def 1 option.case Let_def 2 3) simp
qed

end
