(* ===== verification/Config.thy ===== *)
theory Config
  imports Deployment
begin

text \<open>
  Configuration: \<open>core/config.py\<close> of the backend and \<open>scheduler_frontend/settings.py\<close> of the
  frontend, read from an environment. How pydantic finds a variable (its capitalisation, the file
  \<open>.env\<close>) and reads an integer are parameters. The other theories fix the settings that have a
  default and no use but one; the lemmas connect them.
\<close>

section \<open>The backend\<close>

record backend_settings =
  app_name :: string
  api_prefix :: string
  database_url :: string
  jwt_secret_key :: string
  jwt_algorithm :: string
  token_minutes :: int
  cors_origins :: string
  worker_poll_interval_seconds :: int
  scheduler_poll_interval_seconds :: int
  setting_worker_id :: string

definition str_setting :: "(string \<Rightarrow> string option) \<Rightarrow> string \<Rightarrow> string \<Rightarrow> string" where
  "str_setting env name otherwise = (case env name of None \<Rightarrow> otherwise | Some v \<Rightarrow> v)"

definition int_setting :: "(string \<Rightarrow> int option) \<Rightarrow> (string \<Rightarrow> string option) \<Rightarrow> string \<Rightarrow> int \<Rightarrow> int option" where
  "int_setting to_int env name otherwise = (case env name of None \<Rightarrow> Some otherwise | Some v \<Rightarrow> to_int v)"

text \<open>\<open>None\<close> is pydantic's \<open>ValidationError\<close>: a required variable is missing or an integer is
  not one. A field without alias is read under its own name.\<close>

definition Settings :: "(string \<Rightarrow> int option) \<Rightarrow> (string \<Rightarrow> string option) \<Rightarrow> backend_settings option" where
  "Settings to_int env =
     (case (env ''DATABASE_URL'', env ''JWT_SECRET_KEY'',
        int_setting to_int env ''access_token_expire_minutes'' (60 * 24),
        int_setting to_int env ''WORKER_POLL_INTERVAL_SECONDS'' 3,
        int_setting to_int env ''SCHEDULER_POLL_INTERVAL_SECONDS'' 10) of
        (Some url, Some key, Some minutes, Some worker, Some scheduler) \<Rightarrow>
          Some \<lparr>app_name = str_setting env ''app_name'' ''Distributed Asynchronous Job Scheduler'',
                api_prefix = str_setting env ''api_prefix'' ''/api'',
                database_url = url, jwt_secret_key = key,
                jwt_algorithm = str_setting env ''jwt_algorithm'' ''HS256'',
                token_minutes = minutes,
                cors_origins = str_setting env ''CORS_ORIGINS'' ''http://localhost:5173'',
                worker_poll_interval_seconds = worker, scheduler_poll_interval_seconds = scheduler,
                setting_worker_id = str_setting env ''WORKER_ID'' ''worker-local''\<rparr>
      | _ \<Rightarrow> None)"

text \<open>The environment wins over the settings in \<open>worker_main\<close>, under the same name.\<close>

definition worker_name :: "(string \<Rightarrow> string option) \<Rightarrow> backend_settings \<Rightarrow> string" where
  "worker_name env s = str_setting env ''WORKER_ID'' (setting_worker_id s)"

definition max_concurrent_jobs :: "(string \<Rightarrow> string option) \<Rightarrow> int option" where
  "max_concurrent_jobs env = py_int (str_setting env ''MAX_CONCURRENT_JOBS'' ''10'')"

section \<open>The frontend\<close>

datatype config_error = ImproperlyConfigured string

record django_settings =
  SECRET_KEY :: string
  DEBUG :: bool
  ALLOWED_HOSTS :: "string list"
  BACKEND_API_URL :: string
  DEMO_MODE :: bool

definition is_true :: "string \<Rightarrow> bool" where
  "is_true v \<longleftrightarrow> lower v = ''true''"

definition debug_setting :: "(string \<Rightarrow> string option) \<Rightarrow> bool" where
  "debug_setting env = is_true (str_setting env ''DEBUG'' ''False'')"

definition allowed_hosts :: "(string \<Rightarrow> string option) \<Rightarrow> string list" where
  "allowed_hosts env = map strip (filter (\<lambda>h. strip h \<noteq> [])
     (split_on (CHR '','') (str_setting env ''ALLOWED_HOSTS'' ''localhost,127.0.0.1'')))"

definition backend_api_url :: "(string \<Rightarrow> string option) \<Rightarrow> string" where
  "backend_api_url env = rstrip_slash (str_setting env ''BACKEND_API_URL'' ''http://localhost:8000/api'')"

definition demo_setting :: "(string \<Rightarrow> string option) \<Rightarrow> bool" where
  "demo_setting env = is_true (str_setting env ''DEMO_MODE'' ''False'')"

definition django_settings_of :: "(string \<Rightarrow> string option) \<Rightarrow> config_error + django_settings" where
  "django_settings_of env =
     (case env ''SECRET_KEY'' of
        None \<Rightarrow> Inl (ImproperlyConfigured ''SECRET_KEY environment variable is required'')
      | Some [] \<Rightarrow> Inl (ImproperlyConfigured ''SECRET_KEY environment variable is required'')
      | Some key \<Rightarrow>
          Inr \<lparr>SECRET_KEY = key, DEBUG = debug_setting env, ALLOWED_HOSTS = allowed_hosts env,
               BACKEND_API_URL = backend_api_url env, DEMO_MODE = demo_setting env\<rparr>)"

text \<open>The two settings that the views read, also given to every template.\<close>

definition app_settings :: "django_settings \<Rightarrow> pydict" where
  "app_settings s = [(''DEMO_MODE'', JBool (DEMO_MODE s)), (''BACKEND_API_URL'', JStr (BACKEND_API_URL s))]"

definition configured :: "django_settings \<Rightarrow> ui_env \<Rightarrow> ui_env" where
  "configured s e = e\<lparr>demo_mode := DEMO_MODE s, backend_url := BACKEND_API_URL s\<rparr>"

section \<open>What they give\<close>

lemma rstrip_slash_id:
  assumes "s \<noteq> []" and "last s \<noteq> CHR ''/''"
  shows "rstrip_slash (s @ replicate n (CHR ''/'')) = s"
proof -
  have "dropWhile (\<lambda>c. c = CHR ''/'') (replicate n (CHR ''/'') @ rev s) = rev s"
    using assms by (cases s rule: rev_cases) (induction n, simp_all)+
  then show ?thesis by (simp add: rstrip_slash_def)
qed

lemma rstrip_slash_idem [simp]: "rstrip_slash (rstrip_slash s) = rstrip_slash s"
  by (simp add: rstrip_slash_def dropWhile_idem)

text \<open>The defaults are the constants of the other theories.\<close>

lemma Settings_SomeE:
  assumes "Settings to_int env = Some s"
  obtains "env ''DATABASE_URL'' = Some (database_url s)" "env ''JWT_SECRET_KEY'' = Some (jwt_secret_key s)"
    "int_setting to_int env ''access_token_expire_minutes'' (60 * 24) = Some (token_minutes s)"
    "api_prefix s = str_setting env ''api_prefix'' ''/api''"
    "setting_worker_id s = str_setting env ''WORKER_ID'' ''worker-local''"
  using assms unfolding Settings_def by (clarsimp split: option.splits)

lemma settings_defaults:
  assumes "Settings to_int env = Some s" and "env ''access_token_expire_minutes'' = None" and "env ''api_prefix'' = None"
  shows "token_minutes s = access_token_expire_minutes \<and> api_prefix s = ''/api''"
  using assms(1) by (rule Settings_SomeE) (use assms(2,3) in \<open>simp add: int_setting_def str_setting_def access_token_expire_minutes_def\<close>)

lemma settings_required:
  "Settings to_int env = Some s \<Longrightarrow> env ''DATABASE_URL'' = Some (database_url s) \<and> env ''JWT_SECRET_KEY'' = Some (jwt_secret_key s)"
  by (erule Settings_SomeE) simp

lemma worker_name_setting: "Settings to_int env = Some s \<Longrightarrow> worker_name env s = setting_worker_id s"
  by (erule Settings_SomeE) (simp add: worker_name_def str_setting_def split: option.split)

lemma split_lists_entries:
  "x \<in> set (cors_origin_list s) \<Longrightarrow> x \<noteq> []"
  "django_settings_of env = Inr c \<Longrightarrow> x \<in> set (ALLOWED_HOSTS c) \<Longrightarrow> x \<noteq> []"
  by (auto simp: cors_origin_list_def allowed_hosts_def django_settings_of_def split: option.splits list.splits)

lemma django_settings_iff:
  "(\<exists>c. django_settings_of env = Inr c) \<longleftrightarrow> (\<exists>key. env ''SECRET_KEY'' = Some key \<and> key \<noteq> [])"
  by (auto simp: django_settings_of_def split: option.splits list.splits)

text \<open>The client strips the setting once more, to no effect.\<close>

lemma configured_base:
  "django_settings_of env = Inr c \<Longrightarrow> base_url (BackendAPIClient (backend_url (configured c e)) t) = BACKEND_API_URL c"
  by (auto simp: django_settings_of_def backend_api_url_def configured_def BackendAPIClient_def split: option.splits list.splits)

text \<open>A site configured with the address of a backend, with or without slashes at its end, and not
  for demo mode, is the deployed site.\<close>

lemma configured_deployed:
  assumes "django_settings_of env = Inr c" and "env ''BACKEND_API_URL'' = Some (dp_host dep @ ''/api'' @ replicate n (CHR ''/''))"
    and "\<forall>v. env ''DEMO_MODE'' = Some v \<longrightarrow> lower v \<noteq> ''true''"
  shows "configured c (e\<lparr>backend := backend_of dep d0\<rparr>) = deployed dep d0 e"
proof -
  have "rstrip_slash ((dp_host dep @ ''/api'') @ replicate n (CHR ''/'')) = dp_host dep @ ''/api''"
    by (rule rstrip_slash_id) simp_all
  then have "BACKEND_API_URL c = dp_host dep @ ''/api''"
    using assms(1,2) by (auto simp: django_settings_of_def backend_api_url_def str_setting_def split: option.splits list.splits)
  moreover have "lower ''False'' \<noteq> ''true''" by code_simp
  then have "\<not> DEMO_MODE c"
    using assms(1,3) by (auto simp: django_settings_of_def demo_setting_def str_setting_def is_true_def split: option.splits list.splits)
  ultimately show ?thesis by (simp add: configured_def deployed_def)
qed

end
