(* ===== verification/EndToEnd.thy ===== *)
theory EndToEnd
  imports Deployment SiteProperties ApiProperties
begin

text \<open>
  The properties of frontend and backend together: whatever is done on the site the database stays
  reachable, who logs in on the site is who the backend takes them for, and a notice of success is
  true; with witnesses.
\<close>

section \<open>Browsing\<close>

text \<open>Whatever is done on the site, by whatever browser session, with whatever other requests
  served in between and whatever calls or answers the network loses, the database of the backend
  is a reachable one, with every invariant of those.\<close>

theorem browsing_stays_reachable:
  assumes "reachable d0"
  shows "reachable (current_db dep d0 (browse (deployed dep d0 e) visits w))"
  using assms by (simp add: current_db_def run_calls_reachable)

text \<open>A deployment of the sample backend whose network loses nothing, and a database with one user
  and one job.\<close>

definition toy_deployment :: deployment where
  "toy_deployment = \<lparr>dp_host = ''http://b'', dp_env = (\<lambda>n. sample_env), dp_between = (\<lambda>n. []), dp_fault = (\<lambda>n. None),
     dp_create = (\<lambda>p. None), dp_update = (\<lambda>v. None), dp_iso = (\<lambda>t. ''t''),
     dp_other = (\<lambda>b. JNull), dp_text = (\<lambda>v. ''text'')\<rparr>"

definition toy_start :: db where
  "toy_start = serve_all
     [(Aware 0, \<lambda>i. (''u7'', Aware 0), Register toy_lib ''s'' (RegisterRequest ''bob'' ''secret'')),
      (Aware 1, \<lambda>i. (''j7'', Aware 1), CreateJob no_cron (JobCreate ''report'') (alice\<lparr>u_id := ''u7''\<rparr>))] empty_db"

lemma reachable_toy_start: "reachable toy_start"
  unfolding toy_start_def by (intro reachable_serve_all reachable.start)

section \<open>What a status below 400 means\<close>

definition http_ok :: "'a result \<Rightarrow> bool" where
  "http_ok res \<longleftrightarrow> (case res of Inl (HTTPException c m) \<Rightarrow> 400 \<le> c | _ \<Rightarrow> True)"

lemma http_ok_simps [simp]:
  "http_ok (Inr x)" "http_ok (Inl (HTTPException c m)) \<longleftrightarrow> 400 \<le> c"
  by (simp_all add: http_ok_def)

lemma http_ok_bind: "http_ok x \<Longrightarrow> (\<And>y. http_ok (f y)) \<Longrightarrow> http_ok (bind_result x f)"
  by (cases x) (auto simp: http_ok_def split: error.splits)

lemma http_ok_commit [simp]: "http_ok (commit d)" "http_ok (flush d)"
  by (auto simp: http_ok_def commit_def flush_def split: sum.split error.split)

lemma failure_400: "http_ok (Inl e) \<Longrightarrow> 400 \<le> fst (failure e)"
  by (cases e) (simp_all add: server_error_def)

lemma written_success:
  assumes "http_ok res" and "fst (fst (written build d res)) < 400"
  shows "\<exists>x. res = Inr (x, snd (written build d res))"
  using assms failure_400 by (fastforce simp: written_def split: sum.splits)

lemma read_only_success:
  assumes "http_ok res" and "fst (fst (read_only d res)) < 400"
  shows "\<exists>b. res = Inr b \<and> read_only d res = ((200, b), d)"
  using assms failure_400 by (fastforce simp: read_only_def split: sum.splits)

lemma http_ok_user: "http_ok (get_current_user lib now c d)"
  by (auto simp: get_current_user_def split: option.split)

lemma with_user_success:
  assumes "fst (fst (with_user e c d f)) < 400"
  shows "\<exists>u. get_current_user (e_lib e) (e_now0 e) c d = Inr u \<and> with_user e c d f = f u"
proof (cases "get_current_user (e_lib e) (e_now0 e) c d")
  case (Inl x)
  then have "400 \<le> fst (failure x)" using http_ok_user failure_400 by metis
  then show ?thesis using assms Inl by (simp add: with_user_def)
qed (simp add: with_user_def)

lemma http_ok_access: "http_ok (get_job_or_404 k cu d)"
  by (auto simp: get_job_or_404_def ensure_job_access_def job_not_found_def split: option.split)

lemma http_ok_delete: "http_ok (delete_job k cu d)"
  unfolding delete_job_def by (intro http_ok_bind http_ok_access http_ok_commit http_ok_simps)

lemma http_ok_trigger: "http_ok (trigger_job st k cu t d)"
  unfolding trigger_job_def Let_def
  by (intro http_ok_bind http_ok_access) (auto intro!: http_ok_bind)

lemma http_ok_clear: "http_ok (clear_all_runs d)"
  unfolding clear_all_runs_def by (intro http_ok_bind http_ok_commit http_ok_simps)

lemma http_ok_to_http: "http_ok x \<Longrightarrow> http_ok (to_http x)"
  by (cases x rule: to_http.cases) simp_all

lemma http_ok_if: "http_ok x \<Longrightarrow> http_ok y \<Longrightarrow> http_ok (if b then x else y)"
  by simp

lemma http_ok_domain [simp]: "http_ok (Inl (BusinessRuleViolationError m))" "http_ok (Inl (EntityNotFoundError m))"
  by (simp_all add: http_ok_def)

lemma http_ok_get_run: "http_ok (get_run k d)"
  by (simp add: get_run_def split: option.split)

lemma http_ok_limit: "http_ok (retry_limit_reached r j)"
  by (simp add: retry_limit_reached_def http_ok_def split: option.split)

lemma http_ok_retry_run: "http_ok (retry_run st k u d)"
  unfolding retry_run_def
  by (intro http_ok_bind http_ok_if http_ok_get_run http_ok_limit http_ok_commit http_ok_domain http_ok_simps)

lemma http_ok_retry: "http_ok (retry_job_run st k cu d)"
  unfolding retry_job_run_def
  by (intro http_ok_to_http http_ok_bind http_ok_retry_run)
     (auto simp: get_run_def ensure_run_access_def run_not_found_def http_ok_def split: option.split)

lemma http_ok_login: "http_ok (login_user lib now p d)"
  by (auto simp: login_user_def create_access_token_def Let_def add_timedelta_def http_ok_def
      split: option.split if_splits sum.split error.split)

section \<open>Notices\<close>

lemma client_success:
  assumes t: "t \<noteq> []" and c: "c = make_call (BackendAPIClient url (Some t)) m p b"
    and route: "dispatch_call (dp_host dep) c = Found (Plain r)"
    and ok: "read_answer (fst (deliver dep n c d)) = Inr v"
  obtains d1 where "d1 = serve_all (dp_between dep n) d" "fst (fst (app (dp_env dep n) (Some t) r d1)) < 400"
    "snd (deliver dep n c d) = snd (app (dp_env dep n) (Some t) r d1)"
proof -
  obtain x d1 d2 where d1: "d1 = serve_all (dp_between dep n) d" and s: "serve_call dep (dp_env dep n) c d1 = (x, d2)"
    and lt: "fst x < 400" and d2: "snd (deliver dep n c d) = d2"
    using ok by (rule deliver_success)
  have "bearer_token (call_headers c) = Some t" unfolding c using t by (rule bearer_auth_headers)
  then have "app (dp_env dep n) (Some t) r d1 = (x, d2)" using s route by (simp add: serve_call_def shape_reply_def)
  then show ?thesis using that [OF d1] lt d2 by simp
qed

lemma send_no_python: "fst (send_as_user e f w) \<noteq> Inl (Py x)"
  by (simp add: send_as_user_def send_def split: sum.split)

text \<open>A POST action whose only new notice is that of success has sent its call, and the client took
  the answer for a success.\<close>

lemma action_done:
  assumes login: "is_logged_in (w_session w)" and differ: "\<And>x. F x \<noteq> N"
    and done_notice: "w_notices (snd (action_view (Post post) (ignoring (send_as_user (deployed dep d0 e) f)) N F target w))
      = w_notices w @ [N]"
  obtains t v where "s_token (w_session w) = Some t" "t \<noteq> []"
    "read_answer (fst (deliver dep (length (w_calls w)) (f (BackendAPIClient (dp_host dep @ ''/api'') (Some t)))
       (current_db dep d0 w))) = Inr v"
    "current_db dep d0 (snd (action_view (Post post) (ignoring (send_as_user (deployed dep d0 e) f)) N F target w))
     = snd (deliver dep (length (w_calls w)) (f (BackendAPIClient (dp_host dep @ ''/api'') (Some t))) (current_db dep d0 w))"
proof -
  obtain t where t: "s_token (w_session w) = Some t" "t \<noteq> []"
    using login by (auto simp: is_logged_in_def truthy_str_iff)
  let ?c = "f (BackendAPIClient (dp_host dep @ ''/api'') (Some t))"
  let ?send = "send_as_user (deployed dep d0 e) f"
  have sent: "?send w = send (deployed dep d0 e) ?c w" by (simp add: send_as_user_def t(1)) (simp add: deployed_def)
  obtain res w1 where w1: "?send w = (res, w1)" by (cases "?send w")
  have notices: "w_notices w1 = w_notices w" using w1 sent by (auto simp: send_def)
  let ?act = "action_view (Post post) (ignoring ?send) N F target w"
  have act: "snd ?act = (case res of Inl (Api x) \<Rightarrow> w1\<lparr>w_notices := w_notices w1 @ [F x]\<rparr> | Inl (Py y) \<Rightarrow> w1
      | Inr v \<Rightarrow> w1\<lparr>w_notices := w_notices w1 @ [N]\<rparr>)"
    using login w1
    by (simp add: action_view_def require_login_def andthen_def catching_def ignoring_def notify_def return_def
        split: sum.split exc.split)
  have "res \<noteq> Inl (Py y)" for y using send_no_python [of "deployed dep d0 e" f w y] w1 by simp
  moreover have "res \<noteq> Inl (Api x)" for x using done_notice act differ [of x] notices by auto
  ultimately obtain v where v: "res = Inr v" by (metis exc.exhaust sum.exhaust)
  have "current_db dep d0 (snd ?act) = current_db dep d0 w1" by (simp add: act v current_db_def)
  then have db: "current_db dep d0 (snd ?act) = snd (deliver dep (length (w_calls w)) ?c (current_db dep d0 w))"
    using send_deployed(2) [of dep d0 e ?c w] w1 sent by simp
  have "fst (send (deployed dep d0 e) ?c w) = Inr v" using w1 sent v by simp
  then have "read_answer (fst (deliver dep (length (w_calls w)) ?c (current_db dep d0 w))) = Inr v"
    by (simp add: send_deployed(1) split: sum.splits)
  then show ?thesis using that [OF t] db by blast
qed

lemma delete_done:
  assumes "delete_job k cu d = Inr (m, d')"
  shows "get_job_row k d' = None \<and> k \<notin> r_job_id ` set (db_runs d')"
proof -
  obtain j where j: "get_job_or_404 k cu d = Inr j" and d': "d' = delete_rows (j_id j) d"
    using assms by (auto simp: delete_job_def result_iff)
  have "j_id j = k" using j by (auto simp: result_iff dest: get_job_row_SomeD)
  then show ?thesis
    by (auto simp: d' delete_rows_def Let_def set_row_del get_job_row_def repo_get_def row_get_None_iff)
qed

lemma trigger_done:
  assumes "trigger_job st k cu t d = Inr (run, d')"
  shows "\<exists>r \<in> set (db_runs d'). r_job_id r = k \<and> r_status r = ''pending'' \<and> r_trigger_type r = t"
  using assms by (auto simp: trigger_job_def Let_def result_iff dest: get_job_row_SomeD split: if_splits)

lemma retry_done:
  assumes v: "valid d" and ok: "retry_job_run st k cu d = Inr (n, d')"
  shows "\<exists>r0. get_run_row k d' = Some r0 \<and> (\<exists>r \<in> set (db_runs d'). r_job_id r = r_job_id r0
    \<and> r_status r = ''pending'' \<and> r_trigger_type r = ''retry'' \<and> r_retry_count r = r_retry_count r0 + 1)"
proof -
  obtain u where "retry_run st k u d = Inr (n, d')" using ok by (auto simp: retry_job_run_def result_iff)
  with v obtain r0 where r0: "get_run_row k d = Some r0" and d': "d' = retried_db st u r0 d"
    by (rule retry_run_InrD)
  have "get_run_row k d' = Some r0" using r0 by (simp add: d' retried_db_def rows)
  moreover have "retry_row (st 1) u r0 \<in> set (db_runs d')" by (simp add: d' retried_db_def)
  ultimately show ?thesis using retry_row_simps by blast
qed

text \<open>The answer to each action, read back to the operation of the backend.\<close>

lemma app_done:
  "fst (fst (app e c (JobRoute (DeleteJobRoute k)) d)) < 400
   \<Longrightarrow> \<exists>u m. delete_job k (Some u) d = Inr (m, snd (app e c (JobRoute (DeleteJobRoute k)) d))"
  "fst (fst (app e c (JobRoute (RunJobRoute k)) d)) < 400
   \<Longrightarrow> \<exists>u r. trigger_job (e_stamps e) k (Some u) ''manual'' d = Inr (r, snd (app e c (JobRoute (RunJobRoute k)) d))"
  "fst (fst (app e c (RunRoute (RetryRunRoute k)) d)) < 400
   \<Longrightarrow> \<exists>u r. retry_job_run (e_stamps e) k (Some u) d = Inr (r, snd (app e c (RunRoute (RetryRunRoute k)) d))"
  "fst (fst (app e c (RunRoute ClearRunsRoute) d)) < 400
   \<Longrightarrow> \<exists>m. clear_all_runs d = Inr (m, snd (app e c (RunRoute ClearRunsRoute) d))"
proof -
  assume lt: "fst (fst (app e c (JobRoute (DeleteJobRoute k)) d)) < 400"
  have eq: "app e c (JobRoute (DeleteJobRoute k)) d = with_user e c d (\<lambda>u. written (\<lambda>m _. Inr (Message m)) d (delete_job k (Some u) d))"
    by (simp add: app_def job_router_def)
  obtain u where u: "app e c (JobRoute (DeleteJobRoute k)) d = written (\<lambda>m _. Inr (Message m)) d (delete_job k (Some u) d)"
    using with_user_success [OF lt [unfolded eq]] unfolding eq by blast
  show "\<exists>u m. delete_job k (Some u) d = Inr (m, snd (app e c (JobRoute (DeleteJobRoute k)) d))"
    using written_success [OF http_ok_delete lt [unfolded u]] unfolding u by blast
next
  assume lt: "fst (fst (app e c (JobRoute (RunJobRoute k)) d)) < 400"
  have eq: "app e c (JobRoute (RunJobRoute k)) d = with_user e c d (\<lambda>u. written (\<lambda>run _. Inr (TriggerBody (r_id run) (r_status run))) d
      (trigger_job (e_stamps e) k (Some u) ''manual'' d))"
    by (simp add: app_def job_router_def trigger_job_response_def)
  obtain u where u: "app e c (JobRoute (RunJobRoute k)) d = written (\<lambda>run _. Inr (TriggerBody (r_id run) (r_status run))) d
      (trigger_job (e_stamps e) k (Some u) ''manual'' d)"
    using with_user_success [OF lt [unfolded eq]] unfolding eq by blast
  show "\<exists>u r. trigger_job (e_stamps e) k (Some u) ''manual'' d = Inr (r, snd (app e c (JobRoute (RunJobRoute k)) d))"
    using written_success [OF http_ok_trigger lt [unfolded u]] unfolding u by blast
next
  assume lt: "fst (fst (app e c (RunRoute (RetryRunRoute k)) d)) < 400"
  have eq: "app e c (RunRoute (RetryRunRoute k)) d = with_user e c d (\<lambda>u. written (\<lambda>r d'. to_body RunBody (run_body d' r)) d
      (retry_job_run (e_stamps e) k (Some u) d))"
    by (simp add: app_def job_run_router_def run_reply_def)
  obtain u where u: "app e c (RunRoute (RetryRunRoute k)) d = written (\<lambda>r d'. to_body RunBody (run_body d' r)) d
      (retry_job_run (e_stamps e) k (Some u) d)"
    using with_user_success [OF lt [unfolded eq]] unfolding eq by blast
  show "\<exists>u r. retry_job_run (e_stamps e) k (Some u) d = Inr (r, snd (app e c (RunRoute (RetryRunRoute k)) d))"
    using written_success [OF http_ok_retry lt [unfolded u]] unfolding u by blast
next
  assume lt: "fst (fst (app e c (RunRoute ClearRunsRoute) d)) < 400"
  have eq: "app e c (RunRoute ClearRunsRoute) d = with_user e c d (\<lambda>u. written (\<lambda>m _. Inr (Message m)) d (clear_all_runs d))"
    by (simp add: app_def job_run_router_def)
  obtain u where u: "app e c (RunRoute ClearRunsRoute) d = written (\<lambda>m _. Inr (Message m)) d (clear_all_runs d)"
    using with_user_success [OF lt [unfolded eq]] unfolding eq by blast
  show "\<exists>m. clear_all_runs d = Inr (m, snd (app e c (RunRoute ClearRunsRoute) d))"
    using written_success [OF http_ok_clear lt [unfolded u]] unfolding u by blast
qed

text \<open>What a notice about the job or run \<open>k\<close> says of the database.\<close>

fun notice_true :: "notice \<Rightarrow> string \<Rightarrow> db \<Rightarrow> bool" where
  "notice_true JobDeleted k d = (get_job_row k d = None \<and> k \<notin> r_job_id ` set (db_runs d))"
| "notice_true JobTriggered k d =
     (\<exists>r \<in> set (db_runs d). r_job_id r = k \<and> r_status r = ''pending'' \<and> r_trigger_type r = ''manual'')"
| "notice_true RetrySent k d =
     (\<exists>r0. get_run_row k d = Some r0 \<and> (\<exists>r \<in> set (db_runs d). r_job_id r = r_job_id r0
        \<and> r_status r = ''pending'' \<and> r_trigger_type r = ''retry'' \<and> r_retry_count r = r_retry_count r0 + 1))"
| "notice_true RunsCleared k d = (db_runs d = [] \<and> db_logs d = [])"
| "notice_true n k d = True"

fun action_url :: "url \<Rightarrow> string \<Rightarrow> bool" where
  "action_url (JobDeleteUrl i) k = (i = k)"
| "action_url (JobRunUrl i) k = (i = k)"
| "action_url (JobRetryUrl i) k = (i = k)"
| "action_url JobRunsClearUrl k = True"
| "action_url u k = False"

text \<open>One action: its notices are its own and that of its failure, and its own is true.\<close>

lemma action_notice:
  assumes login: "is_logged_in (w_session w)" and fails: "\<And>x. F x \<noteq> N" "\<And>x d. notice_true (F x) k d"
    and call: "\<And>c. \<exists>m b q. f c = make_call c m q b"
    and route: "\<And>tok. dispatch_call (dp_host dep) (f (BackendAPIClient (dp_host dep @ ''/api'') tok)) = Found (Plain r)"
    and done_ok: "\<And>ev t d. reachable d \<Longrightarrow> fst (fst (app ev (Some t) r d)) < 400 \<Longrightarrow> notice_true N k (snd (app ev (Some t) r d))"
    and d0: "reachable d0"
    and view: "v = action_view (Post post) (ignoring (send_as_user (deployed dep d0 e) f)) N F target"
    and n: "w_notices (snd (v w)) = w_notices w @ [n]"
  shows "notice_true n k (current_db dep d0 (snd (v w)))"
proof (cases "n = N")
  case True
  obtain t x where t: "t \<noteq> []" and ok: "read_answer (fst (deliver dep (length (w_calls w))
       (f (BackendAPIClient (dp_host dep @ ''/api'') (Some t))) (current_db dep d0 w))) = Inr x"
    and db: "current_db dep d0 (snd (v w)) = snd (deliver dep (length (w_calls w))
       (f (BackendAPIClient (dp_host dep @ ''/api'') (Some t))) (current_db dep d0 w))"
    using action_done [OF login fails(1) n [unfolded view True]] unfolding view by blast
  obtain m b q where c: "f (BackendAPIClient (dp_host dep @ ''/api'') (Some t))
      = make_call (BackendAPIClient (dp_host dep @ ''/api'') (Some t)) m q b"
    using call by blast
  obtain d1 where d1: "d1 = serve_all (dp_between dep (length (w_calls w))) (current_db dep d0 w)"
    and lt: "fst (fst (app (dp_env dep (length (w_calls w))) (Some t) r d1)) < 400"
    and eq: "snd (deliver dep (length (w_calls w)) (f (BackendAPIClient (dp_host dep @ ''/api'') (Some t)))
       (current_db dep d0 w)) = snd (app (dp_env dep (length (w_calls w))) (Some t) r d1)"
    using client_success [OF t c route ok] by blast
  have "reachable d1" using d0 by (simp add: d1 current_db_def run_calls_reachable reachable_serve_all)
  then show ?thesis using done_ok lt db eq True by simp
next
  case False
  have "\<exists>x. n = F x \<or> w_notices (snd (v w)) = w_notices w"
    using login n False unfolding view
    by (auto simp: action_view_def require_login_def andthen_def catching_def ignoring_def notify_def return_def
        send_as_user_def send_def split: sum.splits exc.splits)
  then show ?thesis using fails(2) n by auto
qed

lemma clear_done: "clear_all_runs d = Inr (m, d') \<Longrightarrow> db_runs d' = [] \<and> db_logs d' = []"
  by (auto simp: clear_all_runs_def result_iff)

lemma done_true:
  "reachable d \<Longrightarrow> fst (fst (app e c (JobRoute (DeleteJobRoute k)) d)) < 400
   \<Longrightarrow> notice_true JobDeleted k (snd (app e c (JobRoute (DeleteJobRoute k)) d))"
  "reachable d \<Longrightarrow> fst (fst (app e c (JobRoute (RunJobRoute k)) d)) < 400
   \<Longrightarrow> notice_true JobTriggered k (snd (app e c (JobRoute (RunJobRoute k)) d))"
  "reachable d \<Longrightarrow> fst (fst (app e c (RunRoute (RetryRunRoute k)) d)) < 400
   \<Longrightarrow> notice_true RetrySent k (snd (app e c (RunRoute (RetryRunRoute k)) d))"
  "reachable d \<Longrightarrow> fst (fst (app e c (RunRoute ClearRunsRoute) d)) < 400
   \<Longrightarrow> notice_true RunsCleared k (snd (app e c (RunRoute ClearRunsRoute) d))"
proof -
  assume r: "reachable d"
  note v = goodD(1) [OF reachable_good_aux [OF r]]
  show "fst (fst (app e c (JobRoute (DeleteJobRoute k)) d)) < 400
      \<Longrightarrow> notice_true JobDeleted k (snd (app e c (JobRoute (DeleteJobRoute k)) d))"
    using app_done(1) delete_done unfolding notice_true.simps by blast
  show "fst (fst (app e c (JobRoute (RunJobRoute k)) d)) < 400
      \<Longrightarrow> notice_true JobTriggered k (snd (app e c (JobRoute (RunJobRoute k)) d))"
    using app_done(2) trigger_done unfolding notice_true.simps by blast
  show "fst (fst (app e c (RunRoute (RetryRunRoute k)) d)) < 400
      \<Longrightarrow> notice_true RetrySent k (snd (app e c (RunRoute (RetryRunRoute k)) d))"
    using app_done(3) retry_done [OF v] unfolding notice_true.simps by blast
  show "fst (fst (app e c (RunRoute ClearRunsRoute) d)) < 400
      \<Longrightarrow> notice_true RunsCleared k (snd (app e c (RunRoute ClearRunsRoute) d))"
    using app_done(4) clear_done unfolding notice_true.simps by blast
qed

lemma demo_mode_deployed: "\<not> demo_mode (deployed dep d0 e)"
  by (simp add: deployed_def)

lemma action_calls:
  "\<exists>m b q. api_delete_job c k = make_call c m q b" "\<exists>m b q. api_run_job c k = make_call c m q b"
  "\<exists>m b q. api_retry_run c k = make_call c m q b" "\<exists>m b q. api_clear_all_runs c = make_call c m q b"
  unfolding api_calls by blast+

text \<open>C20: a notice of success is true. When the site tells a logged-in user that a job is deleted,
  the backend has neither the job nor a run of it; that a job is triggered, a pending manual run of
  it is queued; that a retry is sent, a pending retry of that run's job with the next count is
  queued; that the runs are cleared, there are no runs and no logs: whoever else uses the system,
  and whatever calls or answers the network loses.\<close>

theorem success_notices_true:
  assumes "reachable d0" and "is_logged_in (w_session w)" and "name_ok k" and "action_url u k"
    and "w_notices (snd (site (deployed dep d0 e) u (Post post) w)) = w_notices w @ [n]"
  shows "notice_true n k (current_db dep d0 (snd (site (deployed dep d0 e) u (Post post) w)))"
proof -
  note routes = client_routes [OF assms(3) refl, of "dp_host dep"]
  have fails: "notice_true (BackendTrouble x) k d" "notice_true (ClearFailed x) k d" for x d by simp_all
  consider "u = JobDeleteUrl k" | "u = JobRunUrl k" | "u = JobRetryUrl k" | "u = JobRunsClearUrl"
    using assms(4) by (cases u) auto
  then show ?thesis
  proof cases
    case 1
    show ?thesis
      by (rule action_notice [where f = "\<lambda>c. api_delete_job c k" and F = BackendTrouble and N = JobDeleted and target = "''job_list''" and r = "JobRoute (DeleteJobRoute k)"
            and v = "site (deployed dep d0 e) u (Post post)" and post = post and e = e])
        (use assms(1,2,5) routes fails action_calls done_true(1) in \<open>simp_all add: 1 job_delete_view_def demo_mode_deployed\<close>)
  next
    case 2
    show ?thesis
      by (rule action_notice [where f = "\<lambda>c. api_run_job c k" and F = BackendTrouble and N = JobTriggered and target = "''job_runs''" and r = "JobRoute (RunJobRoute k)"
            and v = "site (deployed dep d0 e) u (Post post)" and post = post and e = e])
        (use assms(1,2,5) routes fails action_calls done_true(2) in \<open>simp_all add: 2 job_run_view_def demo_mode_deployed\<close>)
  next
    case 3
    show ?thesis
      by (rule action_notice [where f = "\<lambda>c. api_retry_run c k" and F = BackendTrouble and N = RetrySent and target = "''job_runs''" and r = "RunRoute (RetryRunRoute k)"
            and v = "site (deployed dep d0 e) u (Post post)" and post = post and e = e])
        (use assms(1,2,5) routes fails action_calls done_true(3) in \<open>simp_all add: 3 job_retry_view_def demo_mode_deployed\<close>)
  next
    case 4
    show ?thesis
      by (rule action_notice [where f = "api_clear_all_runs" and F = ClearFailed and N = RunsCleared and target = "''job_runs''" and r = "RunRoute ClearRunsRoute"
            and v = "site (deployed dep d0 e) u (Post post)" and post = post and e = e])
        (use assms(1,2,5) routes fails action_calls done_true(4) in \<open>simp_all add: 4 job_runs_clear_view_def demo_mode_deployed\<close>)
  qed
qed

theorem success_notices_true_witness:
  "w_notices (snd (site (deployed toy_deployment toy_start toy_site) (JobRunUrl ''j7'') (Post []) (toy_web (Some ''bob''))))
     = [JobTriggered]
   \<and> notice_true JobTriggered ''j7'' (current_db toy_deployment toy_start
       (snd (site (deployed toy_deployment toy_start toy_site) (JobRunUrl ''j7'') (Post []) (toy_web (Some ''bob'')))))"
proof -
  let ?w = "toy_web (Some ''bob'')"
  have 1: "w_notices (snd (site (deployed toy_deployment toy_start toy_site) (JobRunUrl ''j7'') (Post []) ?w))
     = w_notices ?w @ [JobTriggered]"
    by code_simp
  have 2: "is_logged_in (w_session ?w)" "name_ok ''j7''" "action_url (JobRunUrl ''j7'') ''j7''" "w_notices ?w = []"
    by code_simp+
  show ?thesis using success_notices_true [OF reachable_toy_start 2(1-3) 1] 1 2(4) by simp
qed

section \<open>Logging in\<close>

lemma login_reply:
  assumes call: "c = api_login (BackendAPIClient (dp_host dep @ ''/api'') None) (JObj body)"
    and body: "read_login (JObj body) = Some p"
    and dump: "\<And>v. dp_text dep v \<noteq> []" and ok: "read_answer (fst (deliver dep n c d)) = Inr res"
  obtains d1 tok where "d1 = serve_all (dp_between dep n) d"
    "login_user (e_lib (dp_env dep n)) (e_now (dp_env dep n)) p d1 = Inr tok"
    "res = token_json tok" "snd (deliver dep n c d) = d1"
proof -
  obtain r d1 d2 where d1: "d1 = serve_all (dp_between dep n) d" and s: "serve_call dep (dp_env dep n) c d1 = (r, d2)"
    and lt: "fst r < 400" and d2: "snd (deliver dep n c d) = d2" and ans: "fst (deliver dep n c d) = Inr (answer_of dep r)"
    using ok by (rule deliver_success)
  have "name_ok ''a''" by code_simp
  then have route: "dispatch_call (dp_host dep) c = Found LoginBody" using client_routes call by blast
  let ?login = "login_user (e_lib (dp_env dep n)) (e_now (dp_env dep n)) p d1"
  have "call_json c = Some (JObj body)" by (simp add: call api_login_def make_call_def)
  then have eq: "read_only d1 (to_body TokenBody ?login) = (r, d2)"
    using s route body by (simp add: serve_call_def shape_reply_def read_body_def app_def auth_router_def)
  have "http_ok (to_body TokenBody ?login)" by (intro http_ok_bind http_ok_login http_ok_simps)
  then obtain b where b: "to_body TokenBody ?login = Inr b" and r: "(r, d2) = ((200, b), d1)"
    using read_only_success [of "to_body TokenBody ?login" d1] lt unfolding eq by auto
  then obtain tok where tok: "?login = Inr tok" "b = TokenBody tok" by (auto simp: result_iff)
  have "res = token_json tok" using ok ans r tok(2) dump by (simp add: read_answer_def answer_of_def Let_def)
  then show ?thesis using that [OF d1 tok(1)] d2 r by simp
qed

lemma extract_token_json:
  "truthy (extract_token (token_json tok)) \<Longrightarrow> extract_token (token_json tok) = JStr (access_token tok)"
  by (auto simp: extract_token_def token_json_def json_or_def get_or_null_def split: if_splits)

lemma login_view_post:
  assumes "\<not> demo_mode e" and "login_form e post = Some data"
    and "dict_get data ''username'' = Some name" and "dict_get data ''password'' = Some pw"
    and "send e (api_login (BackendAPIClient (backend_url e) None) (JObj [(''username'', name), (''password'', pw)])) w
      = (res, w1)"
  shows "login_view e (Post post) w =
    (case res of
       Inl (Py y) \<Rightarrow> (Inl (Py y), w1)
     | Inl (Api x) \<Rightarrow> (Inr (LoginPage (Posted post [])), w1\<lparr>w_notices := w_notices w1 @ [LoginFailed]\<rparr>)
     | Inr v \<Rightarrow>
         if \<not> truthy (extract_token v)
         then (Inr (LoginPage (Posted post [])), w1\<lparr>w_notices := w_notices w1 @ [LoginFailed]\<rparr>)
         else (Inr (Redirect ''dashboard'' []),
               w1\<lparr>w_session := (w_session w1)\<lparr>s_token := Some (text_of e (extract_token v)),
                     s_username := Some (text_of e name)\<rparr>,
                   w_notices := w_notices w1 @ [LoggedIn]\<rparr>))"
  using assms
  by (simp add: login_view_def item_def lift_def andthen_def catching_def Let_def raising_def store_login_def
      in_session_def notify_def return_def split: sum.split exc.split)

text \<open>A login that ends on the dashboard.\<close>

lemma site_login_sent:
  assumes dump: "\<forall>v. dp_text dep v \<noteq> []" and form: "login_form e post = Some data"
    and fields: "dict_get data ''username'' = Some (JStr name)" "dict_get data ''password'' = Some (JStr pw)"
    and site: "site (deployed dep d0 e) LoginUrl (Post post) w = (Inr (Redirect ''dashboard'' []), w')"
  obtains tok where
    "login_user (e_lib (dp_env dep (length (w_calls w)))) (e_now (dp_env dep (length (w_calls w))))
       \<lparr>login_username = name, login_password = pw\<rparr> (current_db dep d0 w') = Inr tok"
    "current_db dep d0 w' = serve_all (dp_between dep (length (w_calls w))) (current_db dep d0 w)"
    "s_token (w_session w') = Some (access_token tok)" "access_token tok \<noteq> []" "s_username (w_session w') = Some name"
proof -
  let ?n = "length (w_calls w)" and ?E = "deployed dep d0 e"
  let ?body = "[(''username'', JStr name), (''password'', JStr pw)]"
  let ?c = "api_login (BackendAPIClient (dp_host dep @ ''/api'') None) (JObj ?body)"
  have env: "demo_mode ?E = False" "login_form ?E = login_form e" "backend_url ?E = dp_host dep @ ''/api''"
    by (simp_all add: deployed_def)
  obtain res w1 where w1: "send ?E ?c w = (res, w1)" by (cases "send ?E ?c w")
  have view: "login_view ?E (Post post) w = (Inr (Redirect ''dashboard'' []), w')" using site by simp
  have "send ?E (api_login (BackendAPIClient (backend_url ?E) None) (JObj ?body)) w = (res, w1)"
    using w1 by (simp add: env)
  note post = login_view_post [OF _ _ fields this, of post]
  obtain v where v: "res = Inr v" "truthy (extract_token v)"
    using view post env(1) form by (auto simp: env(2) split: sum.splits exc.splits if_splits)
  have w': "s_token (w_session w') = Some (text_of ?E (extract_token v))"
    "s_username (w_session w') = Some name" "w_calls w' = w_calls w1"
    using view post env(1) form v by (auto simp: env(2) text_of_def)
  have ans: "read_answer (fst (deliver dep ?n ?c (current_db dep d0 w))) = Inr v"
    using send_deployed(1) [of dep d0 e ?c w] w1 v(1) by (simp split: sum.splits)
  have db: "current_db dep d0 w' = snd (deliver dep ?n ?c (current_db dep d0 w))"
    using send_deployed(2) [of dep d0 e ?c w] w1 w'(3) by (simp add: current_db_def)
  obtain d1 tok where 1: "d1 = serve_all (dp_between dep ?n) (current_db dep d0 w)"
    "login_user (e_lib (dp_env dep ?n)) (e_now (dp_env dep ?n)) \<lparr>login_username = name, login_password = pw\<rparr> d1 = Inr tok"
    "v = token_json tok" "current_db dep d0 w' = d1"
    using login_reply [OF refl read_login_fields _ ans] dump db by metis
  have e: "extract_token v = JStr (access_token tok)" using v(2) extract_token_json 1(3) by simp
  then have "access_token tok \<noteq> []" using v(2) by simp
  then show ?thesis using that [of tok] 1 w' e by (simp add: text_of_def)
qed

lemma reachable_current: "reachable d0 \<Longrightarrow> valid (current_db dep d0 w)"
  unfolding current_db_def by (intro goodD(1) reachable_good_aux run_calls_reachable)

text \<open>C22: who logs in on the site is who the backend takes them for. When the login page sends the
  browser to the dashboard, the password was that of the user named in the form, the session holds
  a token, and until a second before a day has passed the backend takes this token for that user.\<close>

theorem site_login_identifies:
  assumes "reachable d0" and "auth_lib_ok (e_lib (dp_env dep (length (w_calls w))))"
    and "\<forall>v. dp_text dep v \<noteq> []"
    and "login_form e post = Some data" and "dict_get data ''username'' = Some (JStr name)"
    and "dict_get data ''password'' = Some (JStr pw)"
    and "site (deployed dep d0 e) LoginUrl (Post post) w = (Inr (Redirect ''dashboard'' []), w')"
    and "instant t + second_us \<le> instant (e_now (dp_env dep (length (w_calls w)))) + access_token_expire_minutes * minute_us"
  shows "\<exists>tok u. s_token (w_session w') = Some tok \<and> tok \<noteq> [] \<and> s_username (w_session w') = Some name
     \<and> get_current_user (e_lib (dp_env dep (length (w_calls w)))) t (Some tok) (current_db dep d0 w') = Inr u
     \<and> u_username u = name \<and> pw_verify (e_lib (dp_env dep (length (w_calls w)))) pw (u_password_hash u)"
proof -
  let ?lib = "e_lib (dp_env dep (length (w_calls w)))" and ?d = "current_db dep d0 w'"
  obtain tok where tok: "login_user ?lib (e_now (dp_env dep (length (w_calls w)))) \<lparr>login_username = name, login_password = pw\<rparr> ?d = Inr tok"
    and s: "s_token (w_session w') = Some (access_token tok)" "access_token tok \<noteq> []" "s_username (w_session w') = Some name"
    using site_login_sent [OF assms(3-7)] by metis
  have valid: "valid ?d" using assms(1) by (rule reachable_current)
  note names = find_by_username_iff [OF valid]
  obtain u where u: "get_current_user ?lib t (Some (access_token tok)) ?d = Inr u" "u_username u = name"
    using login_token [OF tok assms(2) valid assms(8)] by auto
  obtain u0 where u0: "find_by_username name ?d = Some u0" "pw_verify ?lib pw (u_password_hash u0)"
    using tok by (auto simp: login_user_def split: option.splits if_splits)
  have "u \<in> set (db_users ?d)"
    using u(1) names by (auto simp: get_current_user_def find_by_username_def [symmetric] split: option.splits)
  then have "find_by_username name ?d = Some u" using u(2) names by simp
  then show ?thesis using s u u0 by simp
qed

theorem site_login_identifies_witness:
  "\<exists>w' tok u. site (deployed toy_deployment toy_start toy_site) LoginUrl
       (Post [(''username'', JStr ''bob''), (''password'', JStr ''secret'')]) (toy_web None)
         = (Inr (Redirect ''dashboard'' []), w')
     \<and> s_token (w_session w') = Some tok
     \<and> get_current_user toy_lib (Aware 0) (Some tok) (current_db toy_deployment toy_start w') = Inr u
     \<and> u_username u = ''bob''"
proof -
  let ?post = "[(''username'', JStr ''bob''), (''password'', JStr ''secret'')]"
  let ?r = "site (deployed toy_deployment toy_start toy_site) LoginUrl (Post ?post) (toy_web None)"
  have "fst ?r = Inr (Redirect ''dashboard'' [])" by code_simp
  then obtain w' where w': "?r = (Inr (Redirect ''dashboard'' []), w')" by (metis prod.collapse)
  have env: "dp_env toy_deployment n = sample_env" "e_lib sample_env = toy_lib" for n
    by (simp_all add: toy_deployment_def sample_env_def)
  have lib: "auth_lib_ok (e_lib (dp_env toy_deployment n))" for n by (simp add: env toy_lib_ok)
  have dumps: "\<forall>v. dp_text toy_deployment v \<noteq> []"
    by (simp add: toy_deployment_def)
  have form: "login_form toy_site ?post = Some ?post" "dict_get ?post ''username'' = Some (JStr ''bob'')"
    "dict_get ?post ''password'' = Some (JStr ''secret'')"
    by (simp add: toy_site_def) code_simp+
  have t: "instant (Aware 0) + second_us \<le> instant (e_now (dp_env toy_deployment n)) + access_token_expire_minutes * minute_us" for n
    unfolding env by code_simp
  show ?thesis
    using site_login_identifies [OF reachable_toy_start lib dumps form w' t] w' env by auto
qed

section \<open>Registering\<close>

lemma http_ok_register: "http_ok (register_user lib salt st p d)"
  unfolding register_user_def Let_def by (intro http_ok_if http_ok_bind http_ok_commit http_ok_simps) simp_all

lemma register_reply:
  assumes call: "c = api_register (BackendAPIClient (dp_host dep @ ''/api'') None) (JObj body)"
    and body: "read_register (JObj body) = Some p" and ok: "read_answer (fst (deliver dep n c d)) = Inr res"
  shows "register_request_ok p \<and> (\<exists>u. register_user (e_lib (dp_env dep n)) (e_salt (dp_env dep n)) (e_stamps (dp_env dep n)) p
      (serve_all (dp_between dep n) d) = Inr (u, snd (deliver dep n c d)))"
proof -
  obtain r d1 d2 where d1: "d1 = serve_all (dp_between dep n) d" and s: "serve_call dep (dp_env dep n) c d1 = (r, d2)"
    and lt: "fst r < 400" and d2: "snd (deliver dep n c d) = d2"
    using ok by (rule deliver_success)
  have "name_ok ''a''" by code_simp
  then have route: "dispatch_call (dp_host dep) c = Found RegisterBody" using client_routes call by blast
  have "call_json c = Some (JObj body)" by (simp add: call api_register_def make_call_def)
  then have app: "app (dp_env dep n) (bearer_token (call_headers c)) (AuthRoute (RegisterRoute p)) d1 = (r, d2)"
    using s route body by (simp add: serve_call_def shape_reply_def read_body_def)
  have p: "register_request_ok p"
    using app lt by (auto simp: app_def auth_router_def unprocessable_def split: if_splits)
  let ?reg = "register_user (e_lib (dp_env dep n)) (e_salt (dp_env dep n)) (e_stamps (dp_env dep n)) p d1"
  have eq: "written (\<lambda>u _. Inr (UserBody (UserResponse u))) d1 ?reg = (r, d2)"
    using app p by (simp add: app_def auth_router_def)
  then have "fst (fst (written (\<lambda>u _. Inr (UserBody (UserResponse u))) d1 ?reg)) < 400" using lt by simp
  from written_success [OF http_ok_register this] have "\<exists>u. ?reg = Inr (u, d2)" unfolding eq snd_conv .
  then show ?thesis using p d1 d2 by simp
qed

lemma register_view_post:
  assumes "\<not> demo_mode e" and "register_form e post = Some data"
    and "send e (api_register (BackendAPIClient (backend_url e) None) (JObj data)) w = (res, w1)"
    and "register_view e (Post post) w = (Inr to_login, w')"
  shows "(\<exists>v. res = Inr v) \<and> w_calls w' = w_calls w1"
  using assms
  by (auto simp: register_view_def to_login_def andthen_def catching_def notify_def return_def
      split: sum.splits exc.splits)

lemma registered_login:
  assumes "find_by_username name d = Some u" and "pw_verify lib pw (u_password_hash u)"
    and "datetime_ok (instant t + access_token_expire_minutes * minute_us)"
  shows "\<exists>tok. login_user lib t \<lparr>login_username = name, login_password = pw\<rparr> d = Inr tok"
proof -
  have "timedelta_ok (access_token_expire_minutes * minute_us)" by code_simp
  then show ?thesis
    using assms by (simp add: login_user_def create_access_token_def truthy_int_def add_timedelta_def)
qed

text \<open>C21: registering on the site makes an account, and no more than that. When the page sends the
  browser to the login, the name had from 3 to 80 characters, the password at least 6, and nobody had
  the name; now a user has it, with the email and the password of the form, who is an operator (the
  form cannot ask for another role), and these credentials log in.\<close>

theorem site_registration:
  assumes "reachable d0" and "auth_lib_ok (e_lib (dp_env dep (length (w_calls w))))"
    and "register_form e post = Some data" and "register_cleaned data"
    and "site (deployed dep d0 e) RegisterUrl (Post post) w = (Inr to_login, w')"
    and "datetime_ok (instant t + access_token_expire_minutes * minute_us)"
  shows "\<exists>name email pw u tok. data = [(''username'', JStr name), (''email'', JStr email), (''password'', JStr pw)]
     \<and> 3 \<le> length name \<and> length name \<le> 80 \<and> 6 \<le> length pw
     \<and> find_by_username name (serve_all (dp_between dep (length (w_calls w))) (current_db dep d0 w)) = None
     \<and> find_by_username name (current_db dep d0 w') = Some u
     \<and> u_email u = Some email \<and> u_role u = ''operator''
     \<and> pw_verify (e_lib (dp_env dep (length (w_calls w)))) pw (u_password_hash u)
     \<and> login_user (e_lib (dp_env dep (length (w_calls w)))) t \<lparr>login_username = name, login_password = pw\<rparr>
         (current_db dep d0 w') = Inr tok"
proof -
  let ?n = "length (w_calls w)" and ?E = "deployed dep d0 e"
  let ?c = "api_register (BackendAPIClient (dp_host dep @ ''/api'') None) (JObj data)"
  let ?d1 = "serve_all (dp_between dep ?n) (current_db dep d0 w)" and ?lib = "e_lib (dp_env dep ?n)"
  obtain name email pw where data: "data = [(''username'', JStr name), (''email'', JStr email), (''password'', JStr pw)]"
    using assms(4) by (rule register_cleanedE)
  let ?p = "\<lparr>reg_username = name, reg_email = Some email, reg_password = pw, reg_role = ''operator''\<rparr>"
  have p: "read_register (JObj data) = Some ?p" unfolding data by (rule read_register_fields)
  have env: "\<not> demo_mode ?E" "register_form ?E post = Some data" "backend_url ?E = dp_host dep @ ''/api''"
    using assms(3) by (simp_all add: deployed_def)
  obtain res w1 where w1: "send ?E ?c w = (res, w1)" by (cases "send ?E ?c w")
  obtain v where v: "res = Inr v" and calls: "w_calls w' = w_calls w1"
    using register_view_post [OF env(1,2), of w res w1 w'] w1 assms(5) env(3) by auto
  have ans: "read_answer (fst (deliver dep ?n ?c (current_db dep d0 w))) = Inr v"
    using send_deployed(1) [of dep d0 e ?c w] w1 v by (simp split: sum.splits)
  have db: "current_db dep d0 w' = snd (deliver dep ?n ?c (current_db dep d0 w))"
    using send_deployed(2) [of dep d0 e ?c w] w1 calls by (simp add: current_db_def)
  obtain u where ok: "register_request_ok ?p"
    and u: "register_user ?lib (e_salt (dp_env dep ?n)) (e_stamps (dp_env dep ?n)) ?p ?d1 = Inr (u, current_db dep d0 w')"
    using register_reply [OF refl p ans] unfolding db by blast
  have new: "u = new_user ?lib (e_salt (dp_env dep ?n)) (e_stamps (dp_env dep ?n) 0) ?p"
    "current_db dep d0 w' = add_user u ?d1" "find_by_username name ?d1 = None"
    using u by (auto simp: register_user_def Let_def result_iff split: if_splits)
  have "u \<in> set (db_users (current_db dep d0 w'))" by (simp add: new(2) add_user_def repo_add_def)
  then have find: "find_by_username name (current_db dep d0 w') = Some u"
    using find_by_username_iff [OF reachable_current [OF assms(1)]] by (simp add: new(1))
  have pw: "pw_verify ?lib pw (u_password_hash u)" using assms(2) by (simp add: new(1) auth_lib_ok_def)
  obtain tok where "login_user ?lib t \<lparr>login_username = name, login_password = pw\<rparr> (current_db dep d0 w') = Inr tok"
    using registered_login [OF find pw assms(6)] by blast
  then show ?thesis using data ok new(1,3) find pw by (simp add: register_request_ok_def)
qed

theorem site_registration_witness:
  "\<exists>w' u. site (deployed toy_deployment empty_db toy_site) RegisterUrl
       (Post [(''username'', JStr ''bob''), (''email'', JStr ''b@x''), (''password'', JStr ''secret'')]) (toy_web None)
         = (Inr to_login, w')
     \<and> find_by_username ''bob'' (current_db toy_deployment empty_db w') = Some u \<and> u_role u = ''operator''"
proof -
  let ?post = "[(''username'', JStr ''bob''), (''email'', JStr ''b@x''), (''password'', JStr ''secret'')]"
  let ?r = "site (deployed toy_deployment empty_db toy_site) RegisterUrl (Post ?post) (toy_web None)"
  have "fst ?r = Inr to_login" by code_simp
  then obtain w' where w': "?r = (Inr to_login, w')" by (metis prod.collapse)
  have lib: "auth_lib_ok (e_lib (dp_env toy_deployment n))" for n
    by (simp add: toy_deployment_def sample_env_def toy_lib_ok)
  have 1: "register_form toy_site ?post = Some ?post" by (simp add: toy_site_def)
  have 2: "register_cleaned ?post" "datetime_ok (instant (Aware 0) + access_token_expire_minutes * minute_us)" by code_simp+
  from site_registration [OF reachable.start lib 1 2(1) w' 2(2)] w' show ?thesis by auto
qed

end
