(* ===== verification/Spec2Isabelle.thy ===== *)
theory Spec2Isabelle
  imports QueueProperties DequeueLoop OutcomeProperties ScheduleProperties JobProperties
    AccountProperties WorkerProperties LifecycleProperties PoolProperties ApiProperties ApiRouting
    FrontendProperties SiteProperties DaemonProperties ReportProperties CompletionProperties
    Config EndToEnd
begin

text \<open>
  The distributed job scheduler, verified.

  The program. Users register, log in and keep jobs (an HTTP call, a shell or a Python script,
  with a schedule rule and dependencies on other jobs). A scheduler loop scans the jobs that
  are due and queues a run for each; workers pull the oldest available run, execute it and
  record its outcome; a run that fails or times out is retried within its job's budget; a run
  whose worker dies is released when its lock expires; an HTTP job may leave its run awaiting
  an external result, which a poller asks for. All of it shares one database. A second program,
  the Django frontend, shows jobs and runs to the browser: it calls the HTTP API of the first,
  or, in demo mode, keeps everything in the browser's session.

  How the backend is modelled. The database is the record \<open>db\<close> of five tables (lists of rows,
  theory Store). An operation takes what the code takes, the reading of the clock, the ids and
  creation times the database would draw (\<open>stamps\<close>) and the database, and returns either the
  exception or its result with the new database; a flush or commit refuses a database that
  violates a declared width, check, uniqueness or foreign key constraint (\<open>valid\<close>). An
  exception leaves the database as it was. The rows that other transactions hold locked
  (\<open>FOR UPDATE SKIP LOCKED\<close>) are an argument of the queries that skip them. Libraries are
  parameters: \<open>cron_lib\<close> (croniter), \<open>auth_lib\<close> (passlib, jose), \<open>world\<close> (HTTP client,
  file system, processes). Nothing needs fuel: the one loop of the code that is not
  structural, the dequeue loop, is a function whose termination is proved (each turn excludes
  one more pending run), and is proved to be what the loop as written computes (DequeueLoop).
  The loops of the scheduler and the poller never end: they are streams of turns, each with the
  requests that others have served before it. \<open>update_status\<close> commits before its automatic retry
  and again at its end; besides the operation as a whole, each of its two transactions is a
  request of its own, so that others, or the death of the worker, can come between them.

  How the frontend is modelled. A view is a function of the session, the notices queued and the
  calls made, with two kinds of exceptions: those of the API client, which views catch, and all
  others. The requests library (\<open>requests_lib\<close>), form validation and the ids and times drawn
  are fields of \<open>ui_env\<close>; templates are constructors of \<open>page\<close>. In Deployment the backend behind
  the requests library is the modelled one: a call is dispatched by its URL, read, served on the
  database and answered in JSON, while others use the system and the network may lose a call or its
  answer.

  Theories, in dependency order, with the code under \<open>src/backend/app\<close> they model:
  \<^item> Prelude, PyValues, PyFloat: results, keyed rows, Python strings, integers, dicts,
    datetimes and doubles as far as the program uses them (\<open>domain/exceptions.py\<close>).
  \<^item> Schedule: \<open>services/schedule_utils.py\<close> and the schedule properties of \<open>Job\<close>.
  \<^item> Entities, Store: \<open>domain/entities\<close>, \<open>domain/constants.py\<close>,
    \<open>infrastructure/repositories\<close>; the laws of a table are the locale \<open>table\<close>.
  \<^item> RunLifecycle, JobDomain: the methods of \<open>JobRun\<close> and \<open>Job\<close>.
  \<^item> RunService: \<open>application/services/job_run_service.py\<close>, \<open>domain/services/queue_service.py\<close>.
  \<^item> JobService, JobController, JobSchema: \<open>application/services/job_service.py\<close>,
    \<open>presentation/controllers/job_controller.py\<close>, \<open>presentation/dtos\<close>.
  \<^item> RunController, Auth, Monitoring: the other controllers, \<open>core/security.py\<close> and
    \<open>metrics_router.py\<close> with the registry of counters and gauges that scrapes leave behind.
  \<^item> Api, ApiRouting: the routers of \<open>presentation/api\<close> and \<open>main.py\<close>, as what each route
    answers (with 401, 422 and 500 where FastAPI answers so) and as the table of paths.
  \<^item> Executor, WorkerLoop, WorkerPool, Pollers: \<open>application/services/executor.py\<close>,
    \<open>services/worker_loop.py\<close> (a task; then the worker with its semaphore, main loop and
    listener), \<open>services/status_poller.py\<close>, \<open>services/scheduler_loop.py\<close>.
  \<^item> Daemons: the endless loops of the last two; the locale \<open>daemon\<close> is what they share.
  \<^item> Deployment: frontend and backend together, the JSON of \<open>presentation/dtos\<close> and the bearer
    scheme of \<open>core/security.py\<close>. Config: \<open>core/config.py\<close> and the frontend's \<open>settings.py\<close>.

  The theories that model the frontend, \<open>src/frontend/ui\<close>:
  \<^item> ApiClient: \<open>api_client.py\<close>, the request of every method and what becomes of the answer.
  \<^item> DemoStore: \<open>demo_store.py\<close>, jobs, runs and logs in the session.
  \<^item> Views: \<open>views.py\<close> and \<open>urls.py\<close>, every page, action and the site.
  \<^item> JobForms: the choices of \<open>forms.py\<close>, what Django's validation guarantees of
    \<open>cleaned_data\<close>, and the JSON that passes between frontend and backend (pydantic's reading
    as the relations \<open>reads_create\<close> and \<open>reads_update\<close>).
  \<^item> AuthForms: the two account forms of \<open>forms.py\<close>, and what the models of \<open>auth_schema.py\<close>, all of
    whose fields are strings, are read from.

  What the lemmas show:
  \<^item> Invariant, System: the invariant of the whole and the reachable databases; a request that
    keeps the invariant is the locale \<open>transaction\<close>, interpreted for every operation that writes.
  \<^item> Lifecycle: an abstract state machine of a run and that every request refines it.
  \<^item> Integrity, QueueCorrect, QueueContract, OutcomeCorrect, JobCorrect: when a commit succeeds;
    the queue against a reference definition; the contract of a queue (locale \<open>job_queue\<close>, for
    both queue services); recorded outcomes; the job endpoints.
  \<^item> ApiCorrect: every HTTP request is a request of System, and when a response model holds.
  \<^item> ViewsCorrect: the token travels with every call and stays in the session. DemoCorrect: the
    invariant of the demo session (locale \<open>demo_operation\<close>, interpreted for every operation).
    FormCorrect: a job from the form to the database and back.
  \<^item> CompletionProperties: a triggered run from the queue to its outcome, and what a retry executes.
  \<^item> ReportProperties: what may happen between the two commits of a report, and after two reports
    of one run. DaemonProperties: the loops survive exceptions, locks end, and what stops the
    polling. EndToEnd: whatever is done on the site the database stays reachable; a registration
    or a login on the site is one at the backend; a notice of success is true.
  \<^item> Samples: the database at which the witnesses evaluate. DequeueLoop, ApiRouting, the
    Properties theories and this one state the properties, each with a witness.

  Not modelled: the \<open>updated_at\<close> columns and indexes; SQL, migrations and the notification
  trigger; the interleaving of two transactions inside one operation, except through the
  locked rows and the two commits of a report; how pydantic converts numbers and lists of a job
  request (the frontend sends what needs no conversion); the texts of templates and notices and
  the text format of Prometheus; the lists that configure Django, its start-up files, logging and
  the test scripts, which compute nothing.
\<close>

section \<open>All requests together\<close>

text \<open>C1: whatever requests, worker tasks and background turns are served, in whatever order,
  at whatever times and with whatever ids, the database satisfies all its constraints (column
  widths, checks, uniqueness, foreign keys), every job is consistent, a locked run is running
  or awaits a result, belongs to the worker that locked it and has not ended, and a pending
  run has neither worker nor end.\<close>

theorem reachable_invariant:
  assumes "reachable d"
  shows "valid d \<and> (\<forall>j \<in> set (db_jobs d). job_consistent j)
     \<and> (\<forall>r \<in> set (db_runs d). run_state_ok r)"
  using reachable_good_aux [OF assms] goodD by blast

theorem reachable_invariant_witness:
  "map r_locked_by (db_runs (serve_all demo_requests empty_db)) = [Some ''w1'']
   \<and> valid (serve_all demo_requests empty_db)
   \<and> list_all run_state_ok (db_runs (serve_all demo_requests empty_db))"
proof -
  have "map r_locked_by (db_runs (serve_all demo_requests empty_db)) = [Some ''w1'']" by code_simp
  moreover have "reachable (serve_all demo_requests empty_db)"
    by (intro reachable_serve_all reachable.start)
  ultimately show ?thesis using reachable_invariant by (simp add: list_all_iff)
qed

section \<open>Recovery\<close>

text \<open>C11: a run whose worker dies is not lost: once its lock has expired, the next release puts
  it back in the queue, where every worker can take it again.\<close>

theorem crashed_worker_run_requeued:
  assumes "valid d" and "dequeue_next_run locked lock_seconds w now st d = Inr (Some r, d1)"
    and "instant now + lock_seconds * second_us < instant t"
    and "fresh_stamps (length (find_expired_runs t d1)) st' d1"
  shows "\<exists>n d2. release_expired_locks t st' d1 = Inr (n, d2) \<and> 1 \<le> n \<and> pending_in d2 (r_id r)
     \<and> run_available [] [] d2 (release t r)"
proof -
  note c = dequeue_next_run_contract [OF assms(1,2)]
  have r: "r \<in> set (db_runs d1)" using c(2) get_run_row_SomeD by blast
  have ex: "run_expired t r" using c(3,6) assms(3) by (simp add: run_expired_def)
  let ?f = "\<lambda>r. if run_expired t r then release t r else r"
  let ?d2 = "add_logs (release_logs st' (find_expired_runs t d1)) (d1\<lparr>db_runs := map ?f (db_runs d1)\<rparr>)"
  have rel: "release_expired_locks t st' d1 = Inr (length (find_expired_runs t d1), ?d2)"
    using c(9) assms(4) by (rule release_expired_locks_eq)
  then have v: "valid ?d2" by (auto simp: release_expired_locks_def Let_def result_iff)
  have "r \<in> set (find_expired_runs t d1)" using r ex by (simp add: find_expired_runs_def)
  then have n: "1 \<le> length (find_expired_runs t d1)" by (cases "find_expired_runs t d1") auto
  have "release t r \<in> ?f ` set (db_runs d1)" using r ex by (rule_tac image_eqI [of _ _ r]) simp_all
  then have m: "release t r \<in> set (db_runs ?d2)" by simp
  then have g: "get_run_row (r_id r) ?d2 = Some (release t r)"
    using get_run_row_iff [OF v, of "r_id r" "release t r"] by simp
  obtain run where run: "dequeue_loop locked d [] = Some run"
    and rr: "r = lock_run w (PyValues.shift (lock_seconds * second_us) now) now run"
    and d1: "d1 = add_logs [JobLog (st 0) (r_id run) ''info'' ''system'' (''Locked by '' @ w)] (put_run r d)"
    using assms(2) by (rule dequeue_next_run_SomeD)
  have "run_available locked [] d run" using dequeue_loop_SomeD [OF run] by simp
  then obtain j where j: "get_job_row (r_job_id r) d = Some j" "j_enabled j" "active_status (j_status j)"
    by (auto simp: run_available_def run_job_def rr split: option.splits)
  have "get_job_row (r_job_id r) ?d2 = Some j" using j(1) by (simp add: get_job_row_def d1)
  then have "run_available [] [] ?d2 (release t r)" using j(2,3) by (simp add: run_available_def run_job_def)
  then show ?thesis using rel n g by (auto simp: pending_in_def)
qed

theorem crashed_worker_run_requeued_witness:
  "\<exists>r d1 n d2. dequeue_next_run [] 300 ''w1'' (Aware 1000) sample_stamps sample_db = Inr (Some r, d1)
     \<and> release_expired_locks (Aware 400000000) (\<lambda>i. sample_stamps (Suc i)) d1 = Inr (n, d2)
     \<and> pending_in d2 (r_id r)"
proof -
  have "case dequeue_next_run [] 300 ''w1'' (Aware 1000) sample_stamps sample_db of
      Inl e \<Rightarrow> False
    | Inr p \<Rightarrow> fst p \<noteq> None
        \<and> fresh_stamps (length (find_expired_runs (Aware 400000000) (snd p))) (\<lambda>i. sample_stamps (Suc i)) (snd p)"
    by code_simp
  then obtain r d1 where ok: "dequeue_next_run [] 300 ''w1'' (Aware 1000) sample_stamps sample_db = Inr (Some r, d1)"
    and fr: "fresh_stamps (length (find_expired_runs (Aware 400000000) d1)) (\<lambda>i. sample_stamps (Suc i)) d1"
    by (auto split: sum.splits)
  have "instant (Aware 1000) + 300 * second_us < instant (Aware 400000000)" by code_simp
  from crashed_worker_run_requeued [OF valid_sample ok this fr] ok show ?thesis by blast
qed

end
